(* ===== verification/Prelude.thy ===== *)
theory Prelude
  imports Main "HOL-Library.Word" "HOL-Library.State_Monad"
begin

text \<open>
  Shared vocabulary of the development: Go error values, the state monad in which
  effectful operations are written, the calculus of relations kept by monadic code, byte
  and decimal helpers, and the fact collections that carry the component proofs.

  A Go function that returns \<open>(T, error)\<close> is modelled with result type \<open>'a res\<close>, the
  sum of an error value and a result. An error value is its text (handlers inspect the
  text with \<open>strings.Contains\<close>) together with the sentinel errors it wraps (inspected
  with \<open>errors.Is\<close>).
\<close>

named_theorems run_simps \<open>equations that run one monadic operation\<close>
named_theorems op_defs \<open>definitions of operations, for symbolic execution\<close>

subsection \<open>Error values\<close>

datatype sentinel =
    ErrSSRFBlocked | ErrInvalidScheme | ErrTooManyRedirects | ErrPayloadTooLarge
  | ErrNoRows | DeadlineExceeded | IoEOF | FileNotExist | GoPanic

datatype goerr = Err (err_text: string) (err_wraps: "sentinel list")

type_synonym 'a res = "goerr + 'a"

definition errorsNew :: "string \<Rightarrow> goerr" where
  "errorsNew s = Err s []"

definition wrapErr :: "string \<Rightarrow> goerr \<Rightarrow> goerr" where
  "wrapErr s e = Err (s @ err_text e) (err_wraps e)"

definition errorsIs :: "goerr \<Rightarrow> sentinel \<Rightarrow> bool" where
  "errorsIs e s = List.member (err_wraps e) s"

lemma errorsIs_wrapErr [simp]: "errorsIs (wrapErr s e) x = errorsIs e x"
  by (simp add: errorsIs_def wrapErr_def)

lemma errorsIs_errorsNew [simp]: "\<not> errorsIs (errorsNew s) x"
  by (simp add: errorsIs_def errorsNew_def)

lemma err_text_wrapErr [simp]: "err_text (wrapErr s e) = s @ err_text e"
  by (simp add: wrapErr_def)

lemma err_text_errorsNew [simp]: "err_text (errorsNew s) = s"
  by (simp add: errorsNew_def)

fun isErr :: "'a res \<Rightarrow> bool" where
  "isErr (Inl e) = True"
| "isErr (Inr x) = False"

fun okOr :: "'a \<Rightarrow> 'a res \<Rightarrow> 'a" where
  "okOr d (Inl e) = d"
| "okOr d (Inr x) = x"

lemma isErr_iff: "isErr r \<longleftrightarrow> (\<exists>e. r = Inl e)"
  by (cases r) auto

lemma not_isErr_iff: "\<not> isErr r \<longleftrightarrow> (\<exists>x. r = Inr x)"
  by (cases r) auto

subsection \<open>The state monad\<close>

abbreviation ret :: "'a \<Rightarrow> ('s, 'a) state" where
  "ret \<equiv> State_Monad.return"

definition asks :: "('s \<Rightarrow> 'a) \<Rightarrow> ('s, 'a) state" where
  "asks f = State (\<lambda>s. (f s, s))"

definition modifies :: "('s \<Rightarrow> 's) \<Rightarrow> ('s, unit) state" where
  "modifies f = State (\<lambda>s. ((), f s))"

lemma run_asks [simp, run_simps]: "run_state (asks f) s = (f s, s)"
  by (simp add: asks_def)

lemma run_modifies [simp, run_simps]: "run_state (modifies f) s = ((), f s)"
  by (simp add: modifies_def)

text \<open>\<open>zoom get put m\<close> runs \<open>m\<close> on one part of a larger state.\<close>

definition zoom :: "('w \<Rightarrow> 's) \<Rightarrow> ('s \<Rightarrow> 'w \<Rightarrow> 'w) \<Rightarrow> ('s, 'a) state \<Rightarrow> ('w, 'a) state" where
  "zoom g p m = State (\<lambda>w. let (a, s) = run_state m (g w) in (a, p s w))"

lemma run_zoom [run_simps]:
  "run_state (zoom g p m) w = (let (a, s) = run_state m (g w) in (a, p s w))"
  by (simp add: zoom_def)

text \<open>
  Sequencing of fallible operations: \<open>m \<bind>? f\<close> in Go is \<open>if err != nil { return err }\<close>.
\<close>

definition tryRes :: "('s, 'a res) state \<Rightarrow> (goerr \<Rightarrow> goerr) \<Rightarrow> ('a \<Rightarrow> ('s, 'b res) state) \<Rightarrow> ('s, 'b res) state" where
  "tryRes m h f = do {
     r \<leftarrow> m;
     case r of Inl e \<Rightarrow> ret (Inl (h e)) | Inr x \<Rightarrow> f x }"

lemma run_tryRes [run_simps]:
  "run_state (tryRes m h f) s =
    (case run_state m s of (r, s') \<Rightarrow>
       (case r of Inl e \<Rightarrow> (Inl (h e), s') | Inr x \<Rightarrow> run_state (f x) s'))"
  by (simp add: tryRes_def split: prod.splits sum.splits)

fun mapM :: "('a \<Rightarrow> ('s, unit) state) \<Rightarrow> 'a list \<Rightarrow> ('s, unit) state" where
  "mapM f [] = ret ()"
| "mapM f (x # xs) = do { f x; mapM f xs }"

subsection \<open>Relations between the state before and after\<close>

text \<open>
  \<open>state_io_rel R m\<close> (of the library) says that every run of \<open>m\<close> moves the state along
  \<open>R\<close>. For a preorder \<open>R\<close> it is closed under the combinators in which the operations
  are written, so a property of all handlers is proved once per primitive operation.
\<close>

locale state_order =
  fixes R :: "'s \<Rightarrow> 's \<Rightarrow> bool"
  assumes R_refl: "R s s"
    and R_trans: "R s t \<Longrightarrow> R t u \<Longrightarrow> R s u"
begin

lemma run_rel: "state_io_rel R m \<Longrightarrow> R s (snd (run_state m s))"
  by (simp add: state_io_rel_def)

lemma run_relE: "state_io_rel R m \<Longrightarrow> run_state m s = (a, t) \<Longrightarrow> R s t"
  by (metis run_rel snd_conv)

lemma rel_ret: "state_io_rel R (ret x)"
  by (simp add: state_io_rel_def R_refl)

lemma rel_asks: "state_io_rel R (asks f)"
  by (simp add: state_io_rel_def R_refl)

lemma rel_modifies: "(\<And>s. R s (f s)) \<Longrightarrow> state_io_rel R (modifies f)"
  by (simp add: state_io_rel_def)

lemma rel_bind:
  assumes "state_io_rel R m" and "\<And>x. state_io_rel R (f x)"
  shows "state_io_rel R (m \<bind> f)"
proof (rule state_io_relI)
  fix a s s'
  assume run: "run_state (m \<bind> f) s = (a, s')"
  obtain x t where m: "run_state m s = (x, t)" by (cases "run_state m s")
  with run have "run_state (f x) t = (a, s')" by simp
  with m assms show "R s s'" by (meson R_trans run_relE)
qed

lemma rel_if: "state_io_rel R m \<Longrightarrow> state_io_rel R n \<Longrightarrow> state_io_rel R (if b then m else n)"
  by simp

lemma rel_sum:
  "(\<And>e. state_io_rel R (f e)) \<Longrightarrow> (\<And>x. state_io_rel R (g x)) \<Longrightarrow>
   state_io_rel R (case r of Inl e \<Rightarrow> f e | Inr x \<Rightarrow> g x)"
  by (cases r) auto

lemma rel_option:
  "state_io_rel R m \<Longrightarrow> (\<And>x. state_io_rel R (f x)) \<Longrightarrow>
   state_io_rel R (case r of None \<Rightarrow> m | Some x \<Rightarrow> f x)"
  by (cases r) auto

lemma rel_prod: "(\<And>x y. state_io_rel R (f x y)) \<Longrightarrow> state_io_rel R (case p of (x, y) \<Rightarrow> f x y)"
  by (cases p) auto

lemma rel_let: "(\<And>x. state_io_rel R (f x)) \<Longrightarrow> state_io_rel R (let x = a in f x)"
  by simp

lemma rel_try:
  "state_io_rel R m \<Longrightarrow> (\<And>x. state_io_rel R (f x)) \<Longrightarrow> state_io_rel R (tryRes m h f)"
  unfolding tryRes_def by (intro rel_bind rel_sum rel_ret) auto

lemma rel_mapM: "(\<And>x. state_io_rel R (f x)) \<Longrightarrow> state_io_rel R (mapM f xs)"
  by (induction xs) (auto intro: rel_ret rel_bind)

lemmas rel_intros = rel_ret rel_asks rel_bind rel_if rel_sum rel_option rel_prod rel_let rel_try

end

subsection \<open>Bytes\<close>

type_synonym byte = "8 word"
type_synonym bytes = "8 word list"

definition bytesOf :: "string \<Rightarrow> bytes" where
  "bytesOf s = map of_char s"

definition stringOf :: "bytes \<Rightarrow> string" where
  "stringOf bs = map (\<lambda>b. char_of (unat b)) bs"

lemma char_of_unat_of_char: "char_of (unat (of_char c :: byte)) = c"
proof -
  have "(of_char c :: byte) = word_of_nat (of_char c)"
    by (simp only: of_nat_of_char)
  then have "unat (of_char c :: byte) = of_char c mod 256"
    by (simp add: unat_of_nat)
  then show ?thesis by simp
qed

lemma unat_of_char: "unat (of_char c :: byte) = of_char c"
proof -
  have "of_char (char_of (unat (of_char c :: byte)) :: char) = (of_char c :: nat)"
    by (simp only: char_of_unat_of_char)
  then have "unat (of_char c :: byte) mod 256 = (of_char c :: nat)" by simp
  moreover have "unat (of_char c :: byte) < 2 ^ LENGTH(8)" by (rule unsigned_less)
  ultimately show ?thesis by simp
qed

lemma stringOf_bytesOf [simp]: "stringOf (bytesOf s) = s"
  by (simp add: stringOf_def bytesOf_def comp_def char_of_unat_of_char)

lemma length_bytesOf [simp]: "length (bytesOf s) = length s"
  by (simp add: bytesOf_def)

lemma length_stringOf [simp]: "length (stringOf bs) = length bs"
  by (simp add: stringOf_def)

lemma bytesOf_append [simp]: "bytesOf (s @ t) = bytesOf s @ bytesOf t"
  by (simp add: bytesOf_def)

lemma of_char_char_of_unat: "of_char (char_of (unat b)) = (b :: byte)"
proof -
  have "of_char (char_of (unat b)) = (word_of_nat (of_char (char_of (unat b))) :: byte)"
    by (simp only: of_nat_of_char)
  also have "\<dots> = word_of_nat (unat b mod 256)" by simp
  also have "\<dots> = b"
  proof -
    have "unat b < 2 ^ LENGTH(8)" by (rule unsigned_less)
    then show ?thesis by simp
  qed
  finally show ?thesis .
qed

lemma bytesOf_stringOf [simp]: "bytesOf (stringOf bs) = bs"
  by (simp add: stringOf_def bytesOf_def comp_def of_char_char_of_unat)

lemma bytesOf_inject [simp]: "bytesOf s = bytesOf t \<longleftrightarrow> s = t"
  by (metis stringOf_bytesOf)

subsection \<open>Decimal text\<close>

fun digitsOf :: "nat \<Rightarrow> string" where
  "digitsOf n = (if n < 10 then [char_of (48 + n)] else digitsOf (n div 10) @ [char_of (48 + n mod 10)])"

declare digitsOf.simps [simp del]

definition itoa :: "int \<Rightarrow> string" where
  "itoa i = (if i < 0 then ''-'' @ digitsOf (nat (- i)) else digitsOf (nat i))"

lemma digitsOf_nonempty [simp]: "digitsOf n \<noteq> []"
  by (subst digitsOf.simps) simp

end
