(* ===== verification/RateLimit.thy ===== *)
theory RateLimit
  imports Prelude
begin

text \<open>
  The token buckets of \<open>internal/ratelimit/limiter.go\<close>: one bucket per key refilled once a
  minute (\<open>Allow\<close>) and one global bucket refilled once a second (\<open>AllowGlobal\<close>). Instants
  are nanoseconds since the Unix epoch; each operation receives the value its
  \<open>time.Now()\<close> returned. The mutex makes every operation one atomic step.

  The locale \<open>token_bucket\<close> states what both buckets promise and proves the window bound
  once; it is interpreted on the per-key and on the global bucket of the code.
\<close>

definition secondNs :: int where "secondNs = 1000000000"
definition minuteNs :: int where "minuteNs = 60 * secondNs"

definition unixSec :: "int \<Rightarrow> int" where
  "unixSec t = t div secondNs"

text \<open>The zero \<open>time.Time\<close>, 1 January of year 1.\<close>

definition zeroTime :: int where "zeroTime = - 62135596800 * secondNs"

record bucket =
  tokens :: int
  lastRefill :: int

record Limiter =
  buckets :: "string \<rightharpoonup> bucket"
  globalBucket :: "bucket option"

definition NewLimiter :: Limiter where
  "NewLimiter = \<lparr>buckets = Map.empty, globalBucket = None\<rparr>"

definition takeToken :: "bucket \<Rightarrow> bool \<times> bucket" where
  "takeToken b = (if tokens b > 0 then (True, b\<lparr>tokens := tokens b - 1\<rparr>) else (False, b))"

definition keyBucket :: "int \<Rightarrow> int \<Rightarrow> bucket option \<Rightarrow> bucket" where
  "keyBucket limitRPM now ob =
     (let b = (case ob of None \<Rightarrow> \<lparr>tokens = limitRPM, lastRefill = now\<rparr> | Some b \<Rightarrow> b)
      in if now - lastRefill b \<ge> minuteNs then \<lparr>tokens = limitRPM, lastRefill = now\<rparr> else b)"

definition Allow :: "int \<Rightarrow> string \<Rightarrow> int \<Rightarrow> Limiter \<Rightarrow> (bool \<times> int \<times> int) \<times> Limiter" where
  "Allow now key limitRPM l =
     (if limitRPM \<le> 0 then ((True, 100, unixSec (now + minuteNs)), l)
      else
        let b = keyBucket limitRPM now (buckets l key);
            resetTime = unixSec (lastRefill b + minuteNs);
            (ok, b') = takeToken b;
            l' = l\<lparr>buckets := (buckets l)(key \<mapsto> b')\<rparr>
        in if ok then ((True, tokens b', resetTime), l') else ((False, 0, resetTime), l'))"

definition AllowGlobal :: "int \<Rightarrow> int \<Rightarrow> Limiter \<Rightarrow> bool \<times> Limiter" where
  "AllowGlobal now limitRPS l =
     (if limitRPS \<le> 0 then (True, l)
      else
        let b = (case globalBucket l of
                   None \<Rightarrow> \<lparr>tokens = limitRPS, lastRefill = now\<rparr>
                 | Some b \<Rightarrow>
                     if lastRefill b = zeroTime \<or> now - lastRefill b \<ge> secondNs
                     then \<lparr>tokens = limitRPS, lastRefill = now\<rparr> else b);
            (ok, b') = takeToken b
        in (ok, l\<lparr>globalBucket := Some b'\<rparr>))"

subsection \<open>The contract of a token bucket\<close>

text \<open>
  \<open>step cap now b\<close> answers one request at time \<open>now\<close> from the bucket \<open>b\<close> (\<open>None\<close>
  when there is none yet): a bucket older than the window is refilled to \<open>cap\<close> first,
  then one token is spent if there is one.
\<close>

locale token_bucket =
  fixes step :: "int \<Rightarrow> int \<Rightarrow> 'b option \<Rightarrow> bool \<times> 'b"
    and level :: "'b \<Rightarrow> int"
    and since :: "'b \<Rightarrow> int"
    and valid :: "int \<Rightarrow> bool"
    and win :: int
  assumes fresh: "0 < cap \<Longrightarrow> step cap now None = (ok, b) \<Longrightarrow>
      ok \<and> level b = cap - 1 \<and> since b = now"
    and refill: "0 < cap \<Longrightarrow> win \<le> now - since b \<Longrightarrow> step cap now (Some b) = (ok, b') \<Longrightarrow>
      ok \<and> level b' = cap - 1 \<and> since b' = now"
    and spend: "0 < cap \<Longrightarrow> valid (since b) \<Longrightarrow> now - since b < win \<Longrightarrow>
      step cap now (Some b) = (ok, b') \<Longrightarrow>
      since b' = since b \<and> (ok \<longleftrightarrow> 0 < level b) \<and> level b' = (if ok then level b - 1 else level b)"
begin

fun run :: "int \<Rightarrow> int list \<Rightarrow> 'b option \<Rightarrow> bool list \<times> 'b option" where
  "run cap [] b = ([], b)"
| "run cap (t # ts) b =
     (let (ok, b') = step cap t b; (oks, b'') = run cap ts (Some b') in (ok # oks, b''))"

definition wf :: "int \<Rightarrow> 'b option \<Rightarrow> bool" where
  "wf cap ob \<longleftrightarrow> (case ob of None \<Rightarrow> True
     | Some b \<Rightarrow> 0 \<le> level b \<and> level b \<le> cap \<and> valid (since b))"

definition granted :: "bool list \<Rightarrow> int" where
  "granted oks = int (length (filter id oks))"

lemma step_wf:
  assumes "0 < cap" "wf cap ob" "valid now" "step cap now ob = (ok, b)"
  shows "wf cap (Some b)"
proof (cases ob)
  case None
  then show ?thesis using fresh[OF assms(1)] assms by (auto simp: wf_def)
next
  case (Some b0)
  show ?thesis
  proof (cases "win \<le> now - since b0")
    case True
    then show ?thesis using refill[OF assms(1) True] Some assms by (auto simp: wf_def)
  next
    case False
    then show ?thesis
      using spend[OF assms(1), of b0 now ok b] Some assms by (auto simp: wf_def split: if_splits)
  qed
qed

lemma run_wf:
  "0 < cap \<Longrightarrow> wf cap ob \<Longrightarrow> (\<And>t. t \<in> set ts \<Longrightarrow> valid t) \<Longrightarrow> run cap ts ob = (oks, ob') \<Longrightarrow>
   wf cap ob'"
proof (induction ts arbitrary: ob oks)
  case Nil
  then show ?case by simp
next
  case (Cons t ts)
  obtain ok b where s: "step cap t ob = (ok, b)" by (cases "step cap t ob")
  with Cons.prems have "wf cap (Some b)" by (auto intro: step_wf)
  with Cons s show ?case by (auto split: prod.splits)
qed

text \<open>
  Inside a window \<open>[a, a + win)\<close> a bucket that was refilled inside the window is not
  refilled again, so it grants at most its level; one refilled before grants at most its
  level and one more capacity.
\<close>

lemma run_granted:
  assumes "0 < cap"
  shows "wf cap ob \<Longrightarrow> (\<And>t. t \<in> set ts \<Longrightarrow> valid t \<and> a \<le> t \<and> t < a + win) \<Longrightarrow>
    run cap ts ob = (oks, ob') \<Longrightarrow>
    granted oks \<le> (case ob of None \<Rightarrow> cap
                    | Some b \<Rightarrow> level b + (if since b < a then cap else 0))"
proof (induction ts arbitrary: ob oks ob')
  case Nil
  then show ?case using assms by (auto simp: granted_def wf_def split: option.splits)
next
  case (Cons t ts)
  obtain ok b where s: "step cap t ob = (ok, b)" by (cases "step cap t ob")
  obtain oks' ob'' where r: "run cap ts (Some b) = (oks', ob'')" by (cases "run cap ts (Some b)")
  have t: "valid t" "a \<le> t" "t < a + win" using Cons.prems(2)[of t] by auto
  have w: "wf cap (Some b)" using assms Cons.prems(1) t(1) s by (rule step_wf)
  have IH: "granted oks' \<le> level b + (if since b < a then cap else 0)"
    using Cons.IH[OF w _ r] Cons.prems(2) by auto
  have g: "granted oks = (if ok then 1 else 0) + granted oks'"
    using Cons.prems(3) s r by (auto simp: granted_def)
  show ?case
  proof (cases ob)
    case None
    then show ?thesis using fresh[OF assms] s IH g t by auto
  next
    case (Some b0)
    show ?thesis
    proof (cases "win \<le> t - since b0")
      case True
      then show ?thesis
        using refill[OF assms True] s Some IH g t Cons.prems(1) by (auto simp: wf_def)
    next
      case False
      then show ?thesis
        using spend[OF assms, of b0 t ok b] s Some IH g Cons.prems(1)
        by (auto simp: wf_def split: if_splits)
    qed
  qed
qed

lemma window_bound:
  assumes "0 < cap" "wf cap ob" "\<And>t. t \<in> set ts \<Longrightarrow> valid t \<and> a \<le> t \<and> t < a + win"
  shows "granted (fst (run cap ts ob)) \<le> 2 * cap"
proof -
  obtain oks ob' where r: "run cap ts ob = (oks, ob')" by (cases "run cap ts ob")
  from run_granted[OF assms(1,2,3) r] assms(1,2) r show ?thesis
    by (auto simp: wf_def split: option.splits if_splits)
qed

end

subsection \<open>The two buckets of the code\<close>

definition keyStep :: "int \<Rightarrow> int \<Rightarrow> bucket option \<Rightarrow> bool \<times> bucket" where
  "keyStep limit now ob = takeToken (keyBucket limit now ob)"

definition globalStep :: "int \<Rightarrow> int \<Rightarrow> bucket option \<Rightarrow> bool \<times> bucket" where
  "globalStep limit now ob =
     (let (ok, l) = AllowGlobal now limit \<lparr>buckets = Map.empty, globalBucket = ob\<rparr>
      in (ok, the (globalBucket l)))"

interpretation perKey: token_bucket keyStep tokens lastRefill "\<lambda>_. True" minuteNs
  by unfold_locales
    (auto simp: keyStep_def keyBucket_def takeToken_def minuteNs_def secondNs_def split: if_splits)

interpretation perService: token_bucket globalStep tokens lastRefill "\<lambda>t. t \<noteq> zeroTime" secondNs
  by unfold_locales
    (auto simp: globalStep_def AllowGlobal_def takeToken_def secondNs_def split: if_splits)

lemma Allow_step:
  assumes "0 < limit"
  shows "Allow now key limit l =
    (let (ok, b) = keyStep limit now (buckets l key)
     in ((ok, if ok then tokens b else 0, unixSec (lastRefill b + minuteNs)),
         l\<lparr>buckets := (buckets l)(key \<mapsto> b)\<rparr>))"
  using assms by (simp add: Allow_def keyStep_def takeToken_def Let_def)

text \<open>Requests are pairs of an instant and a key, answered one after the other.\<close>

fun serve :: "int \<Rightarrow> (int \<times> string) list \<Rightarrow> Limiter \<Rightarrow> (string \<times> bool) list \<times> Limiter" where
  "serve limit [] l = ([], l)"
| "serve limit ((t, k) # rs) l =
     (let ((ok, _, _), l') = Allow t k limit l; (as, l'') = serve limit rs l'
      in ((k, ok) # as, l''))"

definition allowedFor :: "string \<Rightarrow> (string \<times> bool) list \<Rightarrow> int" where
  "allowedFor k as = int (length (filter (\<lambda>(k', ok). k' = k \<and> ok) as))"

definition timesOf :: "string \<Rightarrow> (int \<times> string) list \<Rightarrow> int list" where
  "timesOf k rs = map fst (filter (\<lambda>(t, k'). k' = k) rs)"

text \<open>Each key sees its own bucket only: the answers for a key are the run of its bucket.\<close>

lemma serve_key:
  assumes "0 < limit"
  shows "serve limit rs l = (as, l') \<Longrightarrow>
    perKey.run limit (timesOf k rs) (buckets l k) =
      (map snd (filter (\<lambda>(k', ok). k' = k) as), buckets l' k)"
proof (induction rs arbitrary: l as l')
  case Nil
  then show ?case by (simp add: timesOf_def)
next
  case (Cons r rs)
  obtain t q where r: "r = (t, q)" by (cases r)
  obtain ok b where s: "keyStep limit t (buckets l q) = (ok, b)"
    by (cases "keyStep limit t (buckets l q)")
  obtain as1 l1 where v: "serve limit rs (l\<lparr>buckets := (buckets l)(q \<mapsto> b)\<rparr>) = (as1, l1)"
    by (cases "serve limit rs (l\<lparr>buckets := (buckets l)(q \<mapsto> b)\<rparr>)")
  have "as = (q, ok) # as1" "l' = l1"
    using Cons.prems r s v assms by (auto simp: Allow_step)
  with Cons.IH[OF v] s r show ?case by (auto simp: timesOf_def)
qed

lemma allowedFor_granted:
  "allowedFor k as = perKey.granted (map snd (filter (\<lambda>(k', ok). k' = k) as))"
  by (induction as) (auto simp: allowedFor_def perKey.granted_def)

lemma serve_window:
  assumes "0 < limit" and p: "serve limit past NewLimiter = (as, l)"
    and "list_all (\<lambda>(t, _). a \<le> t \<and> t < a + minuteNs) rs"
  shows "allowedFor k (fst (serve limit rs l)) \<le> 2 * limit"
proof -
  obtain bs l' where v: "serve limit rs l = (bs, l')" by (cases "serve limit rs l")
  have "perKey.wf limit (buckets l k)"
    using perKey.run_wf[OF assms(1) _ _ serve_key[OF assms(1) p, of k]]
    by (simp add: NewLimiter_def perKey.wf_def)
  moreover have "\<And>t. t \<in> set (timesOf k rs) \<Longrightarrow> a \<le> t \<and> t < a + minuteNs"
    using assms(3) by (auto simp: timesOf_def list_all_iff)
  ultimately have "perKey.granted (fst (perKey.run limit (timesOf k rs) (buckets l k))) \<le> 2 * limit"
    by (intro perKey.window_bound[OF assms(1)]) auto
  then show ?thesis
    using serve_key[OF assms(1) v, of k] v by (simp add: allowedFor_granted)
qed

text \<open>A key without a bucket gets one with its first request, which is not refilled in the window.\<close>

lemma serve_window_new:
  assumes "0 < limit" and "buckets l k = None"
    and "list_all (\<lambda>(t, _). a \<le> t \<and> t < a + minuteNs) rs"
  shows "allowedFor k (fst (serve limit rs l)) \<le> limit"
proof -
  obtain bs l' where v: "serve limit rs l = (bs, l')" by (cases "serve limit rs l")
  have "\<And>t. t \<in> set (timesOf k rs) \<Longrightarrow> True \<and> a \<le> t \<and> t < a + minuteNs"
    using assms(3) by (auto simp: timesOf_def list_all_iff)
  from perKey.run_granted[OF assms(1) _ this serve_key[OF assms(1) v, of k]] assms(2)
  show ?thesis using v by (simp add: allowedFor_granted perKey.wf_def)
qed

lemma serve_append:
  "serve limit (xs @ ys) l =
    (let (as, l1) = serve limit xs l; (bs, l2) = serve limit ys l1 in (as @ bs, l2))"
  by (induction limit xs l rule: serve.induct) (auto split: prod.splits)

text \<open>
  C20. Whatever was requested before, in any window shorter than a minute the limiter
  grants one key at most twice its limit, and at most the limit itself when no bucket of the
  key exists at the start of the window, for every clock behaviour and every interleaving
  with other keys.
\<close>

theorem rate_limit_window:
  assumes "0 < limit"
    and "list_all (\<lambda>(t, _). a \<le> t \<and> t < a + minuteNs) rs"
  shows "allowedFor k (fst (serve limit rs (snd (serve limit past NewLimiter)))) \<le> 2 * limit \<and>
    (buckets (snd (serve limit past NewLimiter)) k = None \<longrightarrow>
      allowedFor k (fst (serve limit rs (snd (serve limit past NewLimiter)))) \<le> limit)"
proof -
  have "list_all (\<lambda>(t, _). a \<le> t \<and> t < a + minuteNs) rs" by (rule assms(2))
  from serve_window[OF assms(1) _ this] serve_window_new[OF assms(1) _ this] show ?thesis by (metis prod.collapse)
qed

theorem rate_limit_window_witness:
  "allowedFor ''a'' (fst (serve 2 [(60000000000, ''a''), (60000000001, ''a'')]
     (snd (serve 2 [(0, ''a'')] NewLimiter)))) \<le> 2 * 2 \<and>
   allowedFor ''b'' (fst (serve 2 [(60000000000, ''b''), (60000000001, ''b''), (60000000002, ''b'')]
     (snd (serve 2 [(0, ''a'')] NewLimiter)))) \<le> 2"
proof -
  have "buckets (snd (serve 2 [(0, ''a'')] NewLimiter)) ''b'' = None"
    by (simp add: Allow_def keyBucket_def takeToken_def NewLimiter_def)
  then show ?thesis
    using rate_limit_window[of 2 60000000000 "[(60000000000, ''a''), (60000000001, ''a'')]" "''a''" "[(0, ''a'')]"]
      rate_limit_window[of 2 60000000000 "[(60000000000, ''b''), (60000000001, ''b''), (60000000002, ''b'')]" "''b''" "[(0, ''a'')]"]
    by (simp add: minuteNs_def secondNs_def del: serve.simps)
qed

text \<open>The bound is met: with a limit of 2, four grants within two nanoseconds.\<close>

lemma rate_limit_window_tight:
  "allowedFor ''a'' (fst (serve 2 [(59999999999, ''a''), (59999999999, ''a''),
      (60000000000, ''a''), (60000000000, ''a'')]
     (snd (serve 2 [(0, ''b'')] (NewLimiter\<lparr>buckets := [''a'' \<mapsto> \<lparr>tokens = 2, lastRefill = 0\<rparr>]\<rparr>))))) = 4"
  by (simp add: Allow_def keyBucket_def takeToken_def minuteNs_def secondNs_def NewLimiter_def
      allowedFor_def)

text \<open>The global limiter never grants more than twice its limit in less than a second.\<close>

fun serveGlobal :: "int \<Rightarrow> int list \<Rightarrow> Limiter \<Rightarrow> bool list \<times> Limiter" where
  "serveGlobal limit [] l = ([], l)"
| "serveGlobal limit (t # ts) l =
     (let (ok, l') = AllowGlobal t limit l; (oks, l'') = serveGlobal limit ts l' in (ok # oks, l''))"

lemma AllowGlobal_step:
  assumes "0 < limit"
  shows "AllowGlobal now limit l =
    (let (ok, b) = globalStep limit now (globalBucket l) in (ok, l\<lparr>globalBucket := Some b\<rparr>))"
  using assms by (simp add: AllowGlobal_def globalStep_def takeToken_def Let_def split: option.splits)

lemma serveGlobal_run:
  assumes "0 < limit"
  shows "(fst (serveGlobal limit ts l), globalBucket (snd (serveGlobal limit ts l))) =
    perService.run limit ts (globalBucket l)"
proof (induction ts arbitrary: l)
  case Nil
  then show ?case by simp
next
  case (Cons t ts)
  obtain ok b where s: "globalStep limit t (globalBucket l) = (ok, b)"
    by (cases "globalStep limit t (globalBucket l)")
  from s Cons.IH[of "l\<lparr>globalBucket := Some b\<rparr>"] show ?case
    by (auto simp: AllowGlobal_step[OF assms] split: prod.splits)
qed

theorem global_limit_window:
  assumes "0 < limit"
    and "list_all (\<lambda>t. t \<noteq> zeroTime) past"
    and "list_all (\<lambda>t. t \<noteq> zeroTime \<and> a \<le> t \<and> t < a + secondNs) ts"
  shows "perService.granted
     (fst (serveGlobal limit ts (snd (serveGlobal limit past NewLimiter)))) \<le> 2 * limit"
proof -
  let ?l = "snd (serveGlobal limit past NewLimiter)"
  obtain oks ob where r: "perService.run limit past None = (oks, ob)"
    by (cases "perService.run limit past None")
  have "globalBucket ?l = ob"
    using serveGlobal_run[OF assms(1), of past NewLimiter] r by (simp add: NewLimiter_def prod_eq_iff)
  moreover have "perService.wf limit ob"
    using perService.run_wf[OF assms(1) _ _ r] assms(2) by (auto simp: perService.wf_def list_all_iff)
  ultimately have "perService.granted (fst (perService.run limit ts (globalBucket ?l))) \<le> 2 * limit"
    using assms(3) by (intro perService.window_bound[OF assms(1), where a = a]) (auto simp: list_all_iff)
  then show ?thesis
    using serveGlobal_run[OF assms(1), of ts ?l] by (metis fst_conv)
qed

end
