(* ===== verification/GoStrings.thy ===== *)
theory GoStrings
  imports Prelude
begin

text \<open>
  The functions of Go's packages \<open>strings\<close> and \<open>strconv\<close> that the service calls, on byte
  strings (\<open>string\<close> is a list of bytes, as a Go string is). \<open>TrimSpace\<close> removes the UTF-8
  encodings of the Unicode white space characters; \<open>ToLower\<close> and \<open>EqualFold\<close> are stated
  on ASCII, which is exact where the code uses them: against the prefix \<open>bearer\<close> and
  against a hexadecimal digest, whose letters have no non-ASCII case variants.
\<close>

subsection \<open>Prefixes, suffixes and substrings\<close>

definition HasPrefix :: "string \<Rightarrow> string \<Rightarrow> bool" where
  "HasPrefix s p \<longleftrightarrow> take (length p) s = p"

definition HasSuffix :: "string \<Rightarrow> string \<Rightarrow> bool" where
  "HasSuffix s p \<longleftrightarrow> HasPrefix (rev s) (rev p)"

definition TrimPrefix :: "string \<Rightarrow> string \<Rightarrow> string" where
  "TrimPrefix s p = (if HasPrefix s p then drop (length p) s else s)"

definition TrimSuffix :: "string \<Rightarrow> string \<Rightarrow> string" where
  "TrimSuffix s p = (if HasSuffix s p then take (length s - length p) s else s)"

fun Contains :: "string \<Rightarrow> string \<Rightarrow> bool" where
  "Contains [] sub \<longleftrightarrow> sub = []"
| "Contains (c # s) sub \<longleftrightarrow> HasPrefix (c # s) sub \<or> Contains s sub"

lemma HasPrefix_append [simp]: "HasPrefix (p @ s) p"
  by (simp add: HasPrefix_def)

lemma HasPrefixE: "HasPrefix s p \<Longrightarrow> \<exists>t. s = p @ t"
  unfolding HasPrefix_def by (metis append_take_drop_id)

lemma HasPrefix_iff: "HasPrefix s p \<longleftrightarrow> (\<exists>t. s = p @ t)"
  by (auto dest: HasPrefixE)

lemma TrimPrefix_append [simp]: "TrimPrefix (p @ s) p = s"
  by (simp add: TrimPrefix_def)

lemma HasSuffix_append [simp]: "HasSuffix (s @ p) p"
  by (simp add: HasSuffix_def)

lemma HasSuffix_iff: "HasSuffix s p \<longleftrightarrow> (\<exists>t. s = t @ p)"
proof
  assume "HasSuffix s p"
  then obtain t where "rev s = rev p @ t" by (auto simp: HasSuffix_def HasPrefix_iff)
  then have "s = rev t @ p" by (metis rev_append rev_rev_ident)
  then show "\<exists>t. s = t @ p" ..
qed auto

lemma TrimSuffix_append [simp]: "TrimSuffix (s @ p) p = s"
  by (simp add: TrimSuffix_def)

lemma Contains_iff: "Contains s sub \<longleftrightarrow> (\<exists>a b. s = a @ sub @ b)"
proof (induction s)
  case Nil
  then show ?case by auto
next
  case (Cons c s)
  have "(\<exists>a b. c # s = a @ sub @ b) \<longleftrightarrow> (\<exists>b. c # s = sub @ b) \<or> (\<exists>a b. s = a @ sub @ b)"
    by (auto simp: Cons_eq_append_conv)
  with Cons.IH show ?case by (simp add: HasPrefix_iff)
qed

lemma Contains_append_mid [simp]: "Contains (a @ sub @ b) sub"
  by (auto simp: Contains_iff)

lemma Contains_append_right [simp]: "Contains (a @ sub) sub"
  using Contains_append_mid[of a sub "[]"] by simp

lemma Contains_append_left [simp]: "Contains (sub @ b) sub"
  using Contains_append_mid[of "[]" sub b] by simp

lemma Contains_extend: "Contains s sub \<Longrightarrow> Contains (a @ s @ b) sub"
  by (auto simp: Contains_iff) (metis append.assoc)

lemma not_Contains_char: "c \<in> set sub \<Longrightarrow> c \<notin> set s \<Longrightarrow> \<not> Contains s sub"
  by (auto simp: Contains_iff)

text \<open>A substring without the separator lies on one side of it.\<close>

lemma HasPrefix_sep: "c \<notin> set sub \<Longrightarrow> HasPrefix (a @ c # b) sub \<longleftrightarrow> HasPrefix a sub"
proof (induction a arbitrary: sub)
  case Nil
  then show ?case by (cases sub) (auto simp: HasPrefix_def)
next
  case (Cons x a)
  then show ?case by (cases sub) (auto simp: HasPrefix_def)
qed

lemma Contains_sep:
  "c \<notin> set sub \<Longrightarrow> sub \<noteq> [] \<Longrightarrow>
   Contains (a @ c # b) sub \<longleftrightarrow> Contains a sub \<or> Contains b sub"
proof (induction a)
  case Nil
  then show ?case by (cases sub) (auto simp: HasPrefix_def)
next
  case (Cons x a)
  with HasPrefix_sep[of c sub "x # a" b] show ?case by auto
qed

subsection \<open>Splitting and joining\<close>

text \<open>\<open>Split s c\<close> is \<open>strings.Split\<close> for a separator of one character.\<close>

fun Split :: "string \<Rightarrow> char \<Rightarrow> string list" where
  "Split [] c = [[]]"
| "Split (x # s) c =
     (if x = c then [] # Split s c
      else (case Split s c of p # ps \<Rightarrow> (x # p) # ps | [] \<Rightarrow> [[x]]))"

text \<open>\<open>SplitN s c\<close> with \<open>n = 2\<close>: at most two parts, cut at the first separator.\<close>

fun SplitN2 :: "string \<Rightarrow> char \<Rightarrow> string list" where
  "SplitN2 [] c = [[]]"
| "SplitN2 (x # s) c =
     (if x = c then [[], s]
      else (case SplitN2 s c of p # ps \<Rightarrow> (x # p) # ps | [] \<Rightarrow> [[x]]))"

fun JoinWith :: "char \<Rightarrow> string list \<Rightarrow> string" where
  "JoinWith c [] = []"
| "JoinWith c [s] = s"
| "JoinWith c (s # t # ts) = s @ c # JoinWith c (t # ts)"

lemma Split_nonempty [simp]: "Split s c \<noteq> []"
  by (induction s) (auto split: list.splits)

lemma SplitN2_nonempty [simp]: "SplitN2 s c \<noteq> []"
  by (induction s) (auto split: list.splits)

lemma JoinWith_Cons: "ts \<noteq> [] \<Longrightarrow> JoinWith c (s # ts) = s @ c # JoinWith c ts"
  by (cases ts) auto

lemma JoinWith_cons_head: "JoinWith c ((x # p) # ps) = x # JoinWith c (p # ps)"
  by (cases ps) auto

lemma JoinWith_Split [simp]: "JoinWith c (Split s c) = s"
proof (induction s)
  case Nil
  then show ?case by simp
next
  case (Cons x s)
  then show ?case
    by (auto simp: JoinWith_Cons JoinWith_cons_head split: list.splits)
qed

lemma Split_no_sep: "c \<notin> set s \<Longrightarrow> Split s c = [s]"
  by (induction s) auto

lemma Split_append_sep: "c \<notin> set s \<Longrightarrow> Split (s @ c # t) c = s # Split t c"
  by (induction s) auto

lemma Split_parts_no_sep: "p \<in> set (Split s c) \<Longrightarrow> c \<notin> set p"
proof (induction s arbitrary: p)
  case Nil
  then show ?case by simp
next
  case (Cons x s)
  then show ?case by (auto split: if_splits list.splits)
qed

lemma Split_JoinWith:
  "ls \<noteq> [] \<Longrightarrow> (\<And>l. l \<in> set ls \<Longrightarrow> c \<notin> set l) \<Longrightarrow> Split (JoinWith c ls) c = ls"
  by (induction c ls rule: JoinWith.induct) (auto simp: Split_no_sep Split_append_sep)

lemma SplitN2_append_sep: "c \<notin> set s \<Longrightarrow> SplitN2 (s @ c # t) c = [s, t]"
  by (induction s) auto

lemma SplitN2_no_sep: "c \<notin> set s \<Longrightarrow> SplitN2 s c = [s]"
  by (induction s) auto

subsection \<open>Trimming\<close>

definition goSpaces :: "string list" where
  "goSpaces =
     [[CHR 0x09], [CHR 0x0A], [CHR 0x0B], [CHR 0x0C], [CHR 0x0D], [CHR 0x20],
      [CHR 0xC2, CHR 0x85], [CHR 0xC2, CHR 0xA0], [CHR 0xE1, CHR 0x9A, CHR 0x80]]
     @ map (\<lambda>k. [CHR 0xE2, CHR 0x80, char_of k]) [0x80::nat ..< 0x8B]
     @ [[CHR 0xE2, CHR 0x80, CHR 0xA8], [CHR 0xE2, CHR 0x80, CHR 0xA9],
        [CHR 0xE2, CHR 0x80, CHR 0xAF], [CHR 0xE2, CHR 0x81, CHR 0x9F],
        [CHR 0xE3, CHR 0x80, CHR 0x80]]"

function trimLeftBy :: "string list \<Rightarrow> string \<Rightarrow> string" where
  "trimLeftBy toks s =
     (case find (\<lambda>t. t \<noteq> [] \<and> HasPrefix s t) toks of
        None \<Rightarrow> s
      | Some t \<Rightarrow> trimLeftBy toks (drop (length t) s))"
  by pat_completeness auto
termination
  by (relation "measure (\<lambda>(toks, s). length s)")
     (auto simp: find_Some_iff HasPrefix_iff)

declare trimLeftBy.simps [simp del]

definition TrimSpace :: "string \<Rightarrow> string" where
  "TrimSpace s = rev (trimLeftBy (map rev goSpaces) (rev (trimLeftBy goSpaces s)))"

text \<open>\<open>strings.Trim(s, cutset)\<close>.\<close>

definition TrimCut :: "string \<Rightarrow> string \<Rightarrow> string" where
  "TrimCut s cs = rev (dropWhile (\<lambda>c. c \<in> set cs) (rev (dropWhile (\<lambda>c. c \<in> set cs) s)))"

text \<open>Graphic ASCII characters are never part of a white space sequence.\<close>

definition graphic :: "char \<Rightarrow> bool" where
  "graphic c \<longleftrightarrow> 33 \<le> (of_char c :: nat) \<and> (of_char c :: nat) \<le> 126"

lemma trimLeftBy_id:
  "(\<And>t. t \<in> set toks \<Longrightarrow> t = [] \<or> \<not> HasPrefix s t) \<Longrightarrow> trimLeftBy toks s = s"
proof -
  assume "\<And>t. t \<in> set toks \<Longrightarrow> t = [] \<or> \<not> HasPrefix s t"
  then have "find (\<lambda>t. t \<noteq> [] \<and> HasPrefix s t) toks = None"
    by (auto simp: find_None_iff)
  then show ?thesis by (subst trimLeftBy.simps) simp
qed

lemma goSpaces_hd: "list_all (\<lambda>t. t \<noteq> [] \<and> \<not> graphic (hd t)) goSpaces"
  by (simp add: goSpaces_def graphic_def upt_rec)

lemma goSpaces_last: "list_all (\<lambda>t. t \<noteq> [] \<and> \<not> graphic (hd t)) (map rev goSpaces)"
  by (simp add: goSpaces_def graphic_def upt_rec)

lemma trimLeftBy_graphic:
  assumes "list_all (\<lambda>t. t \<noteq> [] \<and> \<not> graphic (hd t)) toks"
    and "s = [] \<or> graphic (hd s)"
  shows "trimLeftBy toks s = s"
proof (rule trimLeftBy_id)
  fix t assume "t \<in> set toks"
  with assms(1) have "t \<noteq> []" "\<not> graphic (hd t)" by (auto simp: list_all_iff)
  with assms(2) show "t = [] \<or> \<not> HasPrefix s t"
    by (auto simp: HasPrefix_iff)
qed

lemma TrimSpace_graphic:
  "s = [] \<or> graphic (hd s) \<and> graphic (last s) \<Longrightarrow> TrimSpace s = s"
  unfolding TrimSpace_def
  using trimLeftBy_graphic[OF goSpaces_hd, of s] trimLeftBy_graphic[OF goSpaces_last, of "rev s"]
  by (auto simp: hd_rev)

lemma TrimSpace_all_graphic: "list_all graphic s \<Longrightarrow> TrimSpace s = s"
  by (cases "s = []") (auto intro!: TrimSpace_graphic simp: list_all_iff)

lemma TrimSpace_Nil [simp]: "TrimSpace [] = []"
  by (rule TrimSpace_graphic) simp

subsection \<open>Case, decimal numbers\<close>

definition lowerChar :: "char \<Rightarrow> char" where
  "lowerChar c =
     (let n = of_char c :: nat in if 65 \<le> n \<and> n \<le> 90 then char_of (n + 32) else c)"

definition ToLower :: "string \<Rightarrow> string" where
  "ToLower s = map lowerChar s"

definition EqualFold :: "string \<Rightarrow> string \<Rightarrow> bool" where
  "EqualFold s t \<longleftrightarrow> ToLower s = ToLower t"

lemma EqualFold_refl [simp]: "EqualFold s s"
  by (simp add: EqualFold_def)

definition isDigit :: "char \<Rightarrow> bool" where
  "isDigit c \<longleftrightarrow> 48 \<le> (of_char c :: nat) \<and> (of_char c :: nat) \<le> 57"

definition digitsVal :: "string \<Rightarrow> int" where
  "digitsVal s = foldl (\<lambda>n c. 10 * n + (int (of_char c) - 48)) 0 s"

text \<open>\<open>strconv.Atoi\<close>: an optional sign and decimal digits, in the range of a 64-bit int.\<close>

definition Atoi :: "string \<Rightarrow> int option" where
  "Atoi s =
     (let neg = (s \<noteq> [] \<and> hd s = CHR ''-'');
          ds = (if s \<noteq> [] \<and> (hd s = CHR ''-'' \<or> hd s = CHR ''+'') then tl s else s);
          v = (if neg then - digitsVal ds else digitsVal ds)
      in if ds = [] \<or> \<not> list_all isDigit ds then None
         else if v < - (2 ^ 63) \<or> 2 ^ 63 \<le> v then None else Some v)"

end
