(* ===== verification/GoTime.thy ===== *)
theory GoTime
  imports GoStrings RateLimit
begin

text \<open>
  Instants and their texts. An instant is an integer number of nanoseconds since the Unix
  epoch, in UTC. \<open>civil\<close> is the proleptic Gregorian date of a day number, from which the
  layouts used by the service are printed. \<open>truncSec\<close> is the instant that survives
  \<open>Format(time.RFC3339)\<close> followed by \<open>time.Parse\<close>: the storage layer keeps its times as
  such texts, so they lose their fraction of a second.
\<close>

definition truncSec :: "int \<Rightarrow> int" where
  "truncSec t = t div secondNs * secondNs"

lemma truncSec_le: "truncSec t \<le> t"
  by (simp add: truncSec_def secondNs_def minus_mod_eq_div_mult [symmetric])

lemma truncSec_gt: "t - secondNs < truncSec t"
  using pos_mod_bound[of secondNs t]
  by (simp add: truncSec_def secondNs_def minus_mod_eq_div_mult [symmetric])

lemma truncSec_idem [simp]: "truncSec (truncSec t) = truncSec t"
  by (simp add: truncSec_def secondNs_def)

lemma truncSec_mono: "s \<le> t \<Longrightarrow> truncSec s \<le> truncSec t"
  by (simp add: truncSec_def secondNs_def zdiv_mono1)

definition dayNs :: int where "dayNs = 24 * 3600 * secondNs"

text \<open>(year, month, day) of a day number, day 0 being 1 January 1970.\<close>

definition civil :: "int \<Rightarrow> int \<times> int \<times> int" where
  "civil days =
     (let z = days + 719468;
          era = z div 146097;
          doe = z mod 146097;
          yoe = (doe - doe div 1460 + doe div 36524 - doe div 146096) div 365;
          doy = doe - (365 * yoe + yoe div 4 - yoe div 100);
          mp = (5 * doy + 2) div 153;
          d = doy - (153 * mp + 2) div 5 + 1;
          m = (if mp < 10 then mp + 3 else mp - 9);
          y = yoe + era * 400 + (if m \<le> 2 then 1 else 0)
      in (y, m, d))"

definition pad :: "nat \<Rightarrow> string \<Rightarrow> string" where
  "pad n s = replicate (n - length s) (CHR ''0'') @ s"

definition dateParts :: "int \<Rightarrow> string \<times> string \<times> string" where
  "dateParts t =
     (let (y, m, d) = civil (t div dayNs)
      in (pad 4 (itoa y), pad 2 (itoa m), pad 2 (itoa d)))"

definition clockText :: "int \<Rightarrow> string" where
  "clockText t =
     (let s = (t mod dayNs) div secondNs
      in pad 2 (itoa (s div 3600)) @ '':'' @ pad 2 (itoa (s div 60 mod 60)) @ '':'' @
         pad 2 (itoa (s mod 60)))"

text \<open>Layout \<open>20060102\<close>.\<close>

definition formatDay :: "int \<Rightarrow> string" where
  "formatDay t = (let (y, m, d) = dateParts t in y @ m @ d)"

text \<open>Layout \<open>time.RFC3339\<close>, in UTC.\<close>

definition formatRFC3339 :: "int \<Rightarrow> string" where
  "formatRFC3339 t =
     (let (y, m, d) = dateParts t in y @ ''-'' @ m @ ''-'' @ d @ ''T'' @ clockText t @ ''Z'')"

text \<open>Layout \<open>2006-01-02 15:04:05 MST\<close>, in UTC.\<close>

definition formatAlertTime :: "int \<Rightarrow> string" where
  "formatAlertTime t =
     (let (y, m, d) = dateParts t in y @ ''-'' @ m @ ''-'' @ d @ '' '' @ clockText t @ '' UTC'')"

lemma formatRFC3339_example: "formatRFC3339 1756821015000000000 = ''2025-09-02T13:50:15Z''"
  by code_simp

lemma dayNs_eq: "dayNs = secondNs * 86400"
  by (simp add: dayNs_def)

lemma div_day: "t div dayNs = t div secondNs div 86400"
  by (simp add: dayNs_eq zdiv_zmult2_eq)

lemma mod_day: "t mod dayNs div secondNs = t div secondNs mod 86400"
proof -
  have "t mod dayNs = secondNs * (t div secondNs mod 86400) + t mod secondNs"
    by (simp add: dayNs_eq zmod_zmult2_eq)
  then show ?thesis by (simp add: secondNs_def)
qed

lemma truncSec_div: "truncSec t div secondNs = t div secondNs"
  by (simp add: truncSec_def secondNs_def)

text \<open>Printing forgets the fraction of a second only.\<close>

lemma formatRFC3339_truncSec: "formatRFC3339 (truncSec t) = formatRFC3339 t"
  by (simp add: formatRFC3339_def dateParts_def clockText_def div_day mod_day truncSec_div)

end
