(* ===== verification/GoJson.thy ===== *)
theory GoJson
  imports GoStrings
begin

text \<open>
  JSON documents as the handlers build them (a \<open>map[string]interface{}\<close> is an object) and
  access to their fields.
\<close>

datatype json =
    JNull
  | JBool bool
  | JNum int
  | JStr string
  | JArr "json list"
  | JObj "(string \<times> json) list"

fun field :: "string \<Rightarrow> json \<Rightarrow> json option" where
  "field k (JObj fs) = map_of fs k"
| "field k _ = None"

fun fieldAt :: "string list \<Rightarrow> json \<Rightarrow> json option" where
  "fieldAt [] j = Some j"
| "fieldAt (k # ks) j = (case field k j of None \<Rightarrow> None | Some j' \<Rightarrow> fieldAt ks j')"

subsection \<open>Encoding\<close>

text \<open>
  \<open>json.Marshal\<close>. Strings are byte strings; the length of the valid UTF-8 sequence they start
  with is \<open>utf8Len\<close>, 0 when there is none. Control characters, quotes, backslashes and the
  HTML characters are escaped, and what is not UTF-8 becomes the replacement character.
\<close>

definition inRange :: "nat \<Rightarrow> nat \<Rightarrow> char \<Rightarrow> bool" where
  "inRange a b c \<longleftrightarrow> a \<le> of_char c \<and> of_char c \<le> b"

fun utf8Len :: "string \<Rightarrow> nat" where
  "utf8Len [] = 0"
| "utf8Len (a # s) =
     (let n = of_char a :: nat;
          cont = (\<lambda>k. k < length s \<and> inRange 0x80 0xBF (s ! k));
          snd = (\<lambda>lo hi. s \<noteq> [] \<and> inRange lo hi (s ! 0))
      in if n < 0x80 then 1
         else if 0xC2 \<le> n \<and> n \<le> 0xDF then (if cont 0 then 2 else 0)
         else if 0xE0 \<le> n \<and> n \<le> 0xEF then
           (if snd (if n = 0xE0 then 0xA0 else 0x80) (if n = 0xED then 0x9F else 0xBF) \<and> cont 1 then 3 else 0)
         else if 0xF0 \<le> n \<and> n \<le> 0xF4 then
           (if snd (if n = 0xF0 then 0x90 else 0x80) (if n = 0xF4 then 0x8F else 0xBF) \<and> cont 1 \<and> cont 2 then 4 else 0)
         else 0)"

definition jsonHexDigit :: "nat \<Rightarrow> char" where
  "jsonHexDigit n = (''0123456789abcdef'' ! (n mod 16))"

definition unicodeEscape :: "nat \<Rightarrow> string" where
  "unicodeEscape n = [CHR 0x5C, CHR ''u'', jsonHexDigit (n div 4096), jsonHexDigit (n div 256), jsonHexDigit (n div 16), jsonHexDigit n]"

definition escapeChar :: "char \<Rightarrow> string" where
  "escapeChar c =
     (let n = of_char c :: nat in
      if c = CHR 0x22 \<or> c = CHR 0x5C then [CHR 0x5C, c]
      else if n = 8 then [CHR 0x5C, CHR ''b'']
      else if n = 12 then [CHR 0x5C, CHR ''f'']
      else if n = 10 then [CHR 0x5C, CHR ''n'']
      else if n = 13 then [CHR 0x5C, CHR ''r'']
      else if n = 9 then [CHR 0x5C, CHR ''t'']
      else if n < 32 \<or> c = CHR ''<'' \<or> c = CHR ''>'' \<or> c = CHR ''&'' then unicodeEscape n
      else [c])"

function escapeString :: "string \<Rightarrow> string" where
  "escapeString [] = []"
| "escapeString (c # s) =
     (let n = utf8Len (c # s) in
      if n = 0 then unicodeEscape 0xFFFD @ escapeString s
      else if n = 1 then escapeChar c @ escapeString s
      else
        let p = take n (c # s) in
        (if p = [CHR 0xE2, CHR 0x80, CHR 0xA8] then unicodeEscape 0x2028
         else if p = [CHR 0xE2, CHR 0x80, CHR 0xA9] then unicodeEscape 0x2029
         else p) @ escapeString (drop n (c # s)))"
  by pat_completeness auto
termination by (relation "measure length") auto

declare escapeString.simps [simp del]

definition jsonString :: "string \<Rightarrow> string" where
  "jsonString s = [CHR 0x22] @ escapeString s @ [CHR 0x22]"

fun jsonText :: "json \<Rightarrow> string" where
  "jsonText JNull = ''null''"
| "jsonText (JBool b) = (if b then ''true'' else ''false'')"
| "jsonText (JNum n) = itoa n"
| "jsonText (JStr s) = jsonString s"
| "jsonText (JArr js) = ''['' @ JoinWith (CHR '','') (map jsonText js) @ '']''"
| "jsonText (JObj fs) =
     ''{'' @ JoinWith (CHR '','') (map (\<lambda>(k, j). jsonString k @ '':'' @ jsonText j) fs) @ ''}''"

lemma jsonText_example:
  "jsonText (JObj [(''a'', JArr [JNum (- 3), JBool True, JNull]), (''b'', JStr ''x<y'')]) =
     [CHR ''{'', CHR 0x22, CHR ''a'', CHR 0x22] @ '':[-3,true,null],'' @ [CHR 0x22, CHR ''b'', CHR 0x22, CHR '':'', CHR 0x22] @
     ''x'' @ [CHR 0x5C] @ ''u003cy'' @ [CHR 0x22, CHR ''}'']"
  by code_simp

end
