(* ===== verification/Alert.thy ===== *)
theory Alert
  imports GoTime GoJson
begin

text \<open>
  The alert dispatcher of \<open>internal/alert/notifier.go\<close>: the sliding window of recent alerts,
  the throttle, the messages, and the posts it attempts. The posts are values
  (\<open>outPost\<close>): their result is discarded by the code, so an attempt is all they are.
\<close>

record ThreatAlert =
  ta_VirusName :: string
  ta_FileName :: string
  ta_FileSizeBytes :: int
  ta_FileSHA256 :: string
  ta_QuarantineID :: string
  ta_SourceConsumer :: string
  ta_DetectedAt :: int

record AlertConfig =
  TelegramEnabled :: bool
  TelegramBotToken :: string
  TelegramChatID :: string
  DiscordEnabled :: bool
  DiscordWebhookURL :: string
  SMTPEnabled :: bool
  SMTPHost :: string
  SMTPPort :: int
  SMTPUser :: string
  SMTPPassword :: string
  SMTPFrom :: string
  SMTPRecipients :: "string list"

record Notifier =
  n_cfg :: AlertConfig
  alertTimes :: "int list"

datatype outPost = OutPost (post_url: string) (post_body: json)

definition NewNotifier :: "AlertConfig \<Rightarrow> Notifier" where
  "NewNotifier cfg = \<lparr>n_cfg = cfg, alertTimes = []\<rparr>"

definition recordAndCheckThrottle :: "int \<Rightarrow> Notifier \<Rightarrow> (bool \<times> nat) \<times> Notifier" where
  "recordAndCheckThrottle now n =
     (let cutoff = now - minuteNs;
          recent = filter (\<lambda>t. t > cutoff) (alertTimes n) @ [now];
          n' = n\<lparr>alertTimes := recent\<rparr>
      in if length recent > 5 then ((True, length recent), n')
         else ((False, length recent), n'))"

subsection \<open>Messages\<close>

definition utf8 :: "nat list \<Rightarrow> string" where "utf8 ns = map char_of ns"

text \<open>
  \<open>%.2f\<close> of the size in MiB: the quotient by a power of two is exact, so the text is the
  number of hundredths rounded half to even.
\<close>

definition mbText :: "int \<Rightarrow> string" where
  "mbText n =
     (let q = 100 * n div 1048576; r = 100 * n mod 1048576;
          c = (if r > 524288 \<or> (r = 524288 \<and> odd q) then q + 1 else q)
      in itoa (c div 100) @ ''.'' @ pad 2 (itoa (c mod 100)))"

definition lf :: string where "lf = [CHR 0x0A]"

definition formatTelegramMessage :: "ThreatAlert \<Rightarrow> string" where
  "formatTelegramMessage a =
     utf8 [0xF0, 0x9F, 0x9A, 0xA8] @ '' <b>[CLAMAV ALERT] Malware Detected!</b>'' @ lf @
     concat (replicate 31 (utf8 [0xE2, 0x94, 0x80])) @ lf @
     utf8 [0xF0, 0x9F, 0xA6, 0xA0] @ '' <b>Threat:</b> <code>'' @ ta_VirusName a @ ''</code>'' @ lf @
     utf8 [0xF0, 0x9F, 0x93, 0x81] @ '' <b>File:</b> <code>'' @ ta_FileName a @ ''</code> ('' @
       mbText (ta_FileSizeBytes a) @ '' MB)'' @ lf @
     utf8 [0xF0, 0x9F, 0x94, 0x91] @ '' <b>Hash:</b> <code>'' @ ta_FileSHA256 a @ ''</code>'' @ lf @
     utf8 [0xF0, 0x9F, 0x9B, 0xA1, 0xEF, 0xB8, 0x8F] @ '' <b>Vault:</b> <code>'' @
       ta_QuarantineID a @ ''</code> (QUARANTINED)'' @ lf @
     utf8 [0xF0, 0x9F, 0x8F, 0xB7, 0xEF, 0xB8, 0x8F] @ '' <b>Source:</b> '' @ ta_SourceConsumer a @ lf @
     utf8 [0xE2, 0x8F, 0xB0] @ '' <b>Time:</b> '' @ formatAlertTime (ta_DetectedAt a)"

definition backtick :: "string \<Rightarrow> string" where
  "backtick s = CHR 0x60 # s @ [CHR 0x60]"

definition discordField :: "string \<Rightarrow> string \<Rightarrow> bool \<Rightarrow> json" where
  "discordField nm v inl =
     JObj [(''name'', JStr nm), (''value'', JStr v), (''inline'', JBool inl)]"

definition formatDiscordPayload :: "ThreatAlert \<Rightarrow> json" where
  "formatDiscordPayload a = JObj
     [(''username'', JStr ''ClamAV Security Guard''),
      (''embeds'', JArr [JObj
        [(''title'', JStr (utf8 [0xF0, 0x9F, 0x9A, 0xA8] @ '' Malware Threat Detected!'')),
         (''color'', JNum 15158332),
         (''fields'', JArr
           [discordField ''Threat Name'' (backtick (ta_VirusName a)) True,
            discordField ''File Name'' (backtick (ta_FileName a)) True,
            discordField ''Status''
              (utf8 [0xF0, 0x9F, 0x9B, 0xA1, 0xEF, 0xB8, 0x8F] @ '' **QUARANTINED**'') True,
            discordField ''File SHA256'' (backtick (ta_FileSHA256 a)) False,
            discordField ''Source Consumer'' (ta_SourceConsumer a) True,
            discordField ''Vault ID'' (backtick (ta_QuarantineID a)) True]),
         (''footer'', JObj [(''text'', JStr (''ClamAV Security Telemetry '' @
            utf8 [0xE2, 0x80, 0xA2] @ '' '' @ formatRFC3339 (ta_DetectedAt a)))])]])]"

definition sendTelegram :: "AlertConfig \<Rightarrow> ThreatAlert \<Rightarrow> outPost" where
  "sendTelegram cfg a =
     OutPost (''https://api.telegram.org/bot'' @ TelegramBotToken cfg @ ''/sendMessage'')
       (JObj [(''chat_id'', JStr (TelegramChatID cfg)),
              (''text'', JStr (formatTelegramMessage a)),
              (''parse_mode'', JStr ''HTML'')])"

definition sendDiscord :: "AlertConfig \<Rightarrow> ThreatAlert \<Rightarrow> outPost" where
  "sendDiscord cfg a = OutPost (DiscordWebhookURL cfg) (formatDiscordPayload a)"

definition DispatchThreat :: "int \<Rightarrow> ThreatAlert \<Rightarrow> Notifier \<Rightarrow> outPost list \<times> Notifier" where
  "DispatchThreat now a n =
     (let ((throttled, _), n') = recordAndCheckThrottle now n; cfg = n_cfg n'
      in if throttled then ([], n')
         else
          ((if TelegramEnabled cfg \<and> TelegramBotToken cfg \<noteq> [] \<and> TelegramChatID cfg \<noteq> []
            then [sendTelegram cfg a] else []) @
           (if DiscordEnabled cfg \<and> DiscordWebhookURL cfg \<noteq> []
            then [sendDiscord cfg a] else []), n'))"

subsection \<open>The throttle over a run of alerts\<close>

text \<open>Alerts raised one after the other; the answer is whether each was throttled.\<close>

fun throttleRun :: "int list \<Rightarrow> Notifier \<Rightarrow> bool list \<times> Notifier" where
  "throttleRun [] n = ([], n)"
| "throttleRun (t # ts) n =
     (let ((th, _), n') = recordAndCheckThrottle t n; (ths, n'') = throttleRun ts n'
      in (th # ths, n''))"

definition passed :: "bool list \<Rightarrow> nat" where
  "passed ths = length (filter Not ths)"

lemma throttleRun_passed:
  assumes "throttleRun ts n = (ths, n')"
    and "\<And>t. t \<in> set ts \<Longrightarrow> a \<le> t \<and> t < a + minuteNs"
  shows "passed ths \<le> 5 - length (filter (\<lambda>t. a \<le> t \<and> t < a + minuteNs) (alertTimes n))"
  using assms
proof (induction ts arbitrary: n ths n')
  case Nil
  then show ?case by (simp add: passed_def)
next
  case (Cons t ts)
  let ?in = "\<lambda>t. a \<le> t \<and> t < a + minuteNs"
  let ?keep = "filter (\<lambda>x. x > t - minuteNs) (alertTimes n) @ [t]"
  let ?n1 = "n\<lparr>alertTimes := ?keep\<rparr>"
  obtain ths1 n2 where r: "throttleRun ts ?n1 = (ths1, n2)" by (cases "throttleRun ts ?n1")
  have t: "a \<le> t" "t < a + minuteNs" using Cons.prems(2)[of t] by auto
  have "filter ?in ?keep = filter ?in (alertTimes n) @ [t]"
    using t by (auto simp: filter_filter intro!: filter_cong)
  then have IH: "passed ths1 \<le> 5 - Suc (length (filter ?in (alertTimes n)))"
    using Cons.IH[OF r] Cons.prems(2) by simp
  have ths: "ths = (length ?keep > 5) # ths1"
    using Cons.prems(1) r by (auto simp: recordAndCheckThrottle_def Let_def split: if_splits)
  have "length (filter ?in (alertTimes n)) \<le> length (filter (\<lambda>x. x > t - minuteNs) (alertTimes n))"
  proof -
    have "filter ?in (alertTimes n) = filter ?in (filter (\<lambda>x. x > t - minuteNs) (alertTimes n))"
      using t by (auto simp: filter_filter intro!: filter_cong)
    then show ?thesis by (metis length_filter_le)
  qed
  then show ?case using IH ths by (auto simp: passed_def)
qed

text \<open>Alerts dispatched one after the other: the posts made for each.\<close>

fun dispatchRun :: "(int \<times> ThreatAlert) list \<Rightarrow> Notifier \<Rightarrow> outPost list list \<times> Notifier" where
  "dispatchRun [] n = ([], n)"
| "dispatchRun ((t, a) # as) n =
     (let (ps, n') = DispatchThreat t a n; (pss, n'') = dispatchRun as n' in (ps # pss, n''))"

text \<open>A throttled alert posts nothing, another one at most one message per channel.\<close>

lemma DispatchThreat_throttle:
  assumes "recordAndCheckThrottle t n = ((th, k), n1)"
  obtains ps where "DispatchThreat t a n = (ps, n1)" "n_cfg n1 = n_cfg n" "th \<longrightarrow> ps = []"
    "ps \<in> {[], [sendTelegram (n_cfg n) a], [sendDiscord (n_cfg n) a], [sendTelegram (n_cfg n) a, sendDiscord (n_cfg n) a]}"
  using assms that by (auto simp: DispatchThreat_def recordAndCheckThrottle_def Let_def split: if_splits)

lemma dispatchRun_throttle:
  "dispatchRun as n = (pss, n') \<Longrightarrow> throttleRun (map fst as) n = (ths, n1) \<Longrightarrow>
   n' = n1 \<and> n_cfg n' = n_cfg n \<and> length (filter (\<lambda>ps. ps \<noteq> []) pss) \<le> passed ths \<and>
   list_all2 (\<lambda>(t, a) ps. ps \<in> {[], [sendTelegram (n_cfg n) a], [sendDiscord (n_cfg n) a],
     [sendTelegram (n_cfg n) a, sendDiscord (n_cfg n) a]}) as pss"
proof (induction as arbitrary: n n' n1 pss ths)
  case Nil
  then show ?case by (simp add: passed_def)
next
  case (Cons ta as)
  obtain t a where ta: "ta = (t, a)" by fastforce
  obtain th k n2 where th: "recordAndCheckThrottle t n = ((th, k), n2)" by (metis prod.collapse)
  obtain ps where ps: "DispatchThreat t a n = (ps, n2)" "n_cfg n2 = n_cfg n" "th \<longrightarrow> ps = []"
    "ps \<in> {[], [sendTelegram (n_cfg n) a], [sendDiscord (n_cfg n) a], [sendTelegram (n_cfg n) a, sendDiscord (n_cfg n) a]}"
    by (rule DispatchThreat_throttle[OF th, of a]) (rule that)
  obtain pss1 n3 where r: "dispatchRun as n2 = (pss1, n3)" by fastforce
  obtain ths1 n4 where s: "throttleRun (map fst as) n2 = (ths1, n4)" by fastforce
  have eq: "pss = ps # pss1" "n' = n3" "ths = th # ths1" "n1 = n4"
    using Cons.prems ta ps(1) r th s by simp_all
  have IH: "n3 = n4 \<and> n_cfg n3 = n_cfg n2 \<and> length (filter (\<lambda>ps. ps \<noteq> []) pss1) \<le> passed ths1 \<and>
    list_all2 (\<lambda>(t, a) ps. ps \<in> {[], [sendTelegram (n_cfg n2) a], [sendDiscord (n_cfg n2) a],
      [sendTelegram (n_cfg n2) a, sendDiscord (n_cfg n2) a]}) as pss1"
    by (rule Cons.IH[OF r s])
  then show ?case using eq ps(2-4) ta by (auto simp: passed_def)
qed

text \<open>
  C28. Flood protection. Whatever alerts were dispatched before, of any alerts dispatched one
  after the other in less than a minute at most five post anything, and each of those posts
  at most one message to Telegram and one to Discord.
\<close>

theorem alert_flood_bound:
  assumes "list_all (\<lambda>(t, _). a \<le> t \<and> t < a + minuteNs) as"
    and "dispatchRun as (snd (dispatchRun past (NewNotifier cfg))) = (pss, n')"
  shows "length (filter (\<lambda>ps. ps \<noteq> []) pss) \<le> 5 \<and>
    list_all2 (\<lambda>(t, al) ps. ps \<in> {[], [sendTelegram cfg al], [sendDiscord cfg al], [sendTelegram cfg al, sendDiscord cfg al]}) as pss"
proof -
  obtain pss0 n where p: "dispatchRun past (NewNotifier cfg) = (pss0, n)" by fastforce
  obtain ths0 n0 where "throttleRun (map fst past) (NewNotifier cfg) = (ths0, n0)" by fastforce
  from dispatchRun_throttle[OF p this] have "n_cfg n = n_cfg (NewNotifier cfg)" by blast
  then have cfg: "n_cfg n = cfg" by (simp add: NewNotifier_def)
  obtain ths n1 where t: "throttleRun (map fst as) n = (ths, n1)" by fastforce
  have "dispatchRun as n = (pss, n')" using assms(2) p by simp
  note run = dispatchRun_throttle[OF this t]
  have "passed ths \<le> 5 - length (filter (\<lambda>t. a \<le> t \<and> t < a + minuteNs) (alertTimes n))"
    by (rule throttleRun_passed[OF t]) (use assms(1) in \<open>auto simp: list_all_iff\<close>)
  then have "length (filter (\<lambda>ps. ps \<noteq> []) pss) \<le> 5" using run by linarith
  with run cfg show ?thesis by simp
qed

text \<open>The configuration of a service whose environment sets no alert variable.\<close>

definition silentConfig :: AlertConfig where
  "silentConfig = \<lparr>TelegramEnabled = False, TelegramBotToken = [], TelegramChatID = [],
     DiscordEnabled = False, DiscordWebhookURL = [], SMTPEnabled = False, SMTPHost = [],
     SMTPPort = 587, SMTPUser = [], SMTPPassword = [], SMTPFrom = [], SMTPRecipients = []\<rparr>"

definition sampleAlert :: ThreatAlert where
  "sampleAlert = \<lparr> ta_VirusName = ''Eicar'', ta_FileName = ''a'', ta_FileSizeBytes = 1, ta_FileSHA256 = ''0'',
     ta_QuarantineID = ''Q'', ta_SourceConsumer = ''c'', ta_DetectedAt = 0 \<rparr>"

definition loudConfig :: AlertConfig where
  "loudConfig = silentConfig\<lparr>DiscordEnabled := True, DiscordWebhookURL := ''http://d''\<rparr>"

theorem alert_flood_bound_witness:
  "length (filter (\<lambda>ps. ps \<noteq> []) (fst (dispatchRun (map (\<lambda>t. (t, sampleAlert)) [1, 2, 3, 4, 5, 6, 7])
     (snd (dispatchRun [(0, sampleAlert)] (NewNotifier loudConfig)))))) \<le> 5"
proof -
  let ?as = "map (\<lambda>t. (t, sampleAlert)) [1, 2, 3, 4, 5, 6, 7]"
  obtain pss n' where run: "dispatchRun ?as (snd (dispatchRun [(0, sampleAlert)] (NewNotifier loudConfig))) = (pss, n')"
    by fastforce
  have "list_all (\<lambda>(t, _). 0 \<le> t \<and> t < 0 + minuteNs) ?as" by (simp add: minuteNs_def secondNs_def)
  from alert_flood_bound[OF this run] run show ?thesis by (metis fst_conv)
qed

lemma throttleRun_snoc:
  "snd (throttleRun (ts @ [t]) n) = snd (recordAndCheckThrottle t (snd (throttleRun ts n)))"
  by (induction ts arbitrary: n) (auto simp: case_prod_beta)

lemma recordAndCheckThrottle_times:
  "alertTimes (snd (recordAndCheckThrottle t n)) =
     filter (\<lambda>u. u > t - minuteNs) (alertTimes n) @ [t]"
  by (simp add: recordAndCheckThrottle_def Let_def)

text \<open>After alerts in time order the window holds the whole last minute of attempts.\<close>

lemma throttleRun_window:
  "sorted (ts @ [t]) \<Longrightarrow>
   filter (\<lambda>u. u > t - minuteNs) (alertTimes (snd (throttleRun ts (NewNotifier cfg)))) =
   filter (\<lambda>u. u > t - minuteNs) ts"
proof (induction ts arbitrary: t rule: rev_induct)
  case Nil
  then show ?case by (simp add: NewNotifier_def)
next
  case (snoc u ts)
  have u: "u \<le> t" "sorted (ts @ [u])" using snoc.prems by (auto simp: sorted_append)
  have "filter (\<lambda>x. x > t - minuteNs)
      (filter (\<lambda>x. x > u - minuteNs) (alertTimes (snd (throttleRun ts (NewNotifier cfg))))) =
    filter (\<lambda>x. x > t - minuteNs) (filter (\<lambda>x. x > u - minuteNs) ts)"
    using snoc.IH[OF u(2)] by simp
  then show ?case
    using u(1) by (auto simp: throttleRun_snoc recordAndCheckThrottle_times filter_filter
        intro!: filter_cong elim!: trans intro: sym)
qed

text \<open>
  Which alerts are throttled: for alerts raised in time order, the next one is
  suppressed exactly when five or more were raised in the minute before it, delivered or
  not. In a lasting flood every alert after the fifth is suppressed, with no digest.
\<close>

theorem alert_throttled_iff:
  assumes "sorted (ts @ [t])"
  shows "fst (fst (recordAndCheckThrottle t (snd (throttleRun ts (NewNotifier cfg))))) \<longleftrightarrow>
    5 \<le> length (filter (\<lambda>u. u > t - minuteNs) ts)"
  using throttleRun_window[OF assms, of cfg]
  by (auto simp: recordAndCheckThrottle_def Let_def)

theorem alert_throttled_iff_witness:
  "fst (fst (recordAndCheckThrottle 5 (snd (throttleRun [0, 1, 2, 3, 4] (NewNotifier silentConfig))))) \<longleftrightarrow>
    5 \<le> length (filter (\<lambda>u. u > 5 - minuteNs) [0, 1, 2, 3, 4])"
  by (rule alert_throttled_iff) simp

lemma DispatchThreat_notifier:
  "snd (DispatchThreat now a n) = snd (recordAndCheckThrottle now n)"
  by (auto simp: DispatchThreat_def Let_def split: prod.splits)

end
