(* ===== verification/Archive.thy ===== *)
theory Archive
  imports Prelude
begin

text \<open>
  The archive inspector of \<open>internal/scanner/archive.go\<close>. The archive is the directory that
  \<open>zip.NewReader\<close> read from it (flags and 64-bit sizes of each entry), or the error of that
  reader. The running total is a signed 64-bit integer that receives unsigned 64-bit sizes,
  so it is kept at its width.
\<close>

unbundle bit_operations_syntax

record ArchiveLimits =
  MaxRecursion :: int
  MaxFiles :: int
  MaxExtractMB :: "64 word"

record ArchiveResult =
  IsBomb :: bool
  BombReason :: string
  IsEncrypted :: bool
  TotalFiles :: nat
  TotalUncompressedBytes :: "64 word"

record zipFile =
  Flags :: "16 word"
  UncompressedSize64 :: "64 word"
  CompressedSize64 :: "64 word"

text \<open>An \<open>int64\<close> is a 64-bit word read as two's complement.\<close>

definition i64_less :: "64 word \<Rightarrow> 64 word \<Rightarrow> bool" where
  "i64_less a b \<longleftrightarrow> sint a < sint b"

definition NewArchiveInspector :: "ArchiveLimits \<Rightarrow> ArchiveLimits" where
  "NewArchiveInspector l =
     (let l1 = (if MaxRecursion l \<le> 0 then l\<lparr>MaxRecursion := 5\<rparr> else l);
          l2 = (if MaxFiles l1 \<le> 0 then l1\<lparr>MaxFiles := 1000\<rparr> else l1)
      in if \<not> i64_less 0 (MaxExtractMB l2) then l2\<lparr>MaxExtractMB := 250\<rparr> else l2)"

definition suspiciousRatio :: "zipFile \<Rightarrow> bool" where
  "suspiciousRatio f \<longleftrightarrow>
     CompressedSize64 f > 0 \<and>
     UncompressedSize64 f div CompressedSize64 f > 100 \<and>
     UncompressedSize64 f > 10 * 1024 * 1024"

fun inspectLoop :: "64 word \<Rightarrow> zipFile list \<Rightarrow> 64 word \<Rightarrow> ArchiveResult \<Rightarrow> ArchiveResult" where
  "inspectLoop maxBytes [] totalUncompressed res = res\<lparr>TotalUncompressedBytes := totalUncompressed\<rparr>"
| "inspectLoop maxBytes (f # fs) totalUncompressed res =
     (let res1 = (if Flags f AND 1 \<noteq> 0 then res\<lparr>IsEncrypted := True\<rparr> else res);
          totalUncompressed1 = totalUncompressed + UncompressedSize64 f
      in if i64_less maxBytes totalUncompressed1
         then res1\<lparr>IsBomb := True, BombReason := ''EXCEEDED_MAX_SIZE'', TotalUncompressedBytes := totalUncompressed1\<rparr>
         else if suspiciousRatio f
         then res1\<lparr>IsBomb := True, BombReason := ''SUSPICIOUS_COMPRESSION_RATIO''\<rparr>
         else inspectLoop maxBytes fs totalUncompressed1 res1)"

definition InspectZip :: "ArchiveLimits \<Rightarrow> zipFile list res \<Rightarrow> ArchiveResult res" where
  "InspectZip limits zr =
     (case zr of
        Inl err \<Rightarrow> Inl (wrapErr ''failed to parse zip archive: '' err)
      | Inr files \<Rightarrow>
          let res = \<lparr>IsBomb = False, BombReason = [], IsEncrypted = False,
                     TotalFiles = length files, TotalUncompressedBytes = 0\<rparr>
          in if int (length files) > MaxFiles limits
             then Inr (res\<lparr>IsBomb := True, BombReason := ''EXCEEDED_MAX_FILES''\<rparr>)
             else Inr (inspectLoop (MaxExtractMB limits * 1024 * 1024) files 0 res))"

subsection \<open>What an accepted archive satisfies\<close>

text \<open>Sizes for which the signed running total cannot wrap around.\<close>

definition smallEntry :: "zipFile \<Rightarrow> bool" where
  "smallEntry f \<longleftrightarrow> uint (UncompressedSize64 f) < 2 ^ 62"

definition totalSize :: "zipFile list \<Rightarrow> int" where
  "totalSize fs = sum_list (map (\<lambda>f. uint (UncompressedSize64 f)) fs)"

lemma totalSize_nonneg [simp]: "0 \<le> totalSize fs"
  unfolding totalSize_def by (rule sum_list_nonneg) auto

lemma totalSize_Cons [simp]: "totalSize (f # fs) = uint (UncompressedSize64 f) + totalSize fs"
  by (simp add: totalSize_def)

lemma uint_plus_small:
  fixes a b :: "64 word"
  shows "uint a < 2 ^ 62 \<Longrightarrow> uint b < 2 ^ 62 \<Longrightarrow> uint (a + b) = uint a + uint b"
  by (simp add: uint_word_ariths)

lemma sint_small:
  fixes a :: "64 word"
  shows "uint a < 2 ^ 63 \<Longrightarrow> sint a = uint a"
  unfolding sint_uint
  by (rule signed_take_bit_int_eq_self) (rule order_trans[OF _ uint_ge_0], simp_all)

lemma inspectLoop_sound:
  assumes "list_all smallEntry fs" "uint maxBytes < 2 ^ 62" "uint totalUncompressed \<le> uint maxBytes"
    and "\<not> IsBomb res"
  shows "\<not> IsBomb (inspectLoop maxBytes fs totalUncompressed res) \<longleftrightarrow>
      uint totalUncompressed + totalSize fs \<le> uint maxBytes \<and> list_all (\<lambda>f. \<not> suspiciousRatio f) fs"
    and "\<not> IsBomb (inspectLoop maxBytes fs totalUncompressed res) \<Longrightarrow>
      uint (TotalUncompressedBytes (inspectLoop maxBytes fs totalUncompressed res)) = uint totalUncompressed + totalSize fs \<and>
      (IsEncrypted (inspectLoop maxBytes fs totalUncompressed res) \<longleftrightarrow>
         IsEncrypted res \<or> list_ex (\<lambda>f. Flags f AND 1 \<noteq> 0) fs)"
proof -
  have "(\<not> IsBomb (inspectLoop maxBytes fs totalUncompressed res) \<longleftrightarrow>
      uint totalUncompressed + totalSize fs \<le> uint maxBytes \<and> list_all (\<lambda>f. \<not> suspiciousRatio f) fs) \<and>
    (\<not> IsBomb (inspectLoop maxBytes fs totalUncompressed res) \<longrightarrow>
      uint (TotalUncompressedBytes (inspectLoop maxBytes fs totalUncompressed res)) = uint totalUncompressed + totalSize fs \<and>
      (IsEncrypted (inspectLoop maxBytes fs totalUncompressed res) \<longleftrightarrow>
         IsEncrypted res \<or> list_ex (\<lambda>f. Flags f AND 1 \<noteq> 0) fs))"
    using assms
  proof (induction fs arbitrary: totalUncompressed res)
    case Nil
    then show ?case by (simp add: totalSize_def)
  next
    case (Cons f fs)
    let ?t = "totalUncompressed + UncompressedSize64 f"
    have small: "uint (UncompressedSize64 f) < 2 ^ 62" "uint totalUncompressed < 2 ^ 62"
      using Cons.prems by (auto simp: smallEntry_def)
    then have t: "uint ?t = uint totalUncompressed + uint (UncompressedSize64 f)"
      by (intro uint_plus_small)
    have cmp: "i64_less maxBytes ?t \<longleftrightarrow> uint maxBytes < uint ?t"
      using small t Cons.prems(2) by (simp add: i64_less_def sint_small)
    show ?case
    proof (cases "uint maxBytes < uint ?t")
      case True
      have "\<not> uint totalUncompressed + totalSize (f # fs) \<le> uint maxBytes"
        using True t totalSize_nonneg[of fs] unfolding totalSize_Cons by linarith
      with True cmp show ?thesis by (simp add: Let_def)
    next
      case False
      let ?r = "if Flags f AND 1 \<noteq> 0 then res\<lparr>IsEncrypted := True\<rparr> else res"
      have "\<not> IsBomb ?r" using Cons.prems(4) by simp
      from Cons.IH[of ?t ?r] this False cmp t Cons.prems show ?thesis
        by (auto simp: Let_def add.assoc)
    qed
  qed
  then show "\<not> IsBomb (inspectLoop maxBytes fs totalUncompressed res) \<longleftrightarrow>
      uint totalUncompressed + totalSize fs \<le> uint maxBytes \<and> list_all (\<lambda>f. \<not> suspiciousRatio f) fs"
    and "\<not> IsBomb (inspectLoop maxBytes fs totalUncompressed res) \<Longrightarrow>
      uint (TotalUncompressedBytes (inspectLoop maxBytes fs totalUncompressed res)) = uint totalUncompressed + totalSize fs \<and>
      (IsEncrypted (inspectLoop maxBytes fs totalUncompressed res) \<longleftrightarrow>
         IsEncrypted res \<or> list_ex (\<lambda>f. Flags f AND 1 \<noteq> 0) fs)"
    by blast+
qed

text \<open>
  C25. The inspector accepts an archive exactly when it has at most \<open>MaxFiles\<close> entries,
  their declared sizes add up to at most \<open>MaxExtractMB\<close> MiB and no entry is suspiciously
  compressed, provided no declared size reaches \<open>2^62\<close>. Then it reports the exact total
  and whether any entry is encrypted.
\<close>

theorem InspectZip_accepts_iff:
  assumes "list_all smallEntry files" and "uint (MaxExtractMB limits) < 2 ^ 41"
    and "InspectZip limits (Inr files) = Inr res"
  shows "(\<not> IsBomb res \<longleftrightarrow>
            int (length files) \<le> MaxFiles limits \<and>
            totalSize files \<le> uint (MaxExtractMB limits) * 1048576 \<and>
            list_all (\<lambda>f. \<not> suspiciousRatio f) files) \<and>
    (IsBomb res \<or>
      uint (TotalUncompressedBytes res) = totalSize files \<and>
      (IsEncrypted res \<longleftrightarrow> list_ex (\<lambda>f. Flags f AND 1 \<noteq> 0) files))"
proof -
  define mb where "mb = MaxExtractMB limits * 1024 * 1024"
  let ?r0 = "\<lparr>IsBomb = False, BombReason = [], IsEncrypted = False,
               TotalFiles = length files, TotalUncompressedBytes = 0\<rparr>"
  have max: "uint mb = uint (MaxExtractMB limits) * 1048576"
    using assms(2) by (simp add: mb_def uint_word_ariths)
  then have "uint mb < 2 ^ 62" using assms(2) by simp
  note loop = inspectLoop_sound[OF assms(1) this, of 0 ?r0]
  show ?thesis
  proof (cases "int (length files) > MaxFiles limits")
    case True
    with assms(3) show ?thesis by (auto simp: InspectZip_def)
  next
    case False
    with assms(3) have "res = inspectLoop mb files 0 ?r0" by (simp add: InspectZip_def mb_def)
    with False loop show ?thesis by (auto simp: max)
  qed
qed

theorem InspectZip_accepts_iff_witness:
  "(\<not> IsBomb \<lparr>IsBomb = False, BombReason = [], IsEncrypted = True, TotalFiles = 1,
        TotalUncompressedBytes = 4096\<rparr> \<longleftrightarrow>
      int (length [\<lparr>Flags = 1, UncompressedSize64 = 4096, CompressedSize64 = 100\<rparr>]) \<le> 1000 \<and>
      totalSize [\<lparr>Flags = 1, UncompressedSize64 = 4096, CompressedSize64 = 100\<rparr>] \<le> 250 * 1048576 \<and>
      list_all (\<lambda>f. \<not> suspiciousRatio f)
        [\<lparr>Flags = 1, UncompressedSize64 = 4096, CompressedSize64 = 100\<rparr>])"
  using InspectZip_accepts_iff[of "[\<lparr>Flags = 1, UncompressedSize64 = 4096, CompressedSize64 = 100\<rparr>]"
      "NewArchiveInspector \<lparr>MaxRecursion = 0, MaxFiles = 0, MaxExtractMB = 0\<rparr>"
      "\<lparr>IsBomb = False, BombReason = [], IsEncrypted = True, TotalFiles = 1,
        TotalUncompressedBytes = 4096\<rparr>"]
  by (simp add: smallEntry_def NewArchiveInspector_def i64_less_def InspectZip_def suspiciousRatio_def)

subsection \<open>Sizes the check does not see\<close>

text \<open>A running total that has gone negative stays so while the declared sizes do not wrap around.\<close>

lemma i64_negative:
  fixes t maxBytes :: "64 word"
  assumes "2 ^ 63 \<le> uint t" and "uint maxBytes < 2 ^ 63"
  shows "sint t < 0" and "\<not> i64_less maxBytes t"
proof -
  have "sint t = uint t - 2 ^ 64"
  proof -
    have "(uint t - 2 ^ 63 + 2 ^ 64) mod 2 ^ 64 = uint t - 2 ^ 63"
      unfolding mod_add_self2 by (rule mod_pos_pos_trivial) (use assms(1) uint_lt2p[of t] in simp_all)
    moreover have "uint t - 2 ^ 63 + 2 ^ 64 = uint t + 2 ^ 63" by simp
    ultimately have "(uint t + 2 ^ 63) mod 2 ^ 64 = uint t - 2 ^ 63" by metis
    then show ?thesis by (simp add: sint_uint signed_take_bit_eq_take_bit_shift take_bit_eq_mod)
  qed
  then show neg: "sint t < 0" using uint_lt2p[of t] by simp
  have "0 \<le> sint maxBytes" using sint_small[OF assms(2)] by simp
  with neg show "\<not> i64_less maxBytes t" by (simp add: i64_less_def)
qed

lemma inspectLoop_negative:
  assumes "uint maxBytes < 2 ^ 63" and "2 ^ 63 \<le> uint t" and "uint t + totalSize fs < 2 ^ 64"
    and "list_all (\<lambda>f. \<not> suspiciousRatio f) fs" and "\<not> IsBomb res"
  shows "\<not> IsBomb (inspectLoop maxBytes fs t res) \<and>
    uint (TotalUncompressedBytes (inspectLoop maxBytes fs t res)) = uint t + totalSize fs"
  using assms(2-5)
proof (induction fs arbitrary: t res)
  case Nil
  then show ?case by (simp add: totalSize_def)
next
  case (Cons f fs)
  let ?t = "t + UncompressedSize64 f"
  have t: "uint ?t = uint t + uint (UncompressedSize64 f)"
  proof -
    have "uint t + uint (UncompressedSize64 f) < 2 ^ 64"
      using Cons.prems(2) totalSize_nonneg[of fs] unfolding totalSize_Cons by linarith
    then show ?thesis by (simp add: uint_word_ariths mod_pos_pos_trivial)
  qed
  have "\<not> i64_less maxBytes ?t"
    using i64_negative(2)[OF _ assms(1), of ?t] Cons.prems(1) t by (simp add: add_increasing2)
  moreover have "2 ^ 63 \<le> uint ?t" using Cons.prems(1) unfolding t by (rule order_trans) simp
  ultimately show ?case using Cons.IH[of ?t] Cons.prems t by (simp add: Let_def add.assoc)
qed

text \<open>
  C29. The size check is blind above \<open>2^63\<close>. Whatever the size limit, an archive whose first
  entry declares \<open>2^63\<close> bytes or more is not rejected for its size, as long as the declared
  sizes add up to less than \<open>2^64\<close>: converted to a signed integer the running total is
  negative. When its entries also pass the ratio test, which skips entries that declare no
  compressed size, and are not too many, the archive is accepted with a negative total.
\<close>

theorem InspectZip_size_bypass:
  assumes "2 ^ 63 \<le> uint (UncompressedSize64 f)" and "totalSize (f # fs) < 2 ^ 64"
    and "list_all (\<lambda>f. \<not> suspiciousRatio f) (f # fs)" and "int (length (f # fs)) \<le> MaxFiles limits"
    and "uint (MaxExtractMB limits) < 2 ^ 43"
  shows "\<exists>res. InspectZip limits (Inr (f # fs)) = Inr res \<and> \<not> IsBomb res \<and>
    sint (TotalUncompressedBytes res) < 0 \<and> uint (TotalUncompressedBytes res) = totalSize (f # fs)"
proof -
  define mb where "mb = MaxExtractMB limits * 1024 * 1024"
  let ?r0 = "\<lparr>IsBomb = False, BombReason = [], IsEncrypted = False,
               TotalFiles = length (f # fs), TotalUncompressedBytes = 0\<rparr>"
  have mb: "uint mb < 2 ^ 63" using assms(5) by (simp add: mb_def uint_word_ariths)
  define res where "res = inspectLoop mb (f # fs) 0 ?r0"
  have "\<not> i64_less mb (UncompressedSize64 f)" by (rule i64_negative(2)[OF assms(1) mb])
  then have res: "\<not> IsBomb res \<and> uint (TotalUncompressedBytes res) = totalSize (f # fs)"
    using inspectLoop_negative[OF mb assms(1), of fs] assms(2,3) by (simp add: res_def Let_def)
  moreover have "2 ^ 63 \<le> totalSize (f # fs)"
    using assms(1) totalSize_nonneg[of fs] unfolding totalSize_Cons by linarith
  then have "sint (TotalUncompressedBytes res) < 0" using i64_negative(1)[OF _ mb] res by simp
  moreover have "InspectZip limits (Inr (f # fs)) = Inr res"
    using assms(4) unfolding InspectZip_def res_def mb_def by (simp del: inspectLoop.simps)
  ultimately show ?thesis by blast
qed

theorem InspectZip_size_bypass_witness:
  "\<exists>res. InspectZip (NewArchiveInspector \<lparr>MaxRecursion = 0, MaxFiles = 0, MaxExtractMB = 0\<rparr>)
     (Inr [\<lparr>Flags = 0, UncompressedSize64 = 2 ^ 63, CompressedSize64 = 0\<rparr>,
       \<lparr>Flags = 0, UncompressedSize64 = 5, CompressedSize64 = 5\<rparr>]) = Inr res \<and> \<not> IsBomb res"
  using InspectZip_size_bypass[of "\<lparr>Flags = 0, UncompressedSize64 = 2 ^ 63, CompressedSize64 = 0\<rparr>"
      "[\<lparr>Flags = 0, UncompressedSize64 = 5, CompressedSize64 = 5\<rparr>]"
      "NewArchiveInspector \<lparr>MaxRecursion = 0, MaxFiles = 0, MaxExtractMB = 0\<rparr>"]
  by (auto simp: NewArchiveInspector_def suspiciousRatio_def totalSize_def i64_less_def Let_def)

end
