(* ===== verification/YaraValidator.thy ===== *)
theory YaraValidator
  imports GoStrings
begin

text \<open>
  The rule validator of \<open>internal/yara/validator.go\<close>: the two regular expressions as
  recognisers, the brace counter as the state machine the code runs over the bytes, and
  \<open>ValidateRule\<close> with its errors in the code's order. The counter is proved equal to
  counting the braces of the text without its comments and string literals.
\<close>

definition wordChar :: "char \<Rightarrow> bool" where
  "wordChar c \<longleftrightarrow>
     (let n = of_char c :: nat
      in (97 \<le> n \<and> n \<le> 122) \<or> (65 \<le> n \<and> n \<le> 90) \<or> (48 \<le> n \<and> n \<le> 57) \<or> n = 95)"

definition reSpace :: "char \<Rightarrow> bool" where
  "reSpace c \<longleftrightarrow> c \<in> set [CHR 0x09, CHR 0x0A, CHR 0x0C, CHR 0x0D, CHR 0x20]"

text \<open>\<open>^[a-zA-Z0-9_]{1,64}$\<close>\<close>

definition ruleNameRegex :: "string \<Rightarrow> bool" where
  "ruleNameRegex s \<longleftrightarrow> 1 \<le> length s \<and> length s \<le> 64 \<and> list_all wordChar s"

text \<open>\<open>\brule\s+([a-zA-Z0-9_]+)\<close>; \<open>w\<close> says whether the previous byte is a word character.\<close>

definition ruleDeclHere :: "string \<Rightarrow> bool" where
  "ruleDeclHere s \<longleftrightarrow>
     HasPrefix s ''rule'' \<and>
     (let r = drop 4 s; r' = dropWhile reSpace r
      in r \<noteq> [] \<and> reSpace (hd r) \<and> r' \<noteq> [] \<and> wordChar (hd r'))"

fun ruleDeclFrom :: "bool \<Rightarrow> string \<Rightarrow> bool" where
  "ruleDeclFrom w [] = False"
| "ruleDeclFrom w (c # s) = ((\<not> w \<and> ruleDeclHere (c # s)) \<or> ruleDeclFrom (wordChar c) s)"

definition ruleDeclRegex :: "string \<Rightarrow> bool" where
  "ruleDeclRegex s = ruleDeclFrom False s"

subsection \<open>The brace counter\<close>

fun countLoop :: "bool \<Rightarrow> bool \<Rightarrow> bool \<Rightarrow> bool \<Rightarrow> nat \<Rightarrow> nat \<Rightarrow> string \<Rightarrow> nat \<times> nat" where
  "countLoop inString inLine inBlock escaped opened closed [] = (opened, closed)"
| "countLoop inString inLine inBlock escaped opened closed (c # s) =
     (if inLine then
        countLoop inString (c \<noteq> CHR 0x0A) inBlock escaped opened closed s
      else if inBlock then
        (if c = CHR ''*'' \<and> s \<noteq> [] \<and> hd s = CHR ''/''
         then countLoop inString inLine False escaped opened closed (tl s)
         else countLoop inString inLine inBlock escaped opened closed s)
      else if inString then
        (if escaped then countLoop inString inLine inBlock False opened closed s
         else if c = CHR 0x5C then countLoop inString inLine inBlock True opened closed s
         else if c = CHR 0x22 then countLoop False inLine inBlock escaped opened closed s
         else countLoop inString inLine inBlock escaped opened closed s)
      else if c = CHR ''/'' \<and> s \<noteq> [] \<and> hd s = CHR ''/'' then
        countLoop inString True inBlock escaped opened closed (tl s)
      else if c = CHR ''/'' \<and> s \<noteq> [] \<and> hd s = CHR ''*'' then
        countLoop inString inLine True escaped opened closed (tl s)
      else if c = CHR 0x22 then countLoop True inLine inBlock False opened closed s
      else if c = CHR ''{'' then countLoop inString inLine inBlock escaped (opened + 1) closed s
      else if c = CHR ''}'' then countLoop inString inLine inBlock escaped opened (closed + 1) s
      else countLoop inString inLine inBlock escaped opened closed s)"

definition countBraces :: "string \<Rightarrow> nat \<times> nat" where
  "countBraces s = countLoop False False False False 0 0 s"

definition ValidateRule :: "string \<Rightarrow> string \<Rightarrow> unit res" where
  "ValidateRule ruleName content =
     (let trimmedName = TrimSpace ruleName; trimmedContent = TrimSpace content in
      if trimmedName = [] then Inl (errorsNew ''rule name cannot be empty'')
      else if \<not> ruleNameRegex trimmedName then
        Inl (errorsNew (''invalid rule name '' @ [CHR 0x27] @ trimmedName @ [CHR 0x27] @
          '': must contain only alphanumeric characters and underscores (max 64 chars)''))
      else if trimmedContent = [] then Inl (errorsNew ''rule content cannot be empty'')
      else if \<not> ruleDeclRegex trimmedContent then
        Inl (errorsNew (''rule content must contain a valid '' @ [CHR 0x27] @ ''rule <name>'' @
          [CHR 0x27] @ '' declaration''))
      else if \<not> Contains trimmedContent ''condition:'' then
        Inl (errorsNew (''rule content must contain a '' @ [CHR 0x27] @ ''condition:'' @
          [CHR 0x27] @ '' section''))
      else
        let (openBraces, closeBraces) = countBraces trimmedContent in
        if openBraces = 0 \<or> openBraces \<noteq> closeBraces then
          Inl (errorsNew (''unbalanced braces '' @ [CHR 0x27] @ ''{'' @ [CHR 0x27] @ '' and '' @
            [CHR 0x27] @ ''}'' @ [CHR 0x27] @ '' in YARA rule''))
        else Inr ())"

subsection \<open>The counter against a reference reading of the text\<close>

fun afterLine :: "string \<Rightarrow> string" where
  "afterLine [] = []"
| "afterLine (c # s) = (if c = CHR 0x0A then s else afterLine s)"

fun afterBlock :: "string \<Rightarrow> string" where
  "afterBlock (CHR ''*'' # CHR ''/'' # s) = s"
| "afterBlock (c # s) = afterBlock s"
| "afterBlock [] = []"

fun afterString :: "string \<Rightarrow> string" where
  "afterString [] = []"
| "afterString (c # s) =
     (if c = CHR 0x5C then afterString (tl s) else if c = CHR 0x22 then s else afterString s)"

lemma length_afterLine: "length (afterLine s) \<le> length s"
  by (induction s) auto

lemma length_afterBlock: "length (afterBlock s) \<le> length s"
  by (induction s rule: afterBlock.induct) auto

lemma length_afterString: "length (afterString s) \<le> length s"
  by (induction s rule: afterString.induct) (auto intro: le_SucI order_trans)

text \<open>The code of a rule: its text without comments and string literals.\<close>

function codeOf :: "string \<Rightarrow> string" where
  "codeOf [] = []"
| "codeOf (c # s) =
     (if c = CHR ''/'' \<and> s \<noteq> [] \<and> hd s = CHR ''/'' then codeOf (afterLine (tl s))
      else if c = CHR ''/'' \<and> s \<noteq> [] \<and> hd s = CHR ''*'' then codeOf (afterBlock (tl s))
      else if c = CHR 0x22 then codeOf (afterString s)
      else c # codeOf s)"
  by pat_completeness auto
termination
  by (relation "measure length")
    (auto simp: less_Suc_eq_le intro: length_afterString order_trans[OF length_afterLine]
      order_trans[OF length_afterBlock])

declare codeOf.simps(2) [simp del]

lemma countLoop_line:
  "countLoop False True False esc m n s = countLoop False False False esc m n (afterLine s)"
  by (induction s) auto

lemma afterBlock_skip:
  "\<not> (c = CHR ''*'' \<and> t \<noteq> [] \<and> hd t = CHR ''/'') \<Longrightarrow> afterBlock (c # t) = afterBlock t"
  by (cases "c # t" rule: afterBlock.cases) auto

lemma countLoop_block:
  "countLoop False False True esc m n s = countLoop False False False esc m n (afterBlock s)"
proof (induction s)
  case (Cons c t)
  then show ?case by (cases t; cases "c = CHR ''*'' \<and> t \<noteq> [] \<and> hd t = CHR ''/''") (auto simp: afterBlock_skip)
qed auto


text \<open>Outside string literals the escape flag is dead: entering a literal resets it.\<close>

lemma countLoop_escaped:
  "countLoop False l b e m n s = countLoop False l b False m n s"
proof (induction s arbitrary: l b m n rule: length_induct)
  case (1 s)
  then show ?case
    by (cases s) (auto simp: neq_Nil_conv)
qed

lemma countLoop_string:
  "countLoop True False False e m n s =
     countLoop False False False False m n (if e then afterString (tl s) else afterString s)"
proof (induction s arbitrary: e rule: length_induct)
  case (1 s)
  show ?case
  proof (cases s)
    case Nil
    then show ?thesis by (simp split: if_splits)
  next
    case (Cons c t)
    with "1.IH" show ?thesis using countLoop_escaped[of False False e m n t]
      by (cases t) auto
  qed
qed

lemma countLoop_codeOf:
  "countLoop False False False False m n s =
     (m + count_list (codeOf s) (CHR ''{''), n + count_list (codeOf s) (CHR ''}''))"
proof (induction s arbitrary: m n rule: codeOf.induct)
  case 1
  then show ?case by simp
next
  case (2 c s)
  then show ?case
    by (auto simp: codeOf.simps(2)[of c s] countLoop_line countLoop_block countLoop_string)
qed

text \<open>
  C24. The one-pass counter with its four flags counts exactly the braces of the rule
  text from which line comments, block comments and string literals have been removed.
\<close>

theorem countBraces_codeOf:
  "countBraces s = (count_list (codeOf s) (CHR ''{''), count_list (codeOf s) (CHR ''}''))"
  by (simp add: countBraces_def countLoop_codeOf)

text \<open>Braces in comments and strings are skipped.\<close>

lemma countBraces_example:
  "countBraces (''rule a { strings: $a = '' @ [CHR 0x22] @ ''}'' @ [CHR 0x5C, CHR 0x22] @ ''}'' @ [CHR 0x22] @
     '' /* { */ condition: $a } // }'') = (1, 1)"
  by (simp add: countBraces_def)

subsection \<open>What a validated rule satisfies\<close>

text \<open>Trimming removes white space bytes only, so other bytes of a name survive it.\<close>

lemma trimLeftBy_keeps:
  "x \<in> set s \<Longrightarrow> (\<And>t. t \<in> set toks \<Longrightarrow> x \<notin> set t) \<Longrightarrow> x \<in> set (trimLeftBy toks s)"
proof (induction toks s rule: trimLeftBy.induct)
  case (1 toks s)
  show ?case
  proof (cases "find (\<lambda>t. t \<noteq> [] \<and> HasPrefix s t) toks")
    case None
    with 1 show ?thesis by (subst trimLeftBy.simps) simp
  next
    case (Some t)
    then have t: "t \<in> set toks" "HasPrefix s t" by (auto simp: find_Some_iff)
    then obtain u where "s = t @ u" by (auto simp: HasPrefix_iff)
    with 1 Some t have "x \<in> set (trimLeftBy toks (drop (length t) s))" by auto
    with Some show ?thesis by (subst trimLeftBy.simps) simp
  qed
qed

lemma TrimSpace_keeps:
  assumes "x \<in> set s" "\<And>t. t \<in> set goSpaces \<Longrightarrow> x \<notin> set t"
  shows "x \<in> set (TrimSpace s)"
  unfolding TrimSpace_def using assms by (auto intro!: trimLeftBy_keeps)

lemma graphic_not_space: "graphic x \<Longrightarrow> t \<in> set goSpaces \<Longrightarrow> x \<notin> set t"
  by (auto simp: goSpaces_def graphic_def)

lemma ValidateRule_ok:
  "ValidateRule ruleName content = Inr () \<longleftrightarrow>
     ruleNameRegex (TrimSpace ruleName) \<and> ruleDeclRegex (TrimSpace content) \<and>
     Contains (TrimSpace content) ''condition:'' \<and>
     0 < fst (countBraces (TrimSpace content)) \<and>
     fst (countBraces (TrimSpace content)) = snd (countBraces (TrimSpace content))"
  by (auto simp: ValidateRule_def Let_def ruleNameRegex_def ruleDeclRegex_def split: prod.splits if_splits)

lemma validated_name_chars:
  assumes "ValidateRule ruleName content = Inr ()" and "graphic x" and "\<not> wordChar x"
  shows "x \<notin> set ruleName"
proof
  assume "x \<in> set ruleName"
  with assms(2) graphic_not_space have "x \<in> set (TrimSpace ruleName)"
    by (intro TrimSpace_keeps) blast+
  with assms show False by (auto simp: ValidateRule_ok ruleNameRegex_def list_all_iff)
qed

text \<open>
  A validated rule name cannot leave the rules directory: it contains no path
  separator, no dot and no backslash, although only the trimmed name is matched against the
  pattern and the untrimmed name is used for the file.
\<close>

theorem validated_name_safe:
  assumes "ValidateRule ruleName content = Inr ()"
  shows "CHR ''/'' \<notin> set ruleName \<and> CHR ''.'' \<notin> set ruleName \<and> CHR 0x5C \<notin> set ruleName"
  using validated_name_chars[OF assms] by (simp add: graphic_def wordChar_def)

theorem validated_name_safe_witness:
  "ValidateRule '' ab '' ''rule ab { condition: true }'' = Inr () \<and>
   CHR ''/'' \<notin> set '' ab '' \<and> CHR ''.'' \<notin> set '' ab '' \<and> CHR 0x5C \<notin> set '' ab ''"
proof -
  have "ValidateRule '' ab '' ''rule ab { condition: true }'' = Inr ()" by code_simp
  with validated_name_safe[OF this] show ?thesis by blast
qed

text \<open>
  The validator counts braces but does not match them: a text whose braces close
  before they open is accepted as balanced.
\<close>

theorem ValidateRule_accepts_crossed_braces:
  "ValidateRule ''x'' ''} rule x condition: {'' = Inr ()"
  by code_simp

end
