(* ===== verification/Storage.thy ===== *)
theory Storage
  imports GoTime
begin

text \<open>
  The SQLite layer of \<open>internal/storage/sqlite.go\<close>. A table is the list of its rows in
  insertion order; each SQL statement of the code is one \<open>exec\<close> or \<open>query\<close> with the
  documented meaning of that statement: primary keys and UNIQUE columns reject duplicates,
  \<open>INSERT OR REPLACE\<close> and \<open>ON CONFLICT\<close> overwrite, \<open>ORDER BY ... DESC\<close> sorts, \<open>LIMIT\<close> and
  \<open>OFFSET\<close> cut a page. The driver may refuse any statement: \<open>stmt_fault\<close> gives, for the
  \<open>n\<close>-th statement issued, the error it returns, and then the tables are unchanged.
  Operations that read the clock take the instant they read.

  Times are stored as RFC 3339 texts in UTC, so a stored time is \<open>truncSec\<close> of the time
  given. NULL text columns read back as the empty string, as \<open>sql.NullString\<close> gives.
\<close>

record ScanAuditLog =
  al_ID :: string
  al_Timestamp :: int
  al_ConsumerName :: string
  al_ClientIP :: string
  al_FileName :: string
  al_FileSizeBytes :: int
  al_FileSHA256 :: string
  al_Verdict :: string
  al_VirusName :: string
  al_ScanDurationMs :: int
  al_QuarantineID :: string

record AuditFilter =
  f_Verdict :: string
  f_ConsumerName :: string
  f_From :: "int option"
  f_To :: "int option"
  f_Limit :: int
  f_Offset :: int

record QuarantineRecord =
  q_ID :: string
  q_OriginalFilename :: string
  q_FileSizeBytes :: int
  q_FileSHA256 :: string
  q_VirusName :: string
  q_SourceConsumer :: string
  q_StoredPath :: string
  q_Status :: string
  q_CreatedAt :: int
  q_ExpiresAt :: int
  q_RestoredAt :: "int option"
  q_RestoredBy :: string
  q_RestoreReason :: string

record YARARule =
  y_ID :: string
  y_RuleName :: string
  y_Description :: string
  y_Content :: string
  y_Author :: string
  y_IsActive :: bool
  y_CreatedAt :: int
  y_UpdatedAt :: int

record ScanJob =
  j_ID :: string
  j_FileName :: string
  j_FileSize :: int
  j_FileSHA256 :: string
  j_CallbackURL :: string
  j_Consumer :: string
  j_Status :: string
  j_Verdict :: string
  j_VirusName :: string
  j_ErrorMsg :: string
  j_CreatedAt :: int
  j_UpdatedAt :: int

record WhitelistRow =
  w_Hash :: string
  w_Description :: string
  w_AddedBy :: string
  w_CreatedAt :: int

record SettingRow =
  s_Key :: string
  s_Value :: string
  s_UpdatedAt :: int

record SystemStats =
  TotalScans :: nat
  CleanScans :: nat
  InfectedScans :: nat
  Quarantined :: nat

text \<open>The schema of \<open>migrate\<close>: six tables, and the statement counter with its oracle.\<close>

record database =
  scan_audit_logs :: "ScanAuditLog list"
  quarantine_records :: "QuarantineRecord list"
  whitelist_signatures :: "WhitelistRow list"
  system_settings :: "SettingRow list"
  yara_rules :: "YARARule list"
  scan_jobs :: "ScanJob list"
  stmt_no :: nat
  stmt_fault :: "nat \<Rightarrow> goerr option"

definition emptyDB :: "(nat \<Rightarrow> goerr option) \<Rightarrow> database" where
  "emptyDB faults = \<lparr>scan_audit_logs = [], quarantine_records = [], whitelist_signatures = [],
     system_settings = [], yara_rules = [], scan_jobs = [], stmt_no = 0, stmt_fault = faults\<rparr>"

subsection \<open>Statements\<close>

definition exec :: "(database \<Rightarrow> database res) \<Rightarrow> (database, unit res) state" where
  "exec f = State (\<lambda>d.
     let d1 = d\<lparr>stmt_no := Suc (stmt_no d)\<rparr> in
     case stmt_fault d (stmt_no d) of
       Some e \<Rightarrow> (Inl e, d1)
     | None \<Rightarrow> (case f d1 of Inl e \<Rightarrow> (Inl e, d1) | Inr d2 \<Rightarrow> (Inr (), d2)))"

definition query :: "(database \<Rightarrow> 'a res) \<Rightarrow> (database, 'a res) state" where
  "query f = State (\<lambda>d.
     let d1 = d\<lparr>stmt_no := Suc (stmt_no d)\<rparr> in
     case stmt_fault d (stmt_no d) of
       Some e \<Rightarrow> (Inl e, d1)
     | None \<Rightarrow> (f d1, d1))"

definition uniqueErr :: "string \<Rightarrow> goerr" where
  "uniqueErr col = errorsNew (''constraint failed: UNIQUE constraint failed: '' @ col)"

definition noRows :: goerr where
  "noRows = Err ''sql: no rows in result set'' [ErrNoRows]"

definition page :: "int \<Rightarrow> int \<Rightarrow> 'a list \<Rightarrow> 'a list" where
  "page limit offset xs = take (nat limit) (drop (nat offset) xs)"

definition orderDesc :: "('a \<Rightarrow> int) \<Rightarrow> 'a list \<Rightarrow> 'a list" where
  "orderDesc key xs = sort_key (\<lambda>x. - key x) xs"

subsection \<open>Audit logs\<close>

definition InsertScanAuditLog :: "ScanAuditLog \<Rightarrow> (database, unit res) state" where
  "InsertScanAuditLog l = exec (\<lambda>d.
     if list_ex (\<lambda>r. al_ID r = al_ID l) (scan_audit_logs d)
     then Inl (uniqueErr ''scan_audit_logs.id'')
     else Inr (d\<lparr>scan_audit_logs := scan_audit_logs d @ [l\<lparr>al_Timestamp := truncSec (al_Timestamp l)\<rparr>]\<rparr>))"

definition matchesFilter :: "AuditFilter \<Rightarrow> ScanAuditLog \<Rightarrow> bool" where
  "matchesFilter f l \<longleftrightarrow>
     (f_Verdict f \<noteq> [] \<longrightarrow> al_Verdict l = f_Verdict f) \<and>
     (f_ConsumerName f \<noteq> [] \<longrightarrow> al_ConsumerName l = f_ConsumerName f) \<and>
     (case f_From f of None \<Rightarrow> True | Some t \<Rightarrow> al_Timestamp l \<ge> truncSec t) \<and>
     (case f_To f of None \<Rightarrow> True | Some t \<Rightarrow> al_Timestamp l \<le> truncSec t)"

definition ListScanAuditLogs :: "AuditFilter \<Rightarrow> (database, (ScanAuditLog list \<times> nat) res) state" where
  "ListScanAuditLogs f0 =
     (let f = (if f_Limit f0 \<le> 0 then f0\<lparr>f_Limit := 50\<rparr> else f0) in
      tryRes (query (\<lambda>d. Inr (length (filter (matchesFilter f) (scan_audit_logs d))))) id (\<lambda>n.
      tryRes (query (\<lambda>d. Inr (page (f_Limit f) (f_Offset f)
          (orderDesc al_Timestamp (filter (matchesFilter f) (scan_audit_logs d)))))) id (\<lambda>logs.
      ret (Inr (logs, n)))))"

text \<open>
  The statement compares RFC 3339 texts; for thresholds up to the year 9999 they are ordered
  like the instants, which the model compares.
\<close>

definition PurgeAuditLogs :: "int \<Rightarrow> int \<Rightarrow> (database, nat res) state" where
  "PurgeAuditLogs now retentionDays =
     (let threshold = truncSec (now - retentionDays * dayNs) in do {
        n \<leftarrow> asks (\<lambda>d. length (filter (\<lambda>l. al_Timestamp l < threshold) (scan_audit_logs d)));
        r \<leftarrow> exec (\<lambda>d. Inr (d\<lparr>scan_audit_logs :=
               filter (\<lambda>l. \<not> al_Timestamp l < threshold) (scan_audit_logs d)\<rparr>));
        ret (case r of Inl e \<Rightarrow> Inl e | Inr _ \<Rightarrow> Inr n) })"

subsection \<open>Quarantine records and whitelist\<close>

definition InsertQuarantineRecord :: "QuarantineRecord \<Rightarrow> (database, unit res) state" where
  "InsertQuarantineRecord q = exec (\<lambda>d.
     if list_ex (\<lambda>r. q_ID r = q_ID q) (quarantine_records d)
     then Inl (uniqueErr ''quarantine_records.id'')
     else Inr (d\<lparr>quarantine_records := quarantine_records d @
       [q\<lparr>q_CreatedAt := truncSec (q_CreatedAt q), q_ExpiresAt := truncSec (q_ExpiresAt q),
          q_RestoredAt := None, q_RestoredBy := [], q_RestoreReason := []\<rparr>]\<rparr>))"

definition GetQuarantineRecord :: "string \<Rightarrow> (database, QuarantineRecord res) state" where
  "GetQuarantineRecord i = do {
     r \<leftarrow> query (\<lambda>d. case find (\<lambda>q. q_ID q = i) (quarantine_records d) of
            None \<Rightarrow> Inl noRows | Some q \<Rightarrow> Inr q);
     ret (case r of
            Inl e \<Rightarrow> if errorsIs e ErrNoRows then Inl (errorsNew ''quarantine record not found'') else Inl e
          | Inr q \<Rightarrow> Inr q) }"

definition IsWhitelisted :: "string \<Rightarrow> (database, bool res) state" where
  "IsWhitelisted h = query (\<lambda>d. Inr (list_ex (\<lambda>r. w_Hash r = h) (whitelist_signatures d)))"

definition AddWhitelist :: "int \<Rightarrow> string \<Rightarrow> string \<Rightarrow> string \<Rightarrow> (database, unit res) state" where
  "AddWhitelist now h description addedBy = exec (\<lambda>d. Inr (d\<lparr>whitelist_signatures :=
     filter (\<lambda>r. w_Hash r \<noteq> h) (whitelist_signatures d) @
     [\<lparr>w_Hash = h, w_Description = description, w_AddedBy = addedBy, w_CreatedAt = truncSec now\<rparr>]\<rparr>))"

definition RemoveWhitelist :: "string \<Rightarrow> (database, unit res) state" where
  "RemoveWhitelist h = exec (\<lambda>d. Inr (d\<lparr>whitelist_signatures :=
     filter (\<lambda>r. w_Hash r \<noteq> h) (whitelist_signatures d)\<rparr>))"

definition setRestored :: "int \<Rightarrow> string \<Rightarrow> string \<Rightarrow> string \<Rightarrow> QuarantineRecord \<Rightarrow> QuarantineRecord" where
  "setRestored now restoredBy reason i q =
     (if q_ID q = i then q\<lparr>q_Status := ''RESTORED'', q_RestoredAt := Some (truncSec now),
        q_RestoredBy := restoredBy, q_RestoreReason := reason\<rparr> else q)"

definition RestoreQuarantineRecord ::
  "int \<Rightarrow> int \<Rightarrow> string \<Rightarrow> string \<Rightarrow> string \<Rightarrow> bool \<Rightarrow> (database, unit res) state" where
  "RestoreQuarantineRecord now now2 i restoredBy reason autoWhitelist =
     tryRes (GetQuarantineRecord i) id (\<lambda>rec.
     tryRes (exec (\<lambda>d. Inr (d\<lparr>quarantine_records :=
         map (setRestored now restoredBy reason i) (quarantine_records d)\<rparr>))) id (\<lambda>_.
     if autoWhitelist \<and> q_FileSHA256 rec \<noteq> []
     then AddWhitelist now2 (q_FileSHA256 rec) (''Auto-whitelisted on restore: '' @ reason) restoredBy
     else ret (Inr ())))"

definition ListQuarantineRecords ::
  "int \<Rightarrow> int \<Rightarrow> string \<Rightarrow> (database, (QuarantineRecord list \<times> nat) res) state" where
  "ListQuarantineRecords limit0 offset status =
     (let limit1 = (if limit0 \<le> 0 then 50 else limit0);
          limit = (if limit1 > 100 then 100 else limit1);
          sel = (\<lambda>q. if status \<noteq> [] \<and> status \<noteq> ''ALL'' then q_Status q = status else True) in
      tryRes (query (\<lambda>d. Inr (length (filter sel (quarantine_records d))))) id (\<lambda>n.
      tryRes (query (\<lambda>d. Inr (page limit offset
          (orderDesc q_CreatedAt (filter sel (quarantine_records d)))))) id (\<lambda>records.
      ret (Inr (records, n)))))"

definition DeleteQuarantineRecord :: "string \<Rightarrow> (database, unit res) state" where
  "DeleteQuarantineRecord i = exec (\<lambda>d. Inr (d\<lparr>quarantine_records :=
     filter (\<lambda>q. q_ID q \<noteq> i) (quarantine_records d)\<rparr>))"

subsection \<open>System settings and statistics\<close>

definition GetSystemSetting :: "string \<Rightarrow> (database, string res) state" where
  "GetSystemSetting k = do {
     r \<leftarrow> query (\<lambda>d. case find (\<lambda>s. s_Key s = k) (system_settings d) of
            None \<Rightarrow> Inl noRows | Some s \<Rightarrow> Inr (s_Value s));
     ret (case r of Inl e \<Rightarrow> if errorsIs e ErrNoRows then Inr [] else Inl e | Inr v \<Rightarrow> Inr v) }"

definition upsertSetting :: "SettingRow \<Rightarrow> SettingRow list \<Rightarrow> SettingRow list" where
  "upsertSetting s rows =
     (if list_ex (\<lambda>r. s_Key r = s_Key s) rows
      then map (\<lambda>r. if s_Key r = s_Key s then s else r) rows else rows @ [s])"

definition SetSystemSetting :: "int \<Rightarrow> string \<Rightarrow> string \<Rightarrow> (database, unit res) state" where
  "SetSystemSetting now k v = exec (\<lambda>d. Inr (d\<lparr>system_settings :=
     upsertSetting \<lparr>s_Key = k, s_Value = v, s_UpdatedAt = truncSec now\<rparr> (system_settings d)\<rparr>))"

definition countOr0 :: "(database \<Rightarrow> nat) \<Rightarrow> (database, nat) state" where
  "countOr0 f = do { r \<leftarrow> query (\<lambda>d. Inr (f d)); ret (okOr 0 r) }"

definition GetSystemStats :: "(database, SystemStats res) state" where
  "GetSystemStats = do {
     a \<leftarrow> countOr0 (\<lambda>d. length (scan_audit_logs d));
     b \<leftarrow> countOr0 (\<lambda>d. length (filter (\<lambda>l. al_Verdict l = ''CLEAN'') (scan_audit_logs d)));
     c \<leftarrow> countOr0 (\<lambda>d. length (filter (\<lambda>l. al_Verdict l = ''INFECTED'') (scan_audit_logs d)));
     q \<leftarrow> countOr0 (\<lambda>d. length (filter (\<lambda>r. q_Status r = ''QUARANTINED'') (quarantine_records d)));
     ret (Inr \<lparr>TotalScans = a, CleanScans = b, InfectedScans = c, Quarantined = q\<rparr>) }"

subsection \<open>YARA rules\<close>

definition InsertYARARule :: "YARARule \<Rightarrow> (database, unit res) state" where
  "InsertYARARule y = exec (\<lambda>d.
     if list_ex (\<lambda>r. y_ID r = y_ID y) (yara_rules d) then Inl (uniqueErr ''yara_rules.id'')
     else if list_ex (\<lambda>r. y_RuleName r = y_RuleName y) (yara_rules d)
     then Inl (uniqueErr ''yara_rules.rule_name'')
     else Inr (d\<lparr>yara_rules := yara_rules d @
       [y\<lparr>y_CreatedAt := truncSec (y_CreatedAt y), y_UpdatedAt := truncSec (y_UpdatedAt y)\<rparr>]\<rparr>))"

definition ListYARARules :: "(database, YARARule list res) state" where
  "ListYARARules = query (\<lambda>d. Inr (orderDesc y_CreatedAt (yara_rules d)))"

definition GetYARARule :: "string \<Rightarrow> (database, YARARule res) state" where
  "GetYARARule i = query (\<lambda>d. case find (\<lambda>y. y_ID y = i) (yara_rules d) of
     None \<Rightarrow> Inl noRows | Some y \<Rightarrow> Inr y)"

definition DeleteYARARule :: "string \<Rightarrow> (database, unit res) state" where
  "DeleteYARARule i = exec (\<lambda>d. Inr (d\<lparr>yara_rules := filter (\<lambda>y. y_ID y \<noteq> i) (yara_rules d)\<rparr>))"

subsection \<open>Scan jobs\<close>

definition InsertScanJob :: "ScanJob \<Rightarrow> (database, unit res) state" where
  "InsertScanJob j = exec (\<lambda>d.
     if list_ex (\<lambda>r. j_ID r = j_ID j) (scan_jobs d) then Inl (uniqueErr ''scan_jobs.id'')
     else Inr (d\<lparr>scan_jobs := scan_jobs d @
       [j\<lparr>j_CreatedAt := truncSec (j_CreatedAt j), j_UpdatedAt := truncSec (j_UpdatedAt j)\<rparr>]\<rparr>))"

definition GetScanJob :: "string \<Rightarrow> (database, ScanJob res) state" where
  "GetScanJob i = query (\<lambda>d. case find (\<lambda>j. j_ID j = i) (scan_jobs d) of
     None \<Rightarrow> Inl noRows | Some j \<Rightarrow> Inr j)"

definition setJobStatus ::
  "int \<Rightarrow> string \<Rightarrow> string \<Rightarrow> string \<Rightarrow> string \<Rightarrow> string \<Rightarrow> string \<Rightarrow> ScanJob \<Rightarrow> ScanJob" where
  "setJobStatus now i status verdict virusName errorMsg sha j =
     (if j_ID j = i then j\<lparr>j_Status := status, j_Verdict := verdict, j_VirusName := virusName,
        j_ErrorMsg := errorMsg, j_FileSHA256 := sha, j_UpdatedAt := truncSec now\<rparr> else j)"

definition UpdateScanJobStatus ::
  "int \<Rightarrow> string \<Rightarrow> string \<Rightarrow> string \<Rightarrow> string \<Rightarrow> string \<Rightarrow> string \<Rightarrow> (database, unit res) state" where
  "UpdateScanJobStatus now i status verdict virusName errorMsg sha = exec (\<lambda>d.
     Inr (d\<lparr>scan_jobs := map (setJobStatus now i status verdict virusName errorMsg sha) (scan_jobs d)\<rparr>))"

definition ListScanJobs :: "int \<Rightarrow> int \<Rightarrow> (database, (ScanJob list \<times> nat) res) state" where
  "ListScanJobs limit0 offset0 =
     (let limit = (if limit0 \<le> 0 then 50 else limit0); offset = (if offset0 < 0 then 0 else offset0) in do {
        n \<leftarrow> countOr0 (\<lambda>d. length (scan_jobs d));
        tryRes (query (\<lambda>d. Inr (page limit offset (orderDesc j_CreatedAt (scan_jobs d))))) id (\<lambda>jobs.
        ret (Inr (jobs, n))) })"

end
