(* ===== verification/StorageLaws.thy ===== *)
theory StorageLaws
  imports Storage "HOL-Library.Multiset"
begin

text \<open>
  What the storage layer promises. The locale \<open>record_store\<close> is the contract of the tables
  that are read by key (insert, lookup), \<open>deletable_store\<close> adds deletion; they are
  interpreted on the quarantine, YARA and job operations of the code. Then: unique primary
  keys after any sequence of operations, restoring, retention, paging and settings.
\<close>

definition ticked :: "database \<Rightarrow> database" where
  "ticked d = d\<lparr>stmt_no := Suc (stmt_no d)\<rparr>"

lemma run_exec [run_simps]:
  "run_state (exec f) d =
    (case stmt_fault d (stmt_no d) of
       Some e \<Rightarrow> (Inl e, ticked d)
     | None \<Rightarrow> (case f (ticked d) of Inl e \<Rightarrow> (Inl e, ticked d) | Inr d2 \<Rightarrow> (Inr (), d2)))"
  by (simp add: exec_def Let_def flip: ticked_def)

lemma run_query [run_simps]:
  "run_state (query f) d =
    (case stmt_fault d (stmt_no d) of
       Some e \<Rightarrow> (Inl e, ticked d) | None \<Rightarrow> (f (ticked d), ticked d))"
  by (simp add: query_def Let_def flip: ticked_def)

lemma ticked_simps [simp]:
  "scan_audit_logs (ticked d) = scan_audit_logs d"
  "quarantine_records (ticked d) = quarantine_records d"
  "whitelist_signatures (ticked d) = whitelist_signatures d"
  "system_settings (ticked d) = system_settings d"
  "yara_rules (ticked d) = yara_rules d"
  "scan_jobs (ticked d) = scan_jobs d"
  "stmt_no (ticked d) = Suc (stmt_no d)"
  "stmt_fault (ticked d) = stmt_fault d"
  by (simp_all add: ticked_def)

lemma find_append: "find P (xs @ ys) = (case find P xs of None \<Rightarrow> find P ys | Some x \<Rightarrow> Some x)"
  by (induction xs) auto

lemma find_filter_neg: "find P (filter (\<lambda>x. \<not> P x) xs) = None"
  by (induction xs) auto

subsection \<open>The contract of a keyed table\<close>

locale record_store =
  fixes rows :: "database \<Rightarrow> 'r list"
    and key :: "'r \<Rightarrow> string"
    and stored :: "'r \<Rightarrow> 'r"
    and ins :: "'r \<Rightarrow> (database, unit res) state"
    and get :: "string \<Rightarrow> (database, 'r res) state"
  assumes key_stored: "key (stored r) = key r"
    and ins_ok: "run_state (ins r) d = (Inr (), d') \<Longrightarrow>
      key r \<notin> key ` set (rows d) \<and> rows d' = rows d @ [stored r]"
    and ins_err: "run_state (ins r) d = (Inl e, d') \<Longrightarrow> rows d' = rows d"
    and get_rows: "run_state (get k) d = (res, d') \<Longrightarrow> rows d' = rows d"
    and get_ok: "run_state (get k) d = (Inr r, d') \<Longrightarrow> find (\<lambda>r. key r = k) (rows d) = Some r"
    and get_err: "run_state (get k) d = (Inl e, d') \<Longrightarrow> stmt_fault d (stmt_no d) = None \<Longrightarrow>
      find (\<lambda>r. key r = k) (rows d) = None"
begin

lemma find_after_insert:
  assumes "run_state (ins r) d = (Inr (), d')"
  shows "find (\<lambda>x. key x = key r) (rows d') = Some (stored r)"
proof -
  from ins_ok[OF assms] have "find (\<lambda>x. key x = key r) (rows d) = None"
    by (auto simp: find_None_iff image_iff)
  with ins_ok[OF assms] show ?thesis by (simp add: find_append key_stored)
qed

lemma get_after_insert:
  assumes "run_state (ins r) d = (Inr (), d1)"
  shows "run_state (get (key r)) d1 = (Inr r', d2) \<Longrightarrow> r' = stored r"
    and "run_state (get (key r)) d1 = (Inl e, d2) \<Longrightarrow> stmt_fault d1 (stmt_no d1) \<noteq> None"
  using find_after_insert[OF assms] get_ok[of "key r" d1] get_err[of "key r" d1] by fastforce+

lemma find_other_after_insert:
  assumes "run_state (ins r) d = (Inr (), d')" "k \<noteq> key r"
  shows "find (\<lambda>x. key x = k) (rows d') = find (\<lambda>x. key x = k) (rows d)"
  using ins_ok[OF assms(1)] assms(2) by (simp add: find_append key_stored split: option.split)

lemma insert_twice_fails:
  assumes "run_state (ins r) d = (Inr (), d1)" "rows d2 = rows d1" "key r' = key r"
  shows "isErr (fst (run_state (ins r') d2))"
proof (rule ccontr)
  assume "\<not> isErr (fst (run_state (ins r') d2))"
  then obtain d3 where "run_state (ins r') d2 = (Inr (), d3)"
    by (cases "run_state (ins r') d2") (auto simp: not_isErr_iff)
  from ins_ok[OF this] ins_ok[OF assms(1)] assms(2,3) show False by (simp add: key_stored)
qed

lemma distinct_ins:
  assumes "distinct (map key (rows d))"
  shows "distinct (map key (rows (snd (run_state (ins r) d))))"
proof (cases "run_state (ins r) d")
  case (Pair res d')
  show ?thesis
  proof (cases res)
    case (Inl e)
    with Pair ins_err[of r d e d'] assms show ?thesis by simp
  next
    case (Inr u)
    with Pair ins_ok[of r d d'] assms show ?thesis by (auto simp: key_stored)
  qed
qed

end

locale deletable_store = record_store rows key stored ins get
  for rows :: "database \<Rightarrow> 'r list" and key stored ins get +
  fixes del :: "string \<Rightarrow> (database, unit res) state"
  assumes del_ok: "run_state (del k) d = (Inr (), d') \<Longrightarrow>
      rows d' = filter (\<lambda>r. key r \<noteq> k) (rows d)"
    and del_err: "run_state (del k) d = (Inl e, d') \<Longrightarrow> rows d' = rows d"
begin

lemma get_after_delete:
  assumes "run_state (del k) d = (Inr (), d1)"
  shows "isErr (fst (run_state (get k) d1))"
proof (rule ccontr)
  assume "\<not> isErr (fst (run_state (get k) d1))"
  then obtain r d2 where "run_state (get k) d1 = (Inr r, d2)"
    by (cases "run_state (get k) d1") (auto simp: not_isErr_iff)
  from get_ok[OF this] del_ok[OF assms] show False
    by (simp add: find_filter_neg)
qed

lemma insert_delete:
  assumes "run_state (ins r) d = (Inr (), d1)" "run_state (del (key r)) d1 = (Inr (), d2)"
  shows "rows d2 = rows d"
proof -
  have "filter (\<lambda>x. key x \<noteq> key r) (rows d) = rows d"
    using ins_ok[OF assms(1)] by (auto simp: filter_id_conv image_iff)
  then show ?thesis
    using ins_ok[OF assms(1)] del_ok[OF assms(2)] by (simp add: key_stored)
qed

end

definition storedQuarantine :: "QuarantineRecord \<Rightarrow> QuarantineRecord" where
  "storedQuarantine q = q\<lparr>q_CreatedAt := truncSec (q_CreatedAt q),
     q_ExpiresAt := truncSec (q_ExpiresAt q),
     q_RestoredAt := None, q_RestoredBy := [], q_RestoreReason := []\<rparr>"

definition storedRule :: "YARARule \<Rightarrow> YARARule" where
  "storedRule y = y\<lparr>y_CreatedAt := truncSec (y_CreatedAt y), y_UpdatedAt := truncSec (y_UpdatedAt y)\<rparr>"

definition storedJob :: "ScanJob \<Rightarrow> ScanJob" where
  "storedJob j = j\<lparr>j_CreatedAt := truncSec (j_CreatedAt j), j_UpdatedAt := truncSec (j_UpdatedAt j)\<rparr>"

interpretation quar: deletable_store quarantine_records q_ID storedQuarantine
    InsertQuarantineRecord GetQuarantineRecord DeleteQuarantineRecord
  by unfold_locales
    (auto simp: InsertQuarantineRecord_def GetQuarantineRecord_def DeleteQuarantineRecord_def
      storedQuarantine_def run_simps list_ex_iff split: option.splits if_splits sum.splits)

interpretation yara: deletable_store yara_rules y_ID storedRule
    InsertYARARule GetYARARule DeleteYARARule
  by unfold_locales
    (auto simp: InsertYARARule_def GetYARARule_def DeleteYARARule_def
      storedRule_def run_simps list_ex_iff split: option.splits if_splits sum.splits)

interpretation jobs: record_store scan_jobs j_ID storedJob InsertScanJob GetScanJob
  by unfold_locales
    (auto simp: InsertScanJob_def GetScanJob_def
      storedJob_def run_simps list_ex_iff split: option.splits if_splits sum.splits)


subsection \<open>Primary keys stay unique\<close>

definition wf_db :: "database \<Rightarrow> bool" where
  "wf_db d \<longleftrightarrow>
     distinct (map al_ID (scan_audit_logs d)) \<and> distinct (map q_ID (quarantine_records d)) \<and>
     distinct (map w_Hash (whitelist_signatures d)) \<and> distinct (map s_Key (system_settings d)) \<and>
     distinct (map y_ID (yara_rules d)) \<and> distinct (map y_RuleName (yara_rules d)) \<and>
     distinct (map j_ID (scan_jobs d))"

definition keepsWf :: "database \<Rightarrow> database \<Rightarrow> bool" where
  "keepsWf d d' \<longleftrightarrow> (wf_db d \<longrightarrow> wf_db d')"

interpretation wfOrder: state_order keepsWf
  by unfold_locales (auto simp: keepsWf_def)

lemma wf_db_ticked [simp]: "wf_db (ticked d) = wf_db d"
  by (simp add: wf_db_def)

lemma keepsWf_query: "state_io_rel keepsWf (query f)"
  by (auto simp: state_io_rel_def run_simps keepsWf_def split: option.splits)

lemma keepsWf_exec:
  assumes "\<And>d d'. wf_db d \<Longrightarrow> f d = Inr d' \<Longrightarrow> wf_db d'"
  shows "state_io_rel keepsWf (exec f)"
proof -
  have "wf_db (snd (run_state (exec f) d))" if "wf_db d" for d
    using assms[of "ticked d"] that by (auto simp: run_exec split: option.splits sum.splits)
  then show ?thesis by (simp add: state_io_rel_def keepsWf_def)
qed

lemma list_ex_key: "list_ex (\<lambda>r. key r = k) xs \<longleftrightarrow> k \<in> key ` set xs"
  by (auto simp: list_ex_iff)

lemma distinct_map_filter_key: "distinct (map key xs) \<Longrightarrow> distinct (map key (filter P xs))"
  by (rule distinct_map_filter)

lemma q_ID_setRestored [simp]: "q_ID (setRestored t b r i q) = q_ID q"
  by (simp add: setRestored_def)

lemma j_ID_setJobStatus [simp]: "j_ID (setJobStatus t i st v vn e h j) = j_ID j"
  by (simp add: setJobStatus_def)

lemma distinct_upsert:
  "distinct (map s_Key rows) \<Longrightarrow> distinct (map s_Key (upsertSetting s rows))"
proof -
  assume d: "distinct (map s_Key rows)"
  have "map s_Key (map (\<lambda>r. if s_Key r = s_Key s then s else r) rows) = map s_Key rows"
    by simp
  with d show ?thesis by (auto simp: upsertSetting_def list_ex_key simp del: map_map)
qed

lemmas keepsWf_intros = wfOrder.rel_intros keepsWf_query keepsWf_exec

lemma keepsWf_storage:
  "state_io_rel keepsWf (InsertScanAuditLog l)"
  "state_io_rel keepsWf (PurgeAuditLogs t n)"
  "state_io_rel keepsWf (InsertQuarantineRecord q)"
  "state_io_rel keepsWf (GetQuarantineRecord i)"
  "state_io_rel keepsWf (AddWhitelist t h ds b)"
  "state_io_rel keepsWf (RemoveWhitelist h)"
  "state_io_rel keepsWf (DeleteQuarantineRecord i)"
  "state_io_rel keepsWf (SetSystemSetting t k v)"
  "state_io_rel keepsWf (InsertYARARule y)"
  "state_io_rel keepsWf (DeleteYARARule i)"
  "state_io_rel keepsWf (InsertScanJob j)"
  "state_io_rel keepsWf (UpdateScanJobStatus t i st v vn e h)"
  unfolding InsertScanAuditLog_def PurgeAuditLogs_def InsertQuarantineRecord_def
    GetQuarantineRecord_def AddWhitelist_def RemoveWhitelist_def DeleteQuarantineRecord_def
    SetSystemSetting_def InsertYARARule_def DeleteYARARule_def InsertScanJob_def
    UpdateScanJobStatus_def Let_def
  by (intro keepsWf_intros;
      auto simp: wf_db_def list_ex_key comp_def intro: distinct_map_filter_key distinct_upsert
        split: if_splits)+

lemma keepsWf_restore: "state_io_rel keepsWf (RestoreQuarantineRecord t t2 i b r w)"
  unfolding RestoreQuarantineRecord_def
  by (intro keepsWf_intros keepsWf_storage) (auto simp: wf_db_def comp_def)

text \<open>The operations that write, as data, and the run of a sequence of them.\<close>

datatype storageOp =
    OpInsertLog ScanAuditLog
  | OpPurge int int
  | OpInsertQuarantine QuarantineRecord
  | OpRestore int int string string string bool
  | OpDeleteQuarantine string
  | OpAddWhitelist int string string string
  | OpRemoveWhitelist string
  | OpSetSetting int string string
  | OpInsertRule YARARule
  | OpDeleteRule string
  | OpInsertJob ScanJob
  | OpUpdateJob int string string string string string string

fun applyOp :: "storageOp \<Rightarrow> (database, bool) state" where
  "applyOp (OpInsertLog l) = do { r \<leftarrow> InsertScanAuditLog l; ret (isErr r) }"
| "applyOp (OpPurge t n) = do { r \<leftarrow> PurgeAuditLogs t n; ret (isErr r) }"
| "applyOp (OpInsertQuarantine q) = do { r \<leftarrow> InsertQuarantineRecord q; ret (isErr r) }"
| "applyOp (OpRestore t t2 i b r w) = do { r \<leftarrow> RestoreQuarantineRecord t t2 i b r w; ret (isErr r) }"
| "applyOp (OpDeleteQuarantine i) = do { r \<leftarrow> DeleteQuarantineRecord i; ret (isErr r) }"
| "applyOp (OpAddWhitelist t h ds b) = do { r \<leftarrow> AddWhitelist t h ds b; ret (isErr r) }"
| "applyOp (OpRemoveWhitelist h) = do { r \<leftarrow> RemoveWhitelist h; ret (isErr r) }"
| "applyOp (OpSetSetting t k v) = do { r \<leftarrow> SetSystemSetting t k v; ret (isErr r) }"
| "applyOp (OpInsertRule y) = do { r \<leftarrow> InsertYARARule y; ret (isErr r) }"
| "applyOp (OpDeleteRule i) = do { r \<leftarrow> DeleteYARARule i; ret (isErr r) }"
| "applyOp (OpInsertJob j) = do { r \<leftarrow> InsertScanJob j; ret (isErr r) }"
| "applyOp (OpUpdateJob t i st v vn e h) = do { r \<leftarrow> UpdateScanJobStatus t i st v vn e h; ret (isErr r) }"

fun applyOps :: "storageOp list \<Rightarrow> database \<Rightarrow> database" where
  "applyOps [] d = d"
| "applyOps (x # xs) d = applyOps xs (snd (run_state (applyOp x) d))"

lemma keepsWf_applyOp: "state_io_rel keepsWf (applyOp x)"
  by (cases x) (simp_all, (intro keepsWf_intros keepsWf_storage keepsWf_restore)+)

lemma wf_applyOps: "wf_db d \<Longrightarrow> wf_db (applyOps xs d)"
  by (induction xs arbitrary: d) (use keepsWf_applyOp in \<open>auto simp: state_io_rel_def keepsWf_def\<close>)


subsection \<open>Restoring a record\<close>

lemma find_map_key: "(\<And>x. key (f x) = key x) \<Longrightarrow>
  find (\<lambda>x. key x = k) (map f xs) = map_option f (find (\<lambda>x. key x = k) xs)"
  by (induction xs) auto

lemma setRestored_same: "q_ID q = i \<Longrightarrow> q_Status (setRestored t b r i q) = ''RESTORED''"
  by (simp add: setRestored_def)

definition whitelisted :: "string \<Rightarrow> database \<Rightarrow> bool" where
  "whitelisted h d \<longleftrightarrow> list_ex (\<lambda>r. w_Hash r = h) (whitelist_signatures d)"

definition recordOf :: "string \<Rightarrow> database \<Rightarrow> QuarantineRecord option" where
  "recordOf i d = find (\<lambda>q. q_ID q = i) (quarantine_records d)"

lemma recordOf_ticked [simp]: "recordOf i (ticked d) = recordOf i d"
  by (simp add: recordOf_def)

lemma whitelisted_ticked [simp]: "whitelisted h (ticked d) = whitelisted h d"
  by (simp add: whitelisted_def)

lemma recordOf_ID: "recordOf i d = Some q \<Longrightarrow> q_ID q = i"
  by (auto simp: recordOf_def find_Some_iff)

lemma run_GetQuarantineRecord:
  "run_state (GetQuarantineRecord i) d =
    ((case stmt_fault d (stmt_no d) of
        Some e \<Rightarrow> Inl (if errorsIs e ErrNoRows then errorsNew ''quarantine record not found'' else e)
      | None \<Rightarrow> (case recordOf i d of
          None \<Rightarrow> Inl (errorsNew ''quarantine record not found'') | Some q \<Rightarrow> Inr q)), ticked d)"
  by (auto simp: GetQuarantineRecord_def run_simps recordOf_def noRows_def errorsIs_def
      split: option.splits)

lemma RestoreQuarantineRecord_ok:
  assumes "run_state (RestoreQuarantineRecord t t2 i b r auto) d = (Inr (), d')"
  obtains q where "recordOf i d = Some q" "recordOf i d' = Some (setRestored t b r i q)"
    "auto \<Longrightarrow> q_FileSHA256 q \<noteq> [] \<Longrightarrow> whitelisted (q_FileSHA256 q) d'"
    "quarantine_records d' = map (setRestored t b r i) (quarantine_records d)"
proof -
  from assms obtain q where q: "recordOf i d = Some q"
    by (auto simp: RestoreQuarantineRecord_def run_tryRes run_GetQuarantineRecord
        split: option.splits)
  with assms have rows: "quarantine_records d' = map (setRestored t b r i) (quarantine_records d)"
    and wl: "auto \<Longrightarrow> q_FileSHA256 q \<noteq> [] \<Longrightarrow> whitelisted (q_FileSHA256 q) d'"
    by (auto simp: RestoreQuarantineRecord_def run_tryRes run_GetQuarantineRecord run_exec
        AddWhitelist_def whitelisted_def split: option.splits if_splits)
  from q rows have "recordOf i d' = Some (setRestored t b r i q)"
    unfolding recordOf_def by (simp add: find_map_key[where key = q_ID])
  with q rows wl that show thesis by blast
qed

text \<open>
  A successful restore marks exactly the named record as RESTORED, with who did it and
  why, and with \<open>autoWhitelist\<close> its hash is whitelisted afterwards.
\<close>

theorem restore_marks_and_whitelists:
  assumes "run_state (RestoreQuarantineRecord t t2 i b r True) d = (Inr (), d')"
  shows "\<exists>q. recordOf i d = Some q \<and>
     recordOf i d' = Some (q\<lparr>q_Status := ''RESTORED'', q_RestoredAt := Some (truncSec t),
        q_RestoredBy := b, q_RestoreReason := r\<rparr>) \<and>
     filter (\<lambda>x. q_ID x \<noteq> i) (quarantine_records d') = filter (\<lambda>x. q_ID x \<noteq> i) (quarantine_records d) \<and>
     (q_FileSHA256 q = [] \<or> whitelisted (q_FileSHA256 q) d')"
proof -
  from assms obtain q where q: "recordOf i d = Some q"
    "recordOf i d' = Some (setRestored t b r i q)"
    "q_FileSHA256 q \<noteq> [] \<Longrightarrow> whitelisted (q_FileSHA256 q) d'"
    "quarantine_records d' = map (setRestored t b r i) (quarantine_records d)"
    by (rule RestoreQuarantineRecord_ok) auto
  have "filter (\<lambda>x. q_ID x \<noteq> i) (map (setRestored t b r i) xs) = filter (\<lambda>x. q_ID x \<noteq> i) xs" for xs
    by (induction xs) (auto simp: setRestored_def)
  with q recordOf_ID[OF q(1)] show ?thesis
    by (auto simp: setRestored_def)
qed

definition sampleRecord :: QuarantineRecord where
  "sampleRecord = \<lparr>q_ID = ''Q-1'', q_OriginalFilename = ''a.exe'', q_FileSizeBytes = 3,
     q_FileSHA256 = ''ab12'', q_VirusName = ''Eicar'', q_SourceConsumer = ''app'',
     q_StoredPath = ''/v/Q-1.quarantine'', q_Status = ''QUARANTINED'', q_CreatedAt = 0,
     q_ExpiresAt = 0, q_RestoredAt = None, q_RestoredBy = [], q_RestoreReason = []\<rparr>"

definition sampleDB :: "(nat \<Rightarrow> goerr option) \<Rightarrow> database" where
  "sampleDB faults = (emptyDB faults)\<lparr>quarantine_records := [sampleRecord]\<rparr>"

lemmas sample_defs = sampleDB_def sampleRecord_def emptyDB_def

theorem restore_marks_and_whitelists_witness:
  "\<exists>q. recordOf ''Q-1'' (sampleDB (\<lambda>_. None)) = Some q \<and> q_FileSHA256 q = ''ab12'' \<and>
    whitelisted ''ab12''
      (snd (run_state (RestoreQuarantineRecord 5 6 ''Q-1'' ''bob'' ''ok'' True) (sampleDB (\<lambda>_. None))))"
proof -
  let ?d = "sampleDB (\<lambda>_. None)"
  let ?m = "RestoreQuarantineRecord 5 6 ''Q-1'' ''bob'' ''ok'' True"
  have "run_state ?m ?d = (Inr (), snd (run_state ?m ?d))"
    by (simp add: RestoreQuarantineRecord_def run_tryRes run_GetQuarantineRecord run_exec
        AddWhitelist_def recordOf_def sample_defs ticked_def)
  from restore_marks_and_whitelists[OF this] show ?thesis
    by (auto simp: recordOf_def sample_defs)
qed

text \<open>
  C30. A restore is not atomic: its statements run without a transaction. When the lookup and the
  update work but the driver refuses the whitelist insert, the caller gets an error although
  the record is already RESTORED and its hash is not whitelisted.
\<close>

theorem restore_not_atomic:
  assumes "stmt_fault d (stmt_no d) = None" and "stmt_fault d (Suc (stmt_no d)) = None"
    and "stmt_fault d (Suc (Suc (stmt_no d))) = Some e"
    and "recordOf i d = Some q" and "q_FileSHA256 q \<noteq> []" and "run_state
      (RestoreQuarantineRecord t t2 i b r True) d = (res, d')"
  shows "res = Inl e \<and> map_option q_Status (recordOf i d') = Some ''RESTORED'' \<and>
     whitelist_signatures d' = whitelist_signatures d"
proof -
  have "find (\<lambda>q. q_ID q = i) (map (setRestored t b r i) (quarantine_records d))
      = Some (setRestored t b r i q)"
    using assms(4) unfolding recordOf_def by (simp add: find_map_key[where key = q_ID])
  with assms recordOf_ID[OF assms(4)] show ?thesis
    by (auto simp: RestoreQuarantineRecord_def run_tryRes run_GetQuarantineRecord run_exec
        AddWhitelist_def setRestored_same recordOf_def)
qed

theorem restore_not_atomic_witness:
  "\<exists>d'. run_state (RestoreQuarantineRecord 5 6 ''Q-1'' ''bob'' ''ok'' True)
      (sampleDB (\<lambda>n. if n = 2 then Some (errorsNew ''disk I/O error'') else None)) =
        (Inl (errorsNew ''disk I/O error''), d') \<and>
     map_option q_Status (recordOf ''Q-1'' d') = Some ''RESTORED'' \<and> \<not> whitelisted ''ab12'' d'"
proof -
  let ?d = "sampleDB (\<lambda>n. if n = 2 then Some (errorsNew ''disk I/O error'') else None)"
  obtain res d' where run: "run_state (RestoreQuarantineRecord 5 6 ''Q-1'' ''bob'' ''ok'' True) ?d = (res, d')"
    by (cases "run_state (RestoreQuarantineRecord 5 6 ''Q-1'' ''bob'' ''ok'' True) ?d")
  have "recordOf ''Q-1'' ?d = Some sampleRecord" by (simp add: recordOf_def sample_defs)
  from restore_not_atomic[OF _ _ _ this _ run] run show ?thesis
    by (auto simp: sample_defs numeral_2_eq_2 whitelisted_def)
qed


subsection \<open>Retention, paging, settings\<close>

text \<open>
  A purge removes exactly the log rows older than the retention period (to the
  second), keeps the others in order and reports how many it removed.
\<close>

theorem purge_exact:
  assumes "run_state (PurgeAuditLogs now days) d = (Inr n, d')"
  shows "scan_audit_logs d' =
      filter (\<lambda>l. truncSec (now - days * dayNs) \<le> al_Timestamp l) (scan_audit_logs d) \<and>
    length (scan_audit_logs d') + n = length (scan_audit_logs d) \<and>
    quarantine_records d' = quarantine_records d"
  using assms sum_length_filter_compl[of "\<lambda>l. al_Timestamp l < truncSec (now - days * dayNs)"
      "scan_audit_logs d"]
  by (auto simp: PurgeAuditLogs_def run_exec not_less Let_def split: option.splits sum.splits)

definition sampleLog :: "string \<Rightarrow> int \<Rightarrow> ScanAuditLog" where
  "sampleLog i t = \<lparr>al_ID = i, al_Timestamp = t, al_ConsumerName = ''app'', al_ClientIP = ''10.0.0.1'',
     al_FileName = ''f'', al_FileSizeBytes = 1, al_FileSHA256 = ''00'', al_Verdict = ''CLEAN'',
     al_VirusName = [], al_ScanDurationMs = 1, al_QuarantineID = []\<rparr>"

theorem purge_exact_witness:
  "\<exists>d'. run_state (PurgeAuditLogs (10 * dayNs) 3)
      ((emptyDB (\<lambda>_. None))\<lparr>scan_audit_logs := [sampleLog ''a'' 0, sampleLog ''b'' (9 * dayNs)]\<rparr>) = (Inr 1, d') \<and>
     length (scan_audit_logs d') + 1 = 2"
proof -
  let ?d = "(emptyDB (\<lambda>_. None))\<lparr>scan_audit_logs := [sampleLog ''a'' 0, sampleLog ''b'' (9 * dayNs)]\<rparr>"
  have run: "run_state (PurgeAuditLogs (10 * dayNs) 3) ?d =
      (Inr 1, snd (run_state (PurgeAuditLogs (10 * dayNs) 3) ?d))"
    by (simp add: PurgeAuditLogs_def run_exec emptyDB_def sampleLog_def truncSec_def dayNs_def
        secondNs_def Let_def)
  from purge_exact[OF run] run show ?thesis by auto
qed

lemma pages_cover:
  "0 \<le> L \<Longrightarrow> concat (map (\<lambda>k. page L (int k * L) xs) [0..<n]) = take (n * nat L) xs"
proof (induction n)
  case 0
  then show ?case by simp
next
  case (Suc n)
  have "nat (int n * L) = n * nat L" using Suc.prems by (simp add: nat_mult_distrib)
  moreover have "take (n * nat L) xs @ take (nat L) (drop (n * nat L) xs) = take (n * nat L + nat L) xs"
    by (simp only: take_add)
  ultimately show ?case using Suc by (simp add: page_def add.commute)
qed

lemma sorted_orderDesc: "sorted_wrt (\<lambda>a b. key a \<ge> key b) (orderDesc key xs)"
proof -
  have "sorted (map (\<lambda>x. - key x) (orderDesc key xs))" by (simp add: orderDesc_def)
  then show ?thesis by (simp add: sorted_map)
qed

definition pageAt :: "AuditFilter \<Rightarrow> nat \<Rightarrow> database \<Rightarrow> ScanAuditLog list" where
  "pageAt f k d =
     fst (okOr ([], 0) (fst (run_state (ListScanAuditLogs (f\<lparr>f_Offset := int k * f_Limit f\<rparr>)) d)))"

lemma matchesFilter_offset [simp]: "matchesFilter (f\<lparr>f_Offset := n\<rparr>) = matchesFilter f"
  by (auto simp: matchesFilter_def fun_eq_iff)

text \<open>
  Paging through the audit log: on a database that answers, successive pages of a
  positive size list every matching row once, newest first, and no other row.
\<close>

theorem audit_pages_cover:
  assumes "stmt_fault d = (\<lambda>_. None)" and "0 < f_Limit f"
    and "length (filter (matchesFilter f) (scan_audit_logs d)) \<le> n * nat (f_Limit f)"
  shows "mset (concat (map (\<lambda>k. pageAt f k d) [0..<n])) =
      mset (filter (matchesFilter f) (scan_audit_logs d)) \<and>
    sorted_wrt (\<lambda>a b. al_Timestamp a \<ge> al_Timestamp b) (concat (map (\<lambda>k. pageAt f k d) [0..<n]))"
proof -
  let ?xs = "orderDesc al_Timestamp (filter (matchesFilter f) (scan_audit_logs d))"
  have "pageAt f k d = page (f_Limit f) (int k * f_Limit f) ?xs" for k
    using assms(1,2) by (simp add: pageAt_def ListScanAuditLogs_def run_tryRes run_query Let_def)
  then have "concat (map (\<lambda>k. pageAt f k d) [0..<n]) = take (n * nat (f_Limit f)) ?xs"
    using assms(2) by (simp add: pages_cover)
  moreover have "length ?xs = length (filter (matchesFilter f) (scan_audit_logs d))"
    by (simp add: orderDesc_def)
  ultimately have "concat (map (\<lambda>k. pageAt f k d) [0..<n]) = ?xs"
    using assms(3) by simp
  then show ?thesis using sorted_orderDesc by (simp add: orderDesc_def)
qed

definition anyLog :: "int \<Rightarrow> AuditFilter" where
  "anyLog limit = \<lparr>f_Verdict = [], f_ConsumerName = [], f_From = None, f_To = None,
     f_Limit = limit, f_Offset = 0\<rparr>"

theorem audit_pages_cover_witness:
  "mset (concat (map (\<lambda>k. pageAt (anyLog 1) k
      ((emptyDB (\<lambda>_. None))\<lparr>scan_audit_logs := [sampleLog ''a'' 0, sampleLog ''b'' 5]\<rparr>)) [0..<2])) =
    mset (filter (matchesFilter (anyLog 1)) [sampleLog ''a'' 0, sampleLog ''b'' 5])"
  using audit_pages_cover[of "(emptyDB (\<lambda>_. None))\<lparr>scan_audit_logs := [sampleLog ''a'' 0, sampleLog ''b'' 5]\<rparr>"
      "anyLog 1" 2]
  by (simp add: emptyDB_def anyLog_def matchesFilter_def)

definition settingOf :: "string \<Rightarrow> database \<Rightarrow> string option" where
  "settingOf k d = map_option s_Value (find (\<lambda>s. s_Key s = k) (system_settings d))"

lemma find_upsert:
  "find (\<lambda>s. s_Key s = k) (upsertSetting s rows) =
     (if s_Key s = k then Some s else find (\<lambda>s. s_Key s = k) rows)"
proof -
  have "find (\<lambda>x. s_Key x = k) (map (\<lambda>r. if s_Key r = s_Key s then s else r) rows) =
      (if s_Key s = k then (if list_ex (\<lambda>r. s_Key r = s_Key s) rows then Some s else None)
       else find (\<lambda>x. s_Key x = k) rows)"
    by (induction rows) auto
  moreover have "\<not> list_ex (\<lambda>r. s_Key r = k) rows \<Longrightarrow> find (\<lambda>s. s_Key s = k) rows = None"
    by (auto simp: list_ex_iff find_None_iff)
  ultimately show ?thesis by (auto simp: upsertSetting_def find_append split: option.split)
qed

lemma run_GetSystemSetting:
  "run_state (GetSystemSetting k) d =
    ((case stmt_fault d (stmt_no d) of
        Some e \<Rightarrow> if errorsIs e ErrNoRows then Inr [] else Inl e
      | None \<Rightarrow> Inr (case settingOf k d of None \<Rightarrow> [] | Some v \<Rightarrow> v)), ticked d)"
  by (auto simp: GetSystemSetting_def run_simps settingOf_def noRows_def errorsIs_def
      split: option.splits)

lemma SetSystemSetting_ok:
  "run_state (SetSystemSetting now k v) d = (Inr (), d') \<Longrightarrow>
   settingOf k' d' = (if k' = k then Some v else settingOf k' d)"
  by (auto simp: SetSystemSetting_def run_exec settingOf_def find_upsert split: option.splits)

lemma IsWhitelisted_run:
  "run_state (IsWhitelisted h) d =
    ((case stmt_fault d (stmt_no d) of Some e \<Rightarrow> Inl e | None \<Rightarrow> Inr (whitelisted h d)), ticked d)"
  by (simp add: IsWhitelisted_def run_query whitelisted_def split: option.split)

end
