(* ===== verification/Sha256.thy ===== *)
theory Sha256
  imports Prelude
begin

text \<open>
  Go's \<open>crypto/sha256\<close> as the service uses it: the digest of a byte string (FIPS 180-4),
  executable. The proofs need only that it is a function with 32-byte values.
\<close>

unbundle bit_operations_syntax

type_synonym w32 = "32 word"

definition shaK :: "w32 list" where
  "shaK =
    [1116352408, 1899447441, 3049323471, 3921009573, 961987163, 1508970993,
     2453635748, 2870763221, 3624381080, 310598401, 607225278, 1426881987,
     1925078388, 2162078206, 2614888103, 3248222580, 3835390401, 4022224774,
     264347078, 604807628, 770255983, 1249150122, 1555081692, 1996064986,
     2554220882, 2821834349, 2952996808, 3210313671, 3336571891, 3584528711,
     113926993, 338241895, 666307205, 773529912, 1294757372, 1396182291,
     1695183700, 1986661051, 2177026350, 2456956037, 2730485921, 2820302411,
     3259730800, 3345764771, 3516065817, 3600352804, 4094571909, 275423344,
     430227734, 506948616, 659060556, 883997877, 958139571, 1322822218,
     1537002063, 1747873779, 1955562222, 2024104815, 2227730452, 2361852424,
     2428436474, 2756734187, 3204031479, 3329325298]"

definition shaH0 :: "w32 list" where
  "shaH0 =
    [1779033703, 3144134277, 1013904242, 2773480762, 1359893119, 2600822924, 528734635,
     1541459225]"

definition bigSigma0 :: "w32 \<Rightarrow> w32" where
  "bigSigma0 x = word_rotr 2 x XOR word_rotr 13 x XOR word_rotr 22 x"

definition bigSigma1 :: "w32 \<Rightarrow> w32" where
  "bigSigma1 x = word_rotr 6 x XOR word_rotr 11 x XOR word_rotr 25 x"

definition smallSigma0 :: "w32 \<Rightarrow> w32" where
  "smallSigma0 x = word_rotr 7 x XOR word_rotr 18 x XOR drop_bit 3 x"

definition smallSigma1 :: "w32 \<Rightarrow> w32" where
  "smallSigma1 x = word_rotr 17 x XOR word_rotr 19 x XOR drop_bit 10 x"

text \<open>Big-endian conversions between bytes and words.\<close>

definition beWord :: "bytes \<Rightarrow> 'a::len word" where
  "beWord bs = foldl (\<lambda>w b. push_bit 8 w OR ucast b) 0 bs"

definition beBytes :: "nat \<Rightarrow> 'a::len word \<Rightarrow> bytes" where
  "beBytes n w = map (\<lambda>i. ucast (drop_bit (8 * (n - 1 - i)) w)) [0..<n]"

lemma length_beBytes [simp]: "length (beBytes n w) = n"
  by (simp add: beBytes_def)

definition shaPad :: "bytes \<Rightarrow> bytes" where
  "shaPad m =
     m @ [0x80] @ replicate ((119 - length m mod 64) mod 64) 0 @
     beBytes 8 (word_of_nat (8 * length m) :: 64 word)"

definition shaSchedule :: "bytes \<Rightarrow> w32 list" where
  "shaSchedule block =
     foldl (\<lambda>ws t. ws @ [smallSigma1 (ws ! (t - 2)) + ws ! (t - 7) + smallSigma0 (ws ! (t - 15)) + ws ! (t - 16)])
       (map (\<lambda>i. beWord (take 4 (drop (4 * i) block))) [0..<16]) [16..<64]"

fun shaRound :: "w32 list \<Rightarrow> w32 \<times> w32 \<Rightarrow> w32 list" where
  "shaRound [a, b, c, d, e, f, g, h] (k, w) =
     (let t1 = h + bigSigma1 e + ((e AND f) XOR (NOT e AND g)) + k + w;
          t2 = bigSigma0 a + ((a AND b) XOR (a AND c) XOR (b AND c))
      in [t1 + t2, a, b, c, d + t1, e, f, g])"
| "shaRound s _ = s"

definition shaBlock :: "w32 list \<Rightarrow> bytes \<Rightarrow> w32 list" where
  "shaBlock st block =
     map (\<lambda>i. st ! i + foldl shaRound st (zip shaK (shaSchedule block)) ! i) [0..<8]"

definition shaBlocks :: "bytes \<Rightarrow> bytes list" where
  "shaBlocks m = map (\<lambda>i. take 64 (drop (64 * i) m)) [0 ..< length m div 64]"

definition sha256 :: "bytes \<Rightarrow> bytes" where
  "sha256 m =
     concat (map (\<lambda>i. beBytes 4 (foldl shaBlock shaH0 (shaBlocks (shaPad m)) ! i)) [0..<8])"

lemma length_sha256 [simp]: "length (sha256 m) = 32"
  by (simp add: sha256_def length_concat comp_def sum_list_triv)

end
