(* ===== verification/AesGcm.thy ===== *)
theory AesGcm
  imports Sha256
begin

text \<open>
  Go's \<open>crypto/aes\<close> with a 32-byte key and \<open>cipher.NewGCM\<close> as the service uses them
  (12-byte nonce, 16-byte tag, no additional data), executable. \<open>gcmOpen\<close> is proved to
  invert \<open>gcmSeal\<close>, and to accept nothing but what \<open>gcmSeal\<close> produces: both follow from the
  structure of the mode (the key stream is a function of key and nonce, the tag a function
  of the ciphertext), for any block function with 16-byte values.
\<close>

definition sboxTable :: "byte list" where
  "sboxTable =
    [0x63, 0x7c, 0x77, 0x7b, 0xf2, 0x6b, 0x6f, 0xc5, 0x30, 0x01, 0x67, 0x2b, 0xfe, 0xd7, 0xab, 0x76,
     0xca, 0x82, 0xc9, 0x7d, 0xfa, 0x59, 0x47, 0xf0, 0xad, 0xd4, 0xa2, 0xaf, 0x9c, 0xa4, 0x72, 0xc0,
     0xb7, 0xfd, 0x93, 0x26, 0x36, 0x3f, 0xf7, 0xcc, 0x34, 0xa5, 0xe5, 0xf1, 0x71, 0xd8, 0x31, 0x15,
     0x04, 0xc7, 0x23, 0xc3, 0x18, 0x96, 0x05, 0x9a, 0x07, 0x12, 0x80, 0xe2, 0xeb, 0x27, 0xb2, 0x75,
     0x09, 0x83, 0x2c, 0x1a, 0x1b, 0x6e, 0x5a, 0xa0, 0x52, 0x3b, 0xd6, 0xb3, 0x29, 0xe3, 0x2f, 0x84,
     0x53, 0xd1, 0x00, 0xed, 0x20, 0xfc, 0xb1, 0x5b, 0x6a, 0xcb, 0xbe, 0x39, 0x4a, 0x4c, 0x58, 0xcf,
     0xd0, 0xef, 0xaa, 0xfb, 0x43, 0x4d, 0x33, 0x85, 0x45, 0xf9, 0x02, 0x7f, 0x50, 0x3c, 0x9f, 0xa8,
     0x51, 0xa3, 0x40, 0x8f, 0x92, 0x9d, 0x38, 0xf5, 0xbc, 0xb6, 0xda, 0x21, 0x10, 0xff, 0xf3, 0xd2,
     0xcd, 0x0c, 0x13, 0xec, 0x5f, 0x97, 0x44, 0x17, 0xc4, 0xa7, 0x7e, 0x3d, 0x64, 0x5d, 0x19, 0x73,
     0x60, 0x81, 0x4f, 0xdc, 0x22, 0x2a, 0x90, 0x88, 0x46, 0xee, 0xb8, 0x14, 0xde, 0x5e, 0x0b, 0xdb,
     0xe0, 0x32, 0x3a, 0x0a, 0x49, 0x06, 0x24, 0x5c, 0xc2, 0xd3, 0xac, 0x62, 0x91, 0x95, 0xe4, 0x79,
     0xe7, 0xc8, 0x37, 0x6d, 0x8d, 0xd5, 0x4e, 0xa9, 0x6c, 0x56, 0xf4, 0xea, 0x65, 0x7a, 0xae, 0x08,
     0xba, 0x78, 0x25, 0x2e, 0x1c, 0xa6, 0xb4, 0xc6, 0xe8, 0xdd, 0x74, 0x1f, 0x4b, 0xbd, 0x8b, 0x8a,
     0x70, 0x3e, 0xb5, 0x66, 0x48, 0x03, 0xf6, 0x0e, 0x61, 0x35, 0x57, 0xb9, 0x86, 0xc1, 0x1d, 0x9e,
     0xe1, 0xf8, 0x98, 0x11, 0x69, 0xd9, 0x8e, 0x94, 0x9b, 0x1e, 0x87, 0xe9, 0xce, 0x55, 0x28, 0xdf,
     0x8c, 0xa1, 0x89, 0x0d, 0xbf, 0xe6, 0x42, 0x68, 0x41, 0x99, 0x2d, 0x0f, 0xb0, 0x54, 0xbb, 0x16]"

definition sbox :: "byte \<Rightarrow> byte" where
  "sbox b = sboxTable ! unat b"

definition xtime :: "byte \<Rightarrow> byte" where
  "xtime b = (if bit b 7 then push_bit 1 b XOR 0x1b else push_bit 1 b)"

definition xorBytes :: "bytes \<Rightarrow> bytes \<Rightarrow> bytes" where
  "xorBytes a b = map (\<lambda>(x, y). x XOR y) (zip a b)"

definition shiftRows :: "bytes \<Rightarrow> bytes" where
  "shiftRows s = map (\<lambda>i. s ! (i mod 4 + 4 * ((i div 4 + i mod 4) mod 4))) [0..<16]"

definition mixColumns :: "bytes \<Rightarrow> bytes" where
  "mixColumns s =
     map (\<lambda>i. let c = 4 * (i div 4); a = (\<lambda>k. s ! (c + (i + k) mod 4)) in
            xtime (a 0) XOR (xtime (a 1) XOR a 1) XOR a 2 XOR a 3) [0..<16]"

text \<open>Key expansion for 256-bit keys: sixty 4-byte words.\<close>

definition expandStep :: "bytes list \<times> byte \<Rightarrow> nat \<Rightarrow> bytes list \<times> byte" where
  "expandStep p i =
     (let (ws, rcon) = p; prev = ws ! (i - 1); old = ws ! (i - 8) in
      if i mod 8 = 0 then
        (ws @ [xorBytes old (xorBytes (map sbox (rotate1 prev)) [rcon, 0, 0, 0])], xtime rcon)
      else if i mod 8 = 4 then (ws @ [xorBytes old (map sbox prev)], rcon)
      else (ws @ [xorBytes old prev], rcon))"

definition expandKey :: "bytes \<Rightarrow> bytes list" where
  "expandKey key =
     (let ws = fst (foldl expandStep (map (\<lambda>i. take 4 (drop (4 * i) key)) [0..<8], 1) [8..<60])
      in map (\<lambda>r. concat (take 4 (drop (4 * r) ws))) [0..<15])"

definition aesBlock :: "bytes list \<Rightarrow> bytes \<Rightarrow> bytes" where
  "aesBlock ks b =
     (let s0 = xorBytes b (ks ! 0);
          s13 = foldl (\<lambda>s k. xorBytes (mixColumns (shiftRows (map sbox s))) k) s0 (take 13 (drop 1 ks));
          s14 = shiftRows (map sbox s13)
      in map (\<lambda>i. s14 ! i XOR (ks ! 14) ! i) [0..<16])"

lemma length_aesBlock [simp]: "length (aesBlock ks b) = 16"
  by (simp add: aesBlock_def Let_def)

subsection \<open>Galois/counter mode\<close>

type_synonym w128 = "128 word"

fun gfLoop :: "nat \<Rightarrow> w128 \<Rightarrow> w128 \<Rightarrow> w128 \<Rightarrow> w128" where
  "gfLoop 0 x v z = z"
| "gfLoop (Suc n) x v z =
     gfLoop n x (if bit v 0 then drop_bit 1 v XOR push_bit 120 0xe1 else drop_bit 1 v)
       (if bit x n then z XOR v else z)"

definition gfMult :: "w128 \<Rightarrow> w128 \<Rightarrow> w128" where
  "gfMult x y = gfLoop 128 x y 0"

definition chunks16 :: "bytes \<Rightarrow> bytes list" where
  "chunks16 bs = map (\<lambda>i. let c = take 16 (drop (16 * i) bs) in c @ replicate (16 - length c) 0)
     [0 ..< (length bs + 15) div 16]"

definition ghash :: "w128 \<Rightarrow> bytes \<Rightarrow> w128" where
  "ghash h c =
     foldl (\<lambda>y b. gfMult (y XOR b) h) 0
       (map beWord (chunks16 c) @ [word_of_nat (8 * length c)])"

definition counterBlock :: "bytes \<Rightarrow> nat \<Rightarrow> bytes" where
  "counterBlock nonce i = nonce @ beBytes 4 (word_of_nat (1 + i) :: 32 word)"

definition keystream :: "(bytes \<Rightarrow> bytes) \<Rightarrow> bytes \<Rightarrow> nat \<Rightarrow> bytes" where
  "keystream E nonce n = concat (map (\<lambda>i. E (counterBlock nonce (Suc i))) [0 ..< (n + 15) div 16])"

definition ctrXor :: "(bytes \<Rightarrow> bytes) \<Rightarrow> bytes \<Rightarrow> bytes \<Rightarrow> bytes" where
  "ctrXor E nonce bs = xorBytes bs (keystream E nonce (length bs))"

definition gcmTag :: "(bytes \<Rightarrow> bytes) \<Rightarrow> bytes \<Rightarrow> bytes \<Rightarrow> bytes" where
  "gcmTag E nonce c =
     xorBytes (beBytes 16 (ghash (beWord (E (replicate 16 0))) c)) (E (counterBlock nonce 0))"

definition gcmNonceSize :: nat where "gcmNonceSize = 12"
definition gcmTagSize :: nat where "gcmTagSize = 16"

definition gcmSealE :: "(bytes \<Rightarrow> bytes) \<Rightarrow> bytes \<Rightarrow> bytes \<Rightarrow> bytes" where
  "gcmSealE E nonce p = (let c = ctrXor E nonce p in c @ gcmTag E nonce c)"

definition gcmOpenE :: "(bytes \<Rightarrow> bytes) \<Rightarrow> bytes \<Rightarrow> bytes \<Rightarrow> bytes option" where
  "gcmOpenE E nonce s =
     (if length s < gcmTagSize then None
      else
        let c = take (length s - gcmTagSize) s; t = drop (length s - gcmTagSize) s in
        if gcmTag E nonce c = t then Some (ctrXor E nonce c) else None)"

definition gcmSeal :: "bytes \<Rightarrow> bytes \<Rightarrow> bytes \<Rightarrow> bytes" where
  "gcmSeal key = gcmSealE (aesBlock (expandKey key))"

definition gcmOpen :: "bytes \<Rightarrow> bytes \<Rightarrow> bytes \<Rightarrow> bytes option" where
  "gcmOpen key = gcmOpenE (aesBlock (expandKey key))"

lemma length_xorBytes [simp]: "length (xorBytes a b) = min (length a) (length b)"
  by (simp add: xorBytes_def)

lemma xorBytes_twice: "length a \<le> length k \<Longrightarrow> xorBytes (xorBytes a k) k = a"
  by (rule nth_equalityI) (auto simp: xorBytes_def xor.assoc)

text \<open>Any block function with 16-byte values makes a sealing mode.\<close>

locale block_mode =
  fixes E :: "bytes \<Rightarrow> bytes"
  assumes length_E: "length (E b) = 16"
begin

lemma length_keystream: "n \<le> length (keystream E nonce n)"
proof -
  have "length (keystream E nonce n) = 16 * ((n + 15) div 16)"
    by (simp add: keystream_def length_concat comp_def length_E sum_list_triv)
  then show ?thesis by simp
qed

lemma length_ctrXor [simp]: "length (ctrXor E nonce bs) = length bs"
  using length_keystream[of "length bs" nonce] by (simp add: ctrXor_def)

lemma ctrXor_twice: "ctrXor E nonce (ctrXor E nonce bs) = bs"
proof -
  have "ctrXor E nonce (ctrXor E nonce bs) =
      xorBytes (xorBytes bs (keystream E nonce (length bs))) (keystream E nonce (length bs))"
    using length_ctrXor[of nonce bs] by (simp add: ctrXor_def)
  then show ?thesis using length_keystream by (simp add: xorBytes_twice)
qed

lemma length_gcmTag [simp]: "length (gcmTag E nonce c) = gcmTagSize"
  by (simp add: gcmTag_def length_E gcmTagSize_def)

lemma length_seal: "length (gcmSealE E nonce p) = length p + gcmTagSize"
  by (simp add: gcmSealE_def Let_def)

lemma open_seal: "gcmOpenE E nonce (gcmSealE E nonce p) = Some p"
  by (simp add: gcmOpenE_def gcmSealE_def Let_def ctrXor_twice)

lemma seal_open:
  assumes "gcmOpenE E nonce s = Some p"
  shows "gcmSealE E nonce p = s"
  using assms
  by (auto simp: gcmOpenE_def gcmSealE_def Let_def ctrXor_twice split: if_splits)

end

text \<open>The interface that the service relies on: authenticated encryption with a nonce.\<close>

locale aead =
  fixes nonceSize overhead :: nat
    and seal :: "bytes \<Rightarrow> bytes \<Rightarrow> bytes \<Rightarrow> bytes"
    and unseal :: "bytes \<Rightarrow> bytes \<Rightarrow> bytes \<Rightarrow> bytes option"
  assumes unseal_seal: "unseal key nonce (seal key nonce p) = Some p"
    and seal_unseal: "unseal key nonce s = Some p \<Longrightarrow> seal key nonce p = s"
    and length_seal: "length (seal key nonce p) = length p + overhead"
begin

definition box :: "bytes \<Rightarrow> bytes \<Rightarrow> bytes \<Rightarrow> bytes" where
  "box key nonce p = nonce @ seal key nonce p"

definition unbox :: "bytes \<Rightarrow> bytes \<Rightarrow> bytes option" where
  "unbox key s = (if length s < nonceSize then None
                  else unseal key (take nonceSize s) (drop nonceSize s))"

lemma unbox_box: "length nonce = nonceSize \<Longrightarrow> unbox key (box key nonce p) = Some p"
  by (simp add: unbox_def box_def unseal_seal)

lemma box_unbox: "unbox key s = Some p \<Longrightarrow> s = box key (take nonceSize s) p"
  by (auto simp: unbox_def box_def seal_unseal split: if_splits)

lemma unbox_length: "unbox key s = Some p \<Longrightarrow> length s = nonceSize + length p + overhead"
  using box_unbox[of key s p]
  by (auto simp: unbox_def split: if_splits) (metis (no_types) add.assoc append_take_drop_id box_def
      length_append length_seal length_take min_absorb2 not_less)

lemma box_inject:
  "length n1 = nonceSize \<Longrightarrow> length n2 = nonceSize \<Longrightarrow> box key n1 p1 = box key n2 p2 \<Longrightarrow> p1 = p2"
  by (metis option.inject unbox_box)

end

interpretation aesMode: block_mode "aesBlock (expandKey key)" for key
  by unfold_locales simp

interpretation gcm: aead gcmNonceSize gcmTagSize gcmSeal gcmOpen
  by unfold_locales
    (simp_all add: gcmSeal_def gcmOpen_def aesMode.open_seal aesMode.seal_open aesMode.length_seal)

end
