(* ===== verification/Codec.thy ===== *)
theory Codec
  imports GoStrings
begin

text \<open>
  Go's \<open>encoding/hex\<close> and \<open>encoding/base64\<close> (standard alphabet, padded) as the service uses
  them. The locale \<open>byte_codec\<close> is what both promise: decoding inverts encoding.
\<close>

locale byte_codec =
  fixes encode :: "bytes \<Rightarrow> string" and decode :: "string \<Rightarrow> bytes res"
  assumes decode_encode: "decode (encode bs) = Inr bs"
begin

lemma encode_inject: "encode a = encode b \<longleftrightarrow> a = b"
  by (metis decode_encode sum.inject(2))

end

subsection \<open>Hexadecimal\<close>

definition hexDigit :: "nat \<Rightarrow> char" where
  "hexDigit n = (if n < 10 then char_of (48 + n) else char_of (87 + n))"

definition hexVal :: "char \<Rightarrow> nat option" where
  "hexVal c =
     (let n = of_char c in
      if 48 \<le> n \<and> n \<le> 57 then Some (n - 48)
      else if 97 \<le> n \<and> n \<le> 102 then Some (n - 87)
      else if 65 \<le> n \<and> n \<le> 70 then Some (n - 55) else None)"

fun hexEncodeToString :: "bytes \<Rightarrow> string" where
  "hexEncodeToString [] = []"
| "hexEncodeToString (b # bs) =
     hexDigit (unat b div 16) # hexDigit (unat b mod 16) # hexEncodeToString bs"

fun hexDecodeString :: "string \<Rightarrow> bytes res" where
  "hexDecodeString [] = Inr []"
| "hexDecodeString [a] =
     Inl (errorsNew (case hexVal a of None \<Rightarrow> ''encoding/hex: invalid byte''
                     | Some _ \<Rightarrow> ''encoding/hex: odd length hex string''))"
| "hexDecodeString (a # b # s) =
     (case hexVal a of None \<Rightarrow> Inl (errorsNew ''encoding/hex: invalid byte'')
      | Some x \<Rightarrow> (case hexVal b of None \<Rightarrow> Inl (errorsNew ''encoding/hex: invalid byte'')
        | Some y \<Rightarrow> (case hexDecodeString s of Inl e \<Rightarrow> Inl e
          | Inr bs \<Rightarrow> Inr (word_of_nat (16 * x + y) # bs))))"

lemma hexVal_hexDigit: "n < 16 \<Longrightarrow> hexVal (hexDigit n) = Some n"
  by (simp add: hexVal_def hexDigit_def Let_def)

lemma hexDecode_Encode [simp]: "hexDecodeString (hexEncodeToString bs) = Inr bs"
proof (induction bs)
  case Nil
  then show ?case by simp
next
  case (Cons b bs)
  have "unat b < 2 ^ LENGTH(8)" by (rule unsigned_less)
  then have "unat b div 16 < 16" by simp
  with Cons show ?case by (simp add: hexVal_hexDigit)
qed

lemma length_hexEncode [simp]: "length (hexEncodeToString bs) = 2 * length bs"
  by (induction bs) auto

lemma hexDecode_length: "hexDecodeString s = Inr bs \<Longrightarrow> length s = 2 * length bs"
  by (induction s arbitrary: bs rule: hexDecodeString.induct)
    (auto split: option.splits sum.splits)

definition hexLower :: "char \<Rightarrow> bool" where
  "hexLower c \<longleftrightarrow> (let n = of_char c :: nat in 48 \<le> n \<and> n \<le> 57 \<or> 97 \<le> n \<and> n \<le> 102)"

lemma hexLower_hexDigit: "n < 16 \<Longrightarrow> hexLower (hexDigit n)"
  by (simp add: hexLower_def hexDigit_def Let_def)

lemma hexEncode_hexLower: "list_all hexLower (hexEncodeToString bs)"
proof (induction bs)
  case Nil
  then show ?case by simp
next
  case (Cons b bs)
  have "unat b < 2 ^ LENGTH(8)" by (rule unsigned_less)
  then have "unat b div 16 < 16" by simp
  with Cons show ?case by (simp add: hexLower_hexDigit)
qed

lemma hexLower_graphic: "hexLower c \<Longrightarrow> graphic c"
  by (auto simp: hexLower_def graphic_def Let_def)

lemma hexEncode_graphic: "list_all graphic (hexEncodeToString bs)"
  using hexEncode_hexLower[of bs] by (auto simp: list_all_iff hexLower_graphic)

lemma hexEncode_no: "\<not> hexLower c \<Longrightarrow> c \<notin> set (hexEncodeToString bs)"
  using hexEncode_hexLower[of bs] by (auto simp: list_all_iff)

interpretation hex: byte_codec hexEncodeToString hexDecodeString
  by unfold_locales simp

subsection \<open>Base 64\<close>

definition b64Alphabet :: string where
  "b64Alphabet = ''ABCDEFGHIJKLMNOPQRSTUVWXYZabcdefghijklmnopqrstuvwxyz0123456789+/''"

definition b64Char :: "nat \<Rightarrow> char" where
  "b64Char n = b64Alphabet ! n"

definition b64Val :: "char \<Rightarrow> nat option" where
  "b64Val c = map_of (zip b64Alphabet [0..<64]) c"

fun b64Encode :: "nat list \<Rightarrow> string" where
  "b64Encode [] = []"
| "b64Encode [a] = [b64Char (a div 4), b64Char (a mod 4 * 16), CHR ''='', CHR ''='']"
| "b64Encode [a, b] =
     [b64Char (a div 4), b64Char (a mod 4 * 16 + b div 16), b64Char (b mod 16 * 4), CHR ''='']"
| "b64Encode (a # b # c # s) =
     b64Char (a div 4) # b64Char (a mod 4 * 16 + b div 16) # b64Char (b mod 16 * 4 + c div 64) #
     b64Char (c mod 64) # b64Encode s"

fun b64Decode :: "string \<Rightarrow> nat list option" where
  "b64Decode [] = Some []"
| "b64Decode (a # b # c # d # s) =
     (case (b64Val a, b64Val b) of
        (Some w, Some x) \<Rightarrow>
          if c = CHR ''='' then
            (if d = CHR ''='' \<and> s = [] then Some [w * 4 + x div 16] else None)
          else (case b64Val c of None \<Rightarrow> None
            | Some y \<Rightarrow>
                if d = CHR ''='' then
                  (if s = [] then Some [w * 4 + x div 16, x mod 16 * 16 + y div 4] else None)
                else (case b64Val d of None \<Rightarrow> None
                  | Some z \<Rightarrow> (case b64Decode s of None \<Rightarrow> None
                    | Some r \<Rightarrow> Some ((w * 4 + x div 16) # (x mod 16 * 16 + y div 4) # (y mod 4 * 64 + z) # r))))
      | _ \<Rightarrow> None)"
| "b64Decode _ = None"

definition base64EncodeToString :: "bytes \<Rightarrow> string" where
  "base64EncodeToString bs = b64Encode (map unat bs)"

definition base64DecodeString :: "string \<Rightarrow> bytes res" where
  "base64DecodeString s =
     (case b64Decode (filter (\<lambda>c. c \<noteq> CHR 0x0A \<and> c \<noteq> CHR 0x0D) s) of
        None \<Rightarrow> Inl (errorsNew ''illegal base64 data'')
      | Some ns \<Rightarrow> Inr (map word_of_nat ns))"

lemma b64_table:
  "list_all (\<lambda>n. b64Val (b64Char n) = Some n \<and> b64Char n \<noteq> CHR ''='' \<and> graphic (b64Char n)) [0..<64]"
  by code_simp

lemma b64Char_props:
  assumes "n < 64"
  shows "b64Val (b64Char n) = Some n" "b64Char n \<noteq> CHR ''=''" "graphic (b64Char n)"
  using b64_table assms by (auto simp: list_all_iff)

lemma b64Decode_Encode: "list_all (\<lambda>n. n < 256) ns \<Longrightarrow> b64Decode (b64Encode ns) = Some ns"
proof (induction ns rule: b64Encode.induct)
  case 1
  then show ?case by simp
next
  case (2 a)
  then have "a div 4 < 64" "a mod 4 * 16 < 64" by auto
  then show ?case by (simp add: b64Char_props)
next
  case (3 a b)
  then have "a div 4 < 64" "a mod 4 * 16 + b div 16 < 64" "b mod 16 * 4 < 64" by auto
  moreover have "b div 16 div 16 = 0 \<and> b div 16 mod 16 * 16 + b mod 16 = b"
  proof -
    have "b div 16 < 16" using 3 by auto
    then show ?thesis by simp
  qed
  ultimately show ?case using 3 by (simp add: b64Char_props)
next
  case (4 a b c s)
  then have "a div 4 < 64" "a mod 4 * 16 + b div 16 < 64" "b mod 16 * 4 + c div 64 < 64"
    "c mod 64 < 64" by auto
  moreover have "b div 16 < 16" "c div 64 < 4" using 4 by auto
  then have "b div 16 div 16 = 0 \<and> b div 16 mod 16 * 16 + (b mod 16 + c div 64 div 4) = b \<and>
      c div 64 mod 4 * 64 + c mod 64 = c" by simp
  ultimately show ?case using 4 by (simp add: b64Char_props)
qed

lemma graphic_eq: "graphic (CHR ''='')"
  by (simp add: graphic_def)

lemma b64Encode_graphic: "list_all (\<lambda>n. n < 256) ns \<Longrightarrow> list_all graphic (b64Encode ns)"
proof (induction ns rule: b64Encode.induct)
  case (4 a b c s)
  then have "a div 4 < 64" "a mod 4 * 16 + b div 16 < 64" "b mod 16 * 4 + c div 64 < 64"
    "c mod 64 < 64" by auto
  then show ?case using 4 by (simp add: b64Char_props)
next
  case (2 a)
  then have "a div 4 < 64" "a mod 4 * 16 < 64" by auto
  then show ?case by (simp add: b64Char_props graphic_eq)
next
  case (3 a b)
  then have "a div 4 < 64" "a mod 4 * 16 + b div 16 < 64" "b mod 16 * 4 < 64" by auto
  then show ?case by (simp add: b64Char_props graphic_eq)
qed simp

lemma unat_bytes_bound: "list_all (\<lambda>n. n < 256) (map unat (bs :: bytes))"
proof -
  have "unat b < 2 ^ LENGTH(8)" for b :: byte
    by (rule unsigned_less)
  then show ?thesis by (simp add: list_all_iff)
qed

lemma base64_decode_encode: "base64DecodeString (base64EncodeToString bs) = Inr bs"
proof -
  have "filter (\<lambda>c. c \<noteq> CHR 0x0A \<and> c \<noteq> CHR 0x0D) (base64EncodeToString bs) = base64EncodeToString bs"
    using b64Encode_graphic[OF unat_bytes_bound[of bs]]
    by (auto simp: base64EncodeToString_def filter_id_conv list_all_iff graphic_def)
  then show ?thesis
    using b64Decode_Encode[OF unat_bytes_bound[of bs]]
    by (simp add: base64DecodeString_def base64EncodeToString_def comp_def)
qed

interpretation base64: byte_codec base64EncodeToString base64DecodeString
  by unfold_locales (rule base64_decode_encode)

end
