(* ===== verification/Crypto.thy ===== *)
theory Crypto
  imports AesGcm Codec
begin

text \<open>
  \<open>internal/crypto/aes.go\<close>: sealing of byte strings and texts with AES-256-GCM, and salted
  password hashes. Random bytes are an argument: the result of the read from the system's
  source. \<open>aes.NewCipher\<close> and \<open>cipher.NewGCM\<close> cannot fail once the key length is checked.
\<close>

definition KeyByteLength :: nat where "KeyByteLength = 32"

definition badKeySize :: "bytes \<Rightarrow> goerr" where
  "badKeySize key = errorsNew (''invalid key size: expected '' @ itoa (int KeyByteLength) @
     '' bytes for AES-256, got '' @ itoa (int (length key)))"

definition EncryptAESGCMBytes :: "bytes res \<Rightarrow> bytes \<Rightarrow> bytes \<Rightarrow> bytes res" where
  "EncryptAESGCMBytes rnd plaintext key =
     (if length key \<noteq> KeyByteLength then Inl (badKeySize key)
      else case rnd of
        Inl err \<Rightarrow> Inl (wrapErr ''failed to generate random nonce: '' err)
      | Inr nonce \<Rightarrow> Inr (nonce @ gcmSeal key nonce plaintext))"

definition DecryptAESGCMBytes :: "bytes \<Rightarrow> bytes \<Rightarrow> bytes res" where
  "DecryptAESGCMBytes data key =
     (if length key \<noteq> KeyByteLength then Inl (badKeySize key)
      else if length data < gcmNonceSize then Inl (errorsNew ''ciphertext too short'')
      else
        let nonce = take gcmNonceSize data; ciphertext = drop gcmNonceSize data in
        case gcmOpen key nonce ciphertext of
          None \<Rightarrow> Inl (errorsNew (''decryption failed (authentication tag mismatch or corrupted data): '' @
                    ''cipher: message authentication failed''))
        | Some plaintext \<Rightarrow> Inr plaintext)"

definition EncryptAESGCM :: "bytes res \<Rightarrow> string \<Rightarrow> bytes \<Rightarrow> string res" where
  "EncryptAESGCM rnd plaintext key =
     (case EncryptAESGCMBytes rnd (bytesOf plaintext) key of
        Inl err \<Rightarrow> Inl err | Inr sealed \<Rightarrow> Inr (base64EncodeToString sealed))"

definition DecryptAESGCM :: "string \<Rightarrow> bytes \<Rightarrow> string res" where
  "DecryptAESGCM encodedCiphertext key =
     (case base64DecodeString encodedCiphertext of
        Inl err \<Rightarrow> Inl (wrapErr ''failed to decode base64 ciphertext: '' err)
      | Inr data \<Rightarrow> (case DecryptAESGCMBytes data key of
          Inl err \<Rightarrow> Inl err | Inr plain \<Rightarrow> Inr (stringOf plain)))"

text \<open>\<open>salt\<close> is the 16-byte buffer after \<open>rand.Read\<close>.\<close>

definition HashPassword :: "bytes \<Rightarrow> string \<Rightarrow> string" where
  "HashPassword salt password =
     hexEncodeToString salt @ ''$'' @ hexEncodeToString (sha256 (salt @ bytesOf password))"

definition VerifyPassword :: "string \<Rightarrow> string \<Rightarrow> bool" where
  "VerifyPassword password storedHash =
     (case Split storedHash (CHR ''$'') of
        [p0, p1] \<Rightarrow>
          (case hexDecodeString p0 of Inl _ \<Rightarrow> False
           | Inr salt \<Rightarrow> (case hexDecodeString p1 of Inl _ \<Rightarrow> False
             | Inr expectedHash \<Rightarrow> sha256 (salt @ bytesOf password) = expectedHash))
      | _ \<Rightarrow> False)"

subsection \<open>Sealing\<close>

lemma Encrypt_box:
  "EncryptAESGCMBytes rnd p key = Inr c \<longleftrightarrow>
     length key = KeyByteLength \<and> (\<exists>nonce. rnd = Inr nonce \<and> c = gcm.box key nonce p)"
  by (auto simp: EncryptAESGCMBytes_def gcm.box_def split: sum.splits if_splits)

lemma Decrypt_unbox:
  "DecryptAESGCMBytes c key = Inr p \<longleftrightarrow> length key = KeyByteLength \<and> gcm.unbox key c = Some p"
  by (auto simp: DecryptAESGCMBytes_def gcm.unbox_def Let_def split: option.splits if_splits)

text \<open>
  C10. Decryption inverts encryption: whatever 12-byte nonce the random source gave and
  whatever the plaintext, the sealed bytes decrypt to the plaintext under the same key.
\<close>

theorem decrypt_encrypt_bytes:
  assumes "length nonce = gcmNonceSize"
    and "EncryptAESGCMBytes (Inr nonce) p key = Inr c"
  shows "DecryptAESGCMBytes c key = Inr p \<and> length c = 12 + length p + 16"
  using assms gcm.unbox_box[OF assms(1), of key p] gcm.unbox_length[of key c p]
  by (auto simp: Encrypt_box Decrypt_unbox gcmNonceSize_def gcmTagSize_def)

theorem decrypt_encrypt_bytes_witness:
  "\<exists>c. EncryptAESGCMBytes (Inr (replicate 12 7)) [1, 2, 3] (replicate 32 9) = Inr c \<and>
     DecryptAESGCMBytes c (replicate 32 9) = Inr [1, 2, 3] \<and> length c = 31"
proof -
  have e: "EncryptAESGCMBytes (Inr (replicate 12 7)) [1, 2, 3] (replicate 32 9) =
      Inr (gcm.box (replicate 32 9) (replicate 12 7) [1, 2, 3])"
    by (simp add: Encrypt_box KeyByteLength_def)
  from decrypt_encrypt_bytes[OF _ e] e show ?thesis by (auto simp: gcmNonceSize_def)
qed

text \<open>
  C9. Decryption accepts only what encryption produces: accepted bytes are the encryption
  of the returned plaintext under the nonce they carry. Changing the plaintext part, the
  tag or the length of sealed bytes therefore never yields another accepted message with
  the same nonce and plaintext.
\<close>

theorem decrypt_accepts_only_sealed:
  assumes "DecryptAESGCMBytes c key = Inr p"
  shows "EncryptAESGCMBytes (Inr (take 12 c)) p key = Inr c"
  using assms gcm.box_unbox[of key c p]
  by (simp add: Encrypt_box Decrypt_unbox gcmNonceSize_def)

theorem decrypt_accepts_only_sealed_witness:
  "EncryptAESGCMBytes (Inr (take 12 (gcm.box (replicate 32 9) (replicate 12 7) [5]))) [5]
     (replicate 32 9) = Inr (gcm.box (replicate 32 9) (replicate 12 7) [5])"
proof -
  have "gcm.unbox (replicate 32 9) (gcm.box (replicate 32 9) (replicate 12 7) [5]) = Some [5]"
    by (rule gcm.unbox_box) (simp add: gcmNonceSize_def)
  then show ?thesis
    by (intro decrypt_accepts_only_sealed) (simp add: Decrypt_unbox KeyByteLength_def)
qed

text \<open>Texts: the same round trip through base 64.\<close>

lemma decrypt_encrypt_text:
  assumes "length nonce = gcmNonceSize" "EncryptAESGCM (Inr nonce) s key = Inr t"
  shows "DecryptAESGCM t key = Inr s"
proof -
  from assms(2) obtain c where c: "EncryptAESGCMBytes (Inr nonce) (bytesOf s) key = Inr c"
    and t: "t = base64EncodeToString c"
    by (auto simp: EncryptAESGCM_def split: sum.splits)
  have "gcm.unbox key c = Some (bytesOf s)" "length key = KeyByteLength"
    using c gcm.unbox_box[OF assms(1)] by (auto simp: Encrypt_box)
  then have "DecryptAESGCMBytes c key = Inr (bytesOf s)" by (simp add: Decrypt_unbox)
  with t show ?thesis by (simp add: DecryptAESGCM_def base64.decode_encode)
qed

lemma wrong_key_length:
  "length key \<noteq> KeyByteLength \<Longrightarrow> isErr (DecryptAESGCMBytes c key) \<and> isErr (EncryptAESGCMBytes r p key)"
  by (simp add: DecryptAESGCMBytes_def EncryptAESGCMBytes_def)

subsection \<open>Passwords\<close>

lemma Split_hash:
  "Split (HashPassword salt p) (CHR ''$'') =
     [hexEncodeToString salt, hexEncodeToString (sha256 (salt @ bytesOf p))]"
proof -
  have no: "CHR ''$'' \<notin> set (hexEncodeToString bs)" for bs
    by (rule hexEncode_no) (simp add: hexLower_def)
  show ?thesis
    using Split_append_sep[OF no[of salt]] Split_no_sep[OF no] by (simp add: HashPassword_def)
qed

text \<open>
  A stored hash accepts a password exactly when the salted digests agree; in particular
  it accepts the password it was made from.
\<close>

theorem VerifyPassword_HashPassword:
  "VerifyPassword q (HashPassword salt p) \<longleftrightarrow>
     sha256 (salt @ bytesOf q) = sha256 (salt @ bytesOf p)"
  by (simp add: VerifyPassword_def Split_hash)

text \<open>Anything but \<open>hex$hex\<close> is refused.\<close>

lemma VerifyPassword_malformed:
  "length (Split h (CHR ''$'')) \<noteq> 2 \<Longrightarrow> \<not> VerifyPassword p h"
  by (auto simp: VerifyPassword_def split: list.splits)

text \<open>The digest of the first example of FIPS 180-4.\<close>

lemma sha256_example:
  "hexEncodeToString (sha256 (bytesOf ''abc'')) = ''ba7816bf8f01cfea414140de5dae2223b00361a396177a9cb410ff61f20015ad''"
  by code_simp

end
