(* ===== verification/GoIO.thy ===== *)
theory GoIO
  imports GoStrings
begin

text \<open>
  \<open>io.Reader\<close> as a value. A reader is the list of what the source will deliver: pieces of
  data, each with the error that accompanies its last byte, if any. A \<open>Read\<close> with a buffer
  of \<open>n\<close> bytes takes the next piece, or the first \<open>n\<close> bytes of it; an exhausted reader
  answers EOF, and an error is repeated by later reads. This covers a source that reports
  EOF together with the last bytes and one that reports it by itself, short reads, empty
  reads and failures at any point.
\<close>

type_synonym reader = "(bytes \<times> goerr option) list"

definition ioEOF :: goerr where
  "ioEOF = Err ''EOF'' [IoEOF]"

lemma errorsIs_ioEOF [simp]: "errorsIs ioEOF s \<longleftrightarrow> s = IoEOF"
  by (auto simp: ioEOF_def errorsIs_def)

fun readOnce :: "nat \<Rightarrow> reader \<Rightarrow> bytes \<times> goerr option \<times> reader" where
  "readOnce n [] = ([], Some ioEOF, [])"
| "readOnce n ((bs, e) # r) =
     (if length bs \<le> n
      then (bs, e, case e of None \<Rightarrow> r | Some _ \<Rightarrow> [([], e)])
      else (take n bs, None, (drop n bs, e) # r))"

fun rsize :: "reader \<Rightarrow> nat" where
  "rsize [] = 0"
| "rsize ((bs, e) # r) = Suc (length bs + rsize r)"

lemma readOnce_rsize:
  "readOnce n r = (bs, None, r') \<Longrightarrow> 0 < n \<Longrightarrow> rsize r' < rsize r"
  by (cases r) (auto split: if_splits option.splits)

lemma readOnce_length: "readOnce n r = (bs, e, r') \<Longrightarrow> length bs \<le> n"
  by (cases r) (auto split: if_splits)

text \<open>The data a reader delivers before its first error, and that error.\<close>

fun rdata :: "reader \<Rightarrow> bytes" where
  "rdata [] = []"
| "rdata ((bs, None) # r) = bs @ rdata r"
| "rdata ((bs, Some e) # r) = bs"

fun rerr :: "reader \<Rightarrow> goerr" where
  "rerr [] = ioEOF"
| "rerr ((bs, None) # r) = rerr r"
| "rerr ((bs, Some e) # r) = e"

lemma readOnce_more:
  "readOnce n r = (bs, None, r') \<Longrightarrow> rdata r = bs @ rdata r' \<and> rerr r = rerr r'"
  by (induction r rule: rdata.induct) (auto split: if_splits option.splits) 

lemma readOnce_last:
  "readOnce n r = (bs, Some e, r') \<Longrightarrow> rdata r = bs \<and> rerr r = e"
  by (induction r rule: rdata.induct) (auto split: if_splits)

text \<open>A reader of a byte string or a file: its bytes, then EOF.\<close>

definition bytesReader :: "bytes \<Rightarrow> reader" where
  "bytesReader bs = (if bs = [] then [] else [(bs, None)])"

lemma rdata_bytesReader [simp]: "rdata (bytesReader bs) = bs"
  by (simp add: bytesReader_def)

lemma rerr_bytesReader [simp]: "rerr (bytesReader bs) = ioEOF"
  by (simp add: bytesReader_def)

text \<open>
  \<open>io.ReadAll\<close>; \<open>sz k\<close> is the free space of its buffer at the \<open>k\<close>-th read, which is never
  zero.
\<close>

function readAll :: "(nat \<Rightarrow> nat) \<Rightarrow> nat \<Rightarrow> bytes \<Rightarrow> reader \<Rightarrow> bytes res" where
  "readAll sz k acc r =
     (case readOnce (Suc (sz k)) r of (bs, e, r') \<Rightarrow>
        (case e of
           None \<Rightarrow> readAll sz (Suc k) (acc @ bs) r'
         | Some err \<Rightarrow> if errorsIs err IoEOF then Inr (acc @ bs) else Inl err))"
  by pat_completeness auto
termination
  by (relation "measure (\<lambda>(sz, k, acc, r). rsize r)") (auto dest!: readOnce_rsize[OF sym])

declare readAll.simps [simp del]

lemma readAll_eq:
  "readAll sz k acc r =
     (if errorsIs (rerr r) IoEOF then Inr (acc @ rdata r) else Inl (rerr r))"
proof (induction sz k acc r rule: readAll.induct)
  case (1 sz k acc r)
  obtain bs e r' where ro: "readOnce (Suc (sz k)) r = (bs, e, r')"
    by (cases "readOnce (Suc (sz k)) r")
  show ?case
  proof (cases e)
    case None
    with ro "1.IH" readOnce_more[of "Suc (sz k)" r bs r'] show ?thesis
      by (subst readAll.simps) simp
  next
    case (Some err)
    with ro readOnce_last[of "Suc (sz k)" r bs err r'] show ?thesis
      by (subst readAll.simps) simp
  qed
qed

text \<open>\<open>io.LimitReader(r, n)\<close>, by the data it delivers: EOF after \<open>n\<close> bytes.\<close>

fun limitReader :: "nat \<Rightarrow> reader \<Rightarrow> reader" where
  "limitReader n [] = []"
| "limitReader n ((bs, e) # r) =
     (if n = 0 then []
      else if length bs < n then (bs, e) # (case e of None \<Rightarrow> limitReader (n - length bs) r | Some _ \<Rightarrow> [])
      else if length bs = n then [(bs, e)]
      else [(take n bs, None)])"

lemma rdata_limitReader: "rdata (limitReader n r) = take n (rdata r)"
  by (induction n r rule: limitReader.induct) (auto split: option.splits simp: neq_Nil_conv)

lemma rerr_limitReader: "length (rdata r) < n \<Longrightarrow> rerr (limitReader n r) = rerr r"
proof (induction n r rule: limitReader.induct)
  case (2 n bs e r)
  show ?case
  proof (cases e)
    case None
    with 2 have "length (rdata r) < n - length bs" by simp
    with 2 None show ?thesis by simp
  qed (use 2 in simp)
qed simp

lemma rerr_limitReader_cases: "rerr (limitReader n r) = rerr r \<or> rerr (limitReader n r) = ioEOF"
  by (induction n r rule: limitReader.induct) (auto split: option.splits)

end
