(* ===== verification/Clamd.thy ===== *)
theory Clamd
  imports GoIO
begin

text \<open>
  The client of the ClamAV daemon, \<open>internal/clamd/client.go\<close>. Every command opens one
  connection. A connection is what the network and the daemon will do with it: whether the
  dial succeeds, at which point of the outgoing byte stream a write fails, and what the
  daemon answers to all the bytes it was sent. The operations return their Go results and
  the bytes they have put on the wire.

  \<open>INSTREAM\<close> is the daemon's side of the protocol (a length word in network order before
  every chunk, a zero length at the end), written as a decoder; the theorems below say that
  what \<open>ScanStream\<close> sends decodes to exactly what its reader delivered.
\<close>

definition defaultChunkSize :: nat where
  "defaultChunkSize = 64 * 1024"

datatype verdict = NoVerdict | CLEAN | INFECTED | VERROR

definition verdictText :: "verdict \<Rightarrow> string" where
  "verdictText v = (case v of NoVerdict \<Rightarrow> '''' | CLEAN \<Rightarrow> ''CLEAN'' | INFECTED \<Rightarrow> ''INFECTED'' | VERROR \<Rightarrow> ''ERROR'')"

record ScanResult =
  Verdict :: verdict
  VirusName :: string
  RawResponse :: string

definition IsClean :: "ScanResult \<Rightarrow> bool" where
  "IsClean r \<longleftrightarrow> Verdict r = CLEAN"

record Client =
  network :: string
  address :: string

definition NewClient :: "string \<Rightarrow> string \<Rightarrow> Client" where
  "NewClient nw addr =
     \<lparr> network = (if nw = '''' then ''unix'' else nw),
       address = (if addr = '''' then ''/var/run/clamav/clamd.ctl'' else addr) \<rparr>"

subsection \<open>Connections\<close>

record clamdConn =
  dialErr :: "goerr option"
  writeErr :: "bytes \<Rightarrow> goerr option"
  reply :: "bytes \<Rightarrow> reader"
  ctxErr :: "nat \<Rightarrow> goerr option"

definition connWrite :: "clamdConn \<Rightarrow> bytes \<Rightarrow> bytes \<Rightarrow> goerr option \<times> bytes" where
  "connWrite cn bs sent =
     (case writeErr cn sent of None \<Rightarrow> (None, sent @ bs) | Some e \<Rightarrow> (Some e, sent))"

text \<open>\<open>binary.Write(conn, binary.BigEndian, uint32(n))\<close>.\<close>

definition be32 :: "32 word \<Rightarrow> bytes" where
  "be32 w = [ucast (drop_bit 24 w), ucast (drop_bit 16 w), ucast (drop_bit 8 w), ucast w]"

function readUntilNull :: "string \<Rightarrow> reader \<Rightarrow> string \<times> goerr option" where
  "readUntilNull buf r =
     (case readOnce 1 r of (bs, e, r') \<Rightarrow>
        if bs \<noteq> [] \<and> (hd bs = 0 \<or> hd bs = 10) then (buf, None)
        else let buf' = (if bs \<noteq> [] then buf @ stringOf [hd bs] else buf) in
          (case e of
             None \<Rightarrow> readUntilNull buf' r'
           | Some err \<Rightarrow> if errorsIs err IoEOF then (buf', None) else (buf', Some err)))"
  by pat_completeness auto
termination
  by (relation "measure (\<lambda>(buf, r). rsize r)") (auto dest!: readOnce_rsize[OF sym])

declare readUntilNull.simps [simp del]

subsection \<open>Commands\<close>

definition Ping :: "Client \<Rightarrow> clamdConn \<Rightarrow> goerr option \<times> bytes" where
  "Ping c cn =
     (case dialErr cn of
        Some e \<Rightarrow> (Some (wrapErr (''failed to connect to clamd at '' @ network c @ ''://'' @ address c @ '': '') e), [])
      | None \<Rightarrow>
        (case connWrite cn (bytesOf ''zPING'' @ [0]) [] of
           (Some e, sent) \<Rightarrow> (Some (wrapErr ''failed to send PING: '' e), sent)
         | (None, sent) \<Rightarrow>
           (case readUntilNull '''' (reply cn sent) of
              (resp, Some e) \<Rightarrow> (Some (wrapErr ''failed to read PING response: '' e), sent)
            | (resp, None) \<Rightarrow>
                if \<not> HasPrefix resp ''PONG''
                then (Some (errorsNew (''unexpected PING response from clamd: '' @ resp)), sent)
                else (None, sent))))"

definition Version :: "clamdConn \<Rightarrow> string res \<times> bytes" where
  "Version cn =
     (case dialErr cn of
        Some e \<Rightarrow> (Inl (wrapErr ''failed to connect to clamd: '' e), [])
      | None \<Rightarrow>
        (case connWrite cn (bytesOf ''zVERSION'' @ [0]) [] of
           (Some e, sent) \<Rightarrow> (Inl (wrapErr ''failed to send VERSION: '' e), sent)
         | (None, sent) \<Rightarrow>
           (case readUntilNull '''' (reply cn sent) of
              (resp, Some e) \<Rightarrow> (Inl (wrapErr ''failed to read VERSION response: '' e), sent)
            | (resp, None) \<Rightarrow> (Inr (TrimSpace resp), sent))))"

definition Reload :: "clamdConn \<Rightarrow> goerr option \<times> bytes" where
  "Reload cn =
     (case dialErr cn of
        Some e \<Rightarrow> (Some (wrapErr ''failed to connect to clamd: '' e), [])
      | None \<Rightarrow>
        (case connWrite cn (bytesOf ''zRELOAD'' @ [0]) [] of
           (Some e, sent) \<Rightarrow> (Some (wrapErr ''failed to send RELOAD: '' e), sent)
         | (None, sent) \<Rightarrow>
           (case readUntilNull '''' (reply cn sent) of
              (resp, Some e) \<Rightarrow> (Some (wrapErr ''failed to read RELOAD response: '' e), sent)
            | (resp, None) \<Rightarrow>
                if Contains resp ''ERROR'' then (Some (errorsNew (''clamd reload error: '' @ resp)), sent)
                else (None, sent))))"

text \<open>One chunk: its length, then its bytes, two writes.\<close>

definition writeChunk :: "clamdConn \<Rightarrow> bytes \<Rightarrow> bytes \<Rightarrow> goerr option \<times> bytes" where
  "writeChunk cn bs sent =
     (case connWrite cn (be32 (of_nat (length bs))) sent of
        (Some e, s) \<Rightarrow> (Some (wrapErr ''failed to write chunk size: '' e), s)
      | (None, s) \<Rightarrow>
        (case connWrite cn bs s of
           (Some e, s') \<Rightarrow> (Some (wrapErr ''failed to write chunk payload: '' e), s')
         | (None, s') \<Rightarrow> (None, s')))"

function streamChunks :: "clamdConn \<Rightarrow> nat \<Rightarrow> reader \<Rightarrow> bytes \<Rightarrow> goerr option \<times> bytes" where
  "streamChunks cn k r sent =
     (case ctxErr cn k of
        Some e \<Rightarrow> (Some e, sent)
      | None \<Rightarrow>
        (case readOnce defaultChunkSize r of (bs, readErr, r') \<Rightarrow>
          (case (if bs \<noteq> [] then writeChunk cn bs sent else (None, sent)) of
             (Some e, s) \<Rightarrow> (Some e, s)
           | (None, s) \<Rightarrow>
             (case readErr of
                None \<Rightarrow> streamChunks cn (Suc k) r' s
              | Some e \<Rightarrow>
                  if errorsIs e IoEOF then (None, s)
                  else (Some (wrapErr ''error reading stream payload: '' e), s)))))"
  by pat_completeness auto
termination
  by (relation "measure (\<lambda>(cn, k, r, sent). rsize r)")
     (auto dest!: readOnce_rsize[OF sym] simp: defaultChunkSize_def)

declare streamChunks.simps [simp del]

definition parseScanResponse :: "string \<Rightarrow> ScanResult \<times> goerr option" where
  "parseScanResponse raw =
     (let trimmed = TrimSpace raw;
          res = \<lparr> Verdict = NoVerdict, VirusName = '''', RawResponse = trimmed \<rparr> in
      if Contains trimmed ''OK'' then (res\<lparr>Verdict := CLEAN\<rparr>, None)
      else if Contains trimmed ''FOUND'' then
        (let parts = Split trimmed (CHR '':'');
             res = res\<lparr>Verdict := INFECTED\<rparr> in
         if 2 \<le> length parts
         then (res\<lparr>VirusName := TrimSuffix (TrimSpace (parts ! 1)) '' FOUND''\<rparr>, None)
         else (res, None))
      else if Contains trimmed ''ERROR'' then
        (res\<lparr>Verdict := VERROR\<rparr>, Some (errorsNew (''clamd scan error: '' @ trimmed)))
      else (res, Some (errorsNew (''unrecognized clamd response: '' @ trimmed))))"

definition ScanStream :: "clamdConn \<Rightarrow> reader \<Rightarrow> (ScanResult option \<times> goerr option) \<times> bytes" where
  "ScanStream cn r =
     (case dialErr cn of
        Some e \<Rightarrow> ((None, Some (wrapErr ''failed to connect to clamd: '' e)), [])
      | None \<Rightarrow>
        (case connWrite cn (bytesOf ''zINSTREAM'' @ [0]) [] of
           (Some e, s) \<Rightarrow> ((None, Some (wrapErr ''failed to initiate zINSTREAM command: '' e)), s)
         | (None, s) \<Rightarrow>
           (case streamChunks cn 0 r s of
              (Some e, s) \<Rightarrow> ((None, Some e), s)
            | (None, s) \<Rightarrow>
              (case connWrite cn (be32 0) s of
                 (Some e, s) \<Rightarrow> ((None, Some (wrapErr ''failed to send stream terminator: '' e)), s)
               | (None, s) \<Rightarrow>
                 (case readUntilNull '''' (reply cn s) of
                    (resp, Some e) \<Rightarrow> ((None, Some (wrapErr ''failed to read clamd scan response: '' e)), s)
                  | (resp, None) \<Rightarrow>
                      (case parseScanResponse resp of (res, err) \<Rightarrow> ((Some res, err), s)))))))"

subsection \<open>What the daemon receives\<close>

definition beVal :: "bytes \<Rightarrow> nat" where
  "beVal bs = foldl (\<lambda>n b. 256 * n + unat b) 0 bs"

lemma unat_byte_drop: "unat (ucast (drop_bit k (w :: 32 word)) :: byte) = unat w div 2 ^ k mod 256"
proof -
  have "unat (ucast (drop_bit k w) :: byte) = unat (drop_bit k w) mod 256"
    by (simp add: unsigned_ucast_eq take_bit_eq_mod)
  also have "unat (drop_bit k w) = unat w div 2 ^ k"
    by (simp only: unat_drop_bit_eq drop_bit_nat_def)
  finally show ?thesis .
qed

lemma unat_byte_low: "unat (ucast (w :: 32 word) :: byte) = unat w mod 256"
  by (simp add: unsigned_ucast_eq take_bit_eq_mod)

lemma beVal_be32 [simp]: "beVal (be32 w) = unat w"
proof -
  define n where "n = unat w"
  have lt: "n < 4294967296" using unsigned_less[of w] by (simp add: n_def)
  have "n div 16777216 < 256" using lt by (simp add: less_mult_imp_div_less)
  then have "n div 16777216 mod 256 = n div 16777216" by simp
  moreover have "256 * (n div 16777216) + n div 65536 mod 256 = n div 65536"
    using div_mult2_eq[of n 65536 256] mult_div_mod_eq[of 256 "n div 65536"] by simp
  moreover have "256 * (n div 65536) + n div 256 mod 256 = n div 256"
    using div_mult2_eq[of n 256 256] mult_div_mod_eq[of 256 "n div 256"] by simp
  moreover have "256 * (n div 256) + n mod 256 = n" by simp
  ultimately have "256 * (256 * (256 * (n div 16777216 mod 256) + n div 65536 mod 256) + n div 256 mod 256) + n mod 256 = n"
    by presburger
  moreover have "beVal (be32 w) =
      256 * (256 * (256 * (256 * 0 + n div 2 ^ 24 mod 256) + n div 2 ^ 16 mod 256) + n div 2 ^ 8 mod 256) + n mod 256"
    by (simp only: beVal_def be32_def foldl.simps unat_byte_low unat_drop_bit_eq drop_bit_nat_def n_def)
  ultimately show ?thesis by (simp only: n_def) simp
qed

lemma length_be32 [simp]: "length (be32 w) = 4"
  by (simp add: be32_def)

text \<open>The daemon's decoder of an INSTREAM conversation: the chunks up to the zero length.\<close>

function deframe :: "bytes \<Rightarrow> bytes list option" where
  "deframe bs =
     (if length bs < 4 then None
      else let n = beVal (take 4 bs); rest = drop 4 bs in
        if n = 0 then (if rest = [] then Some [] else None)
        else if length rest < n then None
        else map_option ((#) (take n rest)) (deframe (drop n rest)))"
  by pat_completeness auto
termination
  by (relation "measure length") auto

declare deframe.simps [simp del]

definition frame :: "bytes \<Rightarrow> bytes" where
  "frame c = be32 (of_nat (length c)) @ c"

definition chunkOk :: "bytes \<Rightarrow> bool" where
  "chunkOk c \<longleftrightarrow> c \<noteq> [] \<and> length c \<le> defaultChunkSize"

lemma deframe_frames:
  "list_all chunkOk cs \<Longrightarrow> deframe (concat (map frame cs) @ be32 0) = Some cs"
proof (induction cs)
  case Nil
  then show ?case by (subst deframe.simps) simp
next
  case (Cons c cs)
  then have c: "0 < length c" "length c \<le> 65536"
    by (auto simp: chunkOk_def defaultChunkSize_def)
  then have "unat (of_nat (length c) :: 32 word) = length c"
    by (simp add: unat_of_nat)
  with Cons c show ?case
    by (subst deframe.simps) (simp add: frame_def[of c] Let_def)
qed

lemma connWrite_ok: "connWrite cn bs s = (None, t) \<longleftrightarrow> writeErr cn s = None \<and> t = s @ bs"
  by (auto simp: connWrite_def split: option.splits)

lemma writeChunk_ok: "writeChunk cn bs s = (None, t) \<Longrightarrow> t = s @ frame bs"
  by (auto simp: writeChunk_def frame_def connWrite_def split: prod.splits option.splits)

lemma streamChunks_frames:
  "streamChunks cn k r s = (None, t) \<Longrightarrow>
   errorsIs (rerr r) IoEOF \<and>
   (\<exists>cs. list_all chunkOk cs \<and> concat cs = rdata r \<and> t = s @ concat (map frame cs))"
proof (induction cn k r s rule: streamChunks.induct)
  case (1 cn k r s)
  obtain bs e r' where ro: "readOnce defaultChunkSize r = (bs, e, r')"
    by (cases "readOnce defaultChunkSize r")
  have ctx: "ctxErr cn k = None"
    using "1.prems" by (subst (asm) streamChunks.simps) (auto split: option.splits)
  obtain u where w: "(if bs \<noteq> [] then writeChunk cn bs s else (None, s)) = (None, u)"
    using "1.prems" ro ctx by (subst (asm) streamChunks.simps) (auto split: if_splits option.splits prod.splits)
  define cs0 where "cs0 = (if bs = [] then [] else [bs])"
  have u: "u = s @ concat (map frame cs0)" "list_all chunkOk cs0" "concat cs0 = bs"
    using w writeChunk_ok[of cn bs s u] readOnce_length[OF ro]
    by (auto simp: cs0_def chunkOk_def split: if_splits)
  show ?case
  proof (cases e)
    case None
    with "1.prems" ro ctx w have rec: "streamChunks cn (Suc k) r' u = (None, t)"
      by (subst (asm) streamChunks.simps) simp
    from "1.IH"[OF ctx ro[symmetric] refl w[symmetric] refl None rec]
    obtain cs where cs: "errorsIs (rerr r') IoEOF" "list_all chunkOk cs" "concat cs = rdata r'"
      "t = u @ concat (map frame cs)" by blast
    have "list_all chunkOk (cs0 @ cs)" "concat (cs0 @ cs) = rdata r" "t = s @ concat (map frame (cs0 @ cs))"
      using cs u readOnce_more[of _ r bs r'] ro None by auto
    with cs(1) readOnce_more[of _ r bs r'] ro None show ?thesis by metis
  next
    case (Some err)
    with "1.prems" ro ctx w have "errorsIs err IoEOF" "t = u"
      by (subst (asm) streamChunks.simps; simp split: if_splits)+
    with readOnce_last[of _ r bs err r'] ro Some u show ?thesis by metis
  qed
qed

subsection \<open>What the client reads\<close>

definition stopByte :: "byte \<Rightarrow> bool" where
  "stopByte b \<longleftrightarrow> b = 0 \<or> b = 10"

text \<open>The answer of a daemon: its bytes up to a NUL or a newline.\<close>

definition answerOf :: "reader \<Rightarrow> string" where
  "answerOf r = stringOf (takeWhile (\<lambda>b. \<not> stopByte b) (rdata r))"

lemma stringOf_Cons [simp]: "stringOf (b # bs) = char_of (unat b) # stringOf bs"
  by (simp add: stringOf_def)

lemma stringOf_Nil [simp]: "stringOf [] = []"
  by (simp add: stringOf_def)

lemma readUntilNull_eq:
  "readUntilNull buf r =
     (if list_ex stopByte (rdata r) \<or> errorsIs (rerr r) IoEOF then (buf @ answerOf r, None)
      else (buf @ answerOf r, Some (rerr r)))"
proof (induction buf r rule: readUntilNull.induct)
  case (1 buf r)
  obtain bs e r' where ro: "readOnce 1 r = (bs, e, r')" by (cases "readOnce 1 r")
  have len: "bs = [] \<or> (\<exists>b. bs = [b])"
    using readOnce_length[OF ro] by (cases bs) auto
  define buf' where "buf' = (if bs \<noteq> [] then buf @ stringOf [hd bs] else buf)"
  show ?case
  proof (cases "bs \<noteq> [] \<and> (hd bs = 0 \<or> hd bs = 10)")
    case True
    with len obtain b where b: "bs = [b]" "stopByte b" by (auto simp: stopByte_def)
    have "\<exists>t. rdata r = b # t"
      using readOnce_more[of 1 r bs r'] readOnce_last[of 1 r bs _ r'] ro b
      by (cases e) auto
    with b True ro show ?thesis
      by (subst readUntilNull.simps) (auto simp: answerOf_def)
  next
    case False
    show ?thesis
    proof (cases e)
      case None
      then have ih: "readUntilNull buf' r' = (if list_ex stopByte (rdata r') \<or> errorsIs (rerr r') IoEOF
          then (buf' @ answerOf r', None) else (buf' @ answerOf r', Some (rerr r')))"
        using "1.IH"[OF ro[symmetric] refl False buf'_def None] by simp
      have d: "rdata r = bs @ rdata r'" "rerr r = rerr r'"
        using readOnce_more[of 1 r bs r'] ro None by auto
      have "buf @ answerOf r = buf' @ answerOf r'"
        using len d False by (auto simp: answerOf_def buf'_def stopByte_def)
      moreover have "list_ex stopByte (rdata r) = list_ex stopByte (rdata r')"
        using len d False by (auto simp: stopByte_def)
      moreover have "readUntilNull buf r = readUntilNull buf' r'"
        using False ro None by (subst readUntilNull.simps) (auto simp: buf'_def)
      ultimately show ?thesis using ih d by simp
    next
      case (Some err)
      with readOnce_last[of 1 r bs err r'] ro have d: "rdata r = bs" "rerr r = err" by auto
      have "buf @ answerOf r = buf'"
        using len d False by (auto simp: answerOf_def buf'_def stopByte_def)
      moreover have "\<not> list_ex stopByte (rdata r)"
        using len d False by (auto simp: stopByte_def)
      moreover have "readUntilNull buf r =
          (if errorsIs err IoEOF then (buf', None) else (buf', Some err))"
        using False ro Some by (subst readUntilNull.simps) (simp add: buf'_def)
      ultimately show ?thesis using d by simp
    qed
  qed
qed

subsection \<open>Properties\<close>

text \<open>
  C11. What the daemon receives. Whenever \<open>ScanStream\<close> gets as far as a verdict, the bytes
  it sent are the command \<open>zINSTREAM\<close> with its NUL, followed by a conversation that the
  protocol's decoder splits into chunks whose concatenation is exactly the data of the
  reader, with no chunk empty (an empty one would end the stream early) or longer than
  64 KB; and the reader had been read to its end.
\<close>

theorem ScanStream_sends_payload:
  assumes "ScanStream cn r = ((Some res, err), sent)"
  shows "\<exists>cs. take 10 sent = bytesOf ''zINSTREAM'' @ [0] \<and> deframe (drop 10 sent) = Some cs \<and>
    concat cs = rdata r \<and> errorsIs (rerr r) IoEOF \<and>
    list_all (\<lambda>c. c \<noteq> [] \<and> length c \<le> 65536) cs"
proof -
  define hd where "hd = bytesOf ''zINSTREAM'' @ [0 :: byte]"
  have len: "length hd = 10" by (simp add: hd_def)
  obtain t where t: "streamChunks cn 0 r hd = (None, t)" "sent = t @ be32 0"
    using assms unfolding ScanStream_def hd_def[symmetric]
    by (auto simp: connWrite_def split: option.splits prod.splits)
  from streamChunks_frames[OF t(1)] obtain cs where cs: "errorsIs (rerr r) IoEOF"
    "list_all chunkOk cs" "concat cs = rdata r" "t = hd @ concat (map frame cs)" by auto
  have "deframe (drop 10 sent) = Some cs" "take 10 sent = hd"
    using cs t len deframe_frames[OF cs(2)] by simp_all
  moreover have "list_all (\<lambda>c. c \<noteq> [] \<and> length c \<le> 65536) cs"
    using cs(2) by (simp add: chunkOk_def[abs_def] defaultChunkSize_def)
  ultimately show ?thesis using cs hd_def by auto
qed

definition healthyConn :: "string \<Rightarrow> clamdConn" where
  "healthyConn resp =
     \<lparr> dialErr = None, writeErr = (\<lambda>_. None), reply = (\<lambda>_. bytesReader (bytesOf resp @ [0])),
       ctxErr = (\<lambda>_. None) \<rparr>"

lemma readUntilNull_healthy:
  "list_all graphic (filter (\<lambda>c. c \<noteq> CHR '' '') resp) \<Longrightarrow>
   readUntilNull '''' (bytesReader (bytesOf resp @ [0])) = (resp, None)"
proof -
  assume g: "list_all graphic (filter (\<lambda>c. c \<noteq> CHR '' '') resp)"
  have "\<not> stopByte (of_char c)" if "c \<in> set resp" for c
  proof
    assume "stopByte (of_char c)"
    then have "(of_char c :: nat) = 0 \<or> (of_char c :: nat) = 10"
      unfolding unat_of_char[symmetric] stopByte_def by auto
    with g that show False by (auto simp: list_all_iff graphic_def)
  qed
  then have "takeWhile (\<lambda>b. \<not> stopByte b) (bytesOf resp @ [0]) = bytesOf resp"
    by (subst takeWhile_append2) (auto simp: bytesOf_def stopByte_def)
  then show ?thesis by (simp add: readUntilNull_eq answerOf_def)
qed

lemma streamChunks_healthy:
  "ctxErr cn = (\<lambda>_. None) \<Longrightarrow> writeErr cn = (\<lambda>_. None) \<Longrightarrow> errorsIs (rerr r) IoEOF \<Longrightarrow>
   \<exists>t. streamChunks cn k r s = (None, t)"
proof (induction cn k r s rule: streamChunks.induct)
  case (1 cn k r s)
  obtain bs e r' where ro: "readOnce defaultChunkSize r = (bs, e, r')"
    by (cases "readOnce defaultChunkSize r")
  have ctx: "ctxErr cn k = None" using 1 by simp
  obtain u where w: "(if bs \<noteq> [] then writeChunk cn bs s else (None, s)) = (None, u)"
    using "1.prems"(2) that by (cases "bs = []") (auto simp: writeChunk_def connWrite_def)
  show ?case
  proof (cases e)
    case None
    have "rerr r' = rerr r" using readOnce_more[of _ r bs r'] ro None by auto
    with "1.IH"[OF ctx ro[symmetric] refl w[symmetric] refl None] 1
    show ?thesis using None ro ctx w by (subst streamChunks.simps) simp
  next
    case (Some err)
    with readOnce_last[of _ r bs err r'] ro "1.prems" have "errorsIs err IoEOF" by auto
    with Some ro ctx w show ?thesis by (subst streamChunks.simps) simp
  qed
qed

lemma ScanStream_healthy:
  assumes "list_all graphic (filter (\<lambda>c. c \<noteq> CHR '' '') resp)" and "errorsIs (rerr r) IoEOF"
  shows "fst (ScanStream (healthyConn resp) r) =
    (case parseScanResponse resp of (res, err) \<Rightarrow> (Some res, err))"
proof -
  obtain t where "streamChunks (healthyConn resp) 0 r (bytesOf ''zINSTREAM'' @ [0]) = (None, t)"
    using streamChunks_healthy[of "healthyConn resp" r 0] assms(2) by (auto simp: healthyConn_def)
  then show ?thesis
    by (simp add: ScanStream_def connWrite_def healthyConn_def readUntilNull_healthy[OF assms(1)]
        split: prod.splits)
qed

text \<open>A detection as the daemon reports it for a stream.\<close>

definition detection :: "string \<Rightarrow> string" where
  "detection v = ''stream: '' @ v @ '' FOUND''"

lemma trimLeft_blank: "trimLeftBy goSpaces (CHR '' '' # s) = trimLeftBy goSpaces s"
proof -
  have "find (\<lambda>t. t \<noteq> [] \<and> HasPrefix (CHR '' '' # s) t) goSpaces = Some '' ''"
    by (simp add: goSpaces_def HasPrefix_def)
  then show ?thesis by (subst trimLeftBy.simps) simp
qed

lemma TrimSpace_blank [simp]: "TrimSpace (CHR '' '' # s) = TrimSpace s"
  by (simp add: TrimSpace_def trimLeft_blank)

lemma TrimSpace_detection: "TrimSpace (detection v) = detection v"
  by (rule TrimSpace_graphic) (simp add: detection_def graphic_def)

lemma detection_OK: "Contains (detection v) ''OK'' \<longleftrightarrow> Contains v ''OK''"
proof -
  have "detection v = ''stream:'' @ CHR '' '' # (v @ CHR '' '' # ''FOUND'')"
    by (simp add: detection_def)
  moreover have "\<not> Contains ''stream:'' ''OK''" "\<not> Contains ''FOUND'' ''OK''" by code_simp+
  moreover have "CHR '' '' \<notin> set ''OK''" by simp
  ultimately show ?thesis by (metis Contains_sep list.distinct(1))
qed

lemma parse_detection:
  assumes "list_all graphic v" and "v \<noteq> []" and "CHR '':'' \<notin> set v"
  shows "parseScanResponse (detection v) =
    (\<lparr> Verdict = (if Contains v ''OK'' then CLEAN else INFECTED),
       VirusName = (if Contains v ''OK'' then '''' else v),
       RawResponse = detection v \<rparr>, None)"
proof (cases "Contains v ''OK''")
  case True
  then show ?thesis by (simp add: parseScanResponse_def TrimSpace_detection detection_OK Let_def)
next
  case False
  have found: "Contains (detection v) ''FOUND''"
    using Contains_append_right[of "''stream: '' @ v @ '' ''" "''FOUND''"] by (simp add: detection_def del: Contains.simps)
  have split: "Split (detection v) (CHR '':'') = [''stream'', CHR '' '' # v @ '' FOUND'']"
    using Split_append_sep[of "CHR '':''" "''stream''" "CHR '' '' # v @ '' FOUND''"]
      Split_no_sep[of "CHR '':''" "CHR '' '' # v @ '' FOUND''"] assms(3)
    by (simp add: detection_def)
  have trim: "TrimSpace (v @ '' FOUND'') = v @ '' FOUND''"
    by (rule TrimSpace_graphic) (use assms in \<open>cases v; auto simp: graphic_def\<close>)
  show ?thesis using False found split trim
    by (simp add: parseScanResponse_def TrimSpace_detection detection_OK Let_def del: Contains.simps Split.simps)
qed

text \<open>
  C12. How a detection is reported. When the daemon answers \<open>stream: <name> FOUND\<close> to a
  stream that could be read to its end, \<open>ScanStream\<close> returns without error, and its verdict
  is INFECTED with exactly that name, unless the name contains the letters \<open>OK\<close>: then the
  infected stream is reported CLEAN, because the test for \<open>OK\<close> comes first and looks at the
  whole line.
\<close>

theorem ScanStream_detection:
  assumes "list_all graphic v" and "v \<noteq> []" and "CHR '':'' \<notin> set v" and "errorsIs (rerr r) IoEOF"
  shows "fst (ScanStream (healthyConn (detection v)) r) =
    (Some \<lparr> Verdict = (if Contains v ''OK'' then CLEAN else INFECTED),
            VirusName = (if Contains v ''OK'' then '''' else v),
            RawResponse = detection v \<rparr>, None)"
proof -
  have "list_all graphic (filter (\<lambda>c. c \<noteq> CHR '' '') (detection v))"
    using assms(1) by (auto simp: detection_def list_all_iff graphic_def)
  from ScanStream_healthy[OF this assms(4)] parse_detection[OF assms(1-3)]
  show ?thesis by simp
qed

theorem ScanStream_detection_witness:
  "fst (ScanStream (healthyConn (detection ''Win.Trojan.Agent-1'')) (bytesReader [0x4D, 0x5A])) =
     (Some \<lparr> Verdict = INFECTED, VirusName = ''Win.Trojan.Agent-1'',
             RawResponse = ''stream: Win.Trojan.Agent-1 FOUND'' \<rparr>, None) \<and>
   fst (ScanStream (healthyConn (detection ''Win.Trojan.ROOTKIT.BOOK-1'')) (bytesReader [0x4D, 0x5A])) =
     (Some \<lparr> Verdict = CLEAN, VirusName = '''',
             RawResponse = ''stream: Win.Trojan.ROOTKIT.BOOK-1 FOUND'' \<rparr>, None)"
proof -
  have g: "list_all graphic ''Win.Trojan.Agent-1''" "list_all graphic ''Win.Trojan.ROOTKIT.BOOK-1''"
    by (simp_all add: graphic_def)
  have ok: "\<not> Contains ''Win.Trojan.Agent-1'' ''OK''" "Contains ''Win.Trojan.ROOTKIT.BOOK-1'' ''OK''"
    by code_simp+
  have e: "errorsIs (rerr (bytesReader [0x4D, 0x5A])) IoEOF" by simp
  show ?thesis
    using ScanStream_detection[OF g(1) _ _ e] ScanStream_detection[OF g(2) _ _ e] ok
    by (simp add: detection_def del: Contains.simps)
qed

theorem ScanStream_sends_payload_witness:
  "\<exists>cs. take 10 (snd (ScanStream (healthyConn ''stream: OK'') [([1, 2], None), ([3], Some ioEOF)])) = bytesOf ''zINSTREAM'' @ [0] \<and>
     deframe (drop 10 (snd (ScanStream (healthyConn ''stream: OK'') [([1, 2], None), ([3], Some ioEOF)]))) = Some cs \<and>
     concat cs = [1, 2, 3]"
proof -
  have g: "list_all graphic (filter (\<lambda>c. c \<noteq> CHR '' '') ''stream: OK'')" by (simp add: graphic_def)
  obtain res err sent where run:
    "ScanStream (healthyConn ''stream: OK'') [([1, 2], None), ([3], Some ioEOF)] = ((Some res, err), sent)"
    using ScanStream_healthy[OF g, of "[([1, 2], None), ([3], Some ioEOF)]"]
    by (auto simp: split: prod.splits) (metis prod.collapse)
  from ScanStream_sends_payload[OF run] run show ?thesis by auto
qed

end
