(* ===== verification/IpFilter.thy ===== *)
theory IpFilter
  imports Prelude
begin

unbundle bit_operations_syntax

text \<open>
  IP addresses as package \<open>net\<close> keeps them (a slice of 4 or 16 bytes, \<open>nil\<close> is the empty
  list), the predicates of \<open>net.IP\<close> the service uses, and the block list of
  \<open>internal/fetcher/client.go\<close>. The lemmas characterise \<open>IsBlockedIP\<close> by address ranges,
  for every IPv4 and IPv6 address.
\<close>

type_synonym ip = bytes

definition v4InV6Prefix :: bytes where
  "v4InV6Prefix = replicate 10 0 @ [0xFF, 0xFF]"

definition To4 :: "ip \<Rightarrow> ip" where
  "To4 ip = (if length ip = 4 then ip
     else if length ip = 16 \<and> take 12 ip = v4InV6Prefix then drop 12 ip else [])"

definition ipEqual :: "ip \<Rightarrow> ip \<Rightarrow> bool" where
  "ipEqual ip x =
     (if length ip = length x then ip = x
      else if length ip = 4 \<and> length x = 16 then take 12 x = v4InV6Prefix \<and> ip = drop 12 x
      else if length ip = 16 \<and> length x = 4 then take 12 ip = v4InV6Prefix \<and> drop 12 ip = x
      else False)"

definition IPv4zero :: ip where "IPv4zero = v4InV6Prefix @ [0, 0, 0, 0]"
definition IPv6unspecified :: ip where "IPv6unspecified = replicate 16 0"
definition IPv6loopback :: ip where "IPv6loopback = replicate 15 0 @ [1]"

definition IsUnspecified :: "ip \<Rightarrow> bool" where
  "IsUnspecified ip \<longleftrightarrow> ipEqual ip IPv4zero \<or> ipEqual ip IPv6unspecified"

definition IsLoopback :: "ip \<Rightarrow> bool" where
  "IsLoopback ip = (let ip4 = To4 ip in
     if ip4 \<noteq> [] then ip4 ! 0 = 127 else ipEqual ip IPv6loopback)"

definition IsPrivate :: "ip \<Rightarrow> bool" where
  "IsPrivate ip = (let ip4 = To4 ip in
     if ip4 \<noteq> [] then ip4 ! 0 = 10 \<or> (ip4 ! 0 = 172 \<and> ip4 ! 1 AND 0xF0 = 16) \<or> (ip4 ! 0 = 192 \<and> ip4 ! 1 = 168)
     else length ip = 16 \<and> ip ! 0 AND 0xFE = 0xFC)"

definition IsMulticast :: "ip \<Rightarrow> bool" where
  "IsMulticast ip = (let ip4 = To4 ip in
     if ip4 \<noteq> [] then ip4 ! 0 AND 0xF0 = 0xE0 else length ip = 16 \<and> ip ! 0 = 0xFF)"

definition IsLinkLocalMulticast :: "ip \<Rightarrow> bool" where
  "IsLinkLocalMulticast ip = (let ip4 = To4 ip in
     if ip4 \<noteq> [] then ip4 ! 0 = 224 \<and> ip4 ! 1 = 0 \<and> ip4 ! 2 = 0
     else length ip = 16 \<and> ip ! 0 = 0xFF \<and> ip ! 1 AND 0x0F = 2)"

definition IsLinkLocalUnicast :: "ip \<Rightarrow> bool" where
  "IsLinkLocalUnicast ip = (let ip4 = To4 ip in
     if ip4 \<noteq> [] then ip4 ! 0 = 169 \<and> ip4 ! 1 = 254
     else length ip = 16 \<and> ip ! 0 = 0xFE \<and> ip ! 1 AND 0xC0 = 0x80)"

subsection \<open>CIDR blocks\<close>

text \<open>\<open>net.IPNet\<close>: a network number and its mask, both of the same length.\<close>

record IPNet =
  netIP :: ip
  netMask :: bytes

definition CIDRMask :: "nat \<Rightarrow> nat \<Rightarrow> bytes" where
  "CIDRMask ones n =
     map (\<lambda>i. if 8 * i + 8 \<le> ones then 0xFF
              else if ones \<le> 8 * i then 0
              else NOT (mask (8 - (ones - 8 * i)))) [0..<n]"

definition cidr :: "ip \<Rightarrow> nat \<Rightarrow> IPNet" where
  "cidr ip ones = (let m = CIDRMask ones (length ip) in
     \<lparr> netIP = map2 (AND) ip m, netMask = m \<rparr>)"

definition netContains :: "IPNet \<Rightarrow> ip \<Rightarrow> bool" where
  "netContains n ip =
     (let nn = (if To4 (netIP n) \<noteq> [] then To4 (netIP n) else netIP n);
          x = (if To4 ip \<noteq> [] then To4 ip else ip) in
      length x = length nn \<and>
      list_all (\<lambda>i. nn ! i AND netMask n ! i = x ! i AND netMask n ! i) [0..<length x])"

definition blockedCIDRs :: "IPNet list" where
  "blockedCIDRs =
     [cidr [10, 0, 0, 0] 8, cidr [172, 16, 0, 0] 12, cidr [192, 168, 0, 0] 16,
      cidr [127, 0, 0, 0] 8, cidr [169, 254, 0, 0] 16, cidr [100, 64, 0, 0] 10,
      cidr [0, 0, 0, 0] 8, cidr [240, 0, 0, 0] 4, cidr [255, 255, 255, 255] 32,
      cidr [224, 0, 0, 0] 4, cidr [198, 18, 0, 0] 15,
      cidr (0xFC # replicate 15 0) 7, cidr ([0xFE, 0x80] @ replicate 14 0) 10,
      cidr (replicate 15 0 @ [1]) 128, cidr (replicate 16 0) 128, cidr (0xFF # replicate 15 0) 8]"

definition IsBlockedIP :: "ip \<Rightarrow> bool" where
  "IsBlockedIP ip0 =
     (if ip0 = [] then True
      else let ip = (if To4 ip0 \<noteq> [] then To4 ip0 else ip0) in
        if IsLoopback ip \<or> IsUnspecified ip \<or> IsLinkLocalUnicast ip \<or>
           IsLinkLocalMulticast ip \<or> IsMulticast ip \<or> IsPrivate ip
        then True
        else list_ex (\<lambda>n. netContains n ip) blockedCIDRs)"

subsection \<open>The block list as address ranges\<close>

text \<open>Masking the low bits of a byte off rounds it down to a multiple.\<close>

lemma unat_and_not_mask: "unat (b AND NOT (mask k) :: byte) = unat b div 2 ^ k * 2 ^ k"
proof -
  have "unat (b AND NOT (mask k) :: byte) = push_bit k (drop_bit k (unat b))"
    by (rule bit_eqI) (auto simp: bit_simps dest: bit_imp_le_length)
  then show ?thesis by (simp add: push_bit_nat_def drop_bit_nat_def)
qed

lemma unat_high_bits:
  fixes b :: byte
  shows "unat (b AND 0xF0) = unat b div 16 * 16"
    and "unat (b AND 0xC0) = unat b div 64 * 64"
    and "unat (b AND 0xFE) = unat b div 2 * 2"
proof -
  have "(0xF0 :: byte) = NOT (mask 4)" "(0xC0 :: byte) = NOT (mask 6)" "(0xFE :: byte) = NOT (mask 1)"
    by code_simp+
  then show "unat (b AND 0xF0) = unat b div 16 * 16" "unat (b AND 0xC0) = unat b div 64 * 64"
    "unat (b AND 0xFE) = unat b div 2 * 2"
    by (simp_all only: unat_and_not_mask) simp_all
qed

lemma unat_byte_less: "unat (b :: byte) < 256"
  using unsigned_less[of b, where 'a = nat] by simp

text \<open>The ranges an IPv4 address must not lie in.\<close>

definition blockedV4 :: "ip \<Rightarrow> bool" where
  "blockedV4 ip \<longleftrightarrow>
     (let a = unat (ip ! 0); b = unat (ip ! 1) in
      a = 0 \<or> a = 10 \<or> a = 127 \<or> 224 \<le> a \<or>
      (a = 100 \<and> 64 \<le> b \<and> b \<le> 127) \<or> (a = 169 \<and> b = 254) \<or>
      (a = 172 \<and> 16 \<le> b \<and> b \<le> 31) \<or> (a = 192 \<and> b = 168) \<or>
      (a = 198 \<and> 18 \<le> b \<and> b \<le> 19))"

definition blockedV6 :: "ip \<Rightarrow> bool" where
  "blockedV6 ip \<longleftrightarrow>
     (let a = unat (ip ! 0); b = unat (ip ! 1) in
      ip = IPv6unspecified \<or> ip = IPv6loopback \<or> a = 252 \<or> a = 253 \<or>
      (a = 254 \<and> 128 \<le> b \<and> b \<le> 191) \<or> a = 255)"

lemma blockedCIDRs_eval:
  "blockedCIDRs =
     [\<lparr> netIP = [10, 0, 0, 0], netMask = [255, 0, 0, 0] \<rparr>,
      \<lparr> netIP = [172, 16, 0, 0], netMask = [255, 0xF0, 0, 0] \<rparr>,
      \<lparr> netIP = [192, 168, 0, 0], netMask = [255, 255, 0, 0] \<rparr>,
      \<lparr> netIP = [127, 0, 0, 0], netMask = [255, 0, 0, 0] \<rparr>,
      \<lparr> netIP = [169, 254, 0, 0], netMask = [255, 255, 0, 0] \<rparr>,
      \<lparr> netIP = [100, 64, 0, 0], netMask = [255, 0xC0, 0, 0] \<rparr>,
      \<lparr> netIP = [0, 0, 0, 0], netMask = [255, 0, 0, 0] \<rparr>,
      \<lparr> netIP = [240, 0, 0, 0], netMask = [0xF0, 0, 0, 0] \<rparr>,
      \<lparr> netIP = [255, 255, 255, 255], netMask = [255, 255, 255, 255] \<rparr>,
      \<lparr> netIP = [224, 0, 0, 0], netMask = [0xF0, 0, 0, 0] \<rparr>,
      \<lparr> netIP = [198, 18, 0, 0], netMask = [255, 0xFE, 0, 0] \<rparr>,
      \<lparr> netIP = 0xFC # replicate 15 0, netMask = 0xFE # replicate 15 0 \<rparr>,
      \<lparr> netIP = [0xFE, 0x80] @ replicate 14 0, netMask = [255, 0xC0] @ replicate 14 0 \<rparr>,
      \<lparr> netIP = replicate 15 0 @ [1], netMask = replicate 16 255 \<rparr>,
      \<lparr> netIP = replicate 16 0, netMask = replicate 16 255 \<rparr>,
      \<lparr> netIP = 0xFF # replicate 15 0, netMask = 255 # replicate 15 0 \<rparr>]"
  by code_simp

lemma byte_range_facts:
  fixes b :: byte
  shows "(b AND 0xF0 = 16) = (16 \<le> unat b \<and> unat b \<le> 31)"
    and "(b AND 0xC0 = 64) = (64 \<le> unat b \<and> unat b \<le> 127)"
    and "(b AND 0xC0 = 128) = (128 \<le> unat b \<and> unat b \<le> 191)"
    and "(b AND 0xFE = 18) = (18 \<le> unat b \<and> unat b \<le> 19)"
    and "(b AND 0xFE = 252) = (unat b = 252 \<or> unat b = 253)"
    and "(b AND 0xF0 = 224) = (224 \<le> unat b \<and> unat b \<le> 239)"
    and "(b AND 0xF0 = 240) = (240 \<le> unat b)"
    and "b AND 255 = b"
proof -
  have lt: "unat b < 256" by (rule unat_byte_less)
  show "(b AND 0xF0 = 16) = (16 \<le> unat b \<and> unat b \<le> 31)"
    unfolding word_unat_eq_iff unat_high_bits by simp arith
  show "(b AND 0xC0 = 64) = (64 \<le> unat b \<and> unat b \<le> 127)"
    unfolding word_unat_eq_iff unat_high_bits by simp arith
  show "(b AND 0xC0 = 128) = (128 \<le> unat b \<and> unat b \<le> 191)"
    unfolding word_unat_eq_iff unat_high_bits by simp arith
  show "(b AND 0xFE = 18) = (18 \<le> unat b \<and> unat b \<le> 19)"
    unfolding word_unat_eq_iff unat_high_bits by simp arith
  show "(b AND 0xFE = 252) = (unat b = 252 \<or> unat b = 253)"
    unfolding word_unat_eq_iff unat_high_bits by simp arith
  show "(b AND 0xF0 = 224) = (224 \<le> unat b \<and> unat b \<le> 239)"
    unfolding word_unat_eq_iff unat_high_bits by simp arith
  show "(b AND 0xF0 = 240) = (240 \<le> unat b)"
    unfolding word_unat_eq_iff unat_high_bits using lt by simp arith
  have "(255 :: byte) = -1" by simp
  then show "b AND 255 = b" by (simp only: bit.conj_one_right)
qed

lemma To4_v4 [simp]: "length ip = 4 \<Longrightarrow> To4 ip = ip"
  by (simp add: To4_def)

lemma To4_mapped [simp]: "length ip = 4 \<Longrightarrow> To4 (v4InV6Prefix @ ip) = ip"
  by (simp add: To4_def v4InV6Prefix_def)

lemma length4_cases: "length ip = 4 \<Longrightarrow> \<exists>a b c d. ip = [a, b, c, d]"
  by (auto simp: eval_nat_numeral length_Suc_conv)

lemma byte_zero_iff: "(a :: byte) = word_of_nat n \<longleftrightarrow> unat a = n" if "n < 256" for n
proof -
  have "unat (word_of_nat n :: byte) = n" using that by (simp add: unat_of_nat)
  then show ?thesis by (metis word_unat_eq_iff)
qed

lemma netContains_v4:
  "netContains \<lparr> netIP = [p, q, r, s], netMask = [m0, m1, m2, m3] \<rparr> [a, b, c, d] \<longleftrightarrow>
     p AND m0 = a AND m0 \<and> q AND m1 = b AND m1 \<and> r AND m2 = c AND m2 \<and> s AND m3 = d AND m3"
  by (simp add: netContains_def upt_rec)

lemma netContains_v4_in_v6:
  "To4 n = [] \<Longrightarrow> length n = 16 \<Longrightarrow> \<not> netContains \<lparr> netIP = n, netMask = m \<rparr> [a, b, c, d]"
  by (simp add: netContains_def)

lemma To4_wide: "length ip = 16 \<Longrightarrow> take 12 ip \<noteq> v4InV6Prefix \<Longrightarrow> To4 ip = []"
  by (simp add: To4_def)

lemma netContains_v6_blocks:
  "\<not> netContains \<lparr> netIP = 0xFC # replicate 15 0, netMask = m \<rparr> [a, b, c, d]"
  "\<not> netContains \<lparr> netIP = [0xFE, 0x80] @ replicate 14 0, netMask = m \<rparr> [a, b, c, d]"
  "\<not> netContains \<lparr> netIP = replicate 15 0 @ [1], netMask = m \<rparr> [a, b, c, d]"
  "\<not> netContains \<lparr> netIP = replicate 16 0, netMask = m \<rparr> [a, b, c, d]"
  "\<not> netContains \<lparr> netIP = 0xFF # replicate 15 0, netMask = m \<rparr> [a, b, c, d]"
  by (rule netContains_v4_in_v6; code_simp)+

text \<open>The first two bytes decide every IPv4 block of the list.\<close>

lemma round_down_range:
  fixes x k q :: nat
  assumes "0 < k"
  shows "x div k * k = q * k \<longleftrightarrow> q * k \<le> x \<and> x < q * k + k"
proof
  assume "x div k * k = q * k"
  then show "q * k \<le> x \<and> x < q * k + k"
    using div_mult_mod_eq[of x k] mod_less_divisor[OF assms, of x] by linarith
next
  assume "q * k \<le> x \<and> x < q * k + k"
  then have "x div k = q" by (intro div_nat_eqI) (simp_all add: mult.commute)
  then show "x div k * k = q * k" by simp
qed

lemma round_down_blocks:
  fixes x :: nat
  shows "x div 16 * 16 = 240 \<longleftrightarrow> 240 \<le> x \<and> x < 256"
    and "x div 16 * 16 = 224 \<longleftrightarrow> 224 \<le> x \<and> x < 240"
    and "x div 16 * 16 = 16 \<longleftrightarrow> 16 \<le> x \<and> x < 32"
    and "x div 64 * 64 = 64 \<longleftrightarrow> 64 \<le> x \<and> x < 128"
    and "x div 64 * 64 = 128 \<longleftrightarrow> 128 \<le> x \<and> x < 192"
    and "x div 2 * 2 = 18 \<longleftrightarrow> 18 \<le> x \<and> x < 20"
    and "x div 2 * 2 = 252 \<longleftrightarrow> 252 \<le> x \<and> x < 254"
  using round_down_range[of 16 x 15] round_down_range[of 16 x 14] round_down_range[of 16 x 1]
    round_down_range[of 64 x 1] round_down_range[of 64 x 2] round_down_range[of 2 x 9] round_down_range[of 2 x 126]
  by simp_all

lemma blockedCIDRs_v4:
  "list_ex (\<lambda>n. netContains n [a, b, c, d]) blockedCIDRs \<longleftrightarrow> blockedV4 [a, b, c, d]"
proof -
  have lt: "unat a < 256" "unat b < 256" by (rule unat_byte_less)+
  show ?thesis
    unfolding blockedCIDRs_eval list_ex_iff 
    apply (simp only: list.set ball_simps bex_simps netContains_v6_blocks netContains_v4 blockedV4_def)
    apply (simp add: byte_range_facts(8))
    apply (simp only: word_unat_eq_iff unat_high_bits)
    apply (simp add: round_down_blocks Let_def)
    apply (rule iffI; elim disjE)
    using lt by auto
qed

lemma native_v4:
  "IsLoopback [a, b, c, d] \<longleftrightarrow> unat a = 127"
  "IsUnspecified [a, b, c, d] \<Longrightarrow> unat a = 0"
  "IsLinkLocalUnicast [a, b, c, d] \<longleftrightarrow> unat a = 169 \<and> unat b = 254"
  "IsLinkLocalMulticast [a, b, c, d] \<Longrightarrow> unat a = 224"
  "IsMulticast [a, b, c, d] \<longleftrightarrow> 224 \<le> unat a \<and> unat a \<le> 239"
  "IsPrivate [a, b, c, d] \<longleftrightarrow>
     unat a = 10 \<or> unat a = 172 \<and> 16 \<le> unat b \<and> unat b \<le> 31 \<or> unat a = 192 \<and> unat b = 168"
  by (simp_all add: IsLoopback_def IsUnspecified_def IsLinkLocalUnicast_def IsLinkLocalMulticast_def
      IsMulticast_def IsPrivate_def ipEqual_def IPv4zero_def IPv6unspecified_def v4InV6Prefix_def
      Let_def word_unat_eq_iff unat_high_bits round_down_blocks )
    (auto simp: eval_nat_numeral)

lemma IsBlockedIP_v4: "length ip = 4 \<Longrightarrow> IsBlockedIP ip \<longleftrightarrow> blockedV4 ip"
proof -
  assume "length ip = 4"
  then obtain a b c d where ip: "ip = [a, b, c, d]" using length4_cases by blast
  have "IsLoopback ip \<or> IsUnspecified ip \<or> IsLinkLocalUnicast ip \<or>
      IsLinkLocalMulticast ip \<or> IsMulticast ip \<or> IsPrivate ip \<Longrightarrow> blockedV4 ip"
    unfolding ip by (auto simp: blockedV4_def Let_def native_v4(1,3,5,6) dest!: native_v4(2,4))
  then show ?thesis
    by (auto simp: IsBlockedIP_def Let_def ip blockedCIDRs_v4)
qed

lemma IsBlockedIP_mapped: "length ip = 4 \<Longrightarrow> IsBlockedIP (v4InV6Prefix @ ip) \<longleftrightarrow> IsBlockedIP ip"
  by (cases "ip = []") (simp_all add: IsBlockedIP_def v4InV6Prefix_def[of] To4_def Let_def)

lemma IsBlockedIP_nil: "IsBlockedIP []"
  by (simp add: IsBlockedIP_def)

definition wideIP :: "ip \<Rightarrow> bool" where
  "wideIP ip \<longleftrightarrow> length ip = 16 \<and> take 12 ip \<noteq> v4InV6Prefix"

lemma netContains_wide:
  "wideIP ip \<Longrightarrow> wideIP n \<Longrightarrow>
   netContains \<lparr> netIP = n, netMask = m \<rparr> ip \<longleftrightarrow> (\<forall>i < 16. n ! i AND m ! i = ip ! i AND m ! i)"
  by (auto simp: netContains_def wideIP_def To4_def list_all_iff)

lemma netContains_full:
  assumes "wideIP ip" and "wideIP n"
  shows "netContains \<lparr> netIP = n, netMask = replicate 16 255 \<rparr> ip \<longleftrightarrow> ip = n"
proof -
  have "(\<forall>i < 16. n ! i AND replicate 16 255 ! i = ip ! i AND replicate 16 255 ! i) \<longleftrightarrow> (\<forall>i < 16. n ! i = ip ! i)"
    by (auto simp: byte_range_facts(8))
  also have "\<dots> \<longleftrightarrow> ip = n"
    using assms by (auto simp: wideIP_def intro!: nth_equalityI)
  finally show ?thesis using netContains_wide[OF assms] by simp
qed

lemma all_below_16: "(\<forall>i < 16. P i) \<longleftrightarrow> P 0 \<and> P (1::nat) \<and> (\<forall>i < 14. P (i + 2))"
proof
  assume a: "P 0 \<and> P (1::nat) \<and> (\<forall>i < 14. P (i + 2))"
  show "\<forall>i < 16. P i"
  proof (intro allI impI)
    fix i :: nat assume "i < 16"
    then consider "i = 0" | "i = 1" | "i - 2 < 14" "i = (i - 2) + 2" by linarith
    then show "P i" using a by cases metis+
  qed
qed auto

lemma netContains_head:
  assumes "wideIP ip" and "wideIP n"
  shows "netContains \<lparr> netIP = n, netMask = [p, q] @ replicate 14 0 \<rparr> ip \<longleftrightarrow>
    n ! 0 AND p = ip ! 0 AND p \<and> n ! 1 AND q = ip ! 1 AND q"
  unfolding netContains_wide[OF assms] all_below_16 by (simp add: nth_append)

lemma netContains_short:
  "wideIP ip \<Longrightarrow> length n = 4 \<Longrightarrow> \<not> netContains \<lparr> netIP = n, netMask = m \<rparr> ip"
  by (auto simp: netContains_def wideIP_def To4_def)

lemma native_v6:
  assumes "wideIP ip"
  shows "IsLoopback ip \<longleftrightarrow> ip = IPv6loopback"
    and "IsUnspecified ip \<longleftrightarrow> ip = IPv6unspecified"
    and "IsLinkLocalUnicast ip \<longleftrightarrow> unat (ip ! 0) = 254 \<and> 128 \<le> unat (ip ! 1) \<and> unat (ip ! 1) \<le> 191"
    and "IsLinkLocalMulticast ip \<Longrightarrow> unat (ip ! 0) = 255"
    and "IsMulticast ip \<longleftrightarrow> unat (ip ! 0) = 255"
    and "IsPrivate ip \<longleftrightarrow> unat (ip ! 0) = 252 \<or> unat (ip ! 0) = 253"
proof -
  have ip: "length ip = 16" "To4 ip = []" using assms by (auto simp: wideIP_def To4_def)
  have "ip \<noteq> IPv4zero" using assms by (auto simp: wideIP_def IPv4zero_def v4InV6Prefix_def)
  with ip show "IsUnspecified ip \<longleftrightarrow> ip = IPv6unspecified"
    by (simp add: IsUnspecified_def ipEqual_def IPv4zero_def IPv6unspecified_def v4InV6Prefix_def)
  show "IsLoopback ip \<longleftrightarrow> ip = IPv6loopback"
    using ip by (simp add: IsLoopback_def ipEqual_def IPv6loopback_def)
  show "IsLinkLocalUnicast ip \<longleftrightarrow> unat (ip ! 0) = 254 \<and> 128 \<le> unat (ip ! 1) \<and> unat (ip ! 1) \<le> 191"
    using ip by (simp add: IsLinkLocalUnicast_def byte_range_facts(3)) (simp add: word_unat_eq_iff)
  show "IsLinkLocalMulticast ip \<Longrightarrow> unat (ip ! 0) = 255"
    using ip by (simp add: IsLinkLocalMulticast_def)
  show "IsMulticast ip \<longleftrightarrow> unat (ip ! 0) = 255"
    using ip by (simp add: IsMulticast_def) (simp add: word_unat_eq_iff)
  show "IsPrivate ip \<longleftrightarrow> unat (ip ! 0) = 252 \<or> unat (ip ! 0) = 253"
    using ip by (simp add: IsPrivate_def byte_range_facts(5))
qed

lemma wide_blocks:
  "wideIP (0xFC # replicate 15 0)" "wideIP ([0xFE, 0x80] @ replicate 14 0)"
  "wideIP (replicate 15 0 @ [1])" "wideIP (replicate 16 0)" "wideIP (0xFF # replicate 15 0)"
  by (code_simp)+

lemma split_blocks:
  "(0xFE :: byte) # replicate 15 0 = [0xFE, 0] @ replicate 14 0"
  "(0xFF :: byte) # replicate 15 0 = [0xFF, 0] @ replicate 14 0"
  by code_simp+

lemma blockedCIDRs_v6:
  assumes w: "wideIP ip"
  shows "list_ex (\<lambda>n. netContains n ip) blockedCIDRs \<longleftrightarrow> blockedV6 ip"
proof -
  have short: "\<not> netContains \<lparr> netIP = [p, q, r, s], netMask = m \<rparr> ip" for p q r s m
    by (rule netContains_short[OF w]) simp
  have fc: "netContains \<lparr> netIP = 0xFC # replicate 15 0, netMask = 0xFE # replicate 15 0 \<rparr> ip \<longleftrightarrow>
      unat (ip ! 0) = 252 \<or> unat (ip ! 0) = 253"
    unfolding split_blocks(1) netContains_head[OF w wide_blocks(1)]
    by (simp add: eq_commute[of "252 :: byte"] byte_range_facts(5))
  have fe: "netContains \<lparr> netIP = [0xFE, 0x80] @ replicate 14 0, netMask = [255, 0xC0] @ replicate 14 0 \<rparr> ip \<longleftrightarrow>
      unat (ip ! 0) = 254 \<and> 128 \<le> unat (ip ! 1) \<and> unat (ip ! 1) \<le> 191"
    unfolding netContains_head[OF w wide_blocks(2)]
    by (simp add: byte_range_facts(8) eq_commute[of "128 :: byte"] byte_range_facts(3))
       (auto simp: word_unat_eq_iff)
  have ff: "netContains \<lparr> netIP = 0xFF # replicate 15 0, netMask = 255 # replicate 15 0 \<rparr> ip \<longleftrightarrow> unat (ip ! 0) = 255"
    unfolding split_blocks(2) using netContains_head[OF w wide_blocks(5)[unfolded split_blocks(2)], of 255 0]
    by (simp add: byte_range_facts(8)) (auto simp: word_unat_eq_iff)
  have "list_ex (\<lambda>n. netContains n ip) blockedCIDRs \<longleftrightarrow>
      (unat (ip ! 0) = 252 \<or> unat (ip ! 0) = 253) \<or>
      (unat (ip ! 0) = 254 \<and> 128 \<le> unat (ip ! 1) \<and> unat (ip ! 1) \<le> 191) \<or>
      ip = replicate 15 0 @ [1] \<or> ip = replicate 16 0 \<or> unat (ip ! 0) = 255"
    unfolding blockedCIDRs_eval list_ex_iff
    by (simp only: list.set bex_simps short fc fe ff netContains_full[OF w wide_blocks(3)]
        netContains_full[OF w wide_blocks(4)]) simp
  also have "\<dots> \<longleftrightarrow> blockedV6 ip"
    by (auto simp: blockedV6_def Let_def IPv6unspecified_def IPv6loopback_def)
  finally show ?thesis .
qed

lemma IsBlockedIP_v6:
  assumes "wideIP ip"
  shows "IsBlockedIP ip \<longleftrightarrow> blockedV6 ip"
proof -
  have ip: "ip \<noteq> []" "To4 ip = []" using assms by (auto simp: wideIP_def To4_def)
  have "IsLoopback ip \<or> IsUnspecified ip \<or> IsLinkLocalUnicast ip \<or>
      IsLinkLocalMulticast ip \<or> IsMulticast ip \<or> IsPrivate ip \<Longrightarrow> blockedV6 ip"
    using native_v6[OF assms] by (auto simp: blockedV6_def Let_def)
  with ip blockedCIDRs_v6[OF assms] show ?thesis by (auto simp: IsBlockedIP_def Let_def)
qed

text \<open>
  C27. The block list, as ranges. An address is refused exactly when it is nil, or it is an
  IPv4 address, written in 4 bytes or as an IPv4-mapped IPv6 address, in 0/8, 10/8,
  100.64/10, 127/8, 169.254/16, 172.16/12, 192.168/16, 198.18/15 or from 224 up, or it is
  another IPv6 address that is ::, ::1, or in fc00::/7, fe80::/10 or ff00::/8. In particular
  the IPv4-mapped form of an address never gets past a block that its 4-byte form meets.
\<close>

theorem IsBlockedIP_ranges:
  "IsBlockedIP [] \<and>
   (length ip = 4 \<longrightarrow> IsBlockedIP ip = blockedV4 ip \<and> IsBlockedIP (v4InV6Prefix @ ip) = blockedV4 ip) \<and>
   (length w = 16 \<and> take 12 w \<noteq> v4InV6Prefix \<longrightarrow> IsBlockedIP w = blockedV6 w)"
  using IsBlockedIP_nil IsBlockedIP_v4 IsBlockedIP_mapped IsBlockedIP_v6
  by (auto simp: wideIP_def)

theorem IsBlockedIP_ranges_witness:
  "IsBlockedIP (v4InV6Prefix @ [169, 254, 169, 254]) \<and> \<not> IsBlockedIP [8, 8, 8, 8] \<and>
   \<not> IsBlockedIP (v4InV6Prefix @ [8, 8, 8, 8]) \<and>
   \<not> IsBlockedIP ([0, 0x64, 0xFF, 0x9B] @ replicate 8 0 @ [127, 0, 0, 1])"
proof -
  have "blockedV4 [169, 254, 169, 254]" "\<not> blockedV4 [8, 8, 8, 8]"
    "\<not> blockedV6 ([0, 0x64, 0xFF, 0x9B] @ replicate 8 0 @ [127, 0, 0, 1])"
    "take 12 ([0, 0x64, 0xFF, 0x9B] @ replicate 8 0 @ [127, 0, 0, 1]) \<noteq> v4InV6Prefix"
    by code_simp+
  then show ?thesis
    using IsBlockedIP_ranges[of "[169, 254, 169, 254]" "[]"]
      IsBlockedIP_ranges[of "[8, 8, 8, 8]" "[0, 0x64, 0xFF, 0x9B] @ replicate 8 0 @ [127, 0, 0, 1]"]
    by simp
qed

end
