(* ===== verification/Fetcher.thy ===== *)
theory Fetcher
  imports GoIO IpFilter
begin

text \<open>
  The remote file client of \<open>internal/fetcher/client.go\<close>: URL validation, the guarded
  dialer, the redirect policy, \<open>Fetch\<close> and the bounded body.

  The network is an environment (\<open>netEnv\<close>): what URL parsing yields, what the resolver
  answers to its \<open>k\<close>-th question (so that a name may change its address between two
  questions), whether a connection succeeds, what the server behind an address replies, and
  which proxy the process environment names. All of it is arbitrary: the theorems hold for
  every environment. The state of a run counts the questions asked and lists the addresses
  to which a connection was opened.
\<close>

subsection \<open>Errors\<close>

definition ssrfText :: string where
  "ssrfText = ''SSRF attempt blocked: target IP or domain is prohibited''"

definition tooManyText :: string where
  "tooManyText = ''too many redirects: maximum hops exceeded''"

definition sentinelErr :: "sentinel \<Rightarrow> goerr" where
  "sentinelErr s =
     (case s of
        ErrSSRFBlocked \<Rightarrow> Err ssrfText [ErrSSRFBlocked]
      | ErrInvalidScheme \<Rightarrow> Err ''invalid URL scheme: only http and https are allowed'' [ErrInvalidScheme]
      | ErrTooManyRedirects \<Rightarrow> Err tooManyText [ErrTooManyRedirects]
      | ErrPayloadTooLarge \<Rightarrow> Err ''remote file exceeds maximum scanning size limit'' [ErrPayloadTooLarge]
      | _ \<Rightarrow> Err '''' [s])"

text \<open>\<open>fmt.Errorf("%w: ...", sentinel, ...)\<close>.\<close>

definition sentinelWith :: "sentinel \<Rightarrow> string \<Rightarrow> goerr" where
  "sentinelWith s t = Err (err_text (sentinelErr s) @ '': '' @ t) [s]"

lemma errorsIs_sentinelWith [simp]: "errorsIs (sentinelWith s t) x \<longleftrightarrow> x = s"
  by (auto simp: sentinelWith_def errorsIs_def)

lemma errorsIs_sentinelErr [simp]: "errorsIs (sentinelErr s) x \<longleftrightarrow> x = s"
  by (cases s) (auto simp: sentinelErr_def errorsIs_def)

subsection \<open>The network\<close>

record url =
  Scheme :: string
  Host :: string
  Hostname :: string
  urlString :: string
  urlPath :: string

record request =
  rq_method :: string
  rq_url :: url
  rq_body :: bytes

record response =
  StatusCode :: int
  Location :: string
  ContentLength :: int
  ContentType :: string
  respBody :: reader
  respRequest :: request

record netEnv =
  urlParse :: "string \<Rightarrow> url res"
  urlResolve :: "url \<Rightarrow> string \<Rightarrow> url res"
  lookupIP :: "nat \<Rightarrow> string \<Rightarrow> ip list res"
  parseIP :: "string \<Rightarrow> ip"
  ipString :: "ip \<Rightarrow> string"
  canonicalAddr :: "url \<Rightarrow> string"
  splitHostPort :: "string \<Rightarrow> (string \<times> string) res"
  proxyFor :: "url \<Rightarrow> url option res"
  connect :: "nat \<Rightarrow> ip \<Rightarrow> string \<Rightarrow> goerr option"
  serve :: "nat \<Rightarrow> ip \<Rightarrow> request \<Rightarrow> response res"

record netState =
  ns_tick :: nat
  ns_dials :: "(ip \<times> string) list"

definition tick :: "(netState, nat) state" where
  "tick = State (\<lambda>s. (ns_tick s, s\<lparr>ns_tick := Suc (ns_tick s)\<rparr>))"

subsection \<open>Validation\<close>

record SafeFetcherConfig =
  f_Timeout :: int
  f_MaxRedirects :: int
  f_MaxBytes :: int
  f_AllowLoopbackForTesting :: bool

definition NewSafeFetcher :: "SafeFetcherConfig \<Rightarrow> SafeFetcherConfig" where
  "NewSafeFetcher cfg0 =
     (let cfg1 = (if f_Timeout cfg0 \<le> 0 then cfg0\<lparr>f_Timeout := 30 * 10 ^ 9\<rparr> else cfg0);
          cfg2 = (if f_MaxRedirects cfg1 \<le> 0 then cfg1\<lparr>f_MaxRedirects := 3\<rparr> else cfg1);
          cfg3 = (if f_MaxBytes cfg2 \<le> 0 then cfg2\<lparr>f_MaxBytes := 100 * 1024 * 1024\<rparr> else cfg2)
      in cfg3)"

definition ValidateURL :: "netEnv \<Rightarrow> string \<Rightarrow> goerr option" where
  "ValidateURL env raw =
     (if TrimSpace raw = '''' then Some (sentinelWith ErrInvalidScheme ''empty URL'')
      else (case urlParse env raw of
         Inl e \<Rightarrow> Some (sentinelWith ErrInvalidScheme (err_text e))
       | Inr u \<Rightarrow>
          (let scheme = ToLower (Scheme u) in
           if scheme \<noteq> ''http'' \<and> scheme \<noteq> ''https''
           then Some (sentinelWith ErrInvalidScheme scheme)
           else if Host u = '''' then Some (sentinelWith ErrInvalidScheme ''missing host'')
           else None)))"

definition isBlockedFor :: "SafeFetcherConfig \<Rightarrow> ip \<Rightarrow> bool" where
  "isBlockedFor cfg ip =
     (let isBlocked = IsBlockedIP ip in
      if f_AllowLoopbackForTesting cfg \<and> IsLoopback ip then False else isBlocked)"

text \<open>
  The lookup all four checks share: the resolver's answer, or the host itself when the
  resolver fails and the host is an address.
\<close>

definition resolveHost :: "netEnv \<Rightarrow> string \<Rightarrow> (netState, ip list res) state" where
  "resolveHost env host = do {
     k \<leftarrow> tick;
     ret (case lookupIP env k host of
            Inr ips \<Rightarrow> Inr ips
          | Inl e \<Rightarrow> (let p = parseIP env host in if p = [] then Inl e else Inr [p])) }"

subsection \<open>The dialer\<close>

fun dialLoop :: "SafeFetcherConfig \<Rightarrow> netEnv \<Rightarrow> string \<Rightarrow> ip \<Rightarrow> ip list \<Rightarrow> ip res" where
  "dialLoop cfg env host dialIP [] = Inr dialIP"
| "dialLoop cfg env host dialIP (ip # ips) =
     (if isBlockedFor cfg ip
      then Inl (sentinelWith ErrSSRFBlocked (host @ '' resolves to blocked address '' @ ipString env ip))
      else dialLoop cfg env host (if dialIP = [] then ip else dialIP) ips)"

definition openConn :: "netEnv \<Rightarrow> ip \<Rightarrow> string \<Rightarrow> (netState, ip res) state" where
  "openConn env ip port = do {
     k \<leftarrow> tick;
     modifies (\<lambda>s. s\<lparr>ns_dials := ns_dials s @ [(ip, port)]\<rparr>);
     ret (case connect env k ip port of None \<Rightarrow> Inr ip | Some e \<Rightarrow> Inl e) }"

definition DialContext :: "SafeFetcherConfig \<Rightarrow> netEnv \<Rightarrow> string \<Rightarrow> (netState, ip res) state" where
  "DialContext cfg env addr =
     (case splitHostPort env addr of
        Inl e \<Rightarrow> ret (Inl e)
      | Inr (host, port) \<Rightarrow>
          tryRes (resolveHost env host) (\<lambda>e. e) (\<lambda>ips.
            case dialLoop cfg env host [] ips of
              Inl e \<Rightarrow> ret (Inl e)
            | Inr dialIP \<Rightarrow>
                if dialIP = []
                then ret (Inl (sentinelWith ErrSSRFBlocked (''no valid resolved IP for '' @ host)))
                else openConn env dialIP port))"

subsection \<open>The redirect policy\<close>

fun redirectLoop :: "SafeFetcherConfig \<Rightarrow> netEnv \<Rightarrow> string \<Rightarrow> ip list \<Rightarrow> goerr option" where
  "redirectLoop cfg env host [] = None"
| "redirectLoop cfg env host (ip # ips) =
     (if isBlockedFor cfg ip
      then Some (sentinelWith ErrSSRFBlocked
             (''redirect target '' @ host @ '' resolves to blocked IP '' @ ipString env ip))
      else redirectLoop cfg env host ips)"

definition CheckRedirect :: "SafeFetcherConfig \<Rightarrow> netEnv \<Rightarrow> nat \<Rightarrow> request \<Rightarrow> (netState, goerr option) state" where
  "CheckRedirect cfg env via req =
     (if f_MaxRedirects cfg \<le> int via
      then ret (Some (sentinelWith ErrTooManyRedirects (''limit '' @ itoa (f_MaxRedirects cfg))))
      else (case ValidateURL env (urlString (rq_url req)) of
         Some e \<Rightarrow> ret (Some e)
       | None \<Rightarrow> do {
           let host = Hostname (rq_url req);
           r \<leftarrow> resolveHost env host;
           ret (case r of Inl e \<Rightarrow> Some e | Inr ips \<Rightarrow> redirectLoop cfg env host ips) }))"

subsection \<open>The client\<close>

text \<open>
  \<open>http.Client.Do\<close> with this transport and this policy. One hop asks for the proxy, dials
  the host of the proxy or of the URL, and sends the request. A 301, 302, 303, 307 or 308
  reply with a \<open>Location\<close> leads to the next hop when \<open>CheckRedirect\<close> lets it; \<open>via\<close> is the
  number of requests made so far. Every error is wrapped in an \<open>url.Error\<close>.
\<close>

definition urlError :: "request \<Rightarrow> goerr \<Rightarrow> goerr" where
  "urlError req e =
     wrapErr (take 1 (rq_method req) @ ToLower (drop 1 (rq_method req)) @ '' '' @ [CHR 0x22] @
              urlString (rq_url req) @ [CHR 0x22] @ '': '') e"

definition roundTrip :: "SafeFetcherConfig \<Rightarrow> netEnv \<Rightarrow> request \<Rightarrow> (netState, response res) state" where
  "roundTrip cfg env req =
     (case proxyFor env (rq_url req) of
        Inl e \<Rightarrow> ret (Inl e)
      | Inr p \<Rightarrow>
          tryRes (DialContext cfg env (canonicalAddr env (case p of None \<Rightarrow> rq_url req | Some u \<Rightarrow> u))) (\<lambda>e. e)
            (\<lambda>ip. do {
               k \<leftarrow> tick;
               ret (map_sum (\<lambda>e. e) (\<lambda>resp. resp\<lparr>respRequest := req\<rparr>) (serve env k ip req)) }))"

definition redirectRequest :: "netEnv \<Rightarrow> request \<Rightarrow> response \<Rightarrow> request res option" where
  "redirectRequest env req resp =
     (if StatusCode resp \<notin> {301, 302, 303, 307, 308} \<or> Location resp = '''' then None
      else Some (case urlResolve env (rq_url req) (Location resp) of
         Inl e \<Rightarrow> Inl e
       | Inr u \<Rightarrow>
           Inr (if StatusCode resp \<in> {307, 308} then req\<lparr>rq_url := u\<rparr>
                else \<lparr> rq_method = (if rq_method req = ''HEAD'' then ''HEAD'' else ''GET''), rq_url = u, rq_body = [] \<rparr>)))"

lemma CheckRedirect_limit:
  "run_state (CheckRedirect cfg env via req) s = (None, s') \<Longrightarrow> int via < f_MaxRedirects cfg"
  by (auto simp: CheckRedirect_def split: if_splits)

function clientDo ::
  "SafeFetcherConfig \<Rightarrow> netEnv \<Rightarrow> nat \<Rightarrow> request \<Rightarrow> netState \<Rightarrow> response res \<times> netState" where
  "clientDo cfg env via req s =
     (case run_state (roundTrip cfg env req) s of (r, s) \<Rightarrow>
       (case r of
          Inl e \<Rightarrow> (Inl (urlError req e), s)
        | Inr resp \<Rightarrow>
          (case redirectRequest env req resp of
             None \<Rightarrow> (Inr resp, s)
           | Some (Inl e) \<Rightarrow> (Inl (urlError req e), s)
           | Some (Inr req') \<Rightarrow>
             (case run_state (CheckRedirect cfg env (Suc via) req') s of (c, s) \<Rightarrow>
               (case c of
                  Some e \<Rightarrow> (Inl (urlError req' e), s)
                | None \<Rightarrow> clientDo cfg env (Suc via) req' s)))))"
  by pat_completeness auto

termination
  by (relation "measure (\<lambda>(cfg, env, via, req, s). nat (f_MaxRedirects cfg - int via))")
     (auto dest!: CheckRedirect_limit[OF sym])

declare clientDo.simps [simp del]

definition ClientDo :: "SafeFetcherConfig \<Rightarrow> netEnv \<Rightarrow> request \<Rightarrow> (netState, response res) state" where
  "ClientDo cfg env req = State (clientDo cfg env 0 req)"

subsection \<open>The bounded body\<close>

record bounded =
  rc :: reader
  maxBytes :: int
  readSoFar :: int

definition boundedRead :: "nat \<Rightarrow> bounded \<Rightarrow> bytes \<times> goerr option \<times> bounded" where
  "boundedRead p b =
     (if maxBytes b \<le> readSoFar b then ([], Some (sentinelErr ErrPayloadTooLarge), b)
      else
        let remaining = maxBytes b - readSoFar b;
            toRead = (if remaining < int p then nat remaining else p) in
        case readOnce toRead (rc b) of (bs, err, r) \<Rightarrow>
          let b = b\<lparr>rc := r, readSoFar := readSoFar b + int (length bs)\<rparr> in
          (case err of
             Some e \<Rightarrow> (bs, Some e, b)
           | None \<Rightarrow>
             if maxBytes b \<le> readSoFar b then
               (case readOnce 1 (rc b) of (extra, extraErr, r) \<Rightarrow>
                  let b = b\<lparr>rc := r\<rparr> in
                  if extra \<noteq> [] then (bs, Some (sentinelErr ErrPayloadTooLarge), b)
                  else (case extraErr of
                      Some e \<Rightarrow> if \<not> errorsIs e IoEOF then (bs, Some e, b) else (bs, None, b)
                    | None \<Rightarrow> (bs, None, b)))
             else (bs, None, b)))"

text \<open>\<open>io.ReadAll\<close> of a bounded body; \<open>sz k\<close> is the free space of its buffer at the \<open>k\<close>-th read.\<close>

lemma readOnce_none_rsize:
  "readOnce n r = (bs, None, r') \<Longrightarrow> rsize r' + length bs \<le> rsize r"
  by (cases r) (auto split: if_splits option.splits)

function readAllBounded :: "(nat \<Rightarrow> nat) \<Rightarrow> nat \<Rightarrow> bytes \<Rightarrow> bounded \<Rightarrow> bytes res" where
  "readAllBounded sz k acc b =
     (case boundedRead (Suc (sz k)) b of (bs, e, b') \<Rightarrow>
        (case e of
           None \<Rightarrow> readAllBounded sz (Suc k) (acc @ bs) b'
         | Some err \<Rightarrow> if errorsIs err IoEOF then Inr (acc @ bs) else Inl err))"
  by pat_completeness auto

lemma readOnce_le: "readOnce n r = (bs, e, r') \<Longrightarrow> rsize r' \<le> rsize r"
  by (cases r) (auto split: if_splits option.splits)

text \<open>One read, by the two reads it makes of the underlying body.\<close>

lemma boundedRead_run:
  assumes "readSoFar b < maxBytes b" and "0 < p"
  obtains n d e r x xe r2 where
    "0 < n" "int n \<le> maxBytes b - readSoFar b"
    "readOnce n (rc b) = (d, e, r)" "readOnce 1 r = (x, xe, r2)"
    "boundedRead p b =
      (case e of
         Some e \<Rightarrow> (d, Some e, b\<lparr>rc := r, readSoFar := readSoFar b + int (length d)\<rparr>)
       | None \<Rightarrow>
         if maxBytes b \<le> readSoFar b + int (length d) then
           (if x \<noteq> [] then (d, Some (sentinelErr ErrPayloadTooLarge), b\<lparr>rc := r2, readSoFar := readSoFar b + int (length d)\<rparr>)
            else (case xe of
                Some e \<Rightarrow> if \<not> errorsIs e IoEOF
                  then (d, Some e, b\<lparr>rc := r2, readSoFar := readSoFar b + int (length d)\<rparr>)
                  else (d, None, b\<lparr>rc := r2, readSoFar := readSoFar b + int (length d)\<rparr>)
              | None \<Rightarrow> (d, None, b\<lparr>rc := r2, readSoFar := readSoFar b + int (length d)\<rparr>)))
         else (d, None, b\<lparr>rc := r, readSoFar := readSoFar b + int (length d)\<rparr>))"
proof -
  define n where "n = (if maxBytes b - readSoFar b < int p then nat (maxBytes b - readSoFar b) else p)"
  obtain d e r where ro: "readOnce n (rc b) = (d, e, r)" by (cases "readOnce n (rc b)")
  obtain x xe r2 where ro2: "readOnce 1 r = (x, xe, r2)" by (cases "readOnce 1 r")
  have "0 < n" "int n \<le> maxBytes b - readSoFar b" using assms by (auto simp: n_def)
  from this ro ro2 show ?thesis
  proof (rule that)
  qed (use assms ro ro2 in \<open>cases e; cases xe; simp add: boundedRead_def n_def[symmetric] Let_def\<close>)
qed

lemma boundedRead_none:
  assumes "boundedRead p b = (d, None, b')" and "0 < p"
  shows "readSoFar b < maxBytes b"
  using assms by (auto simp: boundedRead_def split: if_splits)

lemma boundedRead_rsize:
  assumes run: "boundedRead p b = (bs, None, b')" and "0 < p"
  shows "rsize (rc b') < rsize (rc b)"
proof -
  obtain n d e r x xe r2 where n: "0 < n" "readOnce n (rc b) = (d, e, r)" "readOnce 1 r = (x, xe, r2)"
    and e: "e = None" and rc: "rc b' = r \<or> rc b' = r2"
    by (rule boundedRead_run[OF boundedRead_none[OF assms] assms(2)])
       (use run in \<open>auto split: option.splits if_splits\<close>)
  from n e have "rsize r < rsize (rc b)" using readOnce_rsize by blast
  moreover have "rsize r2 \<le> rsize r" using n(3) readOnce_le by blast
  ultimately show ?thesis using rc by auto
qed

termination readAllBounded
  by (relation "measure (\<lambda>(sz, k, acc, b). rsize (rc b))") (auto dest!: boundedRead_rsize[OF sym])

declare readAllBounded.simps [simp del]

subsection \<open>Fetch\<close>

record FetchResult =
  fr_Body :: bounded
  fr_StatusCode :: int
  fr_ContentLength :: int
  fr_ContentType :: string
  fr_ResolvedIP :: string
  fr_FinalURL :: string

fun hostLoop :: "SafeFetcherConfig \<Rightarrow> netEnv \<Rightarrow> string \<Rightarrow> string \<Rightarrow> ip list \<Rightarrow> string res" where
  "hostLoop cfg env host first [] = Inr first"
| "hostLoop cfg env host first (ip # ips) =
     (if isBlockedFor cfg ip
      then Inl (sentinelWith ErrSSRFBlocked
             (''host '' @ host @ '' resolves to prohibited address '' @ ipString env ip))
      else hostLoop cfg env host (if first = '''' then ipString env ip else first) ips)"

text \<open>The error of a failed lookup, as \<open>Fetch\<close> and \<open>ValidateTargetIP\<close> report it.\<close>

definition resolveErr :: "string \<Rightarrow> goerr \<Rightarrow> goerr" where
  "resolveErr host e = sentinelWith ErrSSRFBlocked (''failed resolving host '' @ host @ '': '' @ err_text e)"

definition fetchErr :: "goerr \<Rightarrow> goerr" where
  "fetchErr e =
     (if errorsIs e ErrSSRFBlocked \<or> Contains (err_text e) ssrfText then sentinelErr ErrSSRFBlocked
      else if errorsIs e ErrTooManyRedirects \<or> Contains (err_text e) tooManyText
      then sentinelErr ErrTooManyRedirects
      else e)"

definition Fetch :: "SafeFetcherConfig \<Rightarrow> netEnv \<Rightarrow> string \<Rightarrow> (netState, FetchResult res) state" where
  "Fetch cfg env target =
     (case ValidateURL env target of
        Some e \<Rightarrow> ret (Inl e)
      | None \<Rightarrow>
        (case urlParse env target of
           Inl e \<Rightarrow> ret (Inl e)
         | Inr parsed \<Rightarrow>
             (let host = Hostname parsed in
              tryRes (resolveHost env host) (resolveErr host) (\<lambda>ips.
                case hostLoop cfg env host '''' ips of
                  Inl e \<Rightarrow> ret (Inl e)
                | Inr firstAllowedIP \<Rightarrow>
                    tryRes (ClientDo cfg env \<lparr> rq_method = ''GET'', rq_url = parsed, rq_body = [] \<rparr>) fetchErr
                      (\<lambda>resp. ret (Inr
                        \<lparr> fr_Body = \<lparr> rc = respBody resp, maxBytes = f_MaxBytes cfg, readSoFar = 0 \<rparr>,
                          fr_StatusCode = StatusCode resp,
                          fr_ContentLength = ContentLength resp,
                          fr_ContentType = ContentType resp,
                          fr_ResolvedIP = firstAllowedIP,
                          fr_FinalURL = urlString (rq_url (respRequest resp)) \<rparr>))))))"

definition ValidateTargetIP :: "SafeFetcherConfig \<Rightarrow> netEnv \<Rightarrow> string \<Rightarrow> (netState, goerr option) state" where
  "ValidateTargetIP cfg env raw =
     (case ValidateURL env raw of
        Some e \<Rightarrow> ret (Some e)
      | None \<Rightarrow>
        (case urlParse env raw of
           Inl e \<Rightarrow> ret (Some e)
         | Inr parsed \<Rightarrow> do {
             let host = Hostname parsed;
             r \<leftarrow> resolveHost env host;
             ret (case r of
                    Inl e \<Rightarrow> Some (resolveErr host e)
                  | Inr ips \<Rightarrow> (case hostLoop cfg env host '''' ips of Inl e \<Rightarrow> Some e | Inr _ \<Rightarrow> None)) }))"

subsection \<open>No connection to a blocked address\<close>

text \<open>The guard: every connection opened so far goes to an address the policy allows.\<close>

definition dialsAllowed :: "SafeFetcherConfig \<Rightarrow> netState \<Rightarrow> netState \<Rightarrow> bool" where
  "dialsAllowed cfg s s' \<longleftrightarrow>
     (\<exists>ds. ns_dials s' = ns_dials s @ ds \<and> list_all (\<lambda>(ip, port). ip \<noteq> [] \<and> \<not> isBlockedFor cfg ip) ds)"

interpretation dials: state_order "dialsAllowed cfg" for cfg
proof
  show "dialsAllowed cfg s s" for s by (simp add: dialsAllowed_def)
  show "dialsAllowed cfg s t \<Longrightarrow> dialsAllowed cfg t u \<Longrightarrow> dialsAllowed cfg s u" for s t u
    unfolding dialsAllowed_def by (elim exE conjE) (rule exI, rule conjI, simp, simp)
qed

lemma dials_tick: "state_io_rel (dialsAllowed cfg) tick"
  by (auto simp: state_io_rel_def tick_def dialsAllowed_def)

lemma dials_resolve: "state_io_rel (dialsAllowed cfg) (resolveHost env host)"
  unfolding resolveHost_def by (intro dials.rel_bind dials_tick dials.rel_ret)

lemma dialLoop_allowed:
  "dialLoop cfg env host d ips = Inr ip \<Longrightarrow> d = [] \<or> \<not> isBlockedFor cfg d \<Longrightarrow>
   ip = [] \<or> \<not> isBlockedFor cfg ip"
  by (induction cfg env host d ips rule: dialLoop.induct) (auto split: if_splits)

lemma dials_open:
  "ip \<noteq> [] \<Longrightarrow> \<not> isBlockedFor cfg ip \<Longrightarrow> state_io_rel (dialsAllowed cfg) (openConn env ip port)"
  unfolding openConn_def
  by (intro dials.rel_bind dials_tick dials.rel_ret dials.rel_modifies)
     (simp add: dialsAllowed_def)

lemma dials_DialContext: "state_io_rel (dialsAllowed cfg) (DialContext cfg env addr)"
proof -
  have "state_io_rel (dialsAllowed cfg) (case dialLoop cfg env host [] ips of
      Inl e \<Rightarrow> ret (Inl e)
    | Inr ip \<Rightarrow> if ip = [] then ret (Inl err) else openConn env ip port)" for host ips port err
  proof (cases "dialLoop cfg env host [] ips")
    case (Inl e)
    then show ?thesis by (simp add: dials.rel_ret)
  next
    case (Inr ip)
    with dialLoop_allowed[OF Inr] show ?thesis by (auto simp: dials.rel_ret dials_open)
  qed
  note guarded = this
  show ?thesis
    unfolding DialContext_def
    by (rule dials.rel_sum[OF dials.rel_ret], rule dials.rel_prod, rule dials.rel_try[OF dials_resolve])
       (rule guarded)
qed

lemma dials_CheckRedirect: "state_io_rel (dialsAllowed cfg) (CheckRedirect cfg env via req)"
  unfolding CheckRedirect_def Let_def
  by (intro dials.rel_if dials.rel_option dials.rel_ret dials.rel_bind dials_resolve)

lemma dials_roundTrip: "state_io_rel (dialsAllowed cfg) (roundTrip cfg env req)"
  unfolding roundTrip_def
  by (intro dials.rel_sum dials.rel_ret dials.rel_try dials.rel_bind dials_DialContext dials_tick)

lemma dials_clientDo: "dialsAllowed cfg s (snd (clientDo cfg env via req s))"
proof (induction cfg env via req s rule: clientDo.induct)
  case (1 cfg env via req s)
  obtain r t where rt: "run_state (roundTrip cfg env req) s = (r, t)" by fastforce
  have st: "dialsAllowed cfg s t" using dials.run_relE[OF dials_roundTrip rt] .
  show ?case
  proof (cases "\<exists>resp req'. r = Inr resp \<and> redirectRequest env req resp = Some (Inr req')")
    case False
    then show ?thesis using rt st
      by (subst clientDo.simps) (auto split: sum.split option.split)
  next
    case True
    then obtain resp req' where r: "r = Inr resp" "redirectRequest env req resp = Some (Inr req')" by blast
    obtain c u where cr: "run_state (CheckRedirect cfg env (Suc via) req') t = (c, u)" by fastforce
    have tu: "dialsAllowed cfg t u" using dials.run_relE[OF dials_CheckRedirect cr] .
    have "c = None \<Longrightarrow> dialsAllowed cfg u (snd (clientDo cfg env (Suc via) req' u))"
      using "1.IH"[OF rt[symmetric] r(1) r(2) refl cr[symmetric]] by blast
    then show ?thesis using rt r cr st tu
      by (subst clientDo.simps) (auto split: option.split intro: dials.R_trans)
  qed
qed

lemma dials_Fetch: "state_io_rel (dialsAllowed cfg) (Fetch cfg env target)"
proof -
  have "state_io_rel (dialsAllowed cfg) (ClientDo cfg env req)" for req
    unfolding ClientDo_def state_io_rel_def by (simp add: dials_clientDo)
  then show ?thesis
    unfolding Fetch_def Let_def
    by (intro dials.rel_option dials.rel_sum dials.rel_ret dials.rel_try dials_resolve)
qed

text \<open>
  C1. No request to an internal address. Whatever the resolver answers at each of its
  lookups, including a name that changes its address between the check and the connection,
  and whatever redirects the servers send, every connection a \<open>Fetch\<close> opens goes to an
  address that is not blocked (or is a loopback one, when the test switch allows those).
\<close>

theorem Fetch_never_dials_blocked:
  "\<exists>ds. ns_dials (snd (run_state (Fetch cfg env target) s)) = ns_dials s @ ds \<and>
     list_all (\<lambda>(ip, port). ip \<noteq> [] \<and>
       (\<not> IsBlockedIP ip \<or> (f_AllowLoopbackForTesting cfg \<and> IsLoopback ip))) ds"
proof -
  obtain ds where ds: "ns_dials (snd (run_state (Fetch cfg env target) s)) = ns_dials s @ ds"
    "list_all (\<lambda>(ip, port). ip \<noteq> [] \<and> \<not> isBlockedFor cfg ip) ds"
    using dials.run_rel[OF dials_Fetch, of cfg s env target] by (auto simp: dialsAllowed_def)
  have "list_all (\<lambda>(ip, port). ip \<noteq> [] \<and>
       (\<not> IsBlockedIP ip \<or> (f_AllowLoopbackForTesting cfg \<and> IsLoopback ip))) ds"
    using ds(2) by (rule list.pred_mono_strong) (auto simp: isBlockedFor_def split: if_splits)
  with ds(1) show ?thesis by blast
qed

text \<open>A name that is public when it is checked and internal when it is dialled.\<close>

definition rebindEnv :: netEnv where
  "rebindEnv =
     \<lparr> urlParse = (\<lambda>t. Inr \<lparr> Scheme = ''http'', Host = ''a.example'', Hostname = ''a.example'', urlString = t, urlPath = ''/'' \<rparr>),
       urlResolve = (\<lambda>u t. Inl (errorsNew ''no'')),
       lookupIP = (\<lambda>k h. Inr (if k = 0 then [[8, 8, 8, 8]] else [[169, 254, 169, 254]])),
       parseIP = (\<lambda>h. []), ipString = (\<lambda>i. ''ip''), canonicalAddr = (\<lambda>u. ''a.example:80''),
       splitHostPort = (\<lambda>a. Inr (''a.example'', ''80'')), proxyFor = (\<lambda>u. Inr None),
       connect = (\<lambda>k i p. None),
       serve = (\<lambda>k i r. Inr \<lparr> StatusCode = 200, Location = '''', ContentLength = 1,
                  ContentType = '''', respBody = [([1], Some ioEOF)], respRequest = r \<rparr>) \<rparr>"

definition defaultFetchCfg :: SafeFetcherConfig where
  "defaultFetchCfg = NewSafeFetcher
     \<lparr> f_Timeout = 0, f_MaxRedirects = 0, f_MaxBytes = 0, f_AllowLoopbackForTesting = False \<rparr>"

theorem Fetch_never_dials_blocked_witness:
  "(\<exists>ds. ns_dials (snd (run_state (Fetch defaultFetchCfg rebindEnv ''http://a.example/'') \<lparr> ns_tick = 0, ns_dials = [] \<rparr>)) = ds \<and>
     list_all (\<lambda>(ip, port). ip \<noteq> [] \<and>
       (\<not> IsBlockedIP ip \<or> (f_AllowLoopbackForTesting defaultFetchCfg \<and> IsLoopback ip))) ds) \<and>
   run_state (Fetch defaultFetchCfg rebindEnv ''http://a.example/'') \<lparr> ns_tick = 0, ns_dials = [] \<rparr> =
     (Inl (sentinelErr ErrSSRFBlocked), \<lparr> ns_tick = 2, ns_dials = [] \<rparr>)"
proof
  show "\<exists>ds. ns_dials (snd (run_state (Fetch defaultFetchCfg rebindEnv ''http://a.example/'') \<lparr> ns_tick = 0, ns_dials = [] \<rparr>)) = ds \<and>
     list_all (\<lambda>(ip, port). ip \<noteq> [] \<and>
       (\<not> IsBlockedIP ip \<or> (f_AllowLoopbackForTesting defaultFetchCfg \<and> IsLoopback ip))) ds"
    using Fetch_never_dials_blocked[of defaultFetchCfg rebindEnv "''http://a.example/''" "\<lparr> ns_tick = 0, ns_dials = [] \<rparr>"]
    by simp
  show "run_state (Fetch defaultFetchCfg rebindEnv ''http://a.example/'') \<lparr> ns_tick = 0, ns_dials = [] \<rparr> =
     (Inl (sentinelErr ErrSSRFBlocked), \<lparr> ns_tick = 2, ns_dials = [] \<rparr>)"
    by code_simp
qed

subsection \<open>Bounds\<close>

lemma openConn_one: "length (ns_dials (snd (run_state (openConn env ip port) s))) = Suc (length (ns_dials s))"
  by (simp add: openConn_def tick_def)

lemma resolveHost_none: "ns_dials (snd (run_state (resolveHost env host) s)) = ns_dials s"
  by (simp add: resolveHost_def tick_def)

lemma DialContext_one:
  "length (ns_dials (snd (run_state (DialContext cfg env addr) s))) \<le> Suc (length (ns_dials s))"
proof (cases "splitHostPort env addr")
  case (Inl e)
  then show ?thesis by (simp add: DialContext_def)
next
  case (Inr hp)
  obtain host port where hp: "hp = (host, port)" by fastforce
  obtain r t where rt: "run_state (resolveHost env host) s = (r, t)" by fastforce
  have t: "ns_dials t = ns_dials s" using resolveHost_none[of env host s] rt by simp
  show ?thesis
    using Inr hp rt t openConn_one
    by (simp add: DialContext_def run_tryRes split: sum.split)
qed

lemma roundTrip_one:
  "length (ns_dials (snd (run_state (roundTrip cfg env req) s))) \<le> Suc (length (ns_dials s))"
proof (cases "proxyFor env (rq_url req)")
  case (Inl e)
  then show ?thesis by (simp add: roundTrip_def)
next
  case (Inr p)
  define addr where "addr = canonicalAddr env (case p of None \<Rightarrow> rq_url req | Some u \<Rightarrow> u)"
  obtain r t where rt: "run_state (DialContext cfg env addr) s = (r, t)" by fastforce
  then show ?thesis
    using Inr DialContext_one[of cfg env addr s]
    by (simp add: roundTrip_def addr_def[symmetric] run_tryRes tick_def split: sum.split)
qed

lemma CheckRedirect_none: "ns_dials (snd (run_state (CheckRedirect cfg env via req) s)) = ns_dials s"
proof -
  define host where "host = Hostname (rq_url req)"
  obtain r t where rt: "run_state (resolveHost env host) s = (r, t)" by fastforce
  with resolveHost_none[of env host s] show ?thesis
    by (simp add: CheckRedirect_def host_def[symmetric] Let_def split: option.split)
qed

lemma clientDo_hops:
  "length (ns_dials (snd (clientDo cfg env via req s))) \<le>
     length (ns_dials s) + max 1 (nat (f_MaxRedirects cfg - int via))"
proof (induction cfg env via req s rule: clientDo.induct)
  case (1 cfg env via req s)
  obtain r t where rt: "run_state (roundTrip cfg env req) s = (r, t)" by fastforce
  have st: "length (ns_dials t) \<le> Suc (length (ns_dials s))"
    using roundTrip_one[of cfg env req s] rt by simp
  show ?case
  proof (cases "\<exists>resp req'. r = Inr resp \<and> redirectRequest env req resp = Some (Inr req')")
    case False
    then show ?thesis using rt st
      by (subst clientDo.simps) (auto split: sum.split option.split)
  next
    case True
    then obtain resp req' where r: "r = Inr resp" "redirectRequest env req resp = Some (Inr req')" by blast
    obtain c u where cr: "run_state (CheckRedirect cfg env (Suc via) req') t = (c, u)" by fastforce
    have tu: "ns_dials u = ns_dials t" using CheckRedirect_none[of cfg env "Suc via" req' t] cr by simp
    show ?thesis
    proof (cases c)
      case (Some e)
      then show ?thesis using rt r cr st tu by (subst clientDo.simps) auto
    next
      case None
      then have lim: "int (Suc via) < f_MaxRedirects cfg" using CheckRedirect_limit cr by blast
      have "length (ns_dials (snd (clientDo cfg env (Suc via) req' u))) \<le>
          length (ns_dials u) + max 1 (nat (f_MaxRedirects cfg - int (Suc via)))"
        using "1.IH"[OF rt[symmetric] r(1) r(2) refl cr[symmetric] None] .
      moreover have "clientDo cfg env via req s = clientDo cfg env (Suc via) req' u"
        using rt r cr None by (subst clientDo.simps) simp
      moreover have "max 1 (nat (f_MaxRedirects cfg - int via)) = Suc (max 1 (nat (f_MaxRedirects cfg - int (Suc via))))"
        using lim by (simp add: max_def) linarith
      ultimately show ?thesis using st tu by simp
    qed
  qed
qed

text \<open>
  C31. Redirects are bounded. A \<open>Fetch\<close> ends, and opens at most \<open>MaxRedirects\<close> connections,
  the first one included, whatever redirects it is sent.
\<close>

theorem Fetch_hops_bounded:
  assumes "0 < f_MaxRedirects cfg"
  shows "length (ns_dials (snd (run_state (Fetch cfg env target) s))) \<le>
    length (ns_dials s) + nat (f_MaxRedirects cfg)"
proof -
  have hops: "length (ns_dials (snd (clientDo cfg env 0 req t))) \<le> length (ns_dials t) + nat (f_MaxRedirects cfg)" for req t
    using clientDo_hops[of cfg env 0 req t] assms by (simp add: max_def split: if_splits)
  have res: "ns_dials t = ns_dials s" if "run_state (resolveHost env host) s = (r, t)" for host r t
    using resolveHost_none[of env host s] that by simp
  show ?thesis
    using hops res
    by (auto simp: Fetch_def run_tryRes ClientDo_def Let_def split: option.split sum.split prod.split)
       (metis snd_conv)+
qed

text \<open>A server that redirects for ever.\<close>

definition loopEnv :: netEnv where
  "loopEnv = rebindEnv
     \<lparr> urlResolve := (\<lambda>u t. Inr u), lookupIP := (\<lambda>k h. Inr [[8, 8, 8, 8]]),
       serve := (\<lambda>k i r. Inr \<lparr> StatusCode = 302, Location = ''/'', ContentLength = 0,
                  ContentType = '''', respBody = [], respRequest = r \<rparr>) \<rparr>"

theorem Fetch_hops_bounded_witness:
  "length (ns_dials (snd (run_state (Fetch defaultFetchCfg loopEnv ''http://a.example/'') \<lparr> ns_tick = 0, ns_dials = [] \<rparr>))) \<le> 3 \<and>
   fst (run_state (Fetch defaultFetchCfg loopEnv ''http://a.example/'') \<lparr> ns_tick = 0, ns_dials = [] \<rparr>) =
     Inl (sentinelErr ErrTooManyRedirects)"
proof
  have "0 < f_MaxRedirects defaultFetchCfg" "nat (f_MaxRedirects defaultFetchCfg) = 3"
    by (simp_all add: defaultFetchCfg_def NewSafeFetcher_def)
  with Fetch_hops_bounded[of defaultFetchCfg loopEnv "''http://a.example/''" "\<lparr> ns_tick = 0, ns_dials = [] \<rparr>"]
  show "length (ns_dials (snd (run_state (Fetch defaultFetchCfg loopEnv ''http://a.example/'') \<lparr> ns_tick = 0, ns_dials = [] \<rparr>))) \<le> 3"
    by simp
  show "fst (run_state (Fetch defaultFetchCfg loopEnv ''http://a.example/'') \<lparr> ns_tick = 0, ns_dials = [] \<rparr>) =
     Inl (sentinelErr ErrTooManyRedirects)"
    by code_simp
qed

lemma readAllBounded_limit:
  "maxBytes b \<le> readSoFar b \<Longrightarrow> readAllBounded sz k acc b = Inl (sentinelErr ErrPayloadTooLarge)"
  by (subst readAllBounded.simps) (simp add: boundedRead_def)

lemma readAllBounded_step:
  "boundedRead (Suc (sz k)) b = (bs, e, b') \<Longrightarrow>
   readAllBounded sz k acc b =
     (case e of
        None \<Rightarrow> readAllBounded sz (Suc k) (acc @ bs) b'
      | Some err \<Rightarrow> if errorsIs err IoEOF then Inr (acc @ bs) else Inl err)"
  by (subst readAllBounded.simps) simp

text \<open>What is read is what the underlying body delivers, while it stays below the limit.\<close>

definition quota :: "bounded \<Rightarrow> int" where
  "quota b = maxBytes b - readSoFar b"

lemma readAllBounded_spec:
  "(int (length (rdata (rc b))) < quota b \<and> errorsIs (rerr (rc b)) IoEOF \<longrightarrow>
      readAllBounded sz k acc b = Inr (acc @ rdata (rc b))) \<and>
   (0 \<le> quota b \<and> quota b < int (length (rdata (rc b))) \<longrightarrow>
      readAllBounded sz k acc b = Inl (sentinelErr ErrPayloadTooLarge)) \<and>
   (\<forall>d. readAllBounded sz k acc b = Inr d \<longrightarrow> d = acc @ rdata (rc b) \<and> int (length (rdata (rc b))) \<le> quota b) \<and>
   (list_all (\<lambda>(bs, e). e = None) (rc b) \<and> quota b = int (length (rdata (rc b))) \<longrightarrow>
      readAllBounded sz k acc b = Inl (sentinelErr ErrPayloadTooLarge))"
proof (induction sz k acc b rule: readAllBounded.induct)
  case (1 sz k acc b)
  show ?case
  proof (cases "maxBytes b \<le> readSoFar b")
    case True
    then show ?thesis using readAllBounded_limit[OF True] by (auto simp: quota_def)
  next
    case False
    then have q: "readSoFar b < maxBytes b" by simp
    obtain n d e r x xe r2 where n: "0 < n" "int n \<le> quota b"
      and ro: "readOnce n (rc b) = (d, e, r)" and ro2: "readOnce 1 r = (x, xe, r2)"
      and run: "boundedRead (Suc (sz k)) b =
        (case e of
           Some e \<Rightarrow> (d, Some e, b\<lparr>rc := r, readSoFar := readSoFar b + int (length d)\<rparr>)
         | None \<Rightarrow>
           if maxBytes b \<le> readSoFar b + int (length d) then
             (if x \<noteq> [] then (d, Some (sentinelErr ErrPayloadTooLarge), b\<lparr>rc := r2, readSoFar := readSoFar b + int (length d)\<rparr>)
              else (case xe of
                  Some e \<Rightarrow> if \<not> errorsIs e IoEOF
                    then (d, Some e, b\<lparr>rc := r2, readSoFar := readSoFar b + int (length d)\<rparr>)
                    else (d, None, b\<lparr>rc := r2, readSoFar := readSoFar b + int (length d)\<rparr>)
                | None \<Rightarrow> (d, None, b\<lparr>rc := r2, readSoFar := readSoFar b + int (length d)\<rparr>)))
           else (d, None, b\<lparr>rc := r, readSoFar := readSoFar b + int (length d)\<rparr>))"
      by (rule boundedRead_run[OF q zero_less_Suc]) (auto simp: quota_def)
    have dn: "int (length d) \<le> quota b" using readOnce_length[OF ro] n by linarith
    show ?thesis
    proof (cases e)
      case (Some err)
      have d: "rdata (rc b) = d" "rerr (rc b) = err"
        using readOnce_last[of n "rc b" d err r] ro Some by auto
      have plain: "list_all (\<lambda>(bs, e). e = None) (rc b) \<Longrightarrow> d = [] \<and> rc b = []"
        using ro Some by (cases "rc b") (auto split: if_splits)
      have "readAllBounded sz k acc b = (if errorsIs err IoEOF then Inr (acc @ d) else Inl err)"
        using readAllBounded_step[of sz k b] run Some by simp
      with d dn plain q show ?thesis by (auto simp: quota_def)
    next
      case None
      have d: "rdata (rc b) = d @ rdata r" "rerr (rc b) = rerr r"
        using readOnce_more[of n "rc b" d r] ro None by auto
      have plain: "list_all (\<lambda>(bs, e). e = None) (rc b) \<Longrightarrow> list_all (\<lambda>(bs, e). e = None) r"
        using ro None by (cases "rc b") (auto split: if_splits)
      show ?thesis
      proof (cases "maxBytes b \<le> readSoFar b + int (length d)")
        case False
        let ?b = "b\<lparr>rc := r, readSoFar := readSoFar b + int (length d)\<rparr>"
        have br: "boundedRead (Suc (sz k)) b = (d, None, ?b)" using run None False by simp
        have step: "readAllBounded sz k acc b = readAllBounded sz (Suc k) (acc @ d) ?b"
          using readAllBounded_step[of sz k b, OF br] by simp
        have b: "rc ?b = r" "quota ?b = quota b - int (length d)" by (simp_all add: quota_def)
        note ih = "1.IH"[OF br[symmetric] refl refl, unfolded b, folded step]
        have lt: "int (length d) + n < quota b \<longleftrightarrow> n < quota b - int (length d)"
          "quota b < int (length d) + n \<longleftrightarrow> quota b - int (length d) < n"
          "int (length d) + n \<le> quota b \<longleftrightarrow> n \<le> quota b - int (length d)"
          "quota b = int (length d) + n \<longleftrightarrow> quota b - int (length d) = n" for n
          by linarith+
        have "0 \<le> quota b - int (length d)" using dn by simp
        with ih plain show ?thesis unfolding d length_append of_nat_add lt append_assoc by blast
      next
        case True
        with dn have full: "int (length d) = quota b" by (simp add: quota_def)
        let ?b = "b\<lparr>rc := r2, readSoFar := readSoFar b + int (length d)\<rparr>"
        have lim: "readAllBounded sz (Suc k) (acc @ d) ?b = Inl (sentinelErr ErrPayloadTooLarge)"
          using True by (intro readAllBounded_limit) simp
        have out: "readAllBounded sz k acc b =
          (if x \<noteq> [] then Inl (sentinelErr ErrPayloadTooLarge)
           else (case xe of Some e \<Rightarrow> if errorsIs e IoEOF then Inl (sentinelErr ErrPayloadTooLarge) else Inl e
                 | None \<Rightarrow> Inl (sentinelErr ErrPayloadTooLarge)))"
          using readAllBounded_step[of sz k b] run None True lim by (auto split: option.split)
        have more: "rdata r \<noteq> [] \<Longrightarrow> x = [] \<Longrightarrow> xe = None"
          using readOnce_last[of 1 r x _ r2] ro2 by (cases xe) auto
        have eofs: "list_all (\<lambda>(bs, e). e = None) r \<Longrightarrow> xe = Some y \<Longrightarrow> y = ioEOF" for y
          using ro2 by (cases r) (auto split: if_splits)
        have never: "readAllBounded sz k acc b \<noteq> Inr y" for y
          using out by (simp split: option.split)
        have big: "readAllBounded sz k acc b = Inl (sentinelErr ErrPayloadTooLarge)" if "rdata r \<noteq> []"
          using out more[OF that] by (cases "x = []") simp_all
        have exact: "readAllBounded sz k acc b = Inl (sentinelErr ErrPayloadTooLarge)"
          if "list_all (\<lambda>(bs, e). e = None) (rc b)"
          using out eofs[OF plain[OF that]] by (cases xe) simp_all
        from d full have "int (length (rdata (rc b))) = quota b + int (length (rdata r))" by simp
        with never big exact show ?thesis by (cases "rdata r") simp_all
      qed
    qed
  qed
qed

lemma fresh_quota:
  "quota \<lparr> rc = r, maxBytes = m, readSoFar = 0 \<rparr> = m"
  "rc \<lparr> rc = r, maxBytes = m, readSoFar = 0 \<rparr> = r"
  by (simp_all add: quota_def)

lemmas readAllBounded_fresh =
  readAllBounded_spec[of "\<lparr> rc = r, maxBytes = m, readSoFar = 0 \<rparr>" sz 0 "[]" for r m sz,
    unfolded fresh_quota append_Nil]

text \<open>
  The size limit of a download. Reading a \<open>Fetch\<close> body to its end yields all of the
  server's bytes when they are fewer than \<open>MaxBytes\<close>, fails with ErrPayloadTooLarge when
  they are more, and never yields bytes that the server did not send or more than
  \<open>MaxBytes\<close>, however the reads are cut.
\<close>

theorem boundedBody_limit:
  assumes "0 < m" and "out = readAllBounded sz 0 [] \<lparr> rc = r, maxBytes = m, readSoFar = 0 \<rparr>"
  shows "(int (length (rdata r)) < m \<and> errorsIs (rerr r) IoEOF \<longrightarrow> out = Inr (rdata r)) \<and>
    (m < int (length (rdata r)) \<longrightarrow> out = Inl (sentinelErr ErrPayloadTooLarge)) \<and>
    (\<forall>d. out = Inr d \<longrightarrow> d = rdata r \<and> int (length d) \<le> m)"
  using readAllBounded_fresh[of r m sz] assms(1) unfolding assms(2) by (metis order_less_imp_le)

theorem boundedBody_limit_witness:
  "readAllBounded (\<lambda>k. 511) 0 [] \<lparr> rc = [([1, 2], None), ([3], Some ioEOF)], maxBytes = 4, readSoFar = 0 \<rparr> = Inr [1, 2, 3] \<and>
   readAllBounded (\<lambda>k. 511) 0 [] \<lparr> rc = [([1, 2], None), ([3], Some ioEOF)], maxBytes = 2, readSoFar = 0 \<rparr> =
     Inl (sentinelErr ErrPayloadTooLarge)"
proof
  let ?r = "[([1, 2], None), ([3], Some ioEOF)] :: reader"
  have r: "rdata ?r = [1, 2, 3]" "errorsIs (rerr ?r) IoEOF" by simp_all
  have n: "0 < (4 :: int)" "int (length [1, 2, 3 :: byte]) < 4" "0 < (2 :: int)" "2 < int (length [1, 2, 3 :: byte])"
    by simp_all
  show "readAllBounded (\<lambda>k. 511) 0 [] \<lparr> rc = ?r, maxBytes = 4, readSoFar = 0 \<rparr> = Inr [1, 2, 3]"
    using boundedBody_limit[of 4 _ "\<lambda>k. 511" ?r, OF _ refl] n(1,2) r(2) unfolding r(1) by blast
  show "readAllBounded (\<lambda>k. 511) 0 [] \<lparr> rc = ?r, maxBytes = 2, readSoFar = 0 \<rparr> = Inl (sentinelErr ErrPayloadTooLarge)"
    using boundedBody_limit[of 2 _ "\<lambda>k. 511" ?r, OF _ refl] n(3,4) unfolding r(1) by blast
qed

text \<open>
  The limit itself. A body of exactly \<open>MaxBytes\<close> bytes is refused as too large whenever
  its end is reported by a read of its own, which is how a chunked transfer ends: the probe
  for one byte more finds the end and lets the read pass, and then the next read refuses.
\<close>

theorem boundedBody_exact_size_refused:
  assumes "0 < m" and "int (length data) = m"
  shows "readAllBounded sz 0 [] \<lparr> rc = bytesReader data, maxBytes = m, readSoFar = 0 \<rparr> =
    Inl (sentinelErr ErrPayloadTooLarge)"
proof -
  have "list_all (\<lambda>(bs, e). e = None) (bytesReader data)" by (simp add: bytesReader_def)
  moreover have "m = int (length (rdata (bytesReader data)))" using assms(2) by simp
  ultimately show ?thesis using readAllBounded_fresh[of "bytesReader data" m sz] by blast
qed

theorem boundedBody_exact_size_refused_witness:
  "readAllBounded (\<lambda>k. 511) 0 [] \<lparr> rc = bytesReader [7, 8, 9], maxBytes = 3, readSoFar = 0 \<rparr> =
     Inl (sentinelErr ErrPayloadTooLarge)"
  by (rule boundedBody_exact_size_refused) simp_all

end
