(* ===== verification/World.thy ===== *)
theory World
  imports Storage GoIO GoTime
begin

text \<open>
  The process's surroundings: the database, the file system, the clock and the random
  source. Every interaction is one step, numbered by \<open>w_step\<close>; what the surroundings do at
  step \<open>k\<close> is given by arbitrary functions of \<open>k\<close>: the time, the random bytes, whether a file
  operation fails, and how much of its data a failing write or read moves. Directories are
  not represented: an operation on a missing directory is one of the faults.

  The components' states extend this record, so their operations apply as they are to every
  larger state.
\<close>

record fsFile =
  fdata :: bytes
  fmode :: nat
  fmtime :: int

record world =
  w_db :: database
  w_files :: "(string \<times> fsFile) list"
  w_step :: nat
  w_clock :: "nat \<Rightarrow> int"
  w_fault :: "nat \<Rightarrow> goerr option"
  w_short :: "nat \<Rightarrow> nat option"
  w_random :: "nat \<Rightarrow> nat \<Rightarrow> byte"

definition onDB :: "(database, 'r) state \<Rightarrow> ('a world_scheme, 'r) state" where
  "onDB m = zoom w_db (\<lambda>d w. w\<lparr>w_db := d\<rparr>) m"

definition nextStep :: "('a world_scheme, nat) state" where
  "nextStep = State (\<lambda>w. (w_step w, w\<lparr>w_step := Suc (w_step w)\<rparr>))"

text \<open>The value of an \<open>int64\<close> expression whose exact result is \<open>i\<close>: it wraps around.\<close>

definition int64 :: "int \<Rightarrow> int" where
  "int64 i = sint (word_of_int i :: 64 word)"

lemma int64_id: "- (2 ^ 63) \<le> i \<Longrightarrow> i < 2 ^ 63 \<Longrightarrow> int64 i = i"
  unfolding int64_def sint_sbintrunc' by (rule signed_take_bit_int_eq_self) simp_all

subsection \<open>Clock and random source\<close>

definition timeNow :: "('a world_scheme, int) state" where
  "timeNow = do { k \<leftarrow> nextStep; asks (\<lambda>w. w_clock w k) }"

definition randRead :: "nat \<Rightarrow> ('a world_scheme, bytes res) state" where
  "randRead n = do {
     k \<leftarrow> nextStep;
     asks (\<lambda>w. case w_fault w k of Some e \<Rightarrow> Inl e | None \<Rightarrow> Inr (map (w_random w k) [0..<n])) }"

subsection \<open>Paths\<close>

definition cleanStep :: "bool \<Rightarrow> string list \<Rightarrow> string \<Rightarrow> string list" where
  "cleanStep rooted st c =
     (if c = '''' \<or> c = ''.'' then st
      else if c = ''..'' then
        (if st \<noteq> [] \<and> last st \<noteq> ''..'' then butlast st else if rooted then [] else st @ [c])
      else st @ [c])"

definition filepathClean :: "string \<Rightarrow> string" where
  "filepathClean p =
     (let rooted = (p \<noteq> [] \<and> hd p = CHR ''/'');
          parts = foldl (cleanStep rooted) [] (Split p (CHR ''/''));
          out = (if rooted then ''/'' else '''') @ JoinWith (CHR ''/'') parts
      in if out = '''' then ''.'' else out)"

definition filepathJoin :: "string \<Rightarrow> string \<Rightarrow> string" where
  "filepathJoin d n =
     (if d = '''' then (if n = '''' then '''' else filepathClean n)
      else if n = '''' then filepathClean d
      else filepathClean (d @ ''/'' @ n))"

definition filepathBase :: "string \<Rightarrow> string" where
  "filepathBase p =
     (let q = rev (dropWhile (\<lambda>c. c = CHR ''/'') (rev p)) in
      if p = '''' then ''.'' else if q = '''' then ''/'' else last (Split q (CHR ''/'')))"

definition filepathExt :: "string \<Rightarrow> string" where
  "filepathExt p =
     (let b = last (Split p (CHR ''/'')) in
      if CHR ''.'' \<in> set b then CHR ''.'' # last (Split b (CHR ''.'')) else '''')"

subsection \<open>Files\<close>

definition notExist :: "string \<Rightarrow> string \<Rightarrow> goerr" where
  "notExist opn p = Err (opn @ '' '' @ p @ '': no such file or directory'') [FileNotExist]"

definition fileAt :: "'a world_scheme \<Rightarrow> string \<Rightarrow> fsFile option" where
  "fileAt w p = map_of (w_files w) p"

definition putFile :: "string \<Rightarrow> fsFile \<Rightarrow> 'a world_scheme \<Rightarrow> 'a world_scheme" where
  "putFile p f w = w\<lparr>w_files := (p, f) # filter (\<lambda>(q, _). q \<noteq> p) (w_files w)\<rparr>"

definition dropFile :: "string \<Rightarrow> 'a world_scheme \<Rightarrow> 'a world_scheme" where
  "dropFile p w = w\<lparr>w_files := filter (\<lambda>(q, _). q \<noteq> p) (w_files w)\<rparr>"

definition MkdirAll :: "string \<Rightarrow> nat \<Rightarrow> ('a world_scheme, goerr option) state" where
  "MkdirAll d perm = do { k \<leftarrow> nextStep; asks (\<lambda>w. w_fault w k) }"

definition Stat :: "string \<Rightarrow> ('a world_scheme, fsFile res) state" where
  "Stat p = do {
     k \<leftarrow> nextStep;
     asks (\<lambda>w. case w_fault w k of Some e \<Rightarrow> Inl e
       | None \<Rightarrow> (case fileAt w p of None \<Rightarrow> Inl (notExist ''stat'' p) | Some f \<Rightarrow> Inr f)) }"

definition ReadFile :: "string \<Rightarrow> ('a world_scheme, bytes res) state" where
  "ReadFile p = do {
     k \<leftarrow> nextStep;
     asks (\<lambda>w. case w_fault w k of Some e \<Rightarrow> Inl e
       | None \<Rightarrow> (case fileAt w p of None \<Rightarrow> Inl (notExist ''open'' p) | Some f \<Rightarrow> Inr (fdata f))) }"

text \<open>
  \<open>os.WriteFile\<close>: truncates or creates, then writes; the permissions are those of the call
  only when the file is created. A failing write may leave the first bytes of the data.
\<close>

definition WriteFile :: "string \<Rightarrow> bytes \<Rightarrow> nat \<Rightarrow> ('a world_scheme, goerr option) state" where
  "WriteFile p d perm = do {
     k \<leftarrow> nextStep;
     State (\<lambda>w.
       let mode = (case fileAt w p of None \<Rightarrow> perm | Some f \<Rightarrow> fmode f);
           done = (\<lambda>bs. putFile p \<lparr> fdata = bs, fmode = mode, fmtime = w_clock w k \<rparr> w)
       in case w_fault w k of
            None \<Rightarrow> (None, done d)
          | Some e \<Rightarrow> (Some e, case w_short w k of None \<Rightarrow> w | Some n \<Rightarrow> done (take n d))) }"

definition Remove :: "string \<Rightarrow> ('a world_scheme, goerr option) state" where
  "Remove p = do {
     k \<leftarrow> nextStep;
     State (\<lambda>w. case w_fault w k of Some e \<Rightarrow> (Some e, w)
       | None \<Rightarrow> (case fileAt w p of
           None \<Rightarrow> (Some (notExist ''remove'' p), w)
         | Some f \<Rightarrow> (None, dropFile p w))) }"

text \<open>
  \<open>os.Open\<close>, with what reading the file will deliver: all of it, or the first bytes and an
  error.
\<close>

definition OpenRead :: "string \<Rightarrow> ('a world_scheme, reader res) state" where
  "OpenRead p = do {
     k \<leftarrow> nextStep;
     asks (\<lambda>w. case w_fault w k of Some e \<Rightarrow> Inl e
       | None \<Rightarrow> (case fileAt w p of None \<Rightarrow> Inl (notExist ''open'' p)
         | Some f \<Rightarrow> Inr (case w_short w k of None \<Rightarrow> bytesReader (fdata f)
             | Some n \<Rightarrow> [(take n (fdata f), Some (errorsNew ''input/output error''))]))) }"

text \<open>The names of the files directly in a directory.\<close>

definition ReadDir :: "string \<Rightarrow> ('a world_scheme, string list res) state" where
  "ReadDir d = do {
     k \<leftarrow> nextStep;
     asks (\<lambda>w. case w_fault w k of Some e \<Rightarrow> Inl e
       | None \<Rightarrow> Inr (map (filepathBase \<circ> fst)
                  (filter (\<lambda>(p, _). p = filepathJoin d (filepathBase p)) (w_files w)))) }"

subsection \<open>What the operations do to the world\<close>

lemma run_onDB [run_simps]:
  "run_state (onDB m) w = (case run_state m (w_db w) of (r, d) \<Rightarrow> (r, w\<lparr>w_db := d\<rparr>))"
  by (simp add: onDB_def run_zoom)

lemma run_nextStep [run_simps]: "run_state nextStep w = (w_step w, w\<lparr>w_step := Suc (w_step w)\<rparr>)"
  by (simp add: nextStep_def)

lemma run_timeNow [run_simps]:
  "run_state timeNow w = (w_clock w (w_step w), w\<lparr>w_step := Suc (w_step w)\<rparr>)"
  by (simp add: timeNow_def run_simps)

lemma fileAt_step [simp]: "fileAt (w\<lparr>w_step := n\<rparr>) p = fileAt w p"
  by (simp add: fileAt_def)

lemma fileAt_db [simp]: "fileAt (w\<lparr>w_db := d\<rparr>) p = fileAt w p"
  by (simp add: fileAt_def)

lemma map_of_filter_key:
  "map_of (filter (\<lambda>(q, _). q \<noteq> p) xs) q = (if q = p then None else map_of xs q)"
  by (induction xs) auto

lemma fileAt_putFile [simp]: "fileAt (putFile p f w) q = (if q = p then Some f else fileAt w q)"
  by (simp add: fileAt_def putFile_def map_of_filter_key)

lemma fileAt_dropFile [simp]: "fileAt (dropFile p w) q = (if q = p then None else fileAt w q)"
  by (simp add: fileAt_def dropFile_def map_of_filter_key)

lemma putFile_fields [simp]:
  "w_db (putFile p f w) = w_db w" "w_step (putFile p f w) = w_step w" "w_clock (putFile p f w) = w_clock w"
  "w_fault (putFile p f w) = w_fault w" "w_short (putFile p f w) = w_short w"
  "w_random (putFile p f w) = w_random w"
  by (simp_all add: putFile_def)

lemma dropFile_fields [simp]:
  "w_db (dropFile p w) = w_db w" "w_step (dropFile p w) = w_step w" "w_clock (dropFile p w) = w_clock w"
  "w_fault (dropFile p w) = w_fault w" "w_short (dropFile p w) = w_short w"
  "w_random (dropFile p w) = w_random w"
  by (simp_all add: dropFile_def)

lemma run_randRead [run_simps]:
  "run_state (randRead n) w =
     ((case w_fault w (w_step w) of Some e \<Rightarrow> Inl e | None \<Rightarrow> Inr (map (w_random w (w_step w)) [0..<n])),
      w\<lparr>w_step := Suc (w_step w)\<rparr>)"
  by (simp add: randRead_def run_simps split: option.split)

lemma run_MkdirAll [run_simps]:
  "run_state (MkdirAll d perm) w = (w_fault w (w_step w), w\<lparr>w_step := Suc (w_step w)\<rparr>)"
  by (simp add: MkdirAll_def run_simps)

lemma run_Stat [run_simps]:
  "run_state (Stat p) w =
     ((case w_fault w (w_step w) of Some e \<Rightarrow> Inl e
       | None \<Rightarrow> (case fileAt w p of None \<Rightarrow> Inl (notExist ''stat'' p) | Some f \<Rightarrow> Inr f)),
      w\<lparr>w_step := Suc (w_step w)\<rparr>)"
  by (simp add: Stat_def run_simps split: option.split)

lemma run_ReadFile [run_simps]:
  "run_state (ReadFile p) w =
     ((case w_fault w (w_step w) of Some e \<Rightarrow> Inl e
       | None \<Rightarrow> (case fileAt w p of None \<Rightarrow> Inl (notExist ''open'' p) | Some f \<Rightarrow> Inr (fdata f))),
      w\<lparr>w_step := Suc (w_step w)\<rparr>)"
  by (simp add: ReadFile_def run_simps split: option.split)

lemma run_OpenRead [run_simps]:
  "run_state (OpenRead p) w =
     ((case w_fault w (w_step w) of Some e \<Rightarrow> Inl e
       | None \<Rightarrow> (case fileAt w p of None \<Rightarrow> Inl (notExist ''open'' p)
         | Some f \<Rightarrow> Inr (case w_short w (w_step w) of None \<Rightarrow> bytesReader (fdata f)
             | Some n \<Rightarrow> [(take n (fdata f), Some (errorsNew ''input/output error''))]))),
      w\<lparr>w_step := Suc (w_step w)\<rparr>)"
  by (simp add: OpenRead_def run_simps split: option.split)

lemma run_WriteFile_ok:
  "w_fault w (w_step w) = None \<Longrightarrow>
   run_state (WriteFile p d perm) w =
     (None, putFile p \<lparr> fdata = d, fmode = (case fileAt w p of None \<Rightarrow> perm | Some f \<Rightarrow> fmode f),
        fmtime = w_clock w (w_step w) \<rparr> (w\<lparr>w_step := Suc (w_step w)\<rparr>))"
  by (simp add: WriteFile_def run_simps Let_def)

lemma run_Remove_ok:
  "w_fault w (w_step w) = None \<Longrightarrow> fileAt w p = Some f \<Longrightarrow>
   run_state (Remove p) w = (None, dropFile p (w\<lparr>w_step := Suc (w_step w)\<rparr>))"
  by (simp add: Remove_def run_simps)

text \<open>A world in which no operation fails.\<close>

definition faultless :: "'a world_scheme \<Rightarrow> bool" where
  "faultless w \<longleftrightarrow> w_fault w = (\<lambda>_. None) \<and> (\<forall>n. stmt_fault (w_db w) n = None)"

subsection \<open>Names in a directory\<close>

text \<open>A file name proper: not empty, no separator, and neither of the two dots.\<close>

definition plainName :: "string \<Rightarrow> bool" where
  "plainName n \<longleftrightarrow> n \<notin> {'''', ''.'', ''..''} \<and> CHR ''/'' \<notin> set n"

lemma last_Split_append: "c \<notin> set n \<Longrightarrow> last (Split (a @ c # n) c) = n"
proof (induction a)
  case Nil
  then show ?case by (simp add: Split_no_sep)
next
  case (Cons x a)
  obtain p ps where "Split (a @ c # n) c = p # ps" by (cases "Split (a @ c # n) c") simp_all
  moreover have "ps \<noteq> []"
    using Cons.prems \<open>Split (a @ c # n) c = p # ps\<close>
  proof (induction a arbitrary: p ps)
    case (Cons y a)
    then show ?case by (cases "Split (a @ c # n) c") (auto split: if_splits)
  qed (auto simp: Split_no_sep)
  ultimately show ?case using Cons by auto
qed

lemma Split_snoc: "c \<notin> set n \<Longrightarrow> Split (a @ c # n) c = Split a c @ [n]"
proof (induction a)
  case Nil
  then show ?case by (simp add: Split_no_sep)
next
  case (Cons x a)
  then show ?case by (cases "Split a c") auto
qed

lemma JoinWith_snoc: "JoinWith c (xs @ [x]) = (if xs = [] then x else JoinWith c xs @ c # x)"
  by (induction c xs rule: JoinWith.induct) auto

lemma filepathJoin_plain:
  assumes "plainName n"
  obtains pre where "filepathJoin d n = pre @ n" "pre = [] \<or> last pre = CHR ''/''"
proof -
  define p where "p = (if d = '''' then n else d @ ''/'' @ n)"
  have n: "n \<noteq> ''''" "n \<noteq> ''.''" "n \<noteq> ''..''" "CHR ''/'' \<notin> set n" using assms by (auto simp: plainName_def)
  have j: "filepathJoin d n = filepathClean p" using n by (simp add: filepathJoin_def p_def)
  obtain ps where "Split p (CHR ''/'') = ps @ [n]"
    using n Split_snoc[of "CHR ''/''" n d] by (cases "d = ''''") (auto simp: p_def Split_no_sep)
  then obtain xs where f: "foldl (cleanStep (p \<noteq> [] \<and> hd p = CHR ''/'')) [] (Split p (CHR ''/'')) = xs @ [n]"
    using n by (simp add: cleanStep_def)
  define root where "root = (if p \<noteq> [] \<and> hd p = CHR ''/'' then ''/'' else '''')"
  have c: "filepathClean p = root @ (if xs = [] then n else JoinWith (CHR ''/'') xs @ CHR ''/'' # n)"
    unfolding filepathClean_def Let_def f JoinWith_snoc root_def using n by simp
  show ?thesis
  proof (rule that[of "root @ (if xs = [] then [] else JoinWith (CHR ''/'') xs @ ''/'')"])
    show "filepathJoin d n = (root @ (if xs = [] then [] else JoinWith (CHR ''/'') xs @ ''/'')) @ n"
      by (simp add: j c)
  qed (simp add: root_def)
qed

lemma plainName_tail:
  assumes "pre @ n = pre' @ n'" and "plainName n" "plainName n'"
    and "pre = [] \<or> last pre = CHR ''/''" and "pre' = [] \<or> last pre' = CHR ''/''"
  shows "n = n'"
proof -
  have b: "last (Split (q @ m) (CHR ''/'')) = m" if "plainName m" "q = [] \<or> last q = CHR ''/''" for q m
  proof (cases "q = []")
    case False
    with that(2) obtain a where "q = a @ ''/''" by (metis append_butlast_last_id)
    with that(1) last_Split_append[of "CHR ''/''" m a] show ?thesis by (simp add: plainName_def)
  qed (use that in \<open>simp add: plainName_def Split_no_sep\<close>)
  from b[of n pre] b[of n' pre'] assms show ?thesis by metis
qed

lemma filepathJoin_inj:
  "plainName n \<Longrightarrow> plainName n' \<Longrightarrow> filepathJoin d n = filepathJoin d n' \<longleftrightarrow> n = n'"
  by (metis filepathJoin_plain plainName_tail)

subsection \<open>Operations that leave files and tables alone\<close>

definition sameStore :: "'a world_scheme \<Rightarrow> 'a world_scheme \<Rightarrow> bool" where
  "sameStore w w' \<longleftrightarrow> w_db w' = w_db w \<and> w_files w' = w_files w \<and> w_clock w' = w_clock w \<and>
     w_fault w' = w_fault w \<and> w_short w' = w_short w \<and> w_random w' = w_random w"

interpretation store: state_order sameStore
  by unfold_locales (auto simp: sameStore_def)

lemma sameStore_step: "sameStore w (w\<lparr>w_step := n\<rparr>)"
  by (simp add: sameStore_def)

lemma sameStore_env: "state_io_rel sameStore nextStep" "state_io_rel sameStore timeNow"
    "state_io_rel sameStore (randRead n)" "state_io_rel sameStore (MkdirAll d perm)"
    "state_io_rel sameStore (Stat p)" "state_io_rel sameStore (ReadFile p)" "state_io_rel sameStore (OpenRead p)"
  by (auto simp: state_io_rel_def run_simps sameStore_step)

lemma fileAt_same: "sameStore w w' \<Longrightarrow> fileAt w' p = fileAt w p"
  by (simp add: sameStore_def fileAt_def)

end
