(* ===== verification/KeyFile.thy ===== *)
theory KeyFile
  imports Crypto World
begin

text \<open>
  The master key and its \<open>.env\<close> file, \<open>internal/crypto/keygen.go\<close>. A key is text: the
  prefix \<open>clam_sec_\<close> and 64 hexadecimal digits. \<open>EnsureMasterKey\<close> reads the key of the file
  or, when it finds none it can use, generates one and writes it there.
\<close>

definition MasterKeyPrefix :: string where "MasterKeyPrefix = ''clam_sec_''"
definition KeyHexLength :: nat where "KeyHexLength = 64"

definition GenerateMasterKey :: "('a world_scheme, (string \<times> bytes) res) state" where
  "GenerateMasterKey = do {
     r \<leftarrow> randRead KeyByteLength;
     ret (case r of
            Inl err \<Rightarrow> Inl (wrapErr ''failed to read random entropy: '' err)
          | Inr rawBytes \<Rightarrow> Inr (MasterKeyPrefix @ hexEncodeToString rawBytes, rawBytes)) }"

definition ParseMasterKey :: "string \<Rightarrow> bytes res" where
  "ParseMasterKey keyStr0 =
     (let keyStr = TrimSpace keyStr0 in
      if \<not> HasPrefix keyStr MasterKeyPrefix
      then Inl (errorsNew (''invalid master key format: missing '' @ [CHR 0x27] @ ''clam_sec_'' @ [CHR 0x27] @ '' prefix''))
      else
        let hexPart = TrimPrefix keyStr MasterKeyPrefix in
        if length hexPart \<noteq> KeyHexLength
        then Inl (errorsNew (''invalid master key length: expected '' @ itoa (int KeyHexLength) @
               '' hex chars, got '' @ itoa (int (length hexPart))))
        else (case hexDecodeString hexPart of
            Inl err \<Rightarrow> Inl (wrapErr ''failed to decode master key hex: '' err)
          | Inr rawBytes \<Rightarrow>
              if length rawBytes \<noteq> KeyByteLength
              then Inl (errorsNew (''invalid master key byte length: expected '' @ itoa (int KeyByteLength) @
                     '', got '' @ itoa (int (length rawBytes))))
              else Inr rawBytes))"

subsection \<open>Reading the key\<close>

text \<open>
  \<open>bufio.Scanner\<close> by lines: each line without its newline and one carriage return before it;
  a line of 65536 bytes or more ends the scan with an error.
\<close>

definition nl :: char where "nl = CHR 0x0A"
definition cr :: char where "cr = CHR 0x0D"

definition dropCR :: "string \<Rightarrow> string" where
  "dropCR l = (if l \<noteq> [] \<and> last l = cr then butlast l else l)"

definition rawLines :: "string \<Rightarrow> string list" where
  "rawLines s = (let ls = Split s nl in if last ls = [] then butlast ls else ls)"

definition maxLine :: nat where "maxLine = 65536"

definition scanLines :: "string \<Rightarrow> string list \<times> goerr option" where
  "scanLines s =
     (let ls = rawLines s in
      (map dropCR (takeWhile (\<lambda>l. length l < maxLine) ls),
       if list_ex (\<lambda>l. maxLine \<le> length l) ls then Some (errorsNew ''bufio.Scanner: token too long'') else None))"

definition quoteChars :: string where "quoteChars = [CHR 0x22, CHR 0x27]"

fun keyOfLines :: "string list \<Rightarrow> string option" where
  "keyOfLines [] = None"
| "keyOfLines (t # ls) =
     (let line = TrimSpace t in
      if HasPrefix line ''#'' \<or> \<not> Contains line ''='' then keyOfLines ls
      else
        let parts = SplitN2 line (CHR ''='') in
        if TrimSpace (parts ! 0) = ''ENCRYPTION_KEY''
        then Some (TrimCut (TrimSpace (parts ! 1)) quoteChars)
        else keyOfLines ls)"

text \<open>The key in the text of the file, or the scanner's error.\<close>

definition envKey :: "string \<Rightarrow> string res" where
  "envKey d =
     (case scanLines d of (ls, e) \<Rightarrow>
       (case keyOfLines ls of
          Some v \<Rightarrow> Inr v
        | None \<Rightarrow> (case e of None \<Rightarrow> Inr '''' | Some err \<Rightarrow> Inl err)))"

definition readKeyFromEnv :: "string \<Rightarrow> ('a world_scheme, string res) state" where
  "readKeyFromEnv filePath = do {
     r \<leftarrow> ReadFile filePath;
     ret (case r of Inl err \<Rightarrow> Inl err | Inr d \<Rightarrow> envKey (stringOf d)) }"

subsection \<open>Writing the key\<close>

definition keyLine :: "string \<Rightarrow> string" where
  "keyLine keyStr = ''ENCRYPTION_KEY='' @ keyStr"

fun replaceKey :: "string \<Rightarrow> string list \<Rightarrow> string list \<times> bool" where
  "replaceKey keyStr [] = ([], False)"
| "replaceKey keyStr (line # ls) =
     (if HasPrefix (TrimSpace line) ''ENCRYPTION_KEY='' then (keyLine keyStr # ls, True)
      else (case replaceKey keyStr ls of (ls', found) \<Rightarrow> (line # ls', found)))"

definition envContent :: "string \<Rightarrow> string" where
  "envContent keyStr =
     ''# Auto-generated clamav-service environment configuration'' @ [nl] @ keyLine keyStr @ [nl]"

definition newEnv :: "string \<Rightarrow> string \<Rightarrow> string" where
  "newEnv keyStr d =
     (case replaceKey keyStr (Split d nl) of (ls, found) \<Rightarrow>
        JoinWith nl (if found then ls else ls @ [keyLine keyStr]))"

definition mode0600 :: nat where "mode0600 = 384"
definition mode0700 :: nat where "mode0700 = 448"

definition appendOrWriteEnv :: "string \<Rightarrow> string \<Rightarrow> ('a world_scheme, goerr option) state" where
  "appendOrWriteEnv filePath keyStr = do {
     st \<leftarrow> Stat filePath;
     if (case st of Inl e \<Rightarrow> errorsIs e FileNotExist | Inr _ \<Rightarrow> False)
     then WriteFile filePath (bytesOf (envContent keyStr)) mode0600
     else do {
       r \<leftarrow> ReadFile filePath;
       case r of
         Inl err \<Rightarrow> ret (Some err)
       | Inr d \<Rightarrow> WriteFile filePath (bytesOf (newEnv keyStr (stringOf d))) mode0600 } }"

definition EnsureMasterKey :: "string \<Rightarrow> ('a world_scheme, (string \<times> bytes \<times> bool) res) state" where
  "EnsureMasterKey envPath0 = do {
     let envPath = (if envPath0 = '''' then ''.env'' else envPath0);
     st \<leftarrow> Stat envPath;
     existing \<leftarrow>
       (case st of
          Inl _ \<Rightarrow> ret None
        | Inr _ \<Rightarrow> do {
            rk \<leftarrow> readKeyFromEnv envPath;
            ret (case rk of
                   Inl _ \<Rightarrow> None
                 | Inr k \<Rightarrow> if k = '''' then None
                     else (case ParseMasterKey k of Inl _ \<Rightarrow> None | Inr raw \<Rightarrow> Some (k, raw, False))) });
     (case existing of
        Some res \<Rightarrow> ret (Inr res)
      | None \<Rightarrow>
          tryRes GenerateMasterKey (\<lambda>e. e) (\<lambda>(newKeyStr, rawBytes). do {
            we \<leftarrow> appendOrWriteEnv envPath newKeyStr;
            ret (case we of
                   Some err \<Rightarrow> Inl (wrapErr (''failed to write key to '' @ envPath @ '': '') err)
                 | None \<Rightarrow> Inr (newKeyStr, rawBytes, True)) })) }"

subsection \<open>Keys\<close>

lemma KeyByteLength_eq [simp]: "KeyByteLength = 32" by (simp add: KeyByteLength_def)

lemma prefix_graphic: "list_all graphic MasterKeyPrefix"
  by (simp add: MasterKeyPrefix_def graphic_def)

text \<open>The text of a key made from 32 bytes.\<close>

definition keyText :: "bytes \<Rightarrow> string" where
  "keyText raw = MasterKeyPrefix @ hexEncodeToString raw"

lemma keyText_graphic: "list_all graphic (keyText raw)"
  by (simp add: keyText_def prefix_graphic hexEncode_graphic)

lemma keyText_chars: "c \<in> set (keyText raw) \<Longrightarrow> hexLower c \<or> c \<in> set ''clam_sec_''"
  using hexEncode_hexLower[of raw] by (auto simp: keyText_def MasterKeyPrefix_def list_all_iff)

lemma keyText_no: "\<not> hexLower c \<Longrightarrow> c \<notin> set ''clam_sec_'' \<Longrightarrow> c \<notin> set (keyText raw)"
  using keyText_chars by blast

lemma keyText_nonempty [simp]: "keyText raw \<noteq> []"
  by (simp add: keyText_def MasterKeyPrefix_def)

lemma length_keyText: "length (keyText raw) = 9 + 2 * length raw"
  by (simp add: keyText_def MasterKeyPrefix_def)

lemma keyText_trim [simp]: "TrimSpace (keyText raw) = keyText raw"
  by (rule TrimSpace_all_graphic[OF keyText_graphic])

lemma ParseMasterKey_keyText: "length raw = 32 \<Longrightarrow> ParseMasterKey (keyText raw) = Inr raw"
  unfolding ParseMasterKey_def Let_def keyText_trim
  by (simp add: keyText_def KeyHexLength_def)

text \<open>
  A master key has one meaning. The text made from 32 bytes parses back to these bytes,
  with any white space around it; and a text that parses is, inside its white space, the
  prefix and 64 hexadecimal digits of the 32 bytes it yields.
\<close>

theorem ParseMasterKey_format:
  "(length raw = 32 \<longrightarrow> ParseMasterKey (MasterKeyPrefix @ hexEncodeToString raw) = Inr raw) \<and>
   (ParseMasterKey s = Inr r \<longrightarrow>
      length r = 32 \<and>
      (\<exists>h. TrimSpace s = MasterKeyPrefix @ h \<and> length h = 64 \<and> hexDecodeString h = Inr r))"
proof -
  have "length r = 32 \<and> (\<exists>h. TrimSpace s = MasterKeyPrefix @ h \<and> length h = 64 \<and> hexDecodeString h = Inr r)"
    if p: "ParseMasterKey s = Inr r"
  proof -
    from p have "HasPrefix (TrimSpace s) MasterKeyPrefix"
      by (auto simp: ParseMasterKey_def Let_def split: if_splits)
    then obtain h where h: "TrimSpace s = MasterKeyPrefix @ h" by (auto dest: HasPrefixE)
    with p show ?thesis
      by (auto simp: ParseMasterKey_def Let_def KeyHexLength_def split: if_splits sum.splits)
  qed
  then show ?thesis using ParseMasterKey_keyText[unfolded keyText_def] by auto
qed

theorem ParseMasterKey_format_witness:
  "ParseMasterKey (MasterKeyPrefix @ hexEncodeToString (replicate 32 0xAB)) = Inr (replicate 32 0xAB)"
  using ParseMasterKey_format[of "replicate 32 0xAB" "[]" "[]"] by simp

subsection \<open>The key line of a file\<close>

definition isKeyLine :: "string \<Rightarrow> bool" where
  "isKeyLine l \<longleftrightarrow> keyOfLines [dropCR l] \<noteq> None"

definition hasKeyPrefix :: "string \<Rightarrow> bool" where
  "hasKeyPrefix l \<longleftrightarrow> HasPrefix (TrimSpace l) ''ENCRYPTION_KEY=''"

lemma keyOfLines_Cons:
  "keyOfLines (l # ls) = (case keyOfLines [l] of Some v \<Rightarrow> Some v | None \<Rightarrow> keyOfLines ls)"
  by (simp add: Let_def)

lemma keyOfLines_skip:
  "list_all (\<lambda>l. \<not> isKeyLine l) pre \<Longrightarrow> keyOfLines (map dropCR pre @ ls) = keyOfLines ls"
proof (induction pre)
  case (Cons l pre)
  then show ?case
    using keyOfLines_Cons[of "dropCR l" "map dropCR pre @ ls"] by (simp add: isKeyLine_def)
qed simp

lemma hexLower_nl: "\<not> hexLower nl" "\<not> hexLower cr" "\<not> hexLower (CHR ''='')"
  "\<not> hexLower (CHR 0x22)" "\<not> hexLower (CHR 0x27)"
  by (simp_all add: hexLower_def nl_def cr_def)

lemma keyLine_no_nl: "nl \<notin> set (keyLine (keyText raw))"
  using keyText_no[OF hexLower_nl(1)] by (simp add: keyLine_def nl_def)

lemma dropCR_keyLine: "dropCR (keyLine (keyText raw)) = keyLine (keyText raw)"
proof -
  have "last (keyLine (keyText raw)) \<in> set (keyText raw)"
    by (simp add: keyLine_def)
  then have "last (keyLine (keyText raw)) \<noteq> cr"
    using keyText_no[OF hexLower_nl(2)] by (auto simp: cr_def)
  then show ?thesis by (simp add: dropCR_def)
qed

lemma keyLine_graphic: "list_all graphic (keyLine (keyText raw))"
  using keyText_graphic by (simp add: keyLine_def graphic_def)

lemma TrimCut_id: "s \<noteq> [] \<Longrightarrow> hd s \<notin> set cs \<Longrightarrow> last s \<notin> set cs \<Longrightarrow> TrimCut s cs = s"
proof -
  assume a: "s \<noteq> []" "hd s \<notin> set cs" "last s \<notin> set cs"
  then have "dropWhile (\<lambda>c. c \<in> set cs) s = s" by (cases s) auto
  moreover have "dropWhile (\<lambda>c. c \<in> set cs) (rev s) = rev s"
    using a by (cases s rule: rev_cases) auto
  ultimately show ?thesis by (simp add: TrimCut_def)
qed

lemma keyOfLines_keyLine: "keyOfLines [keyLine (keyText raw)] = Some (keyText raw)"
proof -
  have t: "TrimSpace (keyLine (keyText raw)) = keyLine (keyText raw)"
    by (rule TrimSpace_all_graphic[OF keyLine_graphic])
  have split: "SplitN2 (keyLine (keyText raw)) (CHR ''='') = [''ENCRYPTION_KEY'', keyText raw]"
    using SplitN2_append_sep[of "CHR ''=''" "''ENCRYPTION_KEY''" "keyText raw"] by (simp add: keyLine_def)
  have name: "TrimSpace ''ENCRYPTION_KEY'' = ''ENCRYPTION_KEY''"
    by (rule TrimSpace_all_graphic) (simp add: graphic_def)
  have eq: "Contains (keyLine (keyText raw)) ''=''"
    using Contains_append_mid[of "''ENCRYPTION_KEY''" "''=''" "keyText raw"] by (simp add: keyLine_def)
  have hash: "\<not> HasPrefix (keyLine (keyText raw)) ''#''" by (simp add: keyLine_def HasPrefix_def)
  have "hd (keyText raw) \<notin> set quoteChars" by (simp add: keyText_def MasterKeyPrefix_def quoteChars_def)
  moreover have "last (keyText raw) \<notin> set quoteChars"
    using keyText_chars[of "last (keyText raw)" raw] hexLower_nl(4,5)
    by (auto simp: quoteChars_def)
  ultimately have "TrimCut (keyText raw) quoteChars = keyText raw" by (simp add: TrimCut_id)
  then show ?thesis using t split name eq hash by (simp add: Let_def del: Contains.simps SplitN2.simps)
qed

text \<open>
  A file whose key line, if it has one, is written so that \<open>appendOrWriteEnv\<close> finds it: no
  blank before the equality sign. Lines that the scanner cannot hold are excluded too.
\<close>

definition wellFormedEnv :: "string \<Rightarrow> bool" where
  "wellFormedEnv d \<longleftrightarrow>
     list_all (\<lambda>l. length l < maxLine \<and> (isKeyLine l \<longrightarrow> hasKeyPrefix l)) (Split d nl)"

lemma replaceKey_spec:
  "replaceKey k ls = (ls', found) \<Longrightarrow>
   (found \<longrightarrow> (\<exists>pre l post. ls = pre @ l # post \<and> list_all (\<lambda>l. \<not> hasKeyPrefix l) pre \<and> ls' = pre @ keyLine k # post)) \<and>
   (\<not> found \<longrightarrow> list_all (\<lambda>l. \<not> hasKeyPrefix l) ls \<and> ls' = ls)"
proof (induction ls arbitrary: ls' found)
  case (Cons x ls)
  show ?case
  proof (cases "hasKeyPrefix x")
    case True
    with Cons.prems have "found" "ls' = keyLine k # ls" by (simp_all add: hasKeyPrefix_def)
    then show ?thesis by (intro conjI impI exI[of _ "[]"] exI[of _ x] exI[of _ ls]) simp_all
  next
    case False
    obtain r g where r: "replaceKey k ls = (r, g)" by fastforce
    with Cons.prems False have eq: "ls' = x # r" "found = g" by (auto simp: hasKeyPrefix_def)
    show ?thesis
    proof (cases g)
      case True
      with Cons.IH[OF r] obtain pre l post where
        "ls = pre @ l # post" "list_all (\<lambda>l. \<not> hasKeyPrefix l) pre" "r = pre @ keyLine k # post" by blast
      with eq False True show ?thesis
        by (intro conjI impI exI[of _ "x # pre"] exI[of _ l] exI[of _ post]) simp_all
    qed (use Cons.IH[OF r] eq False in simp)
  qed
qed simp

lemma takeWhile_short:
  "list_all (\<lambda>l. length l < maxLine) pre \<Longrightarrow> length k < maxLine \<Longrightarrow>
   \<exists>rest. takeWhile (\<lambda>l. length l < maxLine) (pre @ k # post) = pre @ k # rest"
  by (induction pre) auto

lemma envKey_lines:
  assumes raw: "length raw = 32"
    and no_nl: "\<And>l. l \<in> set (pre @ post) \<Longrightarrow> nl \<notin> set l"
    and pre: "list_all (\<lambda>l. length l < maxLine \<and> \<not> isKeyLine l) pre"
  shows "envKey (JoinWith nl (pre @ keyLine (keyText raw) # post)) = Inr (keyText raw)"
proof -
  let ?k = "keyLine (keyText raw)"
  have split: "Split (JoinWith nl (pre @ ?k # post)) nl = pre @ ?k # post"
    by (rule Split_JoinWith) (use no_nl keyLine_no_nl in auto)
  have ne: "?k \<noteq> []" by (simp add: keyLine_def)
  obtain post' where lines: "rawLines (JoinWith nl (pre @ ?k # post)) = pre @ ?k # post'"
  proof (cases "last (pre @ ?k # post) = []")
    case True
    with ne have "post \<noteq> []" by auto
    with True show ?thesis
      by (intro that[of "butlast post"]) (simp add: rawLines_def Let_def split butlast_append)
  next
    case False
    then show ?thesis by (intro that[of post]) (simp add: rawLines_def Let_def split)
  qed
  have "length ?k < maxLine" by (simp add: keyLine_def length_keyText raw maxLine_def)
  moreover have "list_all (\<lambda>l. length l < maxLine) pre" using pre by (simp add: list_all_iff)
  ultimately obtain rest where
    rest: "takeWhile (\<lambda>l. length l < maxLine) (pre @ ?k # post') = pre @ ?k # rest"
    using takeWhile_short by blast
  have "list_all (\<lambda>l. \<not> isKeyLine l) pre" using pre by (simp add: list_all_iff)
  then have "keyOfLines (map dropCR (pre @ ?k # rest)) = keyOfLines (?k # map dropCR rest)"
    using keyOfLines_skip[of pre "?k # map dropCR rest"] by (simp add: dropCR_keyLine del: keyOfLines.simps)
  also have "\<dots> = Some (keyText raw)"
    using keyOfLines_Cons[of ?k "map dropCR rest"] keyOfLines_keyLine[of raw] by (simp del: keyOfLines.simps)
  finally show ?thesis
    by (simp add: envKey_def scanLines_def lines rest Let_def del: keyOfLines.simps)
qed

lemma envKey_newEnv:
  assumes "length raw = 32" and wf: "wellFormedEnv d"
  shows "envKey (newEnv (keyText raw) d) = Inr (keyText raw)"
proof -
  obtain ls found where r: "replaceKey (keyText raw) (Split d nl) = (ls, found)" by fastforce
  have good: "\<not> hasKeyPrefix l \<Longrightarrow> length l < maxLine \<and> \<not> isKeyLine l" if "l \<in> set (Split d nl)" for l
    using wf that by (auto simp: wellFormedEnv_def list_all_iff)
  show ?thesis
  proof (cases found)
    case True
    with replaceKey_spec[OF r] obtain pre l post where
      p: "Split d nl = pre @ l # post" "list_all (\<lambda>l. \<not> hasKeyPrefix l) pre" "ls = pre @ keyLine (keyText raw) # post"
      by blast
    have "nl \<notin> set x" if "x \<in> set (pre @ post)" for x
      using that Split_parts_no_sep[of x d nl] p(1) by auto
    moreover have "list_all (\<lambda>l. length l < maxLine \<and> \<not> isKeyLine l) pre"
      using p good by (auto simp: list_all_iff)
    ultimately show ?thesis
      using envKey_lines[OF assms(1), of pre post] r True p(3) by (simp add: newEnv_def)
  next
    case False
    with replaceKey_spec[OF r] have p: "list_all (\<lambda>l. \<not> hasKeyPrefix l) (Split d nl)" "ls = Split d nl" by auto
    have "list_all (\<lambda>l. length l < maxLine \<and> \<not> isKeyLine l) (Split d nl)"
      using p good by (auto simp: list_all_iff)
    then show ?thesis
      using envKey_lines[OF assms(1), of "Split d nl" "[]"] Split_parts_no_sep[of _ d nl] r False p(2)
      by (simp add: newEnv_def)
  qed
qed

lemma envKey_envContent:
  assumes "length raw = 32"
  shows "envKey (envContent (keyText raw)) = Inr (keyText raw)"
proof -
  define c where "c = ''# Auto-generated clamav-service environment configuration''"
  have eq: "envContent (keyText raw) = JoinWith nl ([c] @ keyLine (keyText raw) # [[]])"
    by (simp add: envContent_def c_def)
  have "\<not> isKeyLine c" unfolding c_def by code_simp
  moreover have "length c < maxLine" by (simp add: c_def maxLine_def)
  ultimately have "list_all (\<lambda>l. length l < maxLine \<and> \<not> isKeyLine l) [c]" by simp
  moreover have no: "nl \<notin> set c" unfolding c_def by code_simp
  have "nl \<notin> set l" if "l \<in> set ([c] @ [[]])" for l
    using that no by (cases "l = c") simp_all
  ultimately show ?thesis
    unfolding eq using envKey_lines[OF assms] by blast
qed

subsection \<open>EnsureMasterKey\<close>

text \<open>The random bytes a call at step \<open>k\<close> generates its key from.\<close>

definition keyBytesAt :: "'a world_scheme \<Rightarrow> nat \<Rightarrow> bytes" where
  "keyBytesAt w k = map (w_random w k) [0..<32]"

lemma length_keyBytesAt [simp]: "length (keyBytesAt w k) = 32"
  by (simp add: keyBytesAt_def)

text \<open>The usable key of the file at \<open>p\<close>, if there is one.\<close>

definition storedKey :: "'a world_scheme \<Rightarrow> string \<Rightarrow> (string \<times> bytes) option" where
  "storedKey w p =
     (case fileAt w p of None \<Rightarrow> None
      | Some f \<Rightarrow> (case envKey (stringOf (fdata f)) of Inl _ \<Rightarrow> None
        | Inr k \<Rightarrow> if k = '''' then None
            else (case ParseMasterKey k of Inl _ \<Rightarrow> None | Inr raw \<Rightarrow> Some (k, raw))))"

lemma EnsureMasterKey_existing:
  assumes "p \<noteq> ''''" and "w_fault w = (\<lambda>_. None)" and "storedKey w p = Some (k, raw)"
  shows "run_state (EnsureMasterKey p) w = (Inr (k, raw, False), w\<lparr>w_step := w_step w + 2\<rparr>)"
proof -
  obtain f where f: "fileAt w p = Some f" "envKey (stringOf (fdata f)) = Inr k" "k \<noteq> ''''"
    "ParseMasterKey k = Inr raw"
    using assms(3) by (auto simp: storedKey_def split: option.splits sum.splits if_splits)
  show ?thesis
    using assms(1,2) f
    by (simp add: EnsureMasterKey_def readKeyFromEnv_def run_simps)
qed

definition writtenEnv :: "string \<Rightarrow> fsFile option \<Rightarrow> string" where
  "writtenEnv k ff = (case ff of None \<Rightarrow> envContent k | Some f \<Rightarrow> newEnv k (stringOf (fdata f)))"

lemma GenerateMasterKey_run:
  "w_fault w (w_step w) = None \<Longrightarrow>
   run_state GenerateMasterKey w =
     (Inr (keyText (keyBytesAt w (w_step w)), keyBytesAt w (w_step w)), w\<lparr>w_step := Suc (w_step w)\<rparr>)"
  by (simp add: GenerateMasterKey_def run_simps keyText_def keyBytesAt_def)

text \<open>
  A call that generates a key: there is no usable one in the file, or the file could not be
  read just then (\<open>e1\<close> is the fault of that read).
\<close>

lemma keyBytesAt_step [simp]: "keyBytesAt (w\<lparr>w_step := n\<rparr>) k = keyBytesAt w k"
  by (simp add: keyBytesAt_def)

definition createdKey :: "'a world_scheme \<Rightarrow> string \<Rightarrow> bytes \<Rightarrow> (string \<times> bytes \<times> bool) res \<times> 'a world_scheme \<Rightarrow> bool" where
  "createdKey w p key r \<longleftrightarrow>
     (case r of (res, w') \<Rightarrow>
        res = Inr (keyText key, key, True) \<and>
        (\<exists>t. fileAt w' p = Some \<lparr> fdata = bytesOf (writtenEnv (keyText key) (fileAt w p)),
               fmode = (case fileAt w p of None \<Rightarrow> mode0600 | Some f \<Rightarrow> fmode f), fmtime = t \<rparr>) \<and>
        w_fault w' = w_fault w \<and> Suc (w_step w) < w_step w' \<and> w_random w' = w_random w)"

lemma EnsureMasterKey_create:
  assumes p: "p \<noteq> ''''"
    and faults: "w_fault w = (\<lambda>k. if k = Suc (w_step w) then e1 else None)"
    and unusable: "storedKey w p = None \<and> e1 = None \<or> fileAt w p \<noteq> None \<and> e1 \<noteq> None"
    and key: "key = keyBytesAt w (w_step w + (if fileAt w p = None then 1 else 2))"
  shows "createdKey w p key (run_state (EnsureMasterKey p) w)"
proof (cases "fileAt w p")
  case None
  with unusable faults have "w_fault w = (\<lambda>k. None)" by auto
  with None p key show ?thesis
    by (simp add: createdKey_def EnsureMasterKey_def appendOrWriteEnv_def run_simps GenerateMasterKey_run
        run_WriteFile_ok writtenEnv_def notExist_def errorsIs_def)
next
  case (Some f)
  show ?thesis
  proof (cases e1)
    case (Some e)
    with \<open>fileAt w p = Some f\<close> p key faults show ?thesis
      by (simp add: createdKey_def EnsureMasterKey_def readKeyFromEnv_def appendOrWriteEnv_def run_simps
          GenerateMasterKey_run run_WriteFile_ok writtenEnv_def numeral_2_eq_2)
  next
    case None
    with unusable have st: "storedKey w p = None" by simp
    from None faults have nf: "w_fault w = (\<lambda>k. None)" by auto
    have "(case envKey (stringOf (fdata f)) of Inl e \<Rightarrow> None
        | Inr k \<Rightarrow> if k = '''' then None
          else (case ParseMasterKey k of Inl _ \<Rightarrow> None | Inr raw \<Rightarrow> Some (k, raw, False))) = None"
      using st \<open>fileAt w p = Some f\<close> by (auto simp: storedKey_def split: sum.splits if_splits)
    with \<open>fileAt w p = Some f\<close> p key nf show ?thesis
      by (simp add: createdKey_def EnsureMasterKey_def readKeyFromEnv_def appendOrWriteEnv_def run_simps
          GenerateMasterKey_run run_WriteFile_ok writtenEnv_def numeral_2_eq_2)
  qed
qed

definition keptWellFormed :: "'a world_scheme \<Rightarrow> string \<Rightarrow> bool" where
  "keptWellFormed w p \<longleftrightarrow>
     (case fileAt w p of None \<Rightarrow> True | Some f \<Rightarrow> wellFormedEnv (stringOf (fdata f)))"

lemma storedKey_created:
  assumes "createdKey w p key (r, w')" and "length key = 32" and "keptWellFormed w p"
  shows "storedKey w' p = Some (keyText key, key)"
proof -
  have "envKey (writtenEnv (keyText key) (fileAt w p)) = Inr (keyText key)"
    using assms(2,3)
    by (cases "fileAt w p") (simp_all add: writtenEnv_def keptWellFormed_def envKey_envContent envKey_newEnv)
  with assms(1,2) show ?thesis
    by (auto simp: createdKey_def storedKey_def ParseMasterKey_keyText)
qed

text \<open>
  C26. The key survives a restart. From any file whose key line, if any, has no blank before
  its equality sign (or from no file at all), and without I/O errors, \<open>EnsureMasterKey\<close>
  succeeds, and a second call returns the same key text and bytes, not a new one.
\<close>

theorem EnsureMasterKey_persistent:
  assumes "p \<noteq> ''''" and "w_fault w = (\<lambda>_. None)" and "keptWellFormed w p"
    and "run_state (EnsureMasterKey p) w = (r, w')"
  shows "\<exists>k raw created. r = Inr (k, raw, created) \<and>
    fst (run_state (EnsureMasterKey p) w') = Inr (k, raw, False)"
proof (cases "storedKey w p")
  case None
  define key where "key = keyBytesAt w (w_step w + (if fileAt w p = None then 1 else 2))"
  have c: "createdKey w p key (r, w')"
    using EnsureMasterKey_create[OF assms(1) _ _ key_def, of None] assms(2,4) None by simp
  have "storedKey w' p = Some (keyText key, key)"
    by (rule storedKey_created[OF c _ assms(3)]) (simp add: key_def)
  moreover have "w_fault w' = (\<lambda>_. None)" "r = Inr (keyText key, key, True)"
    using c assms(2) by (auto simp: createdKey_def)
  ultimately show ?thesis
    using EnsureMasterKey_existing[OF assms(1), of w' "keyText key" key] by auto
next
  case (Some kr)
  obtain k raw where kr: "kr = (k, raw)" by fastforce
  have run: "r = Inr (k, raw, False)" "w' = w\<lparr>w_step := w_step w + 2\<rparr>"
    using EnsureMasterKey_existing[OF assms(1,2)] Some kr assms(4) by auto
  have "storedKey w' p = Some (k, raw)" "w_fault w' = (\<lambda>_. None)"
    using Some kr run(2) assms(2) by (simp_all add: storedKey_def)
  then show ?thesis using EnsureMasterKey_existing[OF assms(1), of w' k raw] run(1) by auto
qed

definition sampleWorld :: "(string \<times> fsFile) list \<Rightarrow> (nat \<Rightarrow> goerr option) \<Rightarrow> world" where
  "sampleWorld fs faults =
     \<lparr> w_db = emptyDB (\<lambda>_. None), w_files = fs, w_step = 0, w_clock = (\<lambda>k. int k), w_fault = faults,
       w_short = (\<lambda>_. None), w_random = (\<lambda>k i. of_nat (17 * k + i)) \<rparr>"

theorem EnsureMasterKey_persistent_witness:
  "\<exists>k raw created. fst (run_state (EnsureMasterKey ''.env'') (sampleWorld [] (\<lambda>_. None))) = Inr (k, raw, created) \<and>
     fst (run_state (EnsureMasterKey ''.env'')
       (snd (run_state (EnsureMasterKey ''.env'') (sampleWorld [] (\<lambda>_. None))))) = Inr (k, raw, False)"
  by (rule EnsureMasterKey_persistent[of "''.env''" "sampleWorld [] (\<lambda>_. None)"])
     (simp_all add: sampleWorld_def keptWellFormed_def fileAt_def)

text \<open>
  C32. A passing read error costs the key. If the file holds a usable key but cannot be read
  at that moment, the error is treated like a missing key: a new key is generated, returned,
  and written over the old one, which is gone from the file.
\<close>

theorem EnsureMasterKey_read_error_replaces_key:
  assumes "p \<noteq> ''''" and "storedKey w p = Some (k, raw)" and "keptWellFormed w p"
    and "w_fault w = (\<lambda>n. if n = Suc (w_step w) then Some e else None)"
    and "run_state (EnsureMasterKey p) w = (r, w')"
  shows "\<exists>key. key = keyBytesAt w (w_step w + 2) \<and> r = Inr (keyText key, key, True) \<and>
    storedKey w' p = Some (keyText key, key)"
proof -
  have f: "fileAt w p \<noteq> None" using assms(2) by (cases "fileAt w p") (simp_all add: storedKey_def)
  define key where "key = keyBytesAt w (w_step w + (if fileAt w p = None then 1 else 2))"
  have c: "createdKey w p key (r, w')"
    using EnsureMasterKey_create[OF assms(1,4) _ key_def] assms(5) f by simp
  have "storedKey w' p = Some (keyText key, key)"
    by (rule storedKey_created[OF c _ assms(3)]) (simp add: key_def)
  with c f show ?thesis by (auto simp: createdKey_def key_def)
qed

lemma replaceKey_hd:
  "\<not> hasKeyPrefix l \<Longrightarrow> replaceKey k (l # ls) = (l # fst (replaceKey k ls), snd (replaceKey k ls))"
  by (simp add: hasKeyPrefix_def split: prod.splits)

lemma replaceKey_no_nl:
  "nl \<notin> set k \<Longrightarrow> (\<And>l. l \<in> set ls \<Longrightarrow> nl \<notin> set l) \<Longrightarrow> l \<in> set (fst (replaceKey k ls)) \<Longrightarrow> nl \<notin> set l"
  by (induction ls) (auto simp: keyLine_def nl_def split: if_splits prod.splits)

lemma envKey_first:
  assumes "\<And>l. l \<in> set (l0 # ls) \<Longrightarrow> nl \<notin> set l" and "l0 \<noteq> []" and "length l0 < maxLine"
    and "keyOfLines [dropCR l0] = Some v"
  shows "envKey (JoinWith nl (l0 # ls)) = Inr v"
proof -
  have split: "Split (JoinWith nl (l0 # ls)) nl = l0 # ls" by (rule Split_JoinWith) (use assms(1) in auto)
  obtain ls' where lines: "rawLines (JoinWith nl (l0 # ls)) = l0 # ls'"
  proof (cases "last (l0 # ls) = []")
    case True
    with assms(2) have "ls \<noteq> []" by auto
    with True show ?thesis
      by (intro that[of "butlast ls"]) (simp add: rawLines_def Let_def split)
  next
    case False
    then show ?thesis by (intro that[of ls]) (simp add: rawLines_def Let_def split)
  qed
  have "keyOfLines (dropCR l0 # ms) = Some v" for ms
    using keyOfLines_Cons[of "dropCR l0" ms] assms(4) by simp
  with assms(3) show ?thesis by (simp add: envKey_def scanLines_def lines Let_def del: keyOfLines.simps)
qed

text \<open>
  A key line that is never replaced. When the first line of the file is a key line with a
  blank before its equality sign and no usable value, the reader sees that line, but the
  writer does not and puts the new key on another line: every call generates another key.
\<close>

theorem EnsureMasterKey_regenerates:
  assumes "p \<noteq> ''''" and "w_fault w = (\<lambda>_. None)"
    and "fileAt w p = Some f" and "stringOf (fdata f) = JoinWith nl (l0 # ls)"
    and "list_all (\<lambda>l. nl \<notin> set l) (l0 # ls)"
    and "keyOfLines [dropCR l0] = Some v" and "\<not> hasKeyPrefix l0" and "length l0 < maxLine" and "l0 \<noteq> ''''"
    and "v = '''' \<or> isErr (ParseMasterKey v)"
    and "run_state (EnsureMasterKey p) w = (r, w')"
  shows "(\<exists>k raw. r = Inr (k, raw, True)) \<and>
    (\<exists>k raw. fst (run_state (EnsureMasterKey p) w') = Inr (k, raw, True))"
proof -
  have nonl: "nl \<notin> set l" if "l \<in> set (l0 # ls)" for l using assms(5) that by (auto simp: list_all_iff)
  have unusable: "storedKey x p = None"
    if "fileAt x p = Some g" "envKey (stringOf (fdata g)) = Inr v" for x :: "'a world_scheme" and g
    using that assms(10) by (auto simp: storedKey_def isErr_iff)
  have s0: "storedKey w p = None"
    using unusable[OF assms(3)] envKey_first[OF nonl assms(9,8,6)] assms(4) by simp
  define key where "key = keyBytesAt w (w_step w + (if fileAt w p = None then 1 else 2))"
  have c: "createdKey w p key (r, w')"
    using EnsureMasterKey_create[OF assms(1) _ _ key_def, of None] assms(2,11) s0 by simp
  have sp: "Split (stringOf (fdata f)) nl = l0 # ls"
    unfolding assms(4) by (rule Split_JoinWith) (use nonl in auto)
  have k: "nl \<notin> set (keyText key)" using keyText_no[OF hexLower_nl(1)] by (simp add: nl_def)
  define rest where "rest = fst (replaceKey (keyText key) ls) @ (if snd (replaceKey (keyText key) ls) then [] else [keyLine (keyText key)])"
  have new: "newEnv (keyText key) (stringOf (fdata f)) = JoinWith nl (l0 # rest)"
    by (simp add: newEnv_def sp replaceKey_hd[OF assms(7)] rest_def del: replaceKey.simps)
  have "nl \<notin> set l" if "l \<in> set (l0 # rest)" for l
    using that nonl replaceKey_no_nl[OF k, of ls l] keyLine_no_nl by (auto simp: rest_def split: if_splits)
  then have "envKey (newEnv (keyText key) (stringOf (fdata f))) = Inr v"
    unfolding new by (intro envKey_first[OF _ assms(9,8,6)]) auto
  with c assms(3) have s1: "storedKey w' p = None"
    by (auto simp: createdKey_def writtenEnv_def intro!: unusable)
  have "w_fault w' = (\<lambda>_. None)" using c assms(2) by (simp add: createdKey_def)
  then show ?thesis
    using EnsureMasterKey_create[OF assms(1) _ _ refl, of w' None] s1 c by (auto simp: createdKey_def split: prod.splits)
qed

definition sampleKeyFile :: "string \<Rightarrow> fsFile" where
  "sampleKeyFile t = \<lparr> fdata = bytesOf t, fmode = 420, fmtime = 0 \<rparr>"

theorem EnsureMasterKey_read_error_replaces_key_witness:
  "\<exists>key. fst (run_state (EnsureMasterKey ''.env'')
       (sampleWorld [(''.env'', sampleKeyFile (keyLine (keyText (replicate 32 7))))]
          (\<lambda>n. if n = 1 then Some (errorsNew ''input/output error'') else None))) = Inr (keyText key, key, True)"
proof -
  define w where "w = sampleWorld [(''.env'', sampleKeyFile (keyLine (keyText (replicate 32 7))))]
          (\<lambda>n. if n = 1 then Some (errorsNew ''input/output error'') else None)"
  have fat: "fileAt w ''.env'' = Some (sampleKeyFile (keyLine (keyText (replicate 32 7))))"
    by (simp add: w_def sampleWorld_def fileAt_def)
  have kt: "keyLine (keyText (replicate 32 7)) = JoinWith nl ([] @ keyLine (keyText (replicate 32 7)) # [])"
    by simp
  have key: "envKey (keyLine (keyText (replicate 32 7))) = Inr (keyText (replicate 32 7))"
    by (subst kt) (rule envKey_lines; simp)
  have stored: "storedKey w ''.env'' = Some (keyText (replicate 32 7), replicate 32 7)"
    by (simp add: storedKey_def fat sampleKeyFile_def key ParseMasterKey_keyText)
  have "hasKeyPrefix (keyLine (keyText (replicate 32 7)))"
    using TrimSpace_all_graphic[OF keyLine_graphic] by (simp add: hasKeyPrefix_def keyLine_def HasPrefix_def)
  then have kept: "keptWellFormed w ''.env''"
    by (simp add: keptWellFormed_def fat sampleKeyFile_def wellFormedEnv_def Split_no_sep keyLine_no_nl)
       (simp add: keyLine_def length_keyText maxLine_def)
  obtain r w' where run: "run_state (EnsureMasterKey ''.env'') w = (r, w')" by fastforce
  have "w_fault w = (\<lambda>n. if n = Suc (w_step w) then Some (errorsNew ''input/output error'') else None)"
    by (simp add: w_def sampleWorld_def)
  from EnsureMasterKey_read_error_replaces_key[OF _ stored kept this run] run
  show ?thesis unfolding w_def[symmetric] by auto
qed

theorem EnsureMasterKey_regenerates_witness:
  "\<exists>w'. (\<exists>k raw. run_state (EnsureMasterKey ''.env'')
        (sampleWorld [(''.env'', sampleKeyFile ''ENCRYPTION_KEY ='')] (\<lambda>_. None)) = (Inr (k, raw, True), w')) \<and>
     (\<exists>k raw. fst (run_state (EnsureMasterKey ''.env'') w') = Inr (k, raw, True))"
proof -
  define w where "w = sampleWorld [(''.env'', sampleKeyFile ''ENCRYPTION_KEY ='')] (\<lambda>_. None)"
  have fat: "fileAt w ''.env'' = Some (sampleKeyFile ''ENCRYPTION_KEY ='')"
    by (simp add: w_def sampleWorld_def fileAt_def)
  obtain r w' where run: "run_state (EnsureMasterKey ''.env'') w = (r, w')" by fastforce
  have k: "keyOfLines [dropCR ''ENCRYPTION_KEY =''] = Some ''''" "\<not> hasKeyPrefix ''ENCRYPTION_KEY =''"
    by code_simp+
  have "(\<exists>k raw. r = Inr (k, raw, True)) \<and> (\<exists>k raw. fst (run_state (EnsureMasterKey ''.env'') w') = Inr (k, raw, True))"
    by (rule EnsureMasterKey_regenerates[OF _ _ fat _ _ k(1) k(2) _ _ _ run, where ls = "[]"])
       (simp_all add: w_def sampleWorld_def sampleKeyFile_def nl_def maxLine_def)
  with run show ?thesis by (auto simp: w_def[symmetric])
qed

end
