(* ===== verification/Vault.thy ===== *)
theory Vault
  imports StorageLaws KeyFile
begin

unbundle bit_operations_syntax

text \<open>
  The quarantine vault, \<open>internal/quarantine/vault.go\<close>: encrypted files in the vault
  directory and their records in the database. Results of \<open>RestoreFile\<close> and
  \<open>DownloadFile\<close> are the plain bytes their readers deliver, with the record.
\<close>

definition MagicHeader :: string where
  "MagicHeader = ''VQF_AESGCM_V1'' @ [CHR 0x0A]"

record Vault =
  vaultDir :: string
  masterKey :: bytes
  maxQuarantineSize :: int

definition defaultMaxQuarantine :: int where "defaultMaxQuarantine = 100 * 1024 * 1024"

text \<open>\<open>NewVault(dir, db, key)\<close>; without a usable key the one of \<open>.env\<close> is ensured.\<close>

definition NewVault :: "string \<Rightarrow> bytes option \<Rightarrow> ('a world_scheme, Vault) state" where
  "NewVault dir mk = do {
     let d = (if dir = '''' then ''/data/quarantine'' else dir);
     _ \<leftarrow> MkdirAll d mode0700;
     key \<leftarrow> (case mk of
        Some k \<Rightarrow> if length k = 32 then ret k
          else do { r \<leftarrow> EnsureMasterKey ''''; ret (case r of Inl _ \<Rightarrow> [] | Inr (_, k', _) \<Rightarrow> k') }
      | None \<Rightarrow> do { r \<leftarrow> EnsureMasterKey ''''; ret (case r of Inl _ \<Rightarrow> [] | Inr (_, k', _) \<Rightarrow> k') });
     ret \<lparr> vaultDir = d, masterKey = key, maxQuarantineSize = defaultMaxQuarantine \<rparr> }"

definition SetMaxQuarantineBytes :: "int \<Rightarrow> Vault \<Rightarrow> Vault" where
  "SetMaxQuarantineBytes n v = v\<lparr>maxQuarantineSize := n\<rparr>"

definition xorMask :: byte where "xorMask = 0xA5"

definition scrambleBytes :: "bytes \<Rightarrow> bytes" where
  "scrambleBytes d = map (\<lambda>b. b XOR xorMask) d"

definition descrambleBytes :: "bytes \<Rightarrow> bytes" where
  "descrambleBytes d = map (\<lambda>b. b XOR xorMask) d"

subsection \<open>Quarantine\<close>

text \<open>
  The payload that is read: everything, or up to one byte more than the limit, an \<open>int64\<close>.
  For the largest limit the extra byte overflows, and \<open>io.LimitReader\<close> delivers nothing.
\<close>

definition boundedPayload :: "Vault \<Rightarrow> reader \<Rightarrow> bytes res" where
  "boundedPayload v r0 =
     (let r = (if 0 < maxQuarantineSize v then limitReader (nat (int64 (maxQuarantineSize v + 1))) r0 else r0) in
      case readAll (\<lambda>_. 511) 0 [] r of
        Inl err \<Rightarrow> Inl (wrapErr ''failed to read payload for quarantine: '' err)
      | Inr rawBytes \<Rightarrow>
          if 0 < maxQuarantineSize v \<and> maxQuarantineSize v < int (length rawBytes)
          then Inl (errorsNew (''payload exceeds maximum quarantine limit of '' @
                 itoa (maxQuarantineSize v) @ '' bytes''))
          else Inr rawBytes)"

text \<open>The bytes that are stored.\<close>

definition storedPayload :: "Vault \<Rightarrow> bytes \<Rightarrow> ('a world_scheme, bytes res) state" where
  "storedPayload v rawBytes =
     (if length (masterKey v) = 32 then do {
        nonce \<leftarrow> randRead gcmNonceSize;
        ret (case EncryptAESGCMBytes nonce rawBytes (masterKey v) of
               Inl err \<Rightarrow> Inl (wrapErr ''failed to encrypt quarantine payload: '' err)
             | Inr enc \<Rightarrow> Inr (bytesOf MagicHeader @ enc)) }
      else ret (Inr (scrambleBytes rawBytes)))"

text \<open>The file is written first, then its record.\<close>

definition commitQuarantine :: "QuarantineRecord \<Rightarrow> bytes \<Rightarrow> ('a world_scheme, QuarantineRecord res) state" where
  "commitQuarantine record storedData = do {
     let filePath = q_StoredPath record;
     we \<leftarrow> WriteFile filePath storedData mode0600;
     case we of
       Some err \<Rightarrow> ret (Inl (wrapErr (''failed to write quarantine file '' @ filePath @ '': '') err))
     | None \<Rightarrow>
         tryRes (onDB (InsertQuarantineRecord record))
           (wrapErr ''failed to insert quarantine DB record: '') (\<lambda>_. ret (Inr record)) }"

definition QuarantineFile ::
  "Vault \<Rightarrow> string \<Rightarrow> string \<Rightarrow> string \<Rightarrow> reader \<Rightarrow> int \<Rightarrow> ('a world_scheme, QuarantineRecord res) state" where
  "QuarantineFile v originalName consumer virusName r retentionDays0 =
     (let retentionDays = (if retentionDays0 \<le> 0 then 7 else retentionDays0) in
      case boundedPayload v r of
        Inl err \<Rightarrow> ret (Inl err)
      | Inr rawBytes \<Rightarrow> do {
          now \<leftarrow> timeNow;
          rs \<leftarrow> randRead 8;
          let randSuffix = (case rs of Inl _ \<Rightarrow> replicate 8 0 | Inr b \<Rightarrow> b);
          let vaultID = ''Q-'' @ formatDay now @ ''-'' @ hexEncodeToString randSuffix;
          let filePath = filepathJoin (vaultDir v) (vaultID @ ''.quarantine'');
          let record = \<lparr> q_ID = vaultID, q_OriginalFilename = originalName,
            q_FileSizeBytes = int (length rawBytes),
            q_FileSHA256 = hexEncodeToString (sha256 rawBytes), q_VirusName = virusName,
            q_SourceConsumer = consumer, q_StoredPath = filePath, q_Status = ''QUARANTINED'',
            q_CreatedAt = now, q_ExpiresAt = now + int64 (retentionDays * dayNs),
            q_RestoredAt = None, q_RestoredBy = '''', q_RestoreReason = '''' \<rparr>;
          tryRes (storedPayload v rawBytes) (\<lambda>e. e) (commitQuarantine record) })"

subsection \<open>Getting files back\<close>

definition decryptPayload :: "Vault \<Rightarrow> bytes \<Rightarrow> bytes res" where
  "decryptPayload v storedBytes =
     (let magic = bytesOf MagicHeader in
      if length magic \<le> length storedBytes \<and> take (length magic) storedBytes = magic
      then DecryptAESGCMBytes (drop (length magic) storedBytes) (masterKey v)
      else Inr (descrambleBytes storedBytes))"

definition RestoreFile ::
  "Vault \<Rightarrow> string \<Rightarrow> string \<Rightarrow> string \<Rightarrow> bool \<Rightarrow> ('a world_scheme, (bytes \<times> QuarantineRecord) res) state" where
  "RestoreFile v i restoredBy reason autoWhitelist =
     tryRes (onDB (GetQuarantineRecord i)) (wrapErr ''failed to find quarantine record: '') (\<lambda>record.
       if q_Status record \<noteq> ''QUARANTINED''
       then ret (Inl (errorsNew (''cannot restore file with status '' @ [CHR 0x27] @ q_Status record @ [CHR 0x27])))
       else tryRes (ReadFile (q_StoredPath record)) (wrapErr ''failed to read quarantine file on disk: '') (\<lambda>storedBytes.
         case decryptPayload v storedBytes of
           Inl err \<Rightarrow> ret (Inl (wrapErr ''failed to decrypt quarantine payload: '' err))
         | Inr plainBytes \<Rightarrow> do {
             now \<leftarrow> timeNow;
             now2 \<leftarrow> timeNow;
             tryRes (onDB (RestoreQuarantineRecord now now2 i restoredBy reason autoWhitelist))
               (wrapErr ''failed to update quarantine database record: '') (\<lambda>_.
               tryRes (onDB (GetQuarantineRecord i)) (\<lambda>e. e) (\<lambda>updatedRec.
                 ret (Inr (plainBytes, updatedRec)))) }))"

definition DownloadFile :: "Vault \<Rightarrow> string \<Rightarrow> ('a world_scheme, (bytes \<times> QuarantineRecord) res) state" where
  "DownloadFile v i =
     tryRes (onDB (GetQuarantineRecord i)) (wrapErr ''quarantine record not found: '') (\<lambda>record.
       tryRes (ReadFile (q_StoredPath record)) (wrapErr ''failed to read quarantine file on disk: '') (\<lambda>storedBytes.
         ret (case decryptPayload v storedBytes of
                Inl err \<Rightarrow> Inl (wrapErr ''failed to decrypt quarantine payload: '' err)
              | Inr plainBytes \<Rightarrow> Inr (plainBytes, record))))"

subsection \<open>Removal\<close>

text \<open>
  One entry of the purge loop: \<open>entry.Info()\<close>, the age test against the clock read then, and
  the removal.
\<close>

definition purgeEntry :: "Vault \<Rightarrow> string \<Rightarrow> ('a world_scheme, nat) state" where
  "purgeEntry v name =
     (if filepathExt name \<noteq> ''.quarantine'' then ret 0
      else do {
        info \<leftarrow> Stat (filepathJoin (vaultDir v) name);
        case info of
          Inl _ \<Rightarrow> ret 0
        | Inr fi \<Rightarrow> do {
            now \<leftarrow> timeNow;
            if now - fmtime fi > 7 * dayNs then do {
              e \<leftarrow> Remove (filepathJoin (vaultDir v) name);
              ret (case e of None \<Rightarrow> 1 | Some _ \<Rightarrow> 0) }
            else ret 0 } })"

fun purgeLoop :: "Vault \<Rightarrow> string list \<Rightarrow> nat \<Rightarrow> ('a world_scheme, nat) state" where
  "purgeLoop v [] n = ret n"
| "purgeLoop v (e # es) n = do { k \<leftarrow> purgeEntry v e; purgeLoop v es (n + k) }"

definition PurgeExpired :: "Vault \<Rightarrow> ('a world_scheme, nat res) state" where
  "PurgeExpired v =
     tryRes (ReadDir (vaultDir v)) (\<lambda>e. e) (\<lambda>entries. do {
       n \<leftarrow> purgeLoop v entries 0;
       ret (Inr n) })"

definition DeleteFile :: "Vault \<Rightarrow> string \<Rightarrow> ('a world_scheme, unit res) state" where
  "DeleteFile v i =
     tryRes (onDB (GetQuarantineRecord i)) (wrapErr ''quarantine record not found: '') (\<lambda>record. do {
       (if q_StoredPath record \<noteq> '''' then do { _ \<leftarrow> Remove (q_StoredPath record); ret () } else ret ());
       onDB (DeleteQuarantineRecord i) })"

subsection \<open>What is stored can be read back\<close>

definition maxInt64 :: int where "maxInt64 = 2 ^ 63 - 1"

lemma limit_no_wrap: "0 < m \<Longrightarrow> m < maxInt64 \<Longrightarrow> int64 (m + 1) = m + 1"
  by (rule int64_id) (simp_all add: maxInt64_def)

lemma boundedPayload_ok:
  assumes "boundedPayload v r = Inr raw" and small: "maxQuarantineSize v < maxInt64"
  shows "raw = rdata r" "0 < maxQuarantineSize v \<Longrightarrow> int (length raw) \<le> maxQuarantineSize v"
proof -
  define m where "m = maxQuarantineSize v"
  show "raw = rdata r"
  proof (cases "0 < m")
    case True
    then have "int64 (m + 1) = m + 1" using small by (simp add: limit_no_wrap m_def)
    with True have raw: "raw = take (nat (m + 1)) (rdata r)" "int (length raw) \<le> m"
      using assms by (auto simp: boundedPayload_def Let_def readAll_eq rdata_limitReader m_def[symmetric]
          split: if_splits)
    then have "length (rdata r) \<le> nat m" by (auto simp: min_def split: if_splits)
    with raw show ?thesis by simp
  next
    case False
    then show ?thesis
      using assms by (auto simp: boundedPayload_def Let_def readAll_eq m_def[symmetric] split: if_splits)
  qed
  show "0 < maxQuarantineSize v \<Longrightarrow> int (length raw) \<le> maxQuarantineSize v"
    using assms by (auto simp: boundedPayload_def Let_def split: if_splits sum.splits)
qed

lemma boundedPayload_accepts:
  assumes "errorsIs (rerr r) IoEOF" and "0 < maxQuarantineSize v \<longrightarrow> int (length (rdata r)) \<le> maxQuarantineSize v"
    and small: "maxQuarantineSize v < maxInt64"
  shows "boundedPayload v r = Inr (rdata r)"
proof (cases "0 < maxQuarantineSize v")
  case True
  then have "length (rdata r) < nat (maxQuarantineSize v + 1)" using assms(2) by linarith
  then show ?thesis
    using True assms rerr_limitReader[of r "nat (maxQuarantineSize v + 1)"]
    by (simp add: boundedPayload_def readAll_eq rdata_limitReader limit_no_wrap[OF _ small])
next
  case False
  then show ?thesis using assms(1) by (simp add: boundedPayload_def readAll_eq)
qed

lemma boundedPayload_too_big:
  assumes "0 < maxQuarantineSize v" and "maxQuarantineSize v < int (length (rdata r))"
    and small: "maxQuarantineSize v < maxInt64"
  shows "isErr (boundedPayload v r)"
  using assms by (auto simp: boundedPayload_def readAll_eq rdata_limitReader Let_def min_def limit_no_wrap[OF _ small])

lemma scramble_twice: "descrambleBytes (scrambleBytes d) = d"
  by (simp add: descrambleBytes_def scrambleBytes_def comp_def xor.assoc)

lemma decrypt_of_encrypt:
  "EncryptAESGCMBytes (Inr nonce) p key = Inr c \<Longrightarrow> length nonce = gcmNonceSize \<Longrightarrow>
   DecryptAESGCMBytes c key = Inr p"
  using gcm.unbox_box[of nonce key p] by (auto simp: Encrypt_box Decrypt_unbox)

text \<open>
  A payload that survives: it is sealed with a key, or its scrambled form does not start with
  the header of sealed files.
\<close>

definition hasMagic :: "bytes \<Rightarrow> bool" where
  "hasMagic bs \<longleftrightarrow> take 14 bs = bytesOf MagicHeader"

lemma length_Magic [simp]: "length MagicHeader = 14" by (simp add: MagicHeader_def)

lemma decryptPayload_sealed:
  "decryptPayload v (bytesOf MagicHeader @ c) = DecryptAESGCMBytes c (masterKey v)"
  by (simp add: decryptPayload_def)

lemma decryptPayload_plain: "\<not> hasMagic bs \<Longrightarrow> decryptPayload v bs = Inr (descrambleBytes bs)"
  by (auto simp: decryptPayload_def hasMagic_def Let_def)

lemma decryptPayload_magic:
  "hasMagic bs \<Longrightarrow> decryptPayload v bs = DecryptAESGCMBytes (drop 14 bs) (masterKey v)"
proof -
  assume h: "hasMagic bs"
  then have "14 \<le> length bs" by (auto simp: hasMagic_def dest!: arg_cong[where f = length])
  with h show ?thesis by (simp add: decryptPayload_def hasMagic_def)
qed

lemma storedPayload_ok:
  assumes "run_state (storedPayload v raw) w = (Inr st, w')"
  shows "length (masterKey v) = 32 \<or> \<not> hasMagic (scrambleBytes raw) \<Longrightarrow> decryptPayload v st = Inr raw"
    and "length (masterKey v) \<noteq> 32 \<Longrightarrow> st = scrambleBytes raw"
    and "w_db w' = w_db w \<and> w_files w' = w_files w"
proof -
  show "decryptPayload v st = Inr raw" if "length (masterKey v) = 32 \<or> \<not> hasMagic (scrambleBytes raw)"
  proof (cases "length (masterKey v) = 32")
    case True
    define nonce where "nonce = map (w_random w (w_step w)) [0..<gcmNonceSize]"
    have "w_fault w (w_step w) = None"
      using assms True by (auto simp: storedPayload_def run_simps EncryptAESGCMBytes_def split: option.splits)
    with assms True obtain enc where "EncryptAESGCMBytes (Inr nonce) raw (masterKey v) = Inr enc"
      "st = bytesOf MagicHeader @ enc"
      by (auto simp: storedPayload_def run_simps nonce_def split: sum.splits)
    then show ?thesis by (simp add: decryptPayload_sealed decrypt_of_encrypt nonce_def)
  next
    case False
    with assms that show ?thesis by (auto simp: storedPayload_def decryptPayload_plain scramble_twice)
  qed
  show "length (masterKey v) \<noteq> 32 \<Longrightarrow> st = scrambleBytes raw"
    using assms by (simp add: storedPayload_def)
  show "w_db w' = w_db w \<and> w_files w' = w_files w"
    using assms by (auto simp: storedPayload_def run_simps split: if_splits)
qed

lemma storedPayload_frame:
  "run_state (storedPayload v raw) w = (r, w') \<Longrightarrow>
   w_db w' = w_db w \<and> w_files w' = w_files w \<and> w_fault w' = w_fault w"
  by (auto simp: storedPayload_def run_simps split: if_splits)

lemma commitQuarantine_ok:
  assumes "run_state (commitQuarantine q st) w = (Inr rec, w')"
  shows "rec = q" "map_option fdata (fileAt w' (q_StoredPath q)) = Some st"
    "recordOf (q_ID q) (w_db w') = Some (storedQuarantine q)" "w_fault w' = w_fault w"
    "p \<noteq> q_StoredPath q \<Longrightarrow> fileAt w' p = fileAt w p"
proof -
  have nf: "w_fault w (w_step w) = None"
    using assms by (cases "w_fault w (w_step w)")
      (auto simp: commitQuarantine_def run_simps WriteFile_def Let_def)
  obtain d where ins: "run_state (InsertQuarantineRecord q) (w_db w) = (Inr (), d)"
    and rest: "rec = q" "w_db w' = d" "map_option fdata (fileAt w' (q_StoredPath q)) = Some st"
    "w_fault w' = w_fault w" "p \<noteq> q_StoredPath q \<Longrightarrow> fileAt w' p = fileAt w p"
    using assms by (auto simp: commitQuarantine_def Let_def run_WriteFile_ok[OF nf] run_tryRes run_onDB
        split: prod.splits sum.splits)
  show "rec = q" "map_option fdata (fileAt w' (q_StoredPath q)) = Some st"  "w_fault w' = w_fault w"
    "p \<noteq> q_StoredPath q \<Longrightarrow> fileAt w' p = fileAt w p"
    using rest by auto
  show "recordOf (q_ID q) (w_db w') = Some (storedQuarantine q)"
    using quar.find_after_insert[OF ins] rest(2) by (simp add: recordOf_def)
qed

text \<open>One successful quarantine: the record, the file it names, and nothing else.\<close>

lemma QuarantineFile_ok:
  assumes "run_state (QuarantineFile v nm cs vn r days) w = (Inr rec, w')"
    and small: "maxQuarantineSize v < maxInt64"
  obtains st where
    "boundedPayload v r = Inr (rdata r)"
    "map_option fdata (fileAt w' (q_StoredPath rec)) = Some st"
    "length (masterKey v) = 32 \<or> \<not> hasMagic (scrambleBytes (rdata r)) \<Longrightarrow> decryptPayload v st = Inr (rdata r)"
    "length (masterKey v) \<noteq> 32 \<Longrightarrow> st = scrambleBytes (rdata r)"
    "recordOf (q_ID rec) (w_db w') = Some (storedQuarantine rec)"
    "q_FileSHA256 rec = hexEncodeToString (sha256 (rdata r))" "q_FileSizeBytes rec = int (length (rdata r))"
    "q_Status rec = ''QUARANTINED''" "w_fault w' = w_fault w"
    "\<And>p. p \<noteq> q_StoredPath rec \<Longrightarrow> fileAt w' p = fileAt w p"
proof -
  obtain raw where raw0: "boundedPayload v r = Inr raw"
    using assms by (cases "boundedPayload v r") (auto simp: QuarantineFile_def)
  with boundedPayload_ok(1)[OF raw0 small] have raw: "boundedPayload v r = Inr (rdata r)" by simp
  obtain q w1 where run: "run_state (QuarantineFile v nm cs vn r days) w =
      run_state (tryRes (storedPayload v (rdata r)) (\<lambda>e. e) (commitQuarantine q)) w1"
    and q: "q_FileSHA256 q = hexEncodeToString (sha256 (rdata r))" "q_FileSizeBytes q = int (length (rdata r))"
      "q_Status q = ''QUARANTINED''"
    and w1: "w_fault w1 = w_fault w" "w_files w1 = w_files w"
    by (auto simp: QuarantineFile_def raw run_timeNow run_randRead Let_def)
  obtain st w2 where sp: "run_state (storedPayload v (rdata r)) w1 = (Inr st, w2)"
    and ct: "run_state (commitQuarantine q st) w2 = (Inr rec, w')"
    using assms unfolding run by (auto simp: run_tryRes split: prod.splits sum.splits)
  note c = commitQuarantine_ok[OF ct] and f = storedPayload_frame[OF sp]
  show ?thesis
  proof (rule that[of st])
    show "fileAt w' p = fileAt w p" if "p \<noteq> q_StoredPath rec" for p
      using c(5)[of p] that f w1 c(1) by (simp add: fileAt_def)
  qed (use raw c f w1 q storedPayload_ok[OF sp] in auto)
qed

lemma run_DownloadFile:
  assumes "faultless w" and "recordOf i (w_db w) = Some q" and "fileAt w (q_StoredPath q) = Some f"
  shows "fst (run_state (DownloadFile v i) w) =
    (case decryptPayload v (fdata f) of
       Inl err \<Rightarrow> Inl (wrapErr ''failed to decrypt quarantine payload: '' err)
     | Inr plain \<Rightarrow> Inr (plain, q))"
  using assms by (simp add: DownloadFile_def run_tryRes run_onDB run_GetQuarantineRecord run_ReadFile faultless_def)

text \<open>
  C2. A quarantined file can be got back. Whatever the reader delivered, from every later
  state in which its record and its file are as the quarantine left them, \<open>DownloadFile\<close>
  returns exactly these bytes with that record, whose digest and size are theirs. Without a
  master key this holds for the payloads whose scrambled form is not taken for a sealed one.
\<close>

theorem quarantine_download_roundtrip:
  assumes "run_state (QuarantineFile v nm cs vn r days) w = (Inr rec, w')"
    and "length (masterKey v) = 32 \<or> \<not> hasMagic (scrambleBytes (rdata r))"
    and "faultless w2" and "fileAt w2 (q_StoredPath rec) = fileAt w' (q_StoredPath rec)"
    and "recordOf (q_ID rec) (w_db w2) = recordOf (q_ID rec) (w_db w')" and small: "maxQuarantineSize v < maxInt64"
  shows "fst (run_state (DownloadFile v (q_ID rec)) w2) = Inr (rdata r, storedQuarantine rec) \<and>
    q_FileSHA256 rec = hexEncodeToString (sha256 (rdata r)) \<and> q_FileSizeBytes rec = int (length (rdata r))"
proof -
  obtain st where q: "map_option fdata (fileAt w' (q_StoredPath rec)) = Some st"
    "decryptPayload v st = Inr (rdata r)" "recordOf (q_ID rec) (w_db w') = Some (storedQuarantine rec)"
    "q_FileSHA256 rec = hexEncodeToString (sha256 (rdata r))" "q_FileSizeBytes rec = int (length (rdata r))"
    using assms(2) by (rule_tac QuarantineFile_ok[OF assms(1) small]) blast
  then obtain f where f: "fileAt w' (q_StoredPath rec) = Some f" "fdata f = st" by auto
  have "q_StoredPath (storedQuarantine rec) = q_StoredPath rec" by (simp add: storedQuarantine_def)
  with run_DownloadFile[OF assms(3), of "q_ID rec" "storedQuarantine rec" f v] q f assms(4,5)
  show ?thesis by simp
qed

text \<open>
  The header collision. Without a 32-byte master key the payload is only scrambled; when
  the scrambled bytes happen to start with the header of sealed files, the vault stores
  them all the same, but \<open>DownloadFile\<close> then tries to decrypt them and fails: the file
  cannot be got back.
\<close>

theorem quarantine_header_collision:
  assumes "run_state (QuarantineFile v nm cs vn r days) w = (Inr rec, w')"
    and "length (masterKey v) \<noteq> 32" and "hasMagic (scrambleBytes (rdata r))"
    and "faultless w2" and "fileAt w2 (q_StoredPath rec) = fileAt w' (q_StoredPath rec)"
    and "recordOf (q_ID rec) (w_db w2) = recordOf (q_ID rec) (w_db w')" and small: "maxQuarantineSize v < maxInt64"
  shows "isErr (fst (run_state (DownloadFile v (q_ID rec)) w2))"
proof -
  obtain st where q: "map_option fdata (fileAt w' (q_StoredPath rec)) = Some st"
    "st = scrambleBytes (rdata r)" "recordOf (q_ID rec) (w_db w') = Some (storedQuarantine rec)"
    using assms(2) by (rule_tac QuarantineFile_ok[OF assms(1) small]) blast
  then obtain f where f: "fileAt w' (q_StoredPath rec) = Some f" "fdata f = st" by auto
  have "q_StoredPath (storedQuarantine rec) = q_StoredPath rec" by (simp add: storedQuarantine_def)
  moreover have "isErr (decryptPayload v st)"
    using wrong_key_length[of "masterKey v"] assms(2,3) q(2) by (simp add: decryptPayload_magic)
  ultimately show ?thesis
    using run_DownloadFile[OF assms(4), of "q_ID rec" "storedQuarantine rec" f v] q f assms(5,6)
    by (auto simp: isErr_iff)
qed

text \<open>
  C33. The size limit of the vault. With a positive limit a longer payload is refused, with
  nothing written and no record made, and no quarantined payload is longer than the limit.
\<close>

theorem quarantine_size_limit:
  assumes "0 < maxQuarantineSize v" and "run_state (QuarantineFile v nm cs vn r days) w = (res, w')"
    and small: "maxQuarantineSize v < maxInt64"
  shows "(maxQuarantineSize v < int (length (rdata r)) \<longrightarrow> isErr res \<and> w' = w) \<and>
    (\<forall>rec. res = Inr rec \<longrightarrow> int (length (rdata r)) \<le> maxQuarantineSize v)"
proof (intro conjI impI allI)
  assume "maxQuarantineSize v < int (length (rdata r))"
  then obtain e where "boundedPayload v r = Inl e"
    using boundedPayload_too_big[OF assms(1) _ small] by (auto simp: isErr_iff)
  with assms(2) show "isErr res" "w' = w" by (auto simp: QuarantineFile_def)
next
  fix rec assume "res = Inr rec"
  then obtain raw where "boundedPayload v r = Inr raw"
    using assms(2) by (cases "boundedPayload v r") (auto simp: QuarantineFile_def)
  with boundedPayload_ok[of v r raw] assms(1) small show "int (length (rdata r)) \<le> maxQuarantineSize v" by simp
qed

subsection \<open>Witness: a fault-free quarantine\<close>

lemma storedPayload_succeeds:
  assumes "w_fault w = (\<lambda>_. None)"
  shows "\<exists>st n. run_state (storedPayload v raw) w = (Inr st, w\<lparr>w_step := n\<rparr>)"
proof (cases "length (masterKey v) = 32")
  case True
  then show ?thesis
    using assms by (auto simp: storedPayload_def run_simps EncryptAESGCMBytes_def intro!: exI[of _ "Suc (w_step w)"])
next
  case False
  then show ?thesis by (auto simp: storedPayload_def intro!: exI[of _ "w_step w"])
qed

lemma commitQuarantine_succeeds:
  assumes "faultless w" and "q_ID q \<notin> q_ID ` set (quarantine_records (w_db w))"
  shows "\<exists>w'. run_state (commitQuarantine q st) w = (Inr q, w') \<and> faultless w'"
proof -
  have "w_fault w (w_step w) = None" using assms(1) by (simp add: faultless_def)
  moreover have "\<not> list_ex (\<lambda>x. q_ID x = q_ID q) (quarantine_records (w_db w))"
    using assms(2) by (auto simp: list_ex_iff image_iff)
  ultimately show ?thesis
    using assms by (simp add: commitQuarantine_def Let_def run_WriteFile_ok run_tryRes run_onDB
        InsertQuarantineRecord_def run_exec faultless_def)
qed

text \<open>The id a call gets whose clock reading is step \<open>n\<close>; none of them is in use yet.\<close>

definition vaultIDAt :: "'a world_scheme \<Rightarrow> nat \<Rightarrow> string" where
  "vaultIDAt w n = ''Q-'' @ formatDay (w_clock w n) @ ''-'' @ hexEncodeToString (map (w_random w (Suc n)) [0..<8])"

definition freshIDs :: "'a world_scheme \<Rightarrow> bool" where
  "freshIDs w \<longleftrightarrow> (\<forall>n. vaultIDAt w n \<notin> q_ID ` set (quarantine_records (w_db w)))"

lemma QuarantineFile_succeeds:
  assumes "faultless w" and "freshIDs w" and "boundedPayload v r = Inr raw"
  obtains rec w' where "run_state (QuarantineFile v nm cs vn r days) w = (Inr rec, w')" "faultless w'" "q_ID rec \<noteq> ''''"
proof -
  have nf: "w_fault w = (\<lambda>_. None)" "stmt_fault (w_db w) n = None" for n
    using assms(1) by (simp_all add: faultless_def)
  define w1 where "w1 = w\<lparr>w_step := Suc (Suc (w_step w))\<rparr>"
  obtain q where run: "run_state (QuarantineFile v nm cs vn r days) w =
      run_state (tryRes (storedPayload v raw) (\<lambda>e. e) (commitQuarantine q)) w1" and id: "q_ID q = vaultIDAt w (w_step w)"
    by (auto simp: QuarantineFile_def assms(3) run_timeNow run_randRead nf Let_def w1_def vaultIDAt_def)
  obtain st n where sp: "run_state (storedPayload v raw) w1 = (Inr st, w1\<lparr>w_step := n\<rparr>)"
    using storedPayload_succeeds[of w1 v raw] nf by (auto simp: w1_def)
  have "faultless (w1\<lparr>w_step := n\<rparr>)" "q_ID q \<notin> q_ID ` set (quarantine_records (w_db (w1\<lparr>w_step := n\<rparr>)))"
    using assms by (simp_all add: w1_def faultless_def id freshIDs_def)
  then have "\<exists>w'. run_state (commitQuarantine q st) (w1\<lparr>w_step := n\<rparr>) = (Inr q, w') \<and> faultless w'"
    by (rule commitQuarantine_succeeds)
  moreover have "q_ID q \<noteq> ''''" by (simp add: id vaultIDAt_def)
  ultimately show ?thesis using that unfolding run by (auto simp: run_tryRes sp)
qed

lemma faultless_sampleWorld: "faultless (sampleWorld fs (\<lambda>_. None))"
  by (simp add: faultless_def sampleWorld_def emptyDB_def)

definition sampleVault :: "bytes \<Rightarrow> Vault" where
  "sampleVault key = \<lparr> vaultDir = ''/v'', masterKey = key, maxQuarantineSize = 20 \<rparr>"

lemma sampleVault_small: "maxQuarantineSize (sampleVault key) < maxInt64"
  by (simp add: sampleVault_def maxInt64_def)

lemma sampleQuarantine:
  assumes "length d \<le> 20"
  obtains rec w' where
    "run_state (QuarantineFile (sampleVault key) ''a.exe'' ''app'' ''Eicar'' (bytesReader d) 7) (sampleWorld [] (\<lambda>_. None)) = (Inr rec, w')"
    "faultless w'"
proof (rule QuarantineFile_succeeds[OF faultless_sampleWorld])
  show "freshIDs (sampleWorld [] (\<lambda>_. None))" by (simp add: freshIDs_def sampleWorld_def emptyDB_def)
  show "boundedPayload (sampleVault key) (bytesReader d) = Inr d"
    using boundedPayload_accepts[of "bytesReader d" "sampleVault key"] assms by (simp add: sampleVault_def maxInt64_def)
qed

theorem quarantine_download_roundtrip_witness:
  "\<exists>rec w'. run_state (QuarantineFile (sampleVault (replicate 32 1)) ''a.exe'' ''app'' ''Eicar'' (bytesReader [0x4D, 0x5A]) 7)
       (sampleWorld [] (\<lambda>_. None)) = (Inr rec, w') \<and>
     fst (run_state (DownloadFile (sampleVault (replicate 32 1)) (q_ID rec)) w') = Inr ([0x4D, 0x5A], storedQuarantine rec)"
proof -
  obtain rec w' where run: "run_state (QuarantineFile (sampleVault (replicate 32 1)) ''a.exe'' ''app'' ''Eicar'' (bytesReader [0x4D, 0x5A]) 7)
       (sampleWorld [] (\<lambda>_. None)) = (Inr rec, w')" "faultless w'"
    by (rule sampleQuarantine[of "[0x4D, 0x5A]" "replicate 32 1"]) simp_all
  have "length (masterKey (sampleVault (replicate 32 1))) = 32" by (simp add: sampleVault_def)
  with quarantine_download_roundtrip[OF run(1) _ run(2) refl refl sampleVault_small] run show ?thesis by simp
qed

theorem quarantine_header_collision_witness:
  "\<exists>rec w'. run_state (QuarantineFile (sampleVault []) ''a.exe'' ''app'' ''Eicar''
         (bytesReader (scrambleBytes (bytesOf MagicHeader))) 7) (sampleWorld [] (\<lambda>_. None)) = (Inr rec, w') \<and>
     isErr (fst (run_state (DownloadFile (sampleVault []) (q_ID rec)) w'))"
proof -
  let ?d = "scrambleBytes (bytesOf MagicHeader)"
  have len: "length ?d \<le> 20" by (simp add: scrambleBytes_def)
  obtain rec w' where run: "run_state (QuarantineFile (sampleVault []) ''a.exe'' ''app'' ''Eicar'' (bytesReader ?d) 7)
       (sampleWorld [] (\<lambda>_. None)) = (Inr rec, w')" "faultless w'"
    using sampleQuarantine[OF len] by blast
  have "hasMagic (scrambleBytes (rdata (bytesReader ?d)))"
    using scramble_twice[of "bytesOf MagicHeader"] by (simp add: hasMagic_def descrambleBytes_def scrambleBytes_def)
  with quarantine_header_collision[OF run(1) _ _ run(2) refl refl sampleVault_small] run show ?thesis
    by (auto simp: sampleVault_def)
qed

theorem quarantine_size_limit_witness:
  "isErr (fst (run_state (QuarantineFile (sampleVault []) ''a.exe'' ''app'' ''Eicar'' (bytesReader (replicate 21 0)) 7)
      (sampleWorld [] (\<lambda>_. None))))"
proof -
  obtain res w' where run: "run_state (QuarantineFile (sampleVault []) ''a.exe'' ''app'' ''Eicar'' (bytesReader (replicate 21 0)) 7)
      (sampleWorld [] (\<lambda>_. None)) = (res, w')" by fastforce
  from quarantine_size_limit[OF _ run sampleVault_small] run show ?thesis by (simp add: sampleVault_def)
qed

subsection \<open>Restoring by the vault\<close>

text \<open>
  The vault's own restore. It succeeds only when the record was QUARANTINED, returns what
  the vault's file decrypts to, and leaves the record RESTORED; a call right after it is
  refused and changes no table.
\<close>

theorem restore_once:
  assumes "run_state (RestoreFile v i by why auto) w = (Inr (plain, rec), w')"
  shows "(\<exists>q f. recordOf i (w_db w) = Some q \<and> q_Status q = ''QUARANTINED'' \<and>
      fileAt w (q_StoredPath q) = Some f \<and> decryptPayload v (fdata f) = Inr plain) \<and>
    q_Status rec = ''RESTORED'' \<and> recordOf i (w_db w') = Some rec \<and>
    (case run_state (RestoreFile v i by2 why2 auto2) w' of (res2, w2) \<Rightarrow>
       isErr res2 \<and> quarantine_records (w_db w2) = quarantine_records (w_db w') \<and>
       whitelist_signatures (w_db w2) = whitelist_signatures (w_db w'))"
proof -
  obtain q where q: "stmt_fault (w_db w) (stmt_no (w_db w)) = None" "recordOf i (w_db w) = Some q"
    using assms by (auto simp: RestoreFile_def run_tryRes run_onDB run_GetQuarantineRecord split: option.splits)
  define w1 where "w1 = w\<lparr>w_db := ticked (w_db w)\<rparr>"
  have st: "q_Status q = ''QUARANTINED''"
    using assms q by (auto simp: RestoreFile_def run_tryRes run_onDB run_GetQuarantineRecord split: if_splits)
  obtain f where f: "w_fault w (w_step w) = None" "fileAt w (q_StoredPath q) = Some f"
    using assms q st by (auto simp: RestoreFile_def run_tryRes run_onDB run_GetQuarantineRecord run_ReadFile split: option.splits)
  obtain p where p: "decryptPayload v (fdata f) = Inr p"
    using assms q st f by (cases "decryptPayload v (fdata f)")
      (auto simp: RestoreFile_def run_tryRes run_onDB run_GetQuarantineRecord run_ReadFile)
  define t t2 where "t = w_clock w (Suc (w_step w))" and "t2 = w_clock w (Suc (Suc (w_step w)))"
  obtain d where d: "run_state (RestoreQuarantineRecord t t2 i by why auto) (ticked (w_db w)) = (Inr (), d)"
    and tail: "run_state (GetQuarantineRecord i) d = (Inr rec, w_db w')" "plain = p"
    using assms q st f p
    by (auto simp: RestoreFile_def run_tryRes run_onDB run_GetQuarantineRecord[of i "w_db w"] run_ReadFile
        run_timeNow t_def t2_def split: prod.splits sum.splits)
  obtain q0 where "recordOf i (ticked (w_db w)) = Some q0" "recordOf i d = Some (setRestored t by why i q0)"
    by (rule RestoreQuarantineRecord_ok[OF d])
  with q have rd: "recordOf i d = Some (setRestored t by why i q)" by simp
  with tail have rec: "rec = setRestored t by why i q" "w_db w' = ticked d"
    by (auto simp: run_GetQuarantineRecord split: option.splits)
  then have rest: "q_Status rec = ''RESTORED''" "recordOf i (w_db w') = Some rec"
    using setRestored_same[OF recordOf_ID[OF q(2)]] rd by auto
  have "case run_state (RestoreFile v i by2 why2 auto2) w' of (res2, w2) \<Rightarrow>
       isErr res2 \<and> quarantine_records (w_db w2) = quarantine_records (w_db w') \<and>
       whitelist_signatures (w_db w2) = whitelist_signatures (w_db w')"
    using rest by (auto simp: RestoreFile_def run_tryRes run_onDB run_GetQuarantineRecord split: option.split)
  with q st f p tail(2) rest show ?thesis by blast
qed

subsection \<open>Removal\<close>

definition expiredFile :: "Vault \<Rightarrow> int \<Rightarrow> string \<Rightarrow> fsFile \<Rightarrow> bool" where
  "expiredFile v now p f \<longleftrightarrow>
     p = filepathJoin (vaultDir v) (filepathBase p) \<and> filepathExt (filepathBase p) = ''.quarantine'' \<and>
     7 * dayNs < now - fmtime f"

text \<open>A directory entry names a quarantine file; a file is stale after seven days.\<close>

definition named :: "Vault \<Rightarrow> string \<Rightarrow> string \<Rightarrow> bool" where
  "named v e p \<longleftrightarrow> p = filepathJoin (vaultDir v) e \<and> filepathExt e = ''.quarantine''"

definition stale :: "int \<Rightarrow> 'a world_scheme \<Rightarrow> string \<Rightarrow> bool" where
  "stale now w p \<longleftrightarrow> (case fileAt w p of None \<Rightarrow> False | Some f \<Rightarrow> 7 * dayNs < now - fmtime f)"

lemma purgeEntry_run:
  assumes "w_fault w = (\<lambda>_. None)" and "w_clock w = (\<lambda>_. now)"
  obtains n w' where "run_state (purgeEntry v e) w = (n, w')" "w_fault w' = (\<lambda>_. None)" "w_clock w' = (\<lambda>_. now)"
    "w_db w' = w_db w"
    "\<And>p. fileAt w' p = (if named v e p \<and> stale now w p then None else fileAt w p)"
proof (cases "filepathExt e = ''.quarantine''")
  case False
  then show ?thesis using assms by (intro that[of 0 w]) (simp_all add: purgeEntry_def named_def)
next
  case ext: True
  let ?p = "filepathJoin (vaultDir v) e"
  show ?thesis
  proof (cases "fileAt w ?p")
    case None
    then show ?thesis
      using assms ext by (intro that[of 0 "w\<lparr>w_step := Suc (w_step w)\<rparr>"]) (auto simp: purgeEntry_def run_simps named_def stale_def)
  next
    case (Some f)
    show ?thesis
    proof (cases "7 * dayNs < now - fmtime f")
      case True
      with Some ext assms show ?thesis
        by (intro that[of 1 "dropFile ?p (w\<lparr>w_step := w_step w + 3\<rparr>)"])
           (auto simp: purgeEntry_def run_simps run_Remove_ok numeral_3_eq_3 named_def stale_def)
    next
      case False
      with Some ext assms show ?thesis
        by (intro that[of 0 "w\<lparr>w_step := w_step w + 2\<rparr>"]) (auto simp: purgeEntry_def run_simps named_def stale_def)
    qed
  qed
qed

lemma purgeLoop_run:
  assumes "w_fault w = (\<lambda>_. None)" and "w_clock w = (\<lambda>_. now)"
  shows "\<exists>m w'. run_state (purgeLoop v es n) w = (m, w') \<and> w_fault w' = (\<lambda>_. None) \<and> w_db w' = w_db w \<and>
    (\<forall>p. fileAt w' p = (if (\<exists>e \<in> set es. named v e p) \<and>
        stale now w p then None else fileAt w p))"
  using assms
proof (induction es arbitrary: w n)
  case Nil
  then show ?case by simp
next
  case (Cons e es)
  obtain k w1 where k: "run_state (purgeEntry v e) w = (k, w1)" "w_fault w1 = (\<lambda>_. None)" "w_clock w1 = (\<lambda>_. now)"
    "w_db w1 = w_db w"
    "\<And>p. fileAt w1 p = (if named v e p \<and> stale now w p then None else fileAt w p)"
    by (rule purgeEntry_run[OF Cons.prems]) blast
  obtain m w' where m: "run_state (purgeLoop v es (n + k)) w1 = (m, w')" "w_fault w' = (\<lambda>_. None)"
    "w_db w' = w_db w1" "\<And>p. fileAt w' p = (if (\<exists>e \<in> set es. named v e p) \<and> stale now w1 p then None else fileAt w1 p)"
    using Cons.IH[OF k(2,3), of "n + k"] by blast
  have "fileAt w' p = (if (\<exists>e' \<in> set (e # es). named v e' p) \<and> stale now w p then None else fileAt w p)" for p
  proof (cases "named v e p \<and> stale now w p")
    case True
    then show ?thesis using m(4)[of p] k(5)[of p] by simp
  next
    case False
    then have "fileAt w1 p = fileAt w p" using k(5)[of p] by (simp only: if_not_P if_False)
    then have same: "stale now w1 p = stale now w p" by (simp add: stale_def)
    from m(4)[of p] False \<open>fileAt w1 p = fileAt w p\<close> show ?thesis unfolding same by auto
  qed
  with m k(1,4) show ?case by auto
qed

text \<open>
  C34. What a purge removes. Without I/O errors, \<open>PurgeExpired\<close> removes exactly the
  \<open>.quarantine\<close> files of the vault directory that were written more than seven days ago; it
  never looks at the database, so a record keeps its status, and whatever retention time the
  record was given, restoring it fails once its file is gone.
\<close>

theorem purge_strands_records:
  assumes "w_fault w = (\<lambda>_. None)" and "w_clock w = (\<lambda>_. now)" and "run_state (PurgeExpired v) w = (res, w')"
  shows "\<not> isErr res \<and> w_db w' = w_db w \<and>
    (\<forall>p. fileAt w' p = (case fileAt w p of None \<Rightarrow> None
       | Some f \<Rightarrow> if expiredFile v now p f then None else Some f)) \<and>
    (\<forall>i q f. recordOf i (w_db w) = Some q \<and> fileAt w (q_StoredPath q) = Some f \<and> expiredFile v now (q_StoredPath q) f \<longrightarrow>
       isErr (fst (run_state (RestoreFile v i by why auto) w')))"
proof -
  define es where "es = map (filepathBase \<circ> fst) (filter (\<lambda>(p, _). p = filepathJoin (vaultDir v) (filepathBase p)) (w_files w))"
  define w1 where "w1 = w\<lparr>w_step := Suc (w_step w)\<rparr>"
  have w1: "w_fault w1 = (\<lambda>_. None)" "w_clock w1 = (\<lambda>_. now)" using assms by (simp_all add: w1_def)
  obtain m w2 where m: "run_state (purgeLoop v es 0) w1 = (m, w2)" "w_db w2 = w_db w1"
    "\<And>p. fileAt w2 p = (if (\<exists>e \<in> set es. named v e p) \<and>
        stale now w1 p then None else fileAt w1 p)"
    using purgeLoop_run[OF w1, of v es 0] by blast
  have "run_state (PurgeExpired v) w = (Inr m, w2)"
    using assms(1) m(1) by (simp add: PurgeExpired_def run_tryRes ReadDir_def run_simps es_def w1_def)
  with assms(3) have r: "res = Inr m" "w' = w2" by auto
  have listed: "(\<exists>e \<in> set es. named v e p) \<longleftrightarrow>
      p = filepathJoin (vaultDir v) (filepathBase p) \<and> filepathExt (filepathBase p) = ''.quarantine''"
    if "fileAt w p = Some f" for p f
  proof
    assume "\<exists>e \<in> set es. named v e p"
    then obtain a where a: "a = filepathJoin (vaultDir v) (filepathBase a)" "named v (filepathBase a) p"
      by (auto simp: es_def)
    then have "a = p" by (simp add: named_def)
    with a show "p = filepathJoin (vaultDir v) (filepathBase p) \<and> filepathExt (filepathBase p) = ''.quarantine''"
      by (simp add: named_def)
  next
    assume p: "p = filepathJoin (vaultDir v) (filepathBase p) \<and> filepathExt (filepathBase p) = ''.quarantine''"
    have "(p, f) \<in> set (w_files w)" using map_of_SomeD[OF that[unfolded fileAt_def]] .
    with p have "filepathBase p \<in> set es" by (force simp: es_def)
    with p show "\<exists>e \<in> set es. named v e p" by (auto simp: named_def)
  qed
  have files: "fileAt w' p = (case fileAt w p of None \<Rightarrow> None
       | Some f \<Rightarrow> if expiredFile v now p f then None else Some f)" for p
    using m(3)[of p] listed[of p] by (auto simp: r w1_def expiredFile_def stale_def split: option.splits)
  have "isErr (fst (run_state (RestoreFile v i by why auto) w'))"
    if "recordOf i (w_db w) = Some q" "fileAt w (q_StoredPath q) = Some f" "expiredFile v now (q_StoredPath q) f" for i q f
  proof -
    have "fileAt w' (q_StoredPath q) = None" using files[of "q_StoredPath q"] that by simp
    moreover have "recordOf i (w_db w') = Some q" using m(2) that(1) r by (simp add: w1_def)
    ultimately show ?thesis
      by (auto simp: RestoreFile_def run_tryRes run_onDB run_GetQuarantineRecord run_ReadFile split: option.split)
  qed
  with r m(2) files show ?thesis by (simp add: w1_def)
qed

subsection \<open>Witness: restoring and purging\<close>

lemma RestoreFile_succeeds:
  assumes "faultless w" and "recordOf i (w_db w) = Some q" and "q_Status q = ''QUARANTINED''"
    and "fileAt w (q_StoredPath q) = Some f" and "decryptPayload v (fdata f) = Inr plain"
  obtains rec w' where "run_state (RestoreFile v i by why auto) w = (Inr (plain, rec), w')"
proof -
  have nf: "w_fault w = (\<lambda>_. None)" "stmt_fault (w_db w) = (\<lambda>_. None)"
    using assms(1) by (auto simp: faultless_def)
  define t t2 where "t = w_clock w (Suc (w_step w))" and "t2 = w_clock w (Suc (Suc (w_step w)))"
  obtain d where d: "run_state (RestoreQuarantineRecord t t2 i by why auto) (ticked (w_db w)) = (Inr (), d)"
    "stmt_fault d = (\<lambda>_. None)"
    using assms(2) nf by (cases "auto \<and> q_FileSHA256 q \<noteq> []")
      (simp_all add: RestoreQuarantineRecord_def run_tryRes run_GetQuarantineRecord run_exec AddWhitelist_def)
  obtain q2 where q2: "recordOf i d = Some q2" by (rule RestoreQuarantineRecord_ok[OF d(1)])
  have "run_state (RestoreFile v i by why auto) w =
      (Inr (plain, q2), w\<lparr>w_step := Suc (Suc (Suc (w_step w))), w_db := ticked d\<rparr>)"
    using assms nf d q2
    by (simp add: RestoreFile_def run_tryRes run_onDB run_GetQuarantineRecord run_ReadFile run_timeNow t_def t2_def)
  then show ?thesis by (rule that)
qed

theorem restore_once_witness:
  "\<exists>rec w' rec2 w2. run_state (QuarantineFile (sampleVault []) ''a.exe'' ''app'' ''Eicar'' (bytesReader [0x4D, 0x5A]) 7)
       (sampleWorld [] (\<lambda>_. None)) = (Inr rec, w') \<and>
     run_state (RestoreFile (sampleVault []) (q_ID rec) ''me'' ''false positive'' True) w' = (Inr ([0x4D, 0x5A], rec2), w2) \<and>
     isErr (fst (run_state (RestoreFile (sampleVault []) (q_ID rec) ''me'' ''again'' True) w2))"
proof -
  obtain rec w' where run: "run_state (QuarantineFile (sampleVault []) ''a.exe'' ''app'' ''Eicar'' (bytesReader [0x4D, 0x5A]) 7)
       (sampleWorld [] (\<lambda>_. None)) = (Inr rec, w')" "faultless w'"
    by (rule sampleQuarantine[of "[0x4D, 0x5A]" "[]"]) simp_all
  have nm: "\<not> hasMagic (scrambleBytes (rdata (bytesReader [0x4D, 0x5A])))"
    by (auto simp: hasMagic_def scrambleBytes_def dest: arg_cong[where f = length])
  obtain st where q: "map_option fdata (fileAt w' (q_StoredPath rec)) = Some st"
    "decryptPayload (sampleVault []) st = Inr [0x4D, 0x5A]"
    "recordOf (q_ID rec) (w_db w') = Some (storedQuarantine rec)" "q_Status rec = ''QUARANTINED''"
    by (rule QuarantineFile_ok[OF run(1) sampleVault_small]) (use nm in auto)
  then obtain f where f: "fileAt w' (q_StoredPath (storedQuarantine rec)) = Some f" "fdata f = st"
    "q_Status (storedQuarantine rec) = ''QUARANTINED''"
    by (auto simp: storedQuarantine_def)
  obtain rec2 w2 where r2: "run_state (RestoreFile (sampleVault []) (q_ID rec) ''me'' ''false positive'' True) w' =
      (Inr ([0x4D, 0x5A], rec2), w2)"
    by (rule RestoreFile_succeeds[OF run(2) q(3) f(3) f(1)]) (use q(2) f(2) in auto)
  from restore_once[OF r2, of "''me''" "''again''" True] run(1) r2 show ?thesis
    by (auto split: prod.splits)
qed

theorem purge_strands_records_witness:
  "fileAt (snd (run_state (PurgeExpired (sampleVault [])) ((sampleWorld
      [(''/v/Q-1.quarantine'', \<lparr> fdata = [], fmode = 0, fmtime = - 8 * dayNs \<rparr>)] (\<lambda>_. None))\<lparr>w_clock := \<lambda>_. 0\<rparr>)))
      ''/v/Q-1.quarantine'' = None"
proof -
  let ?w = "(sampleWorld [(''/v/Q-1.quarantine'', \<lparr> fdata = [], fmode = 0, fmtime = - 8 * dayNs \<rparr>)]
      (\<lambda>_. None))\<lparr>w_clock := \<lambda>_. 0\<rparr>"
  have w: "w_fault ?w = (\<lambda>_. None)" "w_clock ?w = (\<lambda>_. 0)" by (simp_all add: sampleWorld_def)
  obtain res w' where run: "run_state (PurgeExpired (sampleVault [])) ?w = (res, w')" by fastforce
  have "expiredFile (sampleVault []) 0 ''/v/Q-1.quarantine'' \<lparr> fdata = [], fmode = 0, fmtime = - 8 * dayNs \<rparr>"
    by code_simp
  moreover have "fileAt ?w ''/v/Q-1.quarantine'' = Some \<lparr> fdata = [], fmode = 0, fmtime = - 8 * dayNs \<rparr>"
    by (simp add: fileAt_def sampleWorld_def)
  ultimately show ?thesis using purge_strands_records[OF w run] run by simp
qed

subsection \<open>A payload without its record\<close>

text \<open>
  The file comes before its record. When the payload is accepted, the file system works
  and \<open>QuarantineFile\<close> still returns an error, then the database refused the record: the
  sealed payload has been left in the vault directory, no table has changed, and no record
  names the file.
\<close>

theorem quarantine_orphan_file:
  assumes "run_state (QuarantineFile v nm cs vn r days) w = (Inl e, w')" and "w_fault w = (\<lambda>_. None)"
    and "boundedPayload v r = Inr raw"
  shows "quarantine_records (w_db w') = quarantine_records (w_db w) \<and>
    (\<exists>i st. let p = filepathJoin (vaultDir v) (''Q-'' @ i @ ''.quarantine'') in
       map_option fdata (fileAt w' p) = Some st \<and>
       (length (masterKey v) = 32 \<or> \<not> hasMagic (scrambleBytes raw) \<longrightarrow> decryptPayload v st = Inr raw))"
proof -
  define w1 where "w1 = w\<lparr>w_step := Suc (Suc (w_step w))\<rparr>"
  define i where "i = formatDay (w_clock w (w_step w)) @ ''-'' @
    hexEncodeToString (map (w_random w (Suc (w_step w))) [0..<8])"
  obtain q where run: "run_state (QuarantineFile v nm cs vn r days) w =
      run_state (tryRes (storedPayload v raw) (\<lambda>e. e) (commitQuarantine q)) w1"
    and q: "q_StoredPath q = filepathJoin (vaultDir v) (''Q-'' @ i @ ''.quarantine'')"
    using assms(2,3) by (auto simp: QuarantineFile_def run_timeNow run_randRead Let_def w1_def i_def)
  have w1: "w_fault w1 = (\<lambda>_. None)" "w_db w1 = w_db w" using assms(2) by (simp_all add: w1_def)
  obtain st n where sp: "run_state (storedPayload v raw) w1 = (Inr st, w1\<lparr>w_step := n\<rparr>)"
    using storedPayload_succeeds[OF w1(1)] by blast
  then have c: "run_state (commitQuarantine q st) (w1\<lparr>w_step := n\<rparr>) = (Inl e, w')"
    using assms(1) unfolding run by (simp add: run_tryRes)
  have nf: "w_fault (w1\<lparr>w_step := n\<rparr>) (w_step (w1\<lparr>w_step := n\<rparr>)) = None" using w1 by simp
  obtain d e' where "run_state (InsertQuarantineRecord q) (w_db w) = (Inl e', d)" "w_db w' = d"
    "map_option fdata (fileAt w' (q_StoredPath q)) = Some st"
    using c by (auto simp: commitQuarantine_def Let_def run_WriteFile_ok[OF nf] run_tryRes run_onDB w1
        split: prod.splits sum.splits)
  with quar.ins_err[of q "w_db w" e' d] storedPayload_ok(1)[OF sp] q show ?thesis by auto
qed

theorem quarantine_orphan_file_witness:
  "\<exists>e w'. run_state (QuarantineFile (sampleVault []) ''a'' ''b'' ''c'' (bytesReader [1]) 7)
      ((sampleWorld [] (\<lambda>_. None))\<lparr>w_db := emptyDB (\<lambda>_. Some (errorsNew ''disk full''))\<rparr>) = (Inl e, w') \<and>
    quarantine_records (w_db w') = [] \<and> w_files w' \<noteq> []"
proof -
  let ?w = "(sampleWorld [] (\<lambda>_. None))\<lparr>w_db := emptyDB (\<lambda>_. Some (errorsNew ''disk full''))\<rparr>"
  have b: "boundedPayload (sampleVault []) (bytesReader [1]) = Inr [1]"
    using boundedPayload_accepts[of "bytesReader [1]" "sampleVault []"] sampleVault_small by (simp add: sampleVault_def)
  have w: "w_fault ?w = (\<lambda>_. None)" by (simp add: sampleWorld_def)
  obtain res w' where run: "run_state (QuarantineFile (sampleVault []) ''a'' ''b'' ''c'' (bytesReader [1]) 7) ?w = (res, w')"
    by fastforce
  have "isErr res"
    using run b by (auto simp: QuarantineFile_def run_timeNow run_randRead Let_def storedPayload_def sampleVault_def
        sampleWorld_def run_tryRes commitQuarantine_def run_WriteFile_ok run_onDB InsertQuarantineRecord_def
        run_exec emptyDB_def)
  then obtain e where "res = Inl e" by (auto simp: isErr_iff)
  with quarantine_orphan_file[OF run[unfolded \<open>res = Inl e\<close>] w b] run show ?thesis
    by (auto simp: Let_def sampleWorld_def emptyDB_def fileAt_def)
qed

subsection \<open>Deletion\<close>

text \<open>
  Deleting. A successful \<open>DeleteFile\<close> leaves no record of that id and every other record
  as it was; the payload is gone if the file system did not fail, and no other file changed.
  The removal of the file is not checked: when it fails the record is deleted all the same
  and the payload stays, without a record.
\<close>

theorem delete_forgets:
  assumes "run_state (DeleteFile v i) w = (Inr (), w')" and "recordOf i (w_db w) = Some q"
  shows "recordOf i (w_db w') = None \<and> (\<forall>j. j \<noteq> i \<longrightarrow> recordOf j (w_db w') = recordOf j (w_db w)) \<and>
    (\<forall>p. fileAt w' p = (if p = q_StoredPath q \<and> p \<noteq> '''' \<and> w_fault w (w_step w) = None then None else fileAt w p))"
proof -
  define w0 where "w0 = w\<lparr>w_db := ticked (w_db w)\<rparr>"
  define w1 where "w1 = (if q_StoredPath q = '''' then w0 else snd (run_state (Remove (q_StoredPath q)) w0))"
  have w1: "w_db w1 = ticked (w_db w)"
    "\<And>p. fileAt w1 p = (if p = q_StoredPath q \<and> p \<noteq> '''' \<and> w_fault w (w_step w) = None then None else fileAt w p)"
    by (auto simp: w1_def w0_def Remove_def run_simps split: option.splits)
  have "run_state (DeleteFile v i) w = run_state (onDB (DeleteQuarantineRecord i)) w1"
    using assms by (auto simp: DeleteFile_def run_tryRes run_onDB run_GetQuarantineRecord w1_def w0_def
        split: option.splits prod.splits)
  with assms(1) have del: "run_state (DeleteQuarantineRecord i) (w_db w1) = (Inr (), w_db w')" and fs: "w_files w' = w_files w1"
    by (auto simp: run_onDB split: prod.splits)
  have rec: "recordOf j (w_db w') = (if j = i then None else recordOf j (w_db w))" for j
  proof -
    have "quarantine_records (w_db w') = filter (\<lambda>q. q_ID q \<noteq> i) (quarantine_records (w_db w))"
      using quar.del_ok[OF del] w1(1) by simp
    moreover have "find (\<lambda>q. q_ID q = j) (filter (\<lambda>q. q_ID q \<noteq> i) xs) =
        (if j = i then None else find (\<lambda>q. q_ID q = j) xs)" for xs
      by (induction xs) auto
    ultimately show ?thesis by (simp only: recordOf_def)
  qed
  with w1(2) fs show ?thesis by (simp add: fileAt_def)
qed

lemma DeleteFile_succeeds:
  assumes "faultless w" and "recordOf i (w_db w) = Some q"
  obtains w' where "run_state (DeleteFile v i) w = (Inr (), w')"
proof -
  obtain r w1 where rm: "run_state (Remove (q_StoredPath q)) (w\<lparr>w_db := ticked (w_db w)\<rparr>) = (r, w1)" by fastforce
  then have "w_db w1 = ticked (w_db w)" by (auto simp: Remove_def run_simps split: option.splits)
  with assms rm that show ?thesis
    by (cases "q_StoredPath q = ''''") (simp_all add: DeleteFile_def run_tryRes run_onDB run_GetQuarantineRecord
      DeleteQuarantineRecord_def run_exec faultless_def)
qed

theorem delete_forgets_witness:
  "\<exists>rec w' w2. run_state (QuarantineFile (sampleVault []) ''a.exe'' ''app'' ''Eicar'' (bytesReader [0x4D]) 7)
       (sampleWorld [] (\<lambda>_. None)) = (Inr rec, w') \<and>
     run_state (DeleteFile (sampleVault []) (q_ID rec)) w' = (Inr (), w2) \<and>
     recordOf (q_ID rec) (w_db w2) = None"
proof -
  obtain rec w' where run: "run_state (QuarantineFile (sampleVault []) ''a.exe'' ''app'' ''Eicar'' (bytesReader [0x4D]) 7)
       (sampleWorld [] (\<lambda>_. None)) = (Inr rec, w')" "faultless w'"
    by (rule sampleQuarantine[of "[0x4D]" "[]"]) simp_all
  obtain q where q: "recordOf (q_ID rec) (w_db w') = Some q"
    by (rule QuarantineFile_ok[OF run(1) sampleVault_small]) simp
  obtain w2 where d: "run_state (DeleteFile (sampleVault []) (q_ID rec)) w' = (Inr (), w2)"
    by (rule DeleteFile_succeeds[OF run(2) q])
  with delete_forgets[OF d q] run(1) show ?thesis by auto
qed

end
