(* ===== verification/YaraManager.thy ===== *)
theory YaraManager
  imports StorageLaws YaraValidator World
begin

text \<open>
  Custom YARA rules, \<open>internal/yara/manager.go\<close>: a rule is a file of the rules directory and
  a row of the table \<open>yara_rules\<close>, and the daemon is told to reload. The manager's mutex makes
  each operation one step. \<open>uuid.New\<close> is not part of the repository: \<open>newUUID k\<close> is what it
  returns at step \<open>k\<close>.
\<close>

record Manager =
  rulesDir :: string
  newUUID :: "nat \<Rightarrow> string"

type_synonym 'w Reloader = "('w, goerr option) state"

definition NewManager :: "string \<Rightarrow> (nat \<Rightarrow> string) \<Rightarrow> Manager" where
  "NewManager dir uuid = \<lparr> rulesDir = dir, newUUID = uuid \<rparr>"

definition mode0644 :: nat where "mode0644 = 420"
definition mode0755 :: nat where "mode0755 = 493"

definition rulePath :: "Manager \<Rightarrow> string \<Rightarrow> string" where
  "rulePath m ruleName = filepathJoin (rulesDir m) (ruleName @ ''.yara'')"

subsection \<open>Adding a rule\<close>

text \<open>The reload, which takes everything back when it fails.\<close>

definition reloadOrRollback ::
  "'a world_scheme Reloader option \<Rightarrow> string \<Rightarrow> YARARule \<Rightarrow> ('a world_scheme, YARARule res) state" where
  "reloadOrRollback reloader path ruleRecord =
     (case reloader of
        None \<Rightarrow> ret (Inr ruleRecord)
      | Some reload \<Rightarrow> do {
          e \<leftarrow> reload;
          case e of
            None \<Rightarrow> ret (Inr ruleRecord)
          | Some err \<Rightarrow> do {
              _ \<leftarrow> Remove path;
              _ \<leftarrow> onDB (DeleteYARARule (y_ID ruleRecord));
              ret (Inl (wrapErr ''failed to reload clamd with new rule: '' err)) } })"

text \<open>The row of the rule, which takes the file back when it is refused.\<close>

definition recordRule ::
  "'a world_scheme Reloader option \<Rightarrow> string \<Rightarrow> YARARule \<Rightarrow> ('a world_scheme, YARARule res) state" where
  "recordRule reloader path ruleRecord = do {
     r \<leftarrow> onDB (InsertYARARule ruleRecord);
     case r of
       Inl err \<Rightarrow> do {
         _ \<leftarrow> Remove path;
         ret (Inl (wrapErr ''failed to store rule in database: '' err)) }
     | Inr _ \<Rightarrow> reloadOrRollback reloader path ruleRecord }"

definition AddRule ::
  "Manager \<Rightarrow> 'a world_scheme Reloader option \<Rightarrow> string \<Rightarrow> string \<Rightarrow> string \<Rightarrow> string \<Rightarrow>
   ('a world_scheme, YARARule res) state" where
  "AddRule m reloader ruleName description content author =
     (case ValidateRule ruleName content of
        Inl err \<Rightarrow> ret (Inl (wrapErr ''yara validation failed: '' err))
      | Inr _ \<Rightarrow> do {
          mk \<leftarrow> MkdirAll (rulesDir m) mode0755;
          case mk of
            Some err \<Rightarrow> ret (Inl (wrapErr ''failed to create yara rules dir: '' err))
          | None \<Rightarrow> do {
              let path = rulePath m ruleName;
              st \<leftarrow> Stat path;
              case st of
                Inr _ \<Rightarrow> ret (Inl (errorsNew (''rule file '' @ [CHR 0x27] @ ruleName @ ''.yara'' @ [CHR 0x27] @ '' already exists'')))
              | Inl _ \<Rightarrow> do {
                  we \<leftarrow> WriteFile path (bytesOf content) mode0644;
                  case we of
                    Some err \<Rightarrow> ret (Inl (wrapErr ''failed to write yara rule file: '' err))
                  | None \<Rightarrow> do {
                      now \<leftarrow> timeNow;
                      k \<leftarrow> nextStep;
                      recordRule reloader path
                        \<lparr> y_ID = newUUID m k, y_RuleName = ruleName, y_Description = description,
                          y_Content = content, y_Author = author, y_IsActive = True,
                          y_CreatedAt = now, y_UpdatedAt = now \<rparr> } } } })"

subsection \<open>Reading and deleting\<close>

definition ListRules :: "('a world_scheme, YARARule list res) state" where
  "ListRules = onDB ListYARARules"

definition GetRule :: "string \<Rightarrow> ('a world_scheme, YARARule res) state" where
  "GetRule i = onDB (GetYARARule i)"

definition reloadAfterDelete :: "'a world_scheme Reloader option \<Rightarrow> ('a world_scheme, unit res) state" where
  "reloadAfterDelete reloader =
     (case reloader of
        None \<Rightarrow> ret (Inr ())
      | Some reload \<Rightarrow> do {
          e \<leftarrow> reload;
          ret (case e of None \<Rightarrow> Inr () | Some err \<Rightarrow> Inl (wrapErr ''failed to reload clamd after rule deletion: '' err)) })"

definition DeleteRule ::
  "Manager \<Rightarrow> 'a world_scheme Reloader option \<Rightarrow> string \<Rightarrow> ('a world_scheme, unit res) state" where
  "DeleteRule m reloader i =
     tryRes (onDB (GetYARARule i))
       (wrapErr (''rule with id '' @ [CHR 0x27] @ i @ [CHR 0x27] @ '' not found: '')) (\<lambda>rule. do {
         _ \<leftarrow> Remove (rulePath m (y_RuleName rule));
         tryRes (onDB (DeleteYARARule i)) (wrapErr ''failed to delete rule from database: '')
           (\<lambda>_. reloadAfterDelete reloader) })"

subsection \<open>The interface of the daemon\<close>

text \<open>A reload talks to the daemon: it leaves the files and tables of this process alone.\<close>

locale reloader =
  fixes reload :: "'a world_scheme Reloader"
  assumes reload_same: "state_io_rel sameStore reload"
begin

lemma reload_run: "run_state reload w = (e, w') \<Longrightarrow> sameStore w w'"
  using reload_same by (simp add: state_io_rel_def) (metis snd_conv)

end

subsection \<open>Files and rows as one map\<close>

text \<open>
  The abstract state is a map from rule names to contents. The files hold it once, the rows
  a second time; \<open>rulesAgree\<close> says that both hold the same map.
\<close>

definition ruleFiles :: "Manager \<Rightarrow> 'a world_scheme \<Rightarrow> string \<Rightarrow> bytes option" where
  "ruleFiles m w n = map_option fdata (fileAt w (rulePath m n))"

definition ruleRows :: "'a world_scheme \<Rightarrow> string \<Rightarrow> bytes option" where
  "ruleRows w n = map_option (bytesOf \<circ> y_Content) (find (\<lambda>y. y_RuleName y = n) (yara_rules (w_db w)))"

definition ruleName :: "string \<Rightarrow> bool" where
  "ruleName n \<longleftrightarrow> CHR ''/'' \<notin> set n"

definition rulesAgree :: "Manager \<Rightarrow> 'a world_scheme \<Rightarrow> bool" where
  "rulesAgree m w \<longleftrightarrow> (\<forall>n. ruleName n \<longrightarrow> ruleFiles m w n = ruleRows w n) \<and>
     (\<forall>y \<in> set (yara_rules (w_db w)). ruleName (y_RuleName y)) \<and>
     distinct (map y_ID (yara_rules (w_db w))) \<and> distinct (map y_RuleName (yara_rules (w_db w)))"

lemma rulePath_inj: "ruleName n \<Longrightarrow> ruleName n' \<Longrightarrow> rulePath m n = rulePath m n' \<longleftrightarrow> n = n'"
proof -
  have "plainName (k @ ''.yara'')" if "ruleName k" for k
    using that by (cases k) (auto simp: plainName_def ruleName_def)
  then show "ruleName n \<Longrightarrow> ruleName n' \<Longrightarrow> rulePath m n = rulePath m n' \<longleftrightarrow> n = n'"
    by (simp add: rulePath_def filepathJoin_inj)
qed

lemma ValidateRule_name: "ValidateRule n c = Inr () \<Longrightarrow> ruleName n"
  using validated_name_chars[of n c "CHR ''/''"] by (simp add: ruleName_def graphic_def wordChar_def)

lemma run_InsertYARARule_ok:
  assumes "run_state (InsertYARARule y) d = (Inr (), d')"
  shows "y_ID y \<notin> y_ID ` set (yara_rules d)" "y_RuleName y \<notin> y_RuleName ` set (yara_rules d)"
    "yara_rules d' = yara_rules d @ [storedRule y]" "stmt_fault d' = stmt_fault d"
  using assms by (auto simp: InsertYARARule_def run_exec storedRule_def list_ex_iff split: option.splits if_splits)

lemma run_InsertYARARule_err:
  "run_state (InsertYARARule y) d = (Inl e, d') \<Longrightarrow> yara_rules d' = yara_rules d \<and> stmt_fault d' = stmt_fault d"
  by (auto simp: InsertYARARule_def run_exec split: option.splits if_splits)

lemma run_DeleteYARARule_ok:
  "stmt_fault d (stmt_no d) = None \<Longrightarrow>
   \<exists>d'. run_state (DeleteYARARule i) d = (Inr (), d') \<and> stmt_fault d' = stmt_fault d \<and>
     yara_rules d' = filter (\<lambda>y. y_ID y \<noteq> i) (yara_rules d)"
  by (simp add: DeleteYARARule_def run_exec)

lemma storedRule_simps [simp]:
  "y_ID (storedRule y) = y_ID y" "y_RuleName (storedRule y) = y_RuleName y" "y_Content (storedRule y) = y_Content y"
  by (simp_all add: storedRule_def)

text \<open>Without faults, \<open>Remove\<close> leaves no file at the path and every other file as it was.\<close>

lemma Remove_run:
  assumes "w_fault w = (\<lambda>_. None)"
  obtains e w' where "run_state (Remove p) w = (e, w')" "w_db w' = w_db w" "w_fault w' = (\<lambda>_. None)"
    "\<And>q. fileAt w' q = (if q = p then None else fileAt w q)"
proof (cases "fileAt w p")
  case None
  show ?thesis
    by (rule that[of "Some (notExist ''remove'' p)" "w\<lparr>w_step := Suc (w_step w)\<rparr>"])
       (use assms None in \<open>auto simp: Remove_def run_simps\<close>)
next
  case (Some f)
  show ?thesis
    by (rule that[of None "dropFile p (w\<lparr>w_step := Suc (w_step w)\<rparr>)"])
       (use assms Some in \<open>auto simp: run_Remove_ok\<close>)
qed

subsection \<open>What adding and deleting do\<close>

text \<open>The two outcomes of \<open>recordRule\<close> when only the daemon may fail.\<close>

definition recorded :: "YARARule \<Rightarrow> string \<Rightarrow> 'a world_scheme \<Rightarrow> 'a world_scheme \<Rightarrow> bool" where
  "recorded rec path w w' \<longleftrightarrow>
     y_ID rec \<notin> y_ID ` set (yara_rules (w_db w)) \<and> y_RuleName rec \<notin> y_RuleName ` set (yara_rules (w_db w)) \<and>
     yara_rules (w_db w') = yara_rules (w_db w) @ [storedRule rec] \<and> (\<forall>p. fileAt w' p = fileAt w p)"

definition takenBack :: "string \<Rightarrow> 'a world_scheme \<Rightarrow> 'a world_scheme \<Rightarrow> bool" where
  "takenBack path w w' \<longleftrightarrow> yara_rules (w_db w') = yara_rules (w_db w) \<and>
     (\<forall>p. fileAt w' p = (if p = path then None else fileAt w p))"

context reloader
begin

lemma recordRule_run:
  assumes "w_fault w = (\<lambda>_. None)" and "stmt_fault (w_db w) = (\<lambda>_. None)"
    and "run_state (recordRule (Some reload) path rec) w = (res, w')"
  shows "res = Inr rec \<and> recorded rec path w w' \<or> isErr res \<and> takenBack path w w'"
proof -
  obtain r d where ins: "run_state (InsertYARARule rec) (w_db w) = (r, d)" by fastforce
  define w1 where "w1 = w\<lparr>w_db := d\<rparr>"
  have w1: "w_fault w1 = (\<lambda>_. None)" "\<And>p. fileAt w1 p = fileAt w p" using assms(1) by (simp_all add: w1_def)
  show ?thesis
  proof (cases r)
    case (Inl err)
    obtain e w2 where rm: "run_state (Remove path) w1 = (e, w2)" "w_db w2 = w_db w1"
      "\<And>q. fileAt w2 q = (if q = path then None else fileAt w1 q)"
      by (rule Remove_run[OF w1(1)]) blast
    have "isErr res" "w' = w2"
      using assms(3) ins Inl rm(1) by (auto simp: recordRule_def run_onDB w1_def)
    with rm run_InsertYARARule_err[OF ins[unfolded Inl]] show ?thesis by (simp add: takenBack_def w1_def)
  next
    case (Inr u)
    note ok = run_InsertYARARule_ok[of rec "w_db w" d]
    have "run_state (InsertYARARule rec) (w_db w) = (Inr (), d)" using ins Inr by simp
    note ok = ok[OF this]
    obtain e w2 where re: "run_state reload w1 = (e, w2)" by fastforce
    note same = reload_run[OF re]
    have w2: "w_db w2 = d" "w_fault w2 = (\<lambda>_. None)" "\<And>p. fileAt w2 p = fileAt w p"
      using same w1 fileAt_same[OF same] by (auto simp: sameStore_def w1_def)
    have run: "run_state (reloadOrRollback (Some reload) path rec) w1 = (res, w')"
      using assms(3) ins Inr by (simp add: recordRule_def run_onDB w1_def)
    show ?thesis
    proof (cases e)
      case None
      then have "res = Inr rec" "w' = w2" using run re by (auto simp: reloadOrRollback_def)
      with ok w2 show ?thesis by (simp add: recorded_def)
    next
      case (Some err)
      obtain e' w3 where rm: "run_state (Remove path) w2 = (e', w3)" "w_db w3 = w_db w2"
        "\<And>q. fileAt w3 q = (if q = path then None else fileAt w2 q)"
        by (rule Remove_run[OF w2(2)]) blast
      have "stmt_fault (w_db w3) (stmt_no (w_db w3)) = None" using rm(2) w2(1) ok(4) assms(2) by simp
      from run_DeleteYARARule_ok[OF this, of "y_ID rec"] obtain d' where
        del: "run_state (DeleteYARARule (y_ID rec)) (w_db w3) = (Inr (), d')"
          "yara_rules d' = filter (\<lambda>y. y_ID y \<noteq> y_ID rec) (yara_rules (w_db w3))" by blast
      have "isErr res" "w' = w3\<lparr>w_db := d'\<rparr>"
        using run re Some rm(1) del(1) by (auto simp: reloadOrRollback_def run_onDB)
      moreover have "yara_rules d' = yara_rules (w_db w)"
        using del(2) rm(2) w2(1) ok(1,3) by (auto simp: filter_id_conv image_iff)
      ultimately show ?thesis using rm(3) w2(3) by (simp add: takenBack_def)
    qed
  qed
qed

end

lemma find_snoc_name:
  "find (\<lambda>y. y_RuleName y = n) (ys @ [y]) =
     (case find (\<lambda>y. y_RuleName y = n) ys of Some z \<Rightarrow> Some z | None \<Rightarrow> if y_RuleName y = n then Some y else None)"
  by (induction ys) auto

lemma rulesAgree_recorded:
  assumes agree: "rulesAgree m w" and name: "ruleName (y_RuleName rec)"
    and fl: "fileAt w1 = (fileAt w)(rulePath m (y_RuleName rec) \<mapsto> f)" "fdata f = bytesOf (y_Content rec)"
    and rows: "yara_rules (w_db w1) = yara_rules (w_db w)"
    and rec: "recorded rec path w1 w'"
  shows "rulesAgree m w' \<and> ruleRows w (y_RuleName rec) = None \<and>
    ruleRows w' = (ruleRows w)(y_RuleName rec \<mapsto> bytesOf (y_Content rec))"
proof -
  let ?n = "y_RuleName rec"
  have new: "y_ID rec \<notin> y_ID ` set (yara_rules (w_db w))" "?n \<notin> y_RuleName ` set (yara_rules (w_db w))"
    and rows': "yara_rules (w_db w') = yara_rules (w_db w) @ [storedRule rec]"
    and files': "fileAt w' p = fileAt w1 p" for p
    using rec rows by (auto simp: recorded_def)
  have none: "find (\<lambda>y. y_RuleName y = ?n) (yara_rules (w_db w)) = None"
    using new(2) by (auto simp: find_None_iff image_iff)
  have rr: "ruleRows w' = (ruleRows w)(?n \<mapsto> bytesOf (y_Content rec))"
    using none by (auto simp: ruleRows_def rows' find_snoc_name fun_eq_iff split: option.split)
  moreover have "ruleFiles m w' k = ((ruleFiles m w)(?n \<mapsto> bytesOf (y_Content rec))) k" if "ruleName k" for k
    using rulePath_inj[OF that name, of m] fl by (auto simp: ruleFiles_def files')
  ultimately have "ruleFiles m w' k = ruleRows w' k" if "ruleName k" for k
    using that agree by (auto simp: rulesAgree_def)
  moreover have "\<forall>y \<in> set (yara_rules (w_db w')). ruleName (y_RuleName y)"
    "distinct (map y_ID (yara_rules (w_db w')))" "distinct (map y_RuleName (yara_rules (w_db w')))"
    using agree name new by (auto simp: rows' rulesAgree_def)
  ultimately have "rulesAgree m w'" by (simp add: rulesAgree_def)
  with rr none show ?thesis by (simp add: ruleRows_def)
qed

lemma rulesAgree_same:
  assumes "rulesAgree m w" and "yara_rules (w_db w') = yara_rules (w_db w)" and "\<And>p. fileAt w' p = fileAt w p"
  shows "rulesAgree m w' \<and> ruleRows w' = ruleRows w"
  using assms by (simp add: rulesAgree_def ruleFiles_def ruleRows_def[abs_def])

context reloader
begin

lemma add_refines:
  assumes ok: "faultless w" and agree: "rulesAgree m w"
    and run: "run_state (AddRule m (Some reload) n ds c a) w = (res, w')"
  shows "rulesAgree m w' \<and>
    (case res of Inl _ \<Rightarrow> ruleRows w' = ruleRows w
     | Inr y \<Rightarrow> y_RuleName y = n \<and> y_Content y = c \<and> ruleRows w n = None \<and> ruleRows w' = (ruleRows w)(n \<mapsto> bytesOf c))"
proof -
  have nf: "w_fault w = (\<lambda>_. None)" "stmt_fault (w_db w) = (\<lambda>_. None)" using ok by (auto simp: faultless_def)
  have unchanged: ?thesis if "isErr res" "yara_rules (w_db w') = yara_rules (w_db w)" "\<And>p. fileAt w' p = fileAt w p"
    using rulesAgree_same[OF agree that(2,3)] that(1) by (auto simp: isErr_iff)
  show ?thesis
  proof (cases "ValidateRule n c")
    case (Inl err)
    then show ?thesis using run by (intro unchanged) (auto simp: AddRule_def)
  next
    case (Inr u)
    then have name: "ruleName n" using ValidateRule_name[of n c] by simp
    show ?thesis
    proof (cases "fileAt w (rulePath m n)")
      case (Some f)
      then show ?thesis using run Inr nf by (intro unchanged) (auto simp: AddRule_def run_simps Let_def)
    next
      case None
      define t1 where "t1 = w_clock w (Suc (Suc (w_step w)))"
      define f where "f = \<lparr> fdata = bytesOf c, fmode = mode0644, fmtime = t1 \<rparr>"
      define w1 where "w1 = (putFile (rulePath m n) f w)\<lparr>w_step := w_step w + 5\<rparr>"
      define rec where "rec = \<lparr> y_ID = newUUID m (w_step w + 4), y_RuleName = n, y_Description = ds, y_Content = c,
        y_Author = a, y_IsActive = True, y_CreatedAt = w_clock w (w_step w + 3), y_UpdatedAt = w_clock w (w_step w + 3) \<rparr>"
      have "run_state (AddRule m (Some reload) n ds c a) w = run_state (recordRule (Some reload) (rulePath m n) rec) w1"
        using Inr None nf
        by (simp add: AddRule_def run_simps Let_def run_WriteFile_ok w1_def f_def t1_def rec_def putFile_def numeral_eq_Suc)
      then have rr: "run_state (recordRule (Some reload) (rulePath m n) rec) w1 = (res, w')" using run by simp
      have w1: "w_fault w1 = (\<lambda>_. None)" "stmt_fault (w_db w1) = (\<lambda>_. None)" "w_db w1 = w_db w"
        "fileAt w1 = (fileAt w)(rulePath m n \<mapsto> f)"
        using nf by (auto simp: w1_def)
      from recordRule_run[OF w1(1,2) rr] show ?thesis
      proof
        assume r: "res = Inr rec \<and> recorded rec (rulePath m n) w1 w'"
        have "y_RuleName rec = n" "y_Content rec = c" by (simp_all add: rec_def)
        with rulesAgree_recorded[OF agree, of rec w1 f "rulePath m n" w'] name w1 r
        have "rulesAgree m w' \<and> ruleRows w n = None \<and> ruleRows w' = (ruleRows w)(n \<mapsto> bytesOf c)"
          by (simp add: f_def)
        with r \<open>y_RuleName rec = n\<close> \<open>y_Content rec = c\<close> show ?thesis by simp
      next
        assume r: "isErr res \<and> takenBack (rulePath m n) w1 w'"
        then show ?thesis using w1(3,4) None by (intro unchanged) (auto simp: takenBack_def)
      qed
    qed
  qed
qed

lemma delete_refines:
  assumes ok: "faultless w" and agree: "rulesAgree m w"
    and run: "run_state (DeleteRule m (Some reload) i) w = (res, w')"
  shows "rulesAgree m w' \<and>
    (case find (\<lambda>y. y_ID y = i) (yara_rules (w_db w)) of
       None \<Rightarrow> isErr res \<and> ruleRows w' = ruleRows w
     | Some y \<Rightarrow> ruleRows w' = (ruleRows w)(y_RuleName y := None))"
proof (cases "find (\<lambda>y. y_ID y = i) (yara_rules (w_db w))")
  case None
  then have "isErr res" "w_db w' = ticked (w_db w)" "\<And>p. fileAt w' p = fileAt w p"
    using run ok by (auto simp: DeleteRule_def run_tryRes run_onDB GetYARARule_def run_query faultless_def)
  with rulesAgree_same[OF agree, of w'] None show ?thesis by simp
next
  case (Some y)
  have nf: "w_fault w = (\<lambda>_. None)" "stmt_fault (w_db w) = (\<lambda>_. None)" using ok by (auto simp: faultless_def)
  have y: "y \<in> set (yara_rules (w_db w))" "y_ID y = i"
    using Some by (auto simp: find_Some_iff)
  define w0 where "w0 = w\<lparr>w_db := ticked (w_db w)\<rparr>"
  have "w_fault w0 = (\<lambda>_. None)" using nf by (simp add: w0_def)
  then obtain e w1 where rm: "run_state (Remove (rulePath m (y_RuleName y))) w0 = (e, w1)" "w_db w1 = w_db w0"
    "\<And>q. fileAt w1 q = (if q = rulePath m (y_RuleName y) then None else fileAt w0 q)"
    by (rule Remove_run) blast
  have "stmt_fault (w_db w1) (stmt_no (w_db w1)) = None" using rm(2) nf by (simp add: w0_def)
  from run_DeleteYARARule_ok[OF this, of i] obtain d' where
    del: "run_state (DeleteYARARule i) (w_db w1) = (Inr (), d')"
      "yara_rules d' = filter (\<lambda>y. y_ID y \<noteq> i) (yara_rules (w_db w1))" by blast
  have run2: "run_state (reloadAfterDelete (Some reload)) (w1\<lparr>w_db := d'\<rparr>) = (res, w')"
    using run Some nf rm(1) del(1)
    by (simp add: DeleteRule_def run_tryRes run_onDB GetYARARule_def run_query w0_def)
  obtain e2 w2 where re: "run_state reload (w1\<lparr>w_db := d'\<rparr>) = (e2, w2)" by fastforce
  with run2 have "w' = w2" by (auto simp: reloadAfterDelete_def)
  with reload_run[OF re] fileAt_same[OF reload_run[OF re]]
  have w': "w_db w' = d'" "\<And>p. fileAt w' p = fileAt w1 p" by (auto simp: sameStore_def)
  have rows: "yara_rules (w_db w') = filter (\<lambda>y. y_ID y \<noteq> i) (yara_rules (w_db w))"
    using w'(1) del(2) rm(2) by (simp add: w0_def)
  have ag: "distinct (map y_ID (yara_rules (w_db w)))" "distinct (map y_RuleName (yara_rules (w_db w)))"
    "ruleName (y_RuleName y)" "\<And>n. ruleName n \<Longrightarrow> ruleFiles m w n = ruleRows w n"
    using agree y by (auto simp: rulesAgree_def)
  have flt: "filter (\<lambda>z. y_ID z \<noteq> i) (yara_rules (w_db w)) = filter (\<lambda>z. y_RuleName z \<noteq> y_RuleName y) (yara_rules (w_db w))"
    using ag(1,2) y by (intro filter_cong) (auto simp: distinct_map inj_on_def)
  have fnd: "find (\<lambda>z. y_RuleName z = n) (filter (\<lambda>z. y_RuleName z \<noteq> k) ys) =
      (if n = k then None else find (\<lambda>z. y_RuleName z = n) ys)" for n k ys
    by (induction ys) auto
  have rr: "ruleRows w' = (ruleRows w)(y_RuleName y := None)"
    by (auto simp: ruleRows_def rows flt fnd fun_eq_iff)
  have "ruleFiles m w' k = ((ruleFiles m w)(y_RuleName y := None)) k" if "ruleName k" for k
    using rulePath_inj[OF that ag(3), of m] by (auto simp: ruleFiles_def w'(2) rm(3) w0_def)
  then have "ruleFiles m w' k = ruleRows w' k" if "ruleName k" for k
    using that ag(4)[OF that] by (simp add: rr)
  then have "rulesAgree m w'"
    using agree by (auto simp: rulesAgree_def rows distinct_map_filter)
  with rr Some show ?thesis by simp
qed

end

subsection \<open>A rule file cut short\<close>

text \<open>
  A failed write is not taken back. When writing the rule file fails half-way, \<open>AddRule\<close>
  returns the error and records nothing, but leaves what was written: a truncated rule in the
  directory the daemon loads, and the name cannot be used again, since every later
  \<open>AddRule\<close> finds a file there.
\<close>

theorem yara_partial_write_blocks_name:
  assumes "ValidateRule n c = Inr ()" and "fileAt w (rulePath m n) = None"
    and "\<forall>k. w_fault w k = (if k = w_step w + 2 then Some e else None)" and "w_short w (w_step w + 2) = Some b"
    and "run_state (AddRule m rl n ds c a) w = (res, w')"
  shows "isErr res \<and> w_db w' = w_db w \<and>
    map_option fdata (fileAt w' (rulePath m n)) = Some (take b (bytesOf c)) \<and>
    (case run_state (AddRule m rl n ds2 c2 a2) w' of (res2, w2) \<Rightarrow>
       isErr res2 \<and> w_files w2 = w_files w' \<and> w_db w2 = w_db w)"
proof -
  define f where "f = \<lparr> fdata = take b (bytesOf c), fmode = mode0644, fmtime = w_clock w (w_step w + 2) \<rparr>"
  have flt: "w_fault w (w_step w) = None" "w_fault w (Suc (w_step w)) = None" "w_fault w (Suc (Suc (w_step w))) = Some e"
    "w_fault w (Suc (Suc (Suc (w_step w)))) = None" "w_fault w (Suc (Suc (Suc (Suc (w_step w))))) = None"
    using assms(3) by simp_all
  have "isErr res \<and> w' = putFile (rulePath m n) f (w\<lparr>w_step := Suc (Suc (Suc (w_step w)))\<rparr>)"
    using assms(1,2,4,5) flt by (simp add: AddRule_def run_simps Let_def WriteFile_def f_def) auto
  then have w': "isErr res" "w_db w' = w_db w" "fileAt w' (rulePath m n) = Some f"
    "w_fault w' (w_step w') = None" "w_fault w' (Suc (w_step w')) = None"
    using flt by auto
  obtain res2 w2 where run2: "run_state (AddRule m rl n ds2 c2 a2) w' = (res2, w2)" by fastforce
  have "isErr res2 \<and> w_files w2 = w_files w' \<and> w_db w2 = w_db w"
  proof (cases "ValidateRule n c2")
    case (Inl err)
    then show ?thesis using run2 w'(2) by (auto simp: AddRule_def)
  next
    case (Inr u)
    have "\<exists>e. run_state (AddRule m rl n ds2 c2 a2) w' = (Inl e, w'\<lparr>w_step := Suc (Suc (w_step w'))\<rparr>)"
      using Inr w'(3-5) by (simp add: AddRule_def run_simps Let_def)
    with run2 w'(2) show ?thesis by auto
  qed
  with w'(1-3) run2 show ?thesis by (simp add: f_def)
qed

definition sampleRule :: string where "sampleRule = ''rule ab { condition: true }''"

lemma sampleRule_valid: "ValidateRule ''ab'' sampleRule = Inr ()"
  by code_simp

definition sampleManager :: Manager where
  "sampleManager = NewManager ''/rules'' (\<lambda>k. ''id-'' @ itoa (int k))"

definition shortWorld :: world where
  "shortWorld = \<lparr> w_db = emptyDB (\<lambda>_. None), w_files = [], w_step = 0, w_clock = int,
     w_fault = (\<lambda>k. if k = 2 then Some (errorsNew ''no space left on device'') else None),
     w_short = (\<lambda>_. Some 7), w_random = (\<lambda>_ _. 0) \<rparr>"

theorem yara_partial_write_blocks_name_witness:
  "isErr (fst (run_state (AddRule sampleManager None ''ab'' '''' sampleRule '''') shortWorld)) \<and>
   map_option fdata (fileAt (snd (run_state (AddRule sampleManager None ''ab'' '''' sampleRule '''') shortWorld))
     (rulePath sampleManager ''ab'')) = Some (bytesOf ''rule ab'')"
proof -
  obtain res w' where run: "run_state (AddRule sampleManager None ''ab'' '''' sampleRule '''') shortWorld = (res, w')"
    by fastforce
  have "fileAt shortWorld (rulePath sampleManager ''ab'') = None" by (simp add: shortWorld_def fileAt_def)
  moreover have "\<forall>k. w_fault shortWorld k = (if k = w_step shortWorld + 2 then Some (errorsNew ''no space left on device'') else None)"
    "w_short shortWorld (w_step shortWorld + 2) = Some 7"
    by (simp_all add: shortWorld_def)
  moreover have "take 7 (bytesOf sampleRule) = bytesOf ''rule ab''" by (simp add: bytesOf_def sampleRule_def)
  ultimately show ?thesis
    using yara_partial_write_blocks_name[OF sampleRule_valid _ _ _ run] run by simp
qed

end
