(* ===== verification/Service.thy ===== *)
theory Service
  imports YaraManager Vault Clamd Fetcher Alert
begin

text \<open>
  The process: the files, tables, clock and randomness of \<open>World\<close>, the connections to the
  daemon, the outside network and the notifier. The operations here connect the components
  to that state the way the wiring of \<open>cmd/server/main.go\<close> does; the contracts the clients
  rely on (\<open>reloader\<close>, \<open>scanner\<close>) are interpreted on the daemon client.
\<close>

record service = world +
  sv_clamd :: "nat \<Rightarrow> clamdConn"
  sv_wire :: "bytes list"
  sv_env :: netEnv
  sv_net :: netState
  sv_notifier :: "Notifier option"
  sv_posts :: "outPost list"

subsection \<open>The daemon\<close>

text \<open>The connection a command opens, and what it put on the wire.\<close>

definition overClamd :: "(clamdConn \<Rightarrow> 'r \<times> bytes) \<Rightarrow> ('a service_scheme, 'r) state" where
  "overClamd cmd = do {
     k \<leftarrow> nextStep;
     cn \<leftarrow> asks (\<lambda>s. sv_clamd s k);
     modifies (\<lambda>s. s\<lparr>sv_wire := sv_wire s @ [snd (cmd cn)]\<rparr>);
     ret (fst (cmd cn)) }"

definition clamdReload :: "('a service_scheme, goerr option) state" where
  "clamdReload = overClamd Reload"

text \<open>Callers test the error first and use the result only without one.\<close>

definition scanOutcome :: "ScanResult option \<times> goerr option \<Rightarrow> ScanResult res" where
  "scanOutcome x = (case x of
       (_, Some err) \<Rightarrow> Inl err
     | (Some r, None) \<Rightarrow> Inr r
     | (None, None) \<Rightarrow> Inl (Err ''invalid memory address or nil pointer dereference'' [GoPanic]))"

definition clamdScan :: "reader \<Rightarrow> ('a service_scheme, ScanResult res) state" where
  "clamdScan r = overClamd (\<lambda>cn. case ScanStream cn r of (x, sent) \<Rightarrow> (scanOutcome x, sent))"

text \<open>
  The same through a \<open>TeeReader\<close>: also the bytes the scan has read. A scan that succeeds has
  read its reader to the end.
\<close>

definition clamdScanTee :: "reader \<Rightarrow> ('a service_scheme, ScanResult res \<times> bytes) state" where
  "clamdScanTee r = do { x \<leftarrow> clamdScan r; ret (x, rdata r) }"

lemma ScanStream_never_empty: "fst (ScanStream cn r) \<noteq> (None, None)"
  by (auto simp: ScanStream_def split: option.split prod.split)

subsection \<open>Network and alerts\<close>

definition onNet :: "(netState, 'r) state \<Rightarrow> ('a service_scheme, 'r) state" where
  "onNet m = zoom sv_net (\<lambda>n s. s\<lparr>sv_net := n\<rparr>) m"

definition dispatchThreat :: "ThreatAlert \<Rightarrow> ('a service_scheme, unit) state" where
  "dispatchThreat a = do {
     nt \<leftarrow> asks sv_notifier;
     (case nt of
        None \<Rightarrow> ret ()
      | Some n \<Rightarrow> do {
          now \<leftarrow> timeNow;
          modifies (\<lambda>s. s\<lparr>sv_notifier := Some (snd (DispatchThreat now a n)),
            sv_posts := sv_posts s @ fst (DispatchThreat now a n)\<rparr>) }) }"

text \<open>\<open>time.Since(start).Milliseconds()\<close>, which truncates towards zero.\<close>

definition msSince :: "int \<Rightarrow> int \<Rightarrow> int" where
  "msSince start now =
     (if now < start then - ((start - now) div 1000000) else (now - start) div 1000000)"

subsection \<open>What these operations leave alone\<close>

definition quiet :: "'a service_scheme \<Rightarrow> 'a service_scheme \<Rightarrow> bool" where
  "quiet s s' \<longleftrightarrow> sameStore s s' \<and> sv_clamd s' = sv_clamd s \<and> sv_env s' = sv_env s \<and> service.more s' = service.more s"

interpretation quiet: state_order quiet
  by unfold_locales (auto simp: quiet_def sameStore_def)

lemma quiet_sameStore: "state_io_rel quiet m \<Longrightarrow> state_io_rel sameStore m"
  by (simp add: state_io_rel_def quiet_def)

lemma quiet_env: "state_io_rel quiet nextStep" "state_io_rel quiet timeNow" "state_io_rel quiet (randRead n)"
    "state_io_rel quiet (MkdirAll d perm)" "state_io_rel quiet (Stat p)" "state_io_rel quiet (ReadFile p)"
    "state_io_rel quiet (OpenRead p)"
  by (auto simp: state_io_rel_def run_simps quiet_def sameStore_def)

lemma quiet_overClamd: "state_io_rel quiet (overClamd cmd)"
  unfolding overClamd_def
  by (intro quiet.rel_intros quiet.rel_modifies quiet_env) (simp add: quiet_def sameStore_def)

lemma quiet_onNet: "state_io_rel quiet (onNet m)"
  by (auto simp: state_io_rel_def onNet_def run_zoom quiet_def sameStore_def split: prod.split)

lemma quiet_dispatchThreat: "state_io_rel quiet (dispatchThreat a)"
  unfolding dispatchThreat_def
  by (intro quiet.rel_intros quiet.rel_modifies quiet_env) (simp add: quiet_def sameStore_def)

interpretation daemon: reloader clamdReload
  by unfold_locales (simp add: clamdReload_def quiet_sameStore[OF quiet_overClamd])

text \<open>The interface of the asynchronous queue and of the handlers to the scanner.\<close>

locale scanner =
  fixes scan :: "reader \<Rightarrow> ('a service_scheme, ScanResult res \<times> bytes) state"
  assumes scan_quiet: "state_io_rel quiet (scan r)"
    and scan_reads: "run_state (scan r) s = ((Inr x, bs), s') \<Longrightarrow> bs = rdata r"

lemma quiet_clamdScan: "state_io_rel quiet (clamdScan r)"
  unfolding clamdScan_def by (rule quiet_overClamd)

interpretation clamd: scanner clamdScanTee
  by unfold_locales
    (auto simp: clamdScanTee_def intro!: quiet.rel_intros quiet_clamdScan split: prod.splits)

subsection \<open>YARA rules over the daemon client\<close>

text \<open>
  C8. Adding a rule is one update of one map. With working files and tables and the daemon
  client as the reloader, \<open>AddRule\<close> keeps the rule files and the table in agreement: when it
  succeeds both have gained the new rule, whose name was free, and when it fails, the daemon's
  refusal of the reload included, both are as before.
\<close>

theorem yara_add_refines:
  assumes "faultless w" and "rulesAgree m w"
    and "run_state (AddRule m (Some clamdReload) n ds c a) w = (res, w')"
  shows "rulesAgree m w' \<and>
    (case res of Inl _ \<Rightarrow> ruleRows w' = ruleRows w
     | Inr y \<Rightarrow> y_RuleName y = n \<and> y_Content y = c \<and> ruleRows w n = None \<and> ruleRows w' = (ruleRows w)(n \<mapsto> bytesOf c))"
  by (rule daemon.add_refines[OF assms])

text \<open>
  C21. Deleting a rule, likewise: an unknown id changes nothing and is an error, a known one
  is gone from the files and from the table, and both still agree. This holds also when the
  reload then fails and an error is returned, so the error does not mean that the rule is
  still there.
\<close>

theorem yara_delete_refines:
  assumes "faultless w" and "rulesAgree m w"
    and "run_state (DeleteRule m (Some clamdReload) i) w = (res, w')"
  shows "rulesAgree m w' \<and>
    (case find (\<lambda>y. y_ID y = i) (yara_rules (w_db w)) of
       None \<Rightarrow> isErr res \<and> ruleRows w' = ruleRows w
     | Some y \<Rightarrow> ruleRows w' = (ruleRows w)(y_RuleName y := None))"
  by (rule daemon.delete_refines[OF assms])

definition sampleEnv :: netEnv where
  "sampleEnv = \<lparr> urlParse = (\<lambda>s. Inr \<lparr> Scheme = ''http'', Host = s, Hostname = s, urlString = s, urlPath = '''' \<rparr>),
     urlResolve = (\<lambda>u s. Inr u), lookupIP = (\<lambda>k h. Inr [[93, 184, 216, 34]]), parseIP = (\<lambda>s. []),
     ipString = (\<lambda>i. ''''), canonicalAddr = (\<lambda>u. Host u), splitHostPort = (\<lambda>s. Inr (s, ''80'')),
     proxyFor = (\<lambda>u. Inr None), connect = (\<lambda>k i p. None),
     serve = (\<lambda>k i rq. Inr \<lparr> StatusCode = 200, Location = '''', ContentLength = 0, ContentType = '''',
        respBody = [], respRequest = rq \<rparr>) \<rparr>"

definition sampleService :: "string \<Rightarrow> service" where
  "sampleService answer =
     \<lparr> w_db = emptyDB (\<lambda>_. None), w_files = [], w_step = 0, w_clock = int, w_fault = (\<lambda>_. None),
       w_short = (\<lambda>_. None), w_random = (\<lambda>k i. of_nat (17 * k + i)),
       sv_clamd = (\<lambda>_. healthyConn answer), sv_wire = [], sv_env = sampleEnv,
       sv_net = \<lparr> ns_tick = 0, ns_dials = [] \<rparr>, sv_notifier = None, sv_posts = [] \<rparr>"

lemma faultless_sampleService: "faultless (sampleService answer)"
  by (simp add: faultless_def sampleService_def emptyDB_def)

lemma rulesAgree_sampleService: "rulesAgree m (sampleService answer)"
  by (simp add: rulesAgree_def ruleFiles_def ruleRows_def sampleService_def emptyDB_def fileAt_def)

theorem yara_add_refines_witness:
  "\<exists>y w'. run_state (AddRule sampleManager (Some clamdReload) ''ab'' '''' sampleRule ''me'') (sampleService ''RELOADING'') = (Inr y, w') \<and>
     rulesAgree sampleManager w' \<and> ruleRows w' ''ab'' = Some (bytesOf sampleRule)"
proof -
  obtain res w' where run: "run_state (AddRule sampleManager (Some clamdReload) ''ab'' '''' sampleRule ''me'')
      (sampleService ''RELOADING'') = (res, w')" by fastforce
  have "\<not> isErr (fst (run_state (AddRule sampleManager (Some clamdReload) ''ab'' '''' sampleRule ''me'') (sampleService ''RELOADING'')))"
    by code_simp
  with run obtain y where "res = Inr y" by (auto simp: not_isErr_iff)
  with yara_add_refines[OF faultless_sampleService rulesAgree_sampleService run] run show ?thesis by auto
qed

definition storedSample :: YARARule where
  "storedSample = \<lparr> y_ID = ''id-1'', y_RuleName = ''ab'', y_Description = '''', y_Content = sampleRule, y_Author = ''me'',
     y_IsActive = True, y_CreatedAt = 0, y_UpdatedAt = 0 \<rparr>"

definition ruledService :: "string \<Rightarrow> service" where
  "ruledService answer = (sampleService answer)\<lparr>w_db := (emptyDB (\<lambda>_. None))\<lparr>yara_rules := [storedSample]\<rparr>,
     w_files := [(rulePath sampleManager ''ab'', \<lparr> fdata = bytesOf sampleRule, fmode = 420, fmtime = 0 \<rparr>)]\<rparr>"

lemma ruledService_facts: "faultless (ruledService answer)" "rulesAgree sampleManager (ruledService answer)"
    "yara_rules (w_db (ruledService answer)) = [storedSample]"
proof -
  have name: "ruleName ''ab''" by (simp add: ruleName_def)
  show "faultless (ruledService answer)" by (simp add: faultless_def ruledService_def sampleService_def emptyDB_def)
  show rows: "yara_rules (w_db (ruledService answer)) = [storedSample]" by (simp add: ruledService_def)
  have "ruleFiles sampleManager (ruledService answer) n = ruleRows (ruledService answer) n" if "ruleName n" for n
    using rulePath_inj[OF that name, of sampleManager] rows
    by (auto simp: ruleFiles_def ruleRows_def fileAt_def ruledService_def storedSample_def)
  with rows name show "rulesAgree sampleManager (ruledService answer)" by (simp add: rulesAgree_def storedSample_def)
qed

theorem yara_delete_refines_witness:
  "\<exists>w'. run_state (DeleteRule sampleManager (Some clamdReload) ''id-1'') (ruledService ''RELOADING'') = (Inr (), w') \<and>
     ruleRows (ruledService ''RELOADING'') ''ab'' \<noteq> None \<and> ruleRows w' ''ab'' = None \<and> rulesAgree sampleManager w'"
proof -
  let ?s = "ruledService ''RELOADING''"
  obtain res w' where run: "run_state (DeleteRule sampleManager (Some clamdReload) ''id-1'') ?s = (res, w')" by fastforce
  have "\<not> isErr (fst (run_state (DeleteRule sampleManager (Some clamdReload) ''id-1'') ?s))" by code_simp
  with run have "res = Inr ()" by (auto simp: not_isErr_iff)
  moreover have "ruleRows ?s ''ab'' \<noteq> None" by (simp add: ruleRows_def ruledService_facts(3) storedSample_def)
  moreover have "find (\<lambda>y. y_ID y = ''id-1'') (yara_rules (w_db ?s)) = Some storedSample" "y_RuleName storedSample = ''ab''"
    by (simp_all add: ruledService_facts(3) storedSample_def)
  ultimately show ?thesis
    using yara_delete_refines[OF ruledService_facts(1,2) run] run by simp
qed

end
