(* ===== verification/AsyncScan.thy ===== *)
theory AsyncScan
  imports Service
begin

text \<open>
  The asynchronous queue, \<open>internal/asyncscan/queue.go\<close>: submitted payloads are spooled to
  files, recorded as jobs and passed over a bounded channel to worker goroutines, which scan
  them, record the verdict and post it to the caller's URL.

  The state adds the channel, whether it is closed, and the jobs the workers have in hand.
  The scanner is the interface \<open>clamdScanner\<close> of the code (locale \<open>scanner\<close>). A whole
  \<open>SubmitJob\<close> and a whole \<open>processJob\<close> is one step of the system; taking a job from the
  channel is a step of its own, and steps of different workers and callers interleave freely.
\<close>

record Config =
  SpoolDir :: string
  Workers :: int
  QueueCapacity :: int
  q_QuarRetention :: int

record Queue =
  q_cfg :: Config
  q_vault :: "Vault option"
  q_fetcher :: SafeFetcherConfig

record queueState = service +
  q_chan :: "ScanJob list"
  q_closed :: bool
  q_busy :: "ScanJob list"

definition NewQueue :: "Config \<Rightarrow> Vault option \<Rightarrow> SafeFetcherConfig option \<Rightarrow> Queue" where
  "NewQueue c0 vault f =
     (let c1 = (if SpoolDir c0 = '''' then c0\<lparr>SpoolDir := ''/data/spool''\<rparr> else c0);
          c2 = (if Workers c1 \<le> 0 then c1\<lparr>Workers := 2\<rparr> else c1);
          c3 = (if QueueCapacity c2 \<le> 0 then c2\<lparr>QueueCapacity := 100\<rparr> else c2);
          c4 = (if q_QuarRetention c3 \<le> 0 then c3\<lparr>q_QuarRetention := 7\<rparr> else c3)
      in \<lparr> q_cfg = c4, q_vault = vault,
           q_fetcher = (case f of Some sf \<Rightarrow> sf
             | None \<Rightarrow> NewSafeFetcher \<lparr> f_Timeout = 10 * secondNs, f_MaxRedirects = 0, f_MaxBytes = 0,
                 f_AllowLoopbackForTesting = False \<rparr>) \<rparr>)"

definition spoolPath :: "Queue \<Rightarrow> string \<Rightarrow> string" where
  "spoolPath q jobID = filepathJoin (SpoolDir (q_cfg q)) (jobID @ ''.spool'')"

subsection \<open>Submitting\<close>

text \<open>\<open>NewQueue\<close> always sets a fetcher, so the first branch of the code is never taken.\<close>

definition validateWebhookURL :: "Queue \<Rightarrow> string \<Rightarrow> ('a service_scheme, goerr option) state" where
  "validateWebhookURL q rawURL = do {
     env \<leftarrow> asks sv_env;
     onNet (ValidateTargetIP (q_fetcher q) env rawURL) }"

text \<open>\<open>io.Copy\<close> into the spool file that was just created: how many bytes, or why it stopped.\<close>

definition copyToSpool :: "string \<Rightarrow> reader \<Rightarrow> ('a world_scheme, int res) state" where
  "copyToSpool path r = do {
     we \<leftarrow> WriteFile path (rdata r) mode0600;
     ret (case we of
            Some err \<Rightarrow> Inl err
          | None \<Rightarrow> if errorsIs (rerr r) IoEOF then Inr (int (length (rdata r))) else Inl (rerr r)) }"

text \<open>The non-blocking send. Sending on a closed channel panics, in a \<open>select\<close> as well.\<close>

definition enqueue :: "Queue \<Rightarrow> ScanJob \<Rightarrow> ('a queueState_scheme, ScanJob res) state" where
  "enqueue q job = do {
     closed \<leftarrow> asks q_closed;
     ch \<leftarrow> asks q_chan;
     if closed then ret (Inl (Err ''send on closed channel'' [GoPanic]))
     else if int (length ch) < QueueCapacity (q_cfg q) then do {
       modifies (\<lambda>s. s\<lparr>q_chan := q_chan s @ [job]\<rparr>);
       ret (Inr job) }
     else ret (Inr job) }"

definition newJobID :: "int \<Rightarrow> string" where
  "newJobID t = ''job_'' @ itoa t"

definition newJob :: "string \<Rightarrow> string \<Rightarrow> int \<Rightarrow> int \<Rightarrow> string \<Rightarrow> string \<Rightarrow> int \<Rightarrow> ScanJob" where
  "newJob jobID fileName fileSize written callbackURL consumer now =
     \<lparr> j_ID = jobID, j_FileName = fileName, j_FileSize = (if fileSize \<le> 0 then written else fileSize),
       j_FileSHA256 = '''', j_CallbackURL = callbackURL, j_Consumer = consumer, j_Status = ''QUEUED'',
       j_Verdict = '''', j_VirusName = '''', j_ErrorMsg = '''', j_CreatedAt = now, j_UpdatedAt = now \<rparr>"

text \<open>The spool file is complete: record the job and enqueue it.\<close>

definition recordJob ::
  "Queue \<Rightarrow> string \<Rightarrow> string \<Rightarrow> int \<Rightarrow> int \<Rightarrow> string \<Rightarrow> string \<Rightarrow> ('a queueState_scheme, ScanJob res) state" where
  "recordJob q jobID fileName fileSize written callbackURL consumer = do {
     now \<leftarrow> timeNow;
     let job = newJob jobID fileName fileSize written callbackURL consumer now;
     r \<leftarrow> onDB (InsertScanJob job);
     case r of
       Inl err \<Rightarrow> do {
         _ \<leftarrow> Remove (spoolPath q jobID);
         ret (Inl (wrapErr ''failed to record scan job in database: '' err)) }
     | Inr _ \<Rightarrow> enqueue q job }"

definition spoolJob ::
  "Queue \<Rightarrow> string \<Rightarrow> reader \<Rightarrow> int \<Rightarrow> string \<Rightarrow> string \<Rightarrow> ('a queueState_scheme, ScanJob res) state" where
  "spoolJob q fileName fileStream fileSize callbackURL consumer = do {
     t \<leftarrow> timeNow;
     let jobID = newJobID t;
     oe \<leftarrow> WriteFile (spoolPath q jobID) [] mode0600;
     case oe of
       Some err \<Rightarrow> ret (Inl (wrapErr ''failed to create spool file: '' err))
     | None \<Rightarrow> do {
         c \<leftarrow> copyToSpool (spoolPath q jobID) fileStream;
         case c of
           Inl err \<Rightarrow> do {
             _ \<leftarrow> Remove (spoolPath q jobID);
             ret (Inl (wrapErr ''failed writing to spool file: '' err)) }
         | Inr written \<Rightarrow> recordJob q jobID fileName fileSize written callbackURL consumer } }"

definition SubmitJob ::
  "Queue \<Rightarrow> string \<Rightarrow> reader \<Rightarrow> int \<Rightarrow> string \<Rightarrow> string \<Rightarrow> ('a queueState_scheme, ScanJob res) state" where
  "SubmitJob q fileName fileStream fileSize callback consumer =
     (let callbackURL = TrimSpace callback in
      if callbackURL = '''' then ret (Inl (errorsNew ''callback_url is required''))
      else do {
        env \<leftarrow> asks sv_env;
        case ValidateURL env callbackURL of
          Some err \<Rightarrow> ret (Inl (wrapErr ''invalid callback_url: '' err))
        | None \<Rightarrow> do {
            v \<leftarrow> validateWebhookURL q callbackURL;
            case v of
              Some err \<Rightarrow> ret (Inl err)
            | None \<Rightarrow> do {
                mk \<leftarrow> MkdirAll (SpoolDir (q_cfg q)) mode0700;
                case mk of
                  Some err \<Rightarrow> ret (Inl (wrapErr ''failed to create spool directory: '' err))
                | None \<Rightarrow> spoolJob q fileName fileStream fileSize callbackURL consumer } } })"

subsection \<open>The webhook\<close>

record ThreatInfo =
  th_VirusName :: string
  th_ActionTaken :: string
  th_QuarantineID :: string

record WebhookData =
  wd_FileName :: string
  wd_FileSize :: int
  wd_FileSHA256 :: string
  wd_ScanDurationMs :: int
  wd_CompletedAt :: string

record WebhookPayload =
  wh_Event :: string
  wh_JobID :: string
  wh_Status :: string
  wh_Verdict :: string
  wh_Threat :: "ThreatInfo option"
  wh_Data :: WebhookData

definition threatJson :: "ThreatInfo \<Rightarrow> json" where
  "threatJson t = JObj ([(''virus_name'', JStr (th_VirusName t)), (''action_taken'', JStr (th_ActionTaken t))] @
     (if th_QuarantineID t = '''' then [] else [(''quarantine_id'', JStr (th_QuarantineID t))]))"

definition payloadJson :: "WebhookPayload \<Rightarrow> json" where
  "payloadJson p = JObj
     ([(''event'', JStr (wh_Event p)), (''job_id'', JStr (wh_JobID p)), (''status'', JStr (wh_Status p)),
       (''verdict'', JStr (wh_Verdict p))] @
      (case wh_Threat p of None \<Rightarrow> [] | Some t \<Rightarrow> [(''threat'', threatJson t)]) @
      [(''data'', JObj
        [(''file_name'', JStr (wd_FileName (wh_Data p))), (''file_size'', JNum (wd_FileSize (wh_Data p))),
         (''file_sha256'', JStr (wd_FileSHA256 (wh_Data p))),
         (''scan_duration_ms'', JNum (wd_ScanDurationMs (wh_Data p))),
         (''completed_at'', JStr (wd_CompletedAt (wh_Data p)))])])"

text \<open>Up to \<open>n\<close> attempts; the result is whether one was answered with a 2xx status.\<close>

fun webhookLoop :: "Queue \<Rightarrow> string \<Rightarrow> bytes \<Rightarrow> nat \<Rightarrow> ('a service_scheme, bool) state" where
  "webhookLoop q url body 0 = ret False"
| "webhookLoop q url body (Suc n) = do {
     env \<leftarrow> asks sv_env;
     case urlParse env url of
       Inl _ \<Rightarrow> ret False
     | Inr u \<Rightarrow> do {
         r \<leftarrow> onNet (ClientDo (q_fetcher q) env \<lparr> rq_method = ''POST'', rq_url = u, rq_body = body \<rparr>);
         case r of
           Inr resp \<Rightarrow>
             if 200 \<le> StatusCode resp \<and> StatusCode resp < 300 then ret True else webhookLoop q url body n
         | Inl err \<Rightarrow>
             if errorsIs err ErrSSRFBlocked then ret False else webhookLoop q url body n } }"

definition dispatchWebhook :: "Queue \<Rightarrow> ScanJob \<Rightarrow> WebhookPayload \<Rightarrow> ('a service_scheme, unit) state" where
  "dispatchWebhook q job payload =
     (if j_CallbackURL job = '''' then ret ()
      else do {
        _ \<leftarrow> webhookLoop q (j_CallbackURL job) (bytesOf (jsonText (payloadJson payload))) 3;
        ret () })"

subsection \<open>Processing\<close>

definition setJob ::
  "string \<Rightarrow> string \<Rightarrow> string \<Rightarrow> string \<Rightarrow> string \<Rightarrow> string \<Rightarrow> ('a world_scheme, unit) state" where
  "setJob i status verdict virusName errorMsg sha = do {
     now \<leftarrow> timeNow;
     _ \<leftarrow> onDB (UpdateScanJobStatus now i status verdict virusName errorMsg sha);
     ret () }"

text \<open>The audit entry: its id and its time are two readings of the clock.\<close>

definition auditJob ::
  "ScanJob \<Rightarrow> string \<Rightarrow> string \<Rightarrow> string \<Rightarrow> int \<Rightarrow> string \<Rightarrow> ('a world_scheme, unit) state" where
  "auditJob job sha verdict virusName ms quarID = do {
     t1 \<leftarrow> timeNow;
     t2 \<leftarrow> timeNow;
     _ \<leftarrow> onDB (InsertScanAuditLog
       \<lparr> al_ID = ''audit_'' @ itoa t1, al_Timestamp = t2, al_ConsumerName = j_Consumer job, al_ClientIP = '''',
         al_FileName = j_FileName job, al_FileSizeBytes = j_FileSize job, al_FileSHA256 = sha,
         al_Verdict = verdict, al_VirusName = virusName, al_ScanDurationMs = ms, al_QuarantineID = quarID \<rparr>);
     ret () }"

definition completedHook ::
  "Queue \<Rightarrow> ScanJob \<Rightarrow> string \<Rightarrow> ThreatInfo option \<Rightarrow> string \<Rightarrow> int \<Rightarrow> ('a service_scheme, unit) state" where
  "completedHook q job verdict threat sha ms = do {
     t \<leftarrow> timeNow;
     dispatchWebhook q job
       \<lparr> wh_Event = ''scan.completed'', wh_JobID = j_ID job, wh_Status = ''COMPLETED'', wh_Verdict = verdict,
         wh_Threat = threat,
         wh_Data = \<lparr> wd_FileName = j_FileName job, wd_FileSize = j_FileSize job, wd_FileSHA256 = sha,
           wd_ScanDurationMs = ms, wd_CompletedAt = formatRFC3339 t \<rparr> \<rparr> }"

definition finishClean :: "Queue \<Rightarrow> ScanJob \<Rightarrow> string \<Rightarrow> int \<Rightarrow> ('a service_scheme, unit) state" where
  "finishClean q job sha ms = do {
     _ \<leftarrow> Remove (spoolPath q (j_ID job));
     setJob (j_ID job) ''COMPLETED'' ''CLEAN'' '''' '''' sha;
     auditJob job sha ''CLEAN'' '''' ms '''';
     completedHook q job ''CLEAN'' None sha ms }"

text \<open>The vault, when there is one, reads the spool file again from its start.\<close>

definition quarantineJob :: "Queue \<Rightarrow> ScanJob \<Rightarrow> string \<Rightarrow> reader \<Rightarrow> ('a world_scheme, string) state" where
  "quarantineJob q job virusName r =
     (case q_vault q of
        None \<Rightarrow> ret ''''
      | Some v \<Rightarrow> do {
          qr \<leftarrow> QuarantineFile v (j_FileName job) (j_Consumer job) virusName r (q_QuarRetention (q_cfg q));
          ret (case qr of Inl _ \<Rightarrow> '''' | Inr rec \<Rightarrow> q_ID rec) })"

definition finishInfected ::
  "Queue \<Rightarrow> ScanJob \<Rightarrow> string \<Rightarrow> reader \<Rightarrow> string \<Rightarrow> int \<Rightarrow> ('a service_scheme, unit) state" where
  "finishInfected q job virusName r sha ms = do {
     quarID \<leftarrow> quarantineJob q job virusName r;
     _ \<leftarrow> Remove (spoolPath q (j_ID job));
     setJob (j_ID job) ''COMPLETED'' ''INFECTED'' virusName '''' sha;
     auditJob job sha ''INFECTED'' virusName ms quarID;
     nt \<leftarrow> asks sv_notifier;
     (if nt = None then ret () else do {
        t \<leftarrow> timeNow;
        dispatchThreat \<lparr> ta_VirusName = virusName, ta_FileName = j_FileName job, ta_FileSizeBytes = j_FileSize job,
          ta_FileSHA256 = sha, ta_QuarantineID = quarID, ta_SourceConsumer = j_Consumer job, ta_DetectedAt = t \<rparr> });
     completedHook q job ''INFECTED''
       (Some \<lparr> th_VirusName = virusName, th_ActionTaken = ''QUARANTINED'', th_QuarantineID = quarID \<rparr>) sha ms }"

text \<open>The job's spool file is open.\<close>

definition scanJob ::
  "(reader \<Rightarrow> ('a service_scheme, ScanResult res \<times> bytes) state) \<Rightarrow> Queue \<Rightarrow> ScanJob \<Rightarrow> reader \<Rightarrow>
   ('a service_scheme, unit) state" where
  "scanJob scan q job r = do {
     start \<leftarrow> timeNow;
     (x, seen) \<leftarrow> scan r;
     case x of
       Inl err \<Rightarrow> setJob (j_ID job) ''FAILED'' ''ERROR'' '''' (''Daemon scan error: '' @ err_text err) ''''
     | Inr res \<Rightarrow> do {
         now \<leftarrow> timeNow;
         let ms = msSince start now;
         let sha = hexEncodeToString (sha256 seen);
         if IsClean res then finishClean q job sha ms
         else finishInfected q job (VirusName res) r sha ms } }"

definition openFailed :: "Queue \<Rightarrow> ScanJob \<Rightarrow> goerr \<Rightarrow> ('a service_scheme, unit) state" where
  "openFailed q job err = do {
     setJob (j_ID job) ''FAILED'' ''ERROR'' '''' (''Failed to open spool file: '' @ err_text err) '''';
     dispatchWebhook q job
       \<lparr> wh_Event = ''scan.failed'', wh_JobID = j_ID job, wh_Status = ''FAILED'', wh_Verdict = ''ERROR'', wh_Threat = None,
         wh_Data = \<lparr> wd_FileName = j_FileName job, wd_FileSize = j_FileSize job, wd_FileSHA256 = '''',
           wd_ScanDurationMs = 0, wd_CompletedAt = '''' \<rparr> \<rparr> }"

definition processJob ::
  "(reader \<Rightarrow> ('a service_scheme, ScanResult res \<times> bytes) state) \<Rightarrow> Queue \<Rightarrow> ScanJob \<Rightarrow>
   ('a service_scheme, unit) state" where
  "processJob scan q job = do {
     setJob (j_ID job) ''PROCESSING'' '''' '''' '''' '''';
     f \<leftarrow> OpenRead (spoolPath q (j_ID job));
     (case f of
        Inl err \<Rightarrow> openFailed q job err
      | Inr r \<Rightarrow> scanJob scan q job r);
     _ \<leftarrow> Remove (spoolPath q (j_ID job));
     ret () }"

subsection \<open>Workers\<close>

text \<open>A worker receives from the channel, in order, and processes what it received.\<close>

definition receive :: "('a queueState_scheme, ScanJob option) state" where
  "receive = do {
     ch \<leftarrow> asks q_chan;
     (case ch of
        [] \<Rightarrow> ret None
      | job # rest \<Rightarrow> do {
          modifies (\<lambda>s. s\<lparr>q_chan := rest\<rparr>);
          ret (Some job) }) }"

text \<open>The worker's loop over a channel that is closed, for at most \<open>n\<close> jobs.\<close>

fun worker ::
  "(reader \<Rightarrow> (('a queueState_ext) service_scheme, ScanResult res \<times> bytes) state) \<Rightarrow> Queue \<Rightarrow> nat \<Rightarrow>
   ('a queueState_scheme, unit) state" where
  "worker scan q 0 = ret ()"
| "worker scan q (Suc n) = do {
     x \<leftarrow> receive;
     (case x of
        None \<Rightarrow> ret ()
      | Some job \<Rightarrow> do { processJob scan q job; worker scan q n }) }"

text \<open>\<open>Start\<close> makes the spool directory and starts the workers; \<open>Stop\<close> closes the channel.\<close>

definition Start :: "Queue \<Rightarrow> ('a world_scheme, nat) state" where
  "Start q = do {
     _ \<leftarrow> MkdirAll (SpoolDir (q_cfg q)) mode0700;
     ret (nat (Workers (q_cfg q))) }"

definition Stop :: "('a queueState_scheme, unit res) state" where
  "Stop = do {
     closed \<leftarrow> asks q_closed;
     if closed then ret (Inl (Err ''close of closed channel'' [GoPanic]))
     else do {
       modifies (\<lambda>s. s\<lparr>q_closed := True\<rparr>);
       ret (Inr ()) } }"

subsection \<open>What leaves the jobs alone\<close>

definition sameJobs :: "'a service_scheme \<Rightarrow> 'a service_scheme \<Rightarrow> bool" where
  "sameJobs s s' \<longleftrightarrow> scan_jobs (w_db s') = scan_jobs (w_db s) \<and> stmt_fault (w_db s') = stmt_fault (w_db s) \<and>
     w_fault s' = w_fault s \<and> w_short s' = w_short s \<and> service.more s' = service.more s"

interpretation sj: state_order sameJobs
  by unfold_locales (auto simp: sameJobs_def)

lemma sameJobs_quiet: "state_io_rel quiet m \<Longrightarrow> state_io_rel sameJobs m"
  by (simp add: state_io_rel_def quiet_def sameStore_def sameJobs_def)

lemma sameJobs_files: "state_io_rel sameJobs (WriteFile p d perm)" "state_io_rel sameJobs (Remove p)"
  by (auto simp: state_io_rel_def WriteFile_def Remove_def run_simps sameJobs_def putFile_def dropFile_def Let_def
      split: option.splits)

lemma sameJobs_db:
  assumes "\<And>d r d'. run_state m d = (r, d') \<Longrightarrow> scan_jobs d' = scan_jobs d \<and> stmt_fault d' = stmt_fault d"
  shows "state_io_rel sameJobs (onDB m)"
  using assms by (auto simp: state_io_rel_def run_onDB sameJobs_def split: prod.split)

lemma sameJobs_audit: "state_io_rel sameJobs (onDB (InsertScanAuditLog l))"
  by (rule sameJobs_db) (auto simp: InsertScanAuditLog_def run_exec split: option.splits if_splits)

lemma sameJobs_record: "state_io_rel sameJobs (onDB (InsertQuarantineRecord q))"
  by (rule sameJobs_db) (auto simp: InsertQuarantineRecord_def run_exec split: option.splits if_splits)

lemmas sameJobs_intros = sj.rel_intros sameJobs_quiet[OF quiet_env(1)] sameJobs_quiet[OF quiet_env(2)]
  sameJobs_quiet[OF quiet_env(3)] sameJobs_quiet[OF quiet_env(4)] sameJobs_quiet[OF quiet_env(5)]
  sameJobs_quiet[OF quiet_env(6)] sameJobs_quiet[OF quiet_env(7)]
  sameJobs_quiet[OF quiet_onNet] sameJobs_quiet[OF quiet_dispatchThreat] sameJobs_files sameJobs_audit sameJobs_record

lemma sameJobs_QuarantineFile: "state_io_rel sameJobs (QuarantineFile v nm cs vn r days)"
  unfolding QuarantineFile_def storedPayload_def commitQuarantine_def Let_def
  by (intro sameJobs_intros)

lemma sameJobs_webhook: "state_io_rel sameJobs (webhookLoop q url body n)"
  by (induction n) (auto intro!: sameJobs_intros)

lemma sameJobs_steps:
  "state_io_rel sameJobs (dispatchWebhook q job p)"
  "state_io_rel sameJobs (auditJob job sha vd vn ms qi)"
  "state_io_rel sameJobs (completedHook q job vd th sha ms)"
  "state_io_rel sameJobs (quarantineJob q job vn r)"
  unfolding dispatchWebhook_def auditJob_def completedHook_def quarantineJob_def
  by (intro sameJobs_intros sameJobs_webhook sameJobs_QuarantineFile)+

subsection \<open>How the jobs table changes\<close>

definition jobsVia :: "(ScanJob \<Rightarrow> ScanJob) \<Rightarrow> 'a service_scheme \<Rightarrow> 'a service_scheme \<Rightarrow> bool" where
  "jobsVia f s s' \<longleftrightarrow> scan_jobs (w_db s') = map f (scan_jobs (w_db s)) \<and> stmt_fault (w_db s') = stmt_fault (w_db s) \<and>
     w_fault s' = w_fault s \<and> w_short s' = w_short s \<and> service.more s' = service.more s"

lemma jobsVia_id: "jobsVia (\<lambda>j. j) s s' \<longleftrightarrow> sameJobs s s'"
  by (simp add: jobsVia_def sameJobs_def)

lemma jobsVia_trans: "jobsVia f s t \<Longrightarrow> jobsVia g t u \<Longrightarrow> jobsVia (\<lambda>j. g (f j)) s u"
  by (simp add: jobsVia_def comp_def)

lemma jobsVia_same: "jobsVia f s t \<Longrightarrow> sameJobs t u \<Longrightarrow> jobsVia f s u"
  by (simp add: jobsVia_def sameJobs_def)

lemma same_jobsVia: "sameJobs s t \<Longrightarrow> jobsVia f t u \<Longrightarrow> jobsVia f s u"
  by (simp add: jobsVia_def sameJobs_def)

text \<open>One status update: it is applied, unless the driver refuses it.\<close>

lemma run_setJob:
  "\<exists>t s'. run_state (setJob i st vd vn em sha) s = ((), s') \<and>
     (jobsVia (setJobStatus t i st vd vn em sha) s s' \<or>
      sameJobs s s' \<and> stmt_fault (w_db s) (stmt_no (w_db s)) \<noteq> None) \<and>
     w_files s' = w_files s \<and> w_step s' = Suc (w_step s) \<and> sv_clamd s' = sv_clamd s"
  by (auto simp: setJob_def run_timeNow run_onDB UpdateScanJobStatus_def run_exec jobsVia_def sameJobs_def
      split: option.split)

definition wfStatus :: "string \<Rightarrow> string \<Rightarrow> string \<Rightarrow> string \<Rightarrow> bool" where
  "wfStatus st vd vn em \<longleftrightarrow>
     st \<in> {''QUEUED'', ''PROCESSING''} \<and> vd = '''' \<and> vn = '''' \<and> em = '''' \<or>
     st = ''COMPLETED'' \<and> em = '''' \<and> (vd = ''CLEAN'' \<and> vn = '''' \<or> vd = ''INFECTED'') \<or>
     st = ''FAILED'' \<and> vd = ''ERROR'' \<and> vn = '''' \<and> em \<noteq> ''''"

definition wfJob :: "ScanJob \<Rightarrow> bool" where
  "wfJob j \<longleftrightarrow> wfStatus (j_Status j) (j_Verdict j) (j_VirusName j) (j_ErrorMsg j)"

text \<open>Only the rows of job \<open>i\<close> change, and they stay well-formed.\<close>

definition changesOnly :: "string \<Rightarrow> 'a service_scheme \<Rightarrow> 'a service_scheme \<Rightarrow> bool" where
  "changesOnly i s s' \<longleftrightarrow> (\<exists>f. (\<forall>j. j_ID (f j) = j_ID j \<and> (j_ID j \<noteq> i \<longrightarrow> f j = j) \<and> (wfJob j \<longrightarrow> wfJob (f j))) \<and>
     jobsVia f s s')"

lemma changesOnly_via:
  "jobsVia f s s' \<Longrightarrow> (\<And>j. j_ID (f j) = j_ID j) \<Longrightarrow> (\<And>j. j_ID j \<noteq> i \<Longrightarrow> f j = j) \<Longrightarrow>
   (\<And>j. wfJob j \<Longrightarrow> wfJob (f j)) \<Longrightarrow> changesOnly i s s'"
  by (auto simp: changesOnly_def)

lemma changesOnly_trans:
  assumes "changesOnly i s t" and "changesOnly i t u" shows "changesOnly i s u"
proof -
  obtain f where f: "\<And>j. j_ID (f j) = j_ID j" "\<And>j. j_ID j \<noteq> i \<Longrightarrow> f j = j" "\<And>j. wfJob j \<Longrightarrow> wfJob (f j)"
    "jobsVia f s t" using assms(1) by (auto simp: changesOnly_def)
  obtain g where g: "\<And>j. j_ID (g j) = j_ID j" "\<And>j. j_ID j \<noteq> i \<Longrightarrow> g j = j" "\<And>j. wfJob j \<Longrightarrow> wfJob (g j)"
    "jobsVia g t u" using assms(2) by (auto simp: changesOnly_def)
  show ?thesis by (rule changesOnly_via[OF jobsVia_trans[OF f(4) g(4)]]) (simp_all add: f g)
qed

interpretation co: state_order "changesOnly i" for i
proof
  show "changesOnly i s s" for s :: "'a service_scheme"
    by (rule changesOnly_via[of "\<lambda>j. j"]) (simp_all add: jobsVia_id sj.R_refl)
qed (rule changesOnly_trans)

lemma changesOnly_same: "state_io_rel sameJobs m \<Longrightarrow> state_io_rel (changesOnly i) m"
  by (auto simp: state_io_rel_def jobsVia_id intro: changesOnly_via[of "\<lambda>j. j"])

lemma setJobStatus_wf: "wfStatus st vd vn em \<Longrightarrow> wfJob j \<Longrightarrow> wfJob (setJobStatus t i st vd vn em sha j)"
  by (simp add: wfJob_def setJobStatus_def)

lemma setJobStatus_other: "j_ID j \<noteq> i \<Longrightarrow> setJobStatus t i st vd vn em sha j = j"
  by (simp add: setJobStatus_def)

lemma changesOnly_setJob:
  assumes "wfStatus st vd vn em"
  shows "state_io_rel (changesOnly i) (setJob i st vd vn em sha)"
proof (rule state_io_relI)
  fix a and s s' :: "'a service_scheme" assume run: "run_state (setJob i st vd vn em sha) s = (a, s')"
  obtain t s2 where r: "run_state (setJob i st vd vn em sha) s = ((), s2)"
    "jobsVia (setJobStatus t i st vd vn em sha) s s2 \<or> sameJobs s s2"
    using run_setJob[of i st vd vn em sha s] by blast
  from r(2) have "changesOnly i s s2"
    using changesOnly_via[of "setJobStatus t i st vd vn em sha" s s2 i] changesOnly_via[of "\<lambda>j. j" s s2 i]
      setJobStatus_wf[OF assms] setJobStatus_other by (auto simp: jobsVia_id)
  with run r(1) show "changesOnly i s s'" by simp
qed

lemmas co_intros = co.rel_intros changesOnly_setJob changesOnly_same[OF sameJobs_quiet[OF quiet_env(2)]]
  changesOnly_same[OF sameJobs_quiet[OF quiet_env(7)]] changesOnly_same[OF sameJobs_files(2)]
  changesOnly_same[OF sameJobs_steps(1)] changesOnly_same[OF sameJobs_steps(2)]
  changesOnly_same[OF sameJobs_steps(3)] changesOnly_same[OF sameJobs_steps(4)]
  changesOnly_same[OF sameJobs_quiet[OF quiet_dispatchThreat]]

lemma wfStatus_cases:
  "wfStatus ''PROCESSING'' '''' '''' ''''" "wfStatus ''COMPLETED'' ''CLEAN'' '''' ''''"
  "wfStatus ''COMPLETED'' ''INFECTED'' vn ''''"
  by (simp_all add: wfStatus_def)

context scanner
begin

lemma changes_processJob: "state_io_rel (changesOnly (j_ID job)) (processJob scan q job)"
  unfolding processJob_def scanJob_def finishClean_def finishInfected_def openFailed_def Let_def
  by (intro co_intros changesOnly_same[OF sameJobs_quiet[OF scan_quiet]]) (simp_all add: wfStatus_def)

end

subsection \<open>What a submission does\<close>

lemma copyToSpool_same: "state_io_rel sameJobs (copyToSpool p r)"
  unfolding copyToSpool_def by (intro sameJobs_intros)

lemma validate_same: "state_io_rel sameJobs (validateWebhookURL q u)"
  unfolding validateWebhookURL_def by (intro sameJobs_intros)

lemma spoolJob_cases:
  assumes "run_state (spoolJob q nm r sz cb cs) s = (res, s')"
  shows "isErr res \<and> sameJobs s s' \<or>
    (\<exists>i written s1. sameJobs s s1 \<and> i = newJobID (w_clock s (w_step s)) \<and>
       run_state (recordJob q i nm sz written cb cs) s1 = (res, s'))"
proof -
  define i where "i = newJobID (w_clock s (w_step s))"
  define s0 where "s0 = s\<lparr>w_step := Suc (w_step s)\<rparr>"
  have s0: "sameJobs s s0" by (simp add: s0_def sameJobs_def)
  obtain oe s1 where o: "run_state (WriteFile (spoolPath q i) [] mode0600) s0 = (oe, s1)" by fastforce
  obtain c s2 where c: "run_state (copyToSpool (spoolPath q i) r) s1 = (c, s2)" by fastforce
  obtain e s3 where rm: "run_state (Remove (spoolPath q i)) s2 = (e, s3)" by fastforce
  have same: "sameJobs s s1" "sameJobs s s2" "sameJobs s s3"
    using sj.run_relE[OF sameJobs_files(1) o] sj.run_relE[OF copyToSpool_same c] sj.run_relE[OF sameJobs_files(2) rm]
      s0 sj.R_trans by blast+
  have "run_state (spoolJob q nm r sz cb cs) s =
    (case oe of Some err \<Rightarrow> (Inl (wrapErr ''failed to create spool file: '' err), s1)
     | None \<Rightarrow> (case c of Inl err \<Rightarrow> (Inl (wrapErr ''failed writing to spool file: '' err), s3)
       | Inr written \<Rightarrow> run_state (recordJob q i nm sz written cb cs) s2))"
    using o c rm by (cases oe; cases c) (simp_all add: spoolJob_def run_timeNow Let_def i_def[symmetric] s0_def[symmetric])
  with assms same show ?thesis by (auto simp: i_def split: option.splits sum.splits)
qed

lemma recordJob_cases:
  fixes s :: "'a queueState_scheme"
  assumes "run_state (recordJob q i nm sz written cb cs) s = (res, s')"
  obtains "isErr res" "sameJobs s s'"
  | job where "j_ID job = i" "j_Status job = ''QUEUED''" "wfJob job" "i \<notin> j_ID ` set (scan_jobs (w_db s))"
      "scan_jobs (w_db s') = scan_jobs (w_db s) @ [storedJob job]"
      "q_busy s' = q_busy s" "q_closed s' = q_closed s"
      "q_chan s' = (if \<not> q_closed s \<and> int (length (q_chan s)) < QueueCapacity (q_cfg q) then q_chan s @ [job] else q_chan s)"
      "if q_closed s then isErr res else res = Inr job"
proof -
  define s1 where "s1 = s\<lparr>w_step := Suc (w_step s)\<rparr>"
  define job where "job = newJob i nm sz written cb cs (w_clock s (w_step s))"
  have job: "j_ID job = i" "j_Status job = ''QUEUED''" "wfJob job"
    by (simp_all add: job_def newJob_def wfJob_def wfStatus_def)
  obtain r d where ins: "run_state (InsertScanJob job) (w_db s) = (r, d)" by fastforce
  define s2 where "s2 = s1\<lparr>w_db := d\<rparr>"
  obtain e s3 where rm: "run_state (Remove (spoolPath q i)) s2 = (e, s3)" by fastforce
  have run: "run_state (recordJob q i nm sz written cb cs) s =
      (case r of Inl err \<Rightarrow> (Inl (wrapErr ''failed to record scan job in database: '' err), s3)
       | Inr _ \<Rightarrow> run_state (enqueue q job) s2)"
    using ins rm by (cases r) (simp_all add: recordJob_def run_timeNow Let_def run_onDB job_def[symmetric] s1_def s2_def)
  show ?thesis
  proof (cases r)
    case (Inl err)
    have "scan_jobs d = scan_jobs (w_db s) \<and> stmt_fault d = stmt_fault (w_db s)"
      using ins Inl by (auto simp: InsertScanJob_def run_exec split: option.splits if_splits)
    then have "sameJobs s s2" by (simp add: sameJobs_def s2_def s1_def)
    then have "sameJobs s s3" using sj.run_relE[OF sameJobs_files(2) rm] sj.R_trans by blast
    with that(1) run assms Inl show ?thesis by simp
  next
    case (Inr u)
    then have ok: "run_state (InsertScanJob job) (w_db s) = (Inr (), d)" using ins by simp
    have "i \<notin> j_ID ` set (scan_jobs (w_db s))" "scan_jobs d = scan_jobs (w_db s) @ [storedJob job]"
      using jobs.ins_ok[OF ok] job by simp_all
    moreover have "run_state (enqueue q job) s2 = (res, s')" using run assms Inr by simp
    ultimately show ?thesis
      by (intro that(2)[of job])
        (auto simp: enqueue_def s2_def s1_def job split: if_splits)
  qed
qed

definition submitted :: "Queue \<Rightarrow> ScanJob res \<Rightarrow> 'a queueState_scheme \<Rightarrow> 'a queueState_scheme \<Rightarrow> bool" where
  "submitted q res s s' \<longleftrightarrow> isErr res \<and> sameJobs s s' \<or>
     (\<exists>job. j_Status job = ''QUEUED'' \<and> wfJob job \<and> j_ID job \<notin> j_ID ` set (scan_jobs (w_db s)) \<and>
        scan_jobs (w_db s') = scan_jobs (w_db s) @ [storedJob job] \<and>
        q_busy s' = q_busy s \<and> q_closed s' = q_closed s \<and>
        q_chan s' = (if \<not> q_closed s \<and> int (length (q_chan s)) < QueueCapacity (q_cfg q) then q_chan s @ [job] else q_chan s) \<and>
        (if q_closed s then isErr res else res = Inr job))"

lemma sameJobs_queue:
  fixes s s' :: "'a queueState_scheme"
  shows "sameJobs s s' \<Longrightarrow> q_chan s' = q_chan s \<and> q_busy s' = q_busy s \<and> q_closed s' = q_closed s \<and>
    scan_jobs (w_db s') = scan_jobs (w_db s)"
  by (cases s; cases s') (simp add: sameJobs_def)

lemma SubmitJob_submitted:
  fixes s :: "'a queueState_scheme"
  assumes "run_state (SubmitJob q nm r sz cb cs) s = (res, s')"
  shows "submitted q res s s'"
proof -
  let ?url = "TrimSpace cb"
  obtain v s1 where v: "run_state (validateWebhookURL q ?url) s = (v, s1)" by fastforce
  obtain mk s2 where mk: "run_state (MkdirAll (SpoolDir (q_cfg q)) mode0700) s1 = (mk, s2)" by fastforce
  have same: "sameJobs s s1" "sameJobs s s2"
    using sj.run_relE[OF validate_same v] sj.run_relE[OF sameJobs_quiet[OF quiet_env(4)] mk] sj.R_trans by blast+
  have "isErr res \<and> sameJobs s s' \<or> run_state (spoolJob q nm r sz ?url cs) s2 = (res, s')"
    using assms v mk same sj.R_refl[of s]
    by (auto simp: SubmitJob_def Let_def split: if_splits option.splits)
  then show ?thesis
  proof
    assume "isErr res \<and> sameJobs s s'"
    then show ?thesis by (simp add: submitted_def)
  next
    assume "run_state (spoolJob q nm r sz ?url cs) s2 = (res, s')"
    from spoolJob_cases[OF this] show ?thesis
    proof
      assume "isErr res \<and> sameJobs s2 s'"
      then show ?thesis using same(2) sj.R_trans by (auto simp: submitted_def)
    next
      assume "\<exists>i written s1. sameJobs s2 s1 \<and> i = newJobID (w_clock s2 (w_step s2)) \<and>
        run_state (recordJob q i nm sz written ?url cs) s1 = (res, s')"
      then obtain i written s3 where s3: "sameJobs s2 s3" "run_state (recordJob q i nm sz written ?url cs) s3 = (res, s')"
        by blast
      then have s3': "sameJobs s s3" using same(2) sj.R_trans by blast
      show ?thesis
      proof (rule recordJob_cases[OF s3(2)])
        assume "isErr res" "sameJobs s3 s'"
        then show ?thesis using s3' sj.R_trans by (auto simp: submitted_def)
      qed (use sameJobs_queue[OF s3'] in \<open>auto simp: submitted_def split: if_splits\<close>)
    qed
  qed
qed

end
