(* ===== verification/AsyncLaws.thy ===== *)
theory AsyncLaws
  imports AsyncScan
begin

text \<open>
  The queue as a transition system: submissions, workers that take and process jobs, the
  closing of the channel, and anything the rest of the process does, interleaved in any
  order. Proved of it: the job rows stay well-formed, a job whose submission found the
  channel full is stranded for ever, and a worker that drains the closed channel settles
  every job in it. Then what one \<open>processJob\<close> records, and what it posts.
\<close>

text \<open>The rest of the process does not touch the jobs.\<close>

definition elsewhere :: "'a queueState_scheme \<Rightarrow> 'a queueState_scheme \<Rightarrow> bool" where
  "elsewhere s s' \<longleftrightarrow> scan_jobs (w_db s') = scan_jobs (w_db s) \<and> q_chan s' = q_chan s \<and>
     q_closed s' = q_closed s \<and> q_busy s' = q_busy s"

type_synonym 'a scanOp = "reader \<Rightarrow> ('a queueState_scheme, ScanResult res \<times> bytes) state"

inductive queueStep :: "'a scanOp \<Rightarrow> Queue \<Rightarrow> 'a queueState_scheme \<Rightarrow> 'a queueState_scheme \<Rightarrow> bool"
  for scan q where
  submit: "run_state (SubmitJob q nm r sz cb cs) s = (res, s') \<Longrightarrow> queueStep scan q s s'"
| take: "int (length (q_busy s)) < Workers (q_cfg q) \<Longrightarrow> run_state receive s = (Some job, s') \<Longrightarrow>
    queueStep scan q s (s'\<lparr>q_busy := job # q_busy s'\<rparr>)"
| process: "job \<in> set (q_busy s) \<Longrightarrow> run_state (processJob scan q job) s = ((), s') \<Longrightarrow>
    queueStep scan q s (s'\<lparr>q_busy := remove1 job (q_busy s')\<rparr>)"
| close: "run_state Stop s = (res, s') \<Longrightarrow> queueStep scan q s s'"
| other: "elsewhere s s' \<Longrightarrow> queueStep scan q s s'"

inductive_cases queueStepE: "queueStep scan q s s'"

definition queueRun :: "'a scanOp \<Rightarrow> Queue \<Rightarrow> 'a queueState_scheme \<Rightarrow> 'a queueState_scheme \<Rightarrow> bool" where
  "queueRun scan q = (queueStep scan q)\<^sup>*\<^sup>*"

definition jobRow :: "string \<Rightarrow> 'a world_scheme \<Rightarrow> ScanJob option" where
  "jobRow i w = find (\<lambda>j. j_ID j = i) (scan_jobs (w_db w))"

definition pending :: "'a queueState_scheme \<Rightarrow> string set" where
  "pending s = j_ID ` (set (q_chan s) \<union> set (q_busy s))"

subsection \<open>Steps by what they do to the jobs\<close>

lemma receive_run:
  "run_state receive s = (x, s') \<Longrightarrow>
   (q_chan s = [] \<and> x = None \<and> s' = s) \<or> (\<exists>j js. q_chan s = j # js \<and> x = Some j \<and> s' = s\<lparr>q_chan := js\<rparr>)"
  by (cases "q_chan s") (auto simp: receive_def)

lemma Stop_elsewhere:
  "run_state Stop s = (res, s') \<Longrightarrow> scan_jobs (w_db s') = scan_jobs (w_db s) \<and> q_chan s' = q_chan s \<and> q_busy s' = q_busy s"
  by (auto simp: Stop_def split: if_splits)

lemma changesOnly_queue:
  fixes s s' :: "'a queueState_scheme"
  assumes "changesOnly i s s'"
  obtains f where "\<And>j. j_ID (f j) = j_ID j" "\<And>j. j_ID j \<noteq> i \<Longrightarrow> f j = j" "\<And>j. wfJob j \<Longrightarrow> wfJob (f j)"
    "scan_jobs (w_db s') = map f (scan_jobs (w_db s))" "q_chan s' = q_chan s" "q_busy s' = q_busy s"
proof -
  obtain f where f: "\<And>j. j_ID (f j) = j_ID j" "\<And>j. j_ID j \<noteq> i \<Longrightarrow> f j = j" "\<And>j. wfJob j \<Longrightarrow> wfJob (f j)"
    "jobsVia f s s'" using assms by (auto simp: changesOnly_def)
  have "q_chan s' = q_chan s \<and> q_busy s' = q_busy s" using f(4) by (cases s; cases s') (simp add: jobsVia_def)
  with f that show ?thesis by (auto simp: jobsVia_def)
qed

lemma find_map_ID: "(\<And>j. j_ID (f j) = j_ID j) \<Longrightarrow>
  find (\<lambda>j. j_ID j = i) (map f js) = map_option f (find (\<lambda>j. j_ID j = i) js)"
  by (induction js) auto

lemma storedJob_simps [simp]:
  "j_ID (storedJob j) = j_ID j" "j_Status (storedJob j) = j_Status j" "wfJob (storedJob j) = wfJob j"
  by (simp_all add: storedJob_def wfJob_def)

text \<open>The scanner of a queue, over the state of the queue.\<close>

locale queue_scanner = scanner scan for scan :: "'b scanOp"
begin

lemma process_run:
  "run_state (processJob scan q job) s = ((), s') \<Longrightarrow> changesOnly (j_ID job) s s'"
  using co.run_relE[OF changes_processJob] .

end

subsection \<open>Well-formed rows\<close>

definition jobsOk :: "'a queueState_scheme \<Rightarrow> bool" where
  "jobsOk s \<longleftrightarrow> (\<forall>j \<in> set (scan_jobs (w_db s)). wfJob j) \<and> distinct (map j_ID (scan_jobs (w_db s))) \<and>
     distinct (map j_ID (q_chan s @ q_busy s)) \<and> pending s \<subseteq> j_ID ` set (scan_jobs (w_db s))"

text \<open>A row that no channel and no worker holds, still QUEUED.\<close>

definition stranded :: "string \<Rightarrow> 'a queueState_scheme \<Rightarrow> bool" where
  "stranded i s \<longleftrightarrow> i \<notin> pending s \<and> (\<exists>j. jobRow i s = Some j \<and> j_Status j = ''QUEUED'')"

lemma stranded_row:
  "stranded i s \<Longrightarrow> i \<in> j_ID ` set (scan_jobs (w_db s))"
  by (auto simp: stranded_def jobRow_def find_Some_iff)

context queue_scanner
begin

lemma jobsOk_step:
  fixes q :: Queue
  assumes "queueStep scan q s s'" and "jobsOk s"
  shows "jobsOk s'"
  using assms(1)
proof (cases rule: queueStep.cases)
  case (submit nm r sz cb cs res)
  from SubmitJob_submitted[OF submit] show ?thesis unfolding submitted_def
  proof
    assume "isErr res \<and> sameJobs s s'"
    then show ?thesis using assms(2) sameJobs_queue[of s s'] by (simp add: jobsOk_def pending_def)
  next
    assume "\<exists>job. j_Status job = ''QUEUED'' \<and> wfJob job \<and> j_ID job \<notin> j_ID ` set (scan_jobs (w_db s)) \<and>
        scan_jobs (w_db s') = scan_jobs (w_db s) @ [storedJob job] \<and>
        q_busy s' = q_busy s \<and> q_closed s' = q_closed s \<and>
        q_chan s' = (if \<not> q_closed s \<and> int (length (q_chan s)) < QueueCapacity (q_cfg q) then q_chan s @ [job] else q_chan s) \<and>
        (if q_closed s then isErr res else res = Inr job)"
    then obtain job where j: "wfJob job" "j_ID job \<notin> j_ID ` set (scan_jobs (w_db s))"
        "scan_jobs (w_db s') = scan_jobs (w_db s) @ [storedJob job]" "q_busy s' = q_busy s"
        "q_chan s' = q_chan s @ [job] \<or> q_chan s' = q_chan s" by (auto split: if_splits)
    have "j_ID job \<notin> pending s" using j(2) assms(2) by (auto simp: jobsOk_def)
    note ok = assms(2)[unfolded jobsOk_def pending_def image_Un] and new = this[unfolded pending_def image_Un]
    from j(5) show ?thesis
    proof
      assume "q_chan s' = q_chan s @ [job]"
      with j ok new show ?thesis unfolding jobsOk_def pending_def image_Un by simp blast
    next
      assume "q_chan s' = q_chan s"
      with j ok show ?thesis unfolding jobsOk_def pending_def image_Un by simp blast
    qed
  qed
next
  case (take job s1)
  then obtain js where js: "q_chan s = job # js" "s' = s\<lparr>q_chan := js, q_busy := job # q_busy s\<rparr>"
    using receive_run[OF take(3)] by auto
  then have "set (q_chan s') \<union> set (q_busy s') = set (q_chan s) \<union> set (q_busy s)" by auto
  then have "pending s' = pending s" by (simp add: pending_def)
  moreover have "distinct (map j_ID (q_chan s' @ q_busy s')) \<longleftrightarrow> distinct (map j_ID (q_chan s @ q_busy s))"
    using js by auto
  ultimately show ?thesis using assms(2) js(2) by (simp add: jobsOk_def)
next
  case (process job s1)
  obtain f where f: "\<And>j. j_ID (f j) = j_ID j" "\<And>j. wfJob j \<Longrightarrow> wfJob (f j)"
    "scan_jobs (w_db s1) = map f (scan_jobs (w_db s))" "q_chan s1 = q_chan s" "q_busy s1 = q_busy s"
    by (rule changesOnly_queue[OF process_run[OF process(3)]]) blast
  have ids: "map j_ID (scan_jobs (w_db s')) = map j_ID (scan_jobs (w_db s))" using f process(1) by simp
  then have idset: "j_ID ` set (scan_jobs (w_db s')) = j_ID ` set (scan_jobs (w_db s))" by (metis set_map)
  have rows: "\<forall>j \<in> set (scan_jobs (w_db s')). wfJob j" using f process(1) assms(2) by (auto simp: jobsOk_def)
  have sub: "set (remove1 job (q_busy s)) \<subseteq> set (q_busy s)" by (rule set_remove1_subset)
  then have pend: "pending s' \<subseteq> pending s" using f process(1) by (auto simp: pending_def)
  have "distinct (map j_ID (remove1 job (q_busy s)))"
    using assms(2) sub by (auto simp: jobsOk_def distinct_map intro: inj_on_subset)
  then have "distinct (map j_ID (q_chan s' @ q_busy s'))"
    using assms(2) sub f process(1) unfolding jobsOk_def by simp blast
  with rows ids idset pend assms(2) show ?thesis by (auto simp: jobsOk_def)
next
  case (close res)
  with Stop_elsewhere[OF close] assms(2) show ?thesis by (simp add: jobsOk_def pending_def)
next
  case other
  then show ?thesis using assms(2) by (simp add: jobsOk_def pending_def elsewhere_def)
qed

lemma jobsOk_run: "queueRun scan q s s' \<Longrightarrow> jobsOk s \<Longrightarrow> jobsOk s'"
  unfolding queueRun_def by (induction rule: rtranclp_induct) (auto intro: jobsOk_step)

end

subsection \<open>Accepted and never processed\<close>

context queue_scanner
begin

lemma stranded_step:
  assumes "queueStep scan q s s'" and "stranded i s"
  shows "stranded i s'"
  using assms(1)
proof (cases rule: queueStep.cases)
  case (submit nm r sz cb cs res)
  from SubmitJob_submitted[OF submit] show ?thesis unfolding submitted_def
  proof
    assume "isErr res \<and> sameJobs s s'"
    then show ?thesis using assms(2) sameJobs_queue[of s s'] by (simp add: stranded_def pending_def jobRow_def)
  next
    assume "\<exists>job. j_Status job = ''QUEUED'' \<and> wfJob job \<and> j_ID job \<notin> j_ID ` set (scan_jobs (w_db s)) \<and>
        scan_jobs (w_db s') = scan_jobs (w_db s) @ [storedJob job] \<and>
        q_busy s' = q_busy s \<and> q_closed s' = q_closed s \<and>
        q_chan s' = (if \<not> q_closed s \<and> int (length (q_chan s)) < QueueCapacity (q_cfg q) then q_chan s @ [job] else q_chan s) \<and>
        (if q_closed s then isErr res else res = Inr job)"
    then obtain job where j: "j_ID job \<notin> j_ID ` set (scan_jobs (w_db s))"
        "scan_jobs (w_db s') = scan_jobs (w_db s) @ [storedJob job]" "q_busy s' = q_busy s"
        "q_chan s' = q_chan s @ [job] \<or> q_chan s' = q_chan s" by (auto split: if_splits)
    have "j_ID job \<noteq> i" using j(1) stranded_row[OF assms(2)] by auto
    with j assms(2) show ?thesis by (auto simp: stranded_def pending_def jobRow_def find_append)
  qed
next
  case (take job s1)
  then obtain js where js: "q_chan s = job # js" "s' = s\<lparr>q_chan := js, q_busy := job # q_busy s\<rparr>"
    using receive_run[OF take(3)] by auto
  then have "set (q_chan s') \<union> set (q_busy s') = set (q_chan s) \<union> set (q_busy s)" by auto
  then show ?thesis using assms(2) js(2) by (simp add: stranded_def pending_def jobRow_def)
next
  case (process job s1)
  obtain f where f: "\<And>j. j_ID (f j) = j_ID j" "\<And>j. j_ID j \<noteq> j_ID job \<Longrightarrow> f j = j"
    "scan_jobs (w_db s1) = map f (scan_jobs (w_db s))" "q_chan s1 = q_chan s" "q_busy s1 = q_busy s"
    by (rule changesOnly_queue[OF process_run[OF process(3)]]) blast
  have ne: "j_ID job \<noteq> i" using assms(2) process(2) by (auto simp: stranded_def pending_def)
  obtain row where row: "jobRow i s = Some row" "j_Status row = ''QUEUED''" using assms(2) by (auto simp: stranded_def)
  have "j_ID row = i" using row(1) by (auto simp: jobRow_def find_Some_iff)
  then have "jobRow i s' = Some row" using row(1) f ne process(1) by (simp add: jobRow_def find_map_ID)
  moreover have "pending s' \<subseteq> pending s"
    using f process(1) set_remove1_subset[of job "q_busy s"] by (auto simp: pending_def)
  ultimately show ?thesis using assms(2) row(2) by (auto simp: stranded_def)
next
  case (close res)
  with Stop_elsewhere[OF close] assms(2) show ?thesis by (simp add: stranded_def pending_def jobRow_def)
next
  case other
  then show ?thesis using assms(2) by (simp add: stranded_def pending_def jobRow_def elsewhere_def)
qed

lemma stranded_run: "queueRun scan q s s' \<Longrightarrow> stranded i s \<Longrightarrow> stranded i s'"
  unfolding queueRun_def by (induction rule: rtranclp_induct) (auto intro: stranded_step)

end

text \<open>A submission that finds the channel full is accepted and strands its job.\<close>

lemma full_submit_strands:
  fixes s :: "'a queueState_scheme"
  assumes "run_state (SubmitJob q nm r sz cb cs) s = (Inr job, s')" and "jobsOk s"
    and "QueueCapacity (q_cfg q) \<le> int (length (q_chan s))"
  shows "stranded (j_ID job) s'"
proof -
  from SubmitJob_submitted[OF assms(1)] obtain j where
    j: "j_Status j = ''QUEUED''" "j_ID j \<notin> j_ID ` set (scan_jobs (w_db s))"
      "scan_jobs (w_db s') = scan_jobs (w_db s) @ [storedJob j]" "q_busy s' = q_busy s" "q_chan s' = q_chan s" "job = j"
    using assms(3) by (auto simp: submitted_def split: if_splits)
  have "find (\<lambda>k. j_ID k = j_ID j) (scan_jobs (w_db s)) = None" using j(2) unfolding find_None_iff by (metis imageI)
  then have "jobRow (j_ID j) s' = Some (storedJob j)" by (simp add: jobRow_def j(3) find_append)
  moreover have "j_ID j \<notin> pending s'" using j(2,4,5) assms(2) by (auto simp: jobsOk_def pending_def)
  ultimately show ?thesis using j(1,6) by (simp add: stranded_def)
qed

interpretation cq: queue_scanner clamdScanTee
  by unfold_locales

text \<open>
  C6. Job rows make sense. In every state the system can reach from one that has no jobs yet,
  whatever fails on the way, every row is in one of four shapes: QUEUED or PROCESSING without
  a verdict, COMPLETED with CLEAN and no virus name or with INFECTED, and FAILED with verdict
  ERROR and a message; ids are unique, and every job in the channel or in a worker's hands is
  recorded.
\<close>

theorem job_rows_wellformed:
  assumes "scan_jobs (w_db s) = []" and "q_chan s = []" and "q_busy s = []"
    and "queueRun clamdScanTee q s s'"
  shows "(\<forall>j \<in> set (scan_jobs (w_db s')). wfStatus (j_Status j) (j_Verdict j) (j_VirusName j) (j_ErrorMsg j)) \<and>
    distinct (map j_ID (scan_jobs (w_db s'))) \<and>
    (\<forall>j \<in> set (q_chan s') \<union> set (q_busy s'). j_ID j \<in> j_ID ` set (scan_jobs (w_db s')))"
proof -
  have "jobsOk s" using assms(1-3) by (simp add: jobsOk_def pending_def)
  from cq.jobsOk_run[OF assms(4) this] show ?thesis by (auto simp: jobsOk_def wfJob_def pending_def)
qed

text \<open>
  C13. A full queue loses jobs. When a submission finds the channel full, it still returns the
  job as accepted; the row says QUEUED, but the job is in no channel and in no worker's hands,
  and this never changes: in every later state, however many jobs are processed, the row is
  still QUEUED.
\<close>

theorem full_queue_strands_job:
  assumes "run_state (SubmitJob q nm r sz cb cs) s = (Inr job, s1)" and "jobsOk s"
    and "QueueCapacity (q_cfg q) \<le> int (length (q_chan s))" and "queueRun clamdScanTee q s1 s2"
  shows "j_ID job \<notin> pending s2 \<and> (\<exists>row. jobRow (j_ID job) s2 = Some row \<and> j_Status row = ''QUEUED'')"
  using cq.stranded_run[OF assms(4) full_submit_strands[OF assms(1-3)]] by (simp add: stranded_def)

definition sampleQueue :: Queue where
  "sampleQueue = NewQueue \<lparr> SpoolDir = ''/s'', Workers = 1, QueueCapacity = 1, q_QuarRetention = 7 \<rparr> None None"

definition sampleJob :: "string \<Rightarrow> ScanJob" where
  "sampleJob i = newJob i ''a.bin'' 2 2 ''http://h/'' ''app'' 0"

definition sampleQState :: "ScanJob list \<Rightarrow> (string \<times> fsFile) list \<Rightarrow> string \<Rightarrow> queueState" where
  "sampleQState js fs answer =
     \<lparr> w_db = (emptyDB (\<lambda>_. None))\<lparr>scan_jobs := js\<rparr>, w_files = fs, w_step = 0, w_clock = int, w_fault = (\<lambda>_. None),
       w_short = (\<lambda>_. None), w_random = (\<lambda>k i. of_nat (17 * k + i)),
       sv_clamd = (\<lambda>_. healthyConn answer), sv_wire = [], sv_env = sampleEnv,
       sv_net = \<lparr> ns_tick = 0, ns_dials = [] \<rparr>, sv_notifier = None, sv_posts = [],
       q_chan = js, q_closed = False, q_busy = [] \<rparr>"

lemma sample_submit_accepted:
  "\<not> isErr (fst (run_state (SubmitJob sampleQueue ''b.bin'' (bytesReader [1, 2]) 2 ''http://h/'' ''app'')
     (sampleQState [] [] ''stream: OK'')))"
  "\<not> isErr (fst (run_state (SubmitJob sampleQueue ''b.bin'' (bytesReader [1, 2]) 2 ''http://h/'' ''app'')
     (sampleQState [sampleJob ''job_x''] [] ''stream: OK'')))"
  by code_simp+

theorem job_rows_wellformed_witness:
  "\<exists>s'. queueRun clamdScanTee sampleQueue (sampleQState [] [] ''stream: OK'') s' \<and> scan_jobs (w_db s') \<noteq> [] \<and>
     (\<forall>j \<in> set (scan_jobs (w_db s')). wfStatus (j_Status j) (j_Verdict j) (j_VirusName j) (j_ErrorMsg j))"
proof -
  obtain job s' where run: "run_state (SubmitJob sampleQueue ''b.bin'' (bytesReader [1, 2]) 2 ''http://h/'' ''app'')
      (sampleQState [] [] ''stream: OK'') = (Inr job, s')"
    using sample_submit_accepted(1) by (cases "run_state (SubmitJob sampleQueue ''b.bin'' (bytesReader [1, 2]) 2 ''http://h/'' ''app'')
      (sampleQState [] [] ''stream: OK'')") (auto simp: not_isErr_iff)
  then have q: "queueRun clamdScanTee sampleQueue (sampleQState [] [] ''stream: OK'') s'"
    unfolding queueRun_def by (blast intro: queueStep.submit)
  have "scan_jobs (w_db s') \<noteq> []" using SubmitJob_submitted[OF run] by (auto simp: submitted_def)
  with job_rows_wellformed[OF _ _ _ q] q show ?thesis by (auto simp: sampleQState_def emptyDB_def)
qed

theorem full_queue_strands_job_witness:
  "\<exists>job s1 row. run_state (SubmitJob sampleQueue ''b.bin'' (bytesReader [1, 2]) 2 ''http://h/'' ''app'')
      (sampleQState [sampleJob ''job_x''] [] ''stream: OK'') = (Inr job, s1) \<and>
    jobRow (j_ID job) s1 = Some row \<and> j_Status row = ''QUEUED'' \<and> j_ID job \<notin> pending s1"
proof -
  let ?s = "sampleQState [sampleJob ''job_x''] [] ''stream: OK''"
  obtain job s' where run: "run_state (SubmitJob sampleQueue ''b.bin'' (bytesReader [1, 2]) 2 ''http://h/'' ''app'') ?s = (Inr job, s')"
    using sample_submit_accepted(2) by (cases "run_state (SubmitJob sampleQueue ''b.bin'' (bytesReader [1, 2]) 2 ''http://h/'' ''app'') ?s")
      (auto simp: not_isErr_iff)
  have ok: "jobsOk ?s"
    by (simp add: jobsOk_def pending_def sampleQState_def emptyDB_def sampleJob_def newJob_def wfJob_def wfStatus_def)
  have full: "QueueCapacity (q_cfg sampleQueue) \<le> int (length (q_chan ?s))"
    by (simp add: sampleQueue_def NewQueue_def sampleQState_def)
  have "queueRun clamdScanTee sampleQueue s' s'" by (simp add: queueRun_def)
  from full_queue_strands_job[OF run ok full this] run show ?thesis by blast
qed

subsection \<open>What processing records\<close>

lemma setJob_via:
  assumes "stmt_fault (w_db s) = (\<lambda>_. None)" and "run_state (setJob i st vd vn em sha) s = (u, s')"
  shows "\<exists>t. jobsVia (setJobStatus t i st vd vn em sha) s s'"
  using run_setJob[of i st vd vn em sha s] assms by auto

lemma same_stmt_fault: "sameJobs s s' \<Longrightarrow> stmt_fault (w_db s') = stmt_fault (w_db s)"
  by (simp add: sameJobs_def)

lemma via_between:
  assumes "state_io_rel sameJobs m" and "\<And>x. state_io_rel sameJobs (m' x)"
    and "stmt_fault (w_db s) = (\<lambda>_. None)"
    and "run_state (do { x \<leftarrow> m; setJob i st vd vn em sha; m' x }) s = (u, s')"
  shows "\<exists>t. jobsVia (setJobStatus t i st vd vn em sha) s s'"
proof -
  obtain x s1 where m: "run_state m s = (x, s1)" by fastforce
  obtain s2 where st: "run_state (setJob i st vd vn em sha) s1 = ((), s2)"
    by (cases "run_state (setJob i st vd vn em sha) s1") auto
  have s1: "sameJobs s s1" by (rule sj.run_relE[OF assms(1) m])
  then have "stmt_fault (w_db s1) = (\<lambda>_. None)" using assms(3) same_stmt_fault[OF s1] by simp
  from setJob_via[OF this st] obtain t where t: "jobsVia (setJobStatus t i st vd vn em sha) s1 s2" by blast
  have "run_state (m' x) s2 = (u, s')" using assms(4) m st by simp
  then have "sameJobs s2 s'" by (rule sj.run_relE[OF assms(2)])
  with t s1 show ?thesis by (blast intro: same_jobsVia jobsVia_same)
qed

lemma finishClean_via:
  assumes "stmt_fault (w_db s) = (\<lambda>_. None)" and "run_state (finishClean q job sha ms) s = (u, s')"
  shows "\<exists>t. jobsVia (setJobStatus t (j_ID job) ''COMPLETED'' ''CLEAN'' '''' '''' sha) s s'"
  using assms(2) unfolding finishClean_def
  by (rule via_between[OF _ _ assms(1), rotated 2]) (intro sameJobs_intros sameJobs_steps)+

lemma finishInfected_via:
  fixes s :: "'a service_scheme"
  assumes "stmt_fault (w_db s) = (\<lambda>_. None)" and "run_state (finishInfected q job vn r sha ms) s = (u, s')"
  shows "\<exists>t. jobsVia (setJobStatus t (j_ID job) ''COMPLETED'' ''INFECTED'' vn '''' sha) s s'"
proof -
  define pre :: "('a service_scheme, string) state" where
    "pre = do { qi \<leftarrow> quarantineJob q job vn r; _ \<leftarrow> Remove (spoolPath q (j_ID job)); ret qi }"
  define rest :: "string \<Rightarrow> ('a service_scheme, unit) state" where "rest quarID = do {
     auditJob job sha ''INFECTED'' vn ms quarID;
     nt \<leftarrow> asks sv_notifier;
     (if nt = None then ret () else do {
        t \<leftarrow> timeNow;
        dispatchThreat \<lparr> ta_VirusName = vn, ta_FileName = j_FileName job, ta_FileSizeBytes = j_FileSize job,
          ta_FileSHA256 = sha, ta_QuarantineID = quarID, ta_SourceConsumer = j_Consumer job, ta_DetectedAt = t \<rparr> });
     completedHook q job ''INFECTED''
       (Some \<lparr> th_VirusName = vn, th_ActionTaken = ''QUARANTINED'', th_QuarantineID = quarID \<rparr>) sha ms }" for quarID
  have same: "state_io_rel sameJobs pre" "state_io_rel sameJobs (rest quarID)" for quarID
    unfolding pre_def rest_def by (intro sameJobs_intros sameJobs_steps)+
  have "run_state (finishInfected q job vn r sha ms) s = run_state (do {
      x \<leftarrow> pre; setJob (j_ID job) ''COMPLETED'' ''INFECTED'' vn '''' sha; rest x }) s"
    by (simp add: finishInfected_def rest_def pre_def split: prod.split)
  with assms(2) show ?thesis using via_between[OF same assms(1)] by simp
qed

record outcome =
  o_Status :: string
  o_Verdict :: string
  o_VirusName :: string
  o_ErrorMsg :: string
  o_SHA256 :: string

text \<open>What the answer of the scanner and the digest of the payload make of the row.\<close>

definition outcomeOf :: "ScanResult res \<Rightarrow> string \<Rightarrow> outcome" where
  "outcomeOf x sha = (case x of
       Inl e \<Rightarrow> \<lparr> o_Status = ''FAILED'', o_Verdict = ''ERROR'', o_VirusName = '''',
         o_ErrorMsg = ''Daemon scan error: '' @ err_text e, o_SHA256 = '''' \<rparr>
     | Inr r \<Rightarrow> \<lparr> o_Status = ''COMPLETED'', o_Verdict = (if IsClean r then ''CLEAN'' else ''INFECTED''),
         o_VirusName = (if IsClean r then '''' else VirusName r), o_ErrorMsg = '''', o_SHA256 = sha \<rparr>)"

definition rowOutcome :: "ScanJob \<Rightarrow> outcome" where
  "rowOutcome j = \<lparr> o_Status = j_Status j, o_Verdict = j_Verdict j, o_VirusName = j_VirusName j,
     o_ErrorMsg = j_ErrorMsg j, o_SHA256 = j_FileSHA256 j \<rparr>"

definition setOutcome :: "int \<Rightarrow> string \<Rightarrow> outcome \<Rightarrow> ScanJob \<Rightarrow> ScanJob" where
  "setOutcome t i r = setJobStatus t i (o_Status r) (o_Verdict r) (o_VirusName r) (o_ErrorMsg r) (o_SHA256 r)"

definition settledStatus :: "string \<Rightarrow> bool" where
  "settledStatus st \<longleftrightarrow> st = ''COMPLETED'' \<or> st = ''FAILED''"

lemma outcomeOf_settled: "settledStatus (o_Status (outcomeOf x sha))"
  by (simp add: outcomeOf_def settledStatus_def split: sum.split)

context scanner
begin

lemma scanJob_via:
  assumes sf: "stmt_fault (w_db s) = (\<lambda>_. None)" and run: "run_state (scanJob scan q job r) s = (u, s')"
  shows "\<exists>t. jobsVia (setOutcome t (j_ID job)
    (outcomeOf (fst (fst (run_state (scan r) (s\<lparr>w_step := Suc (w_step s)\<rparr>)))) (hexEncodeToString (sha256 (rdata r))))) s s'"
proof -
  define s1 where "s1 = s\<lparr>w_step := Suc (w_step s)\<rparr>"
  obtain x bs s2 where sc: "run_state (scan r) s1 = ((x, bs), s2)" by (metis prod.exhaust)
  have q: "quiet s1 s2" by (rule quiet.run_relE[OF scan_quiet sc])
  have s2: "sameJobs s s2" using q by (simp add: quiet_def sameStore_def sameJobs_def s1_def)
  have sf2: "stmt_fault (w_db s2) = (\<lambda>_. None)" using sf same_stmt_fault[OF s2] by simp
  show ?thesis
  proof (cases x)
    case (Inl e)
    then have "run_state (setJob (j_ID job) ''FAILED'' ''ERROR'' '''' (''Daemon scan error: '' @ err_text e) '''') s2 = (u, s')"
      using run sc by (simp add: scanJob_def run_timeNow s1_def)
    from setJob_via[OF sf2 this] obtain t where
      "jobsVia (setJobStatus t (j_ID job) ''FAILED'' ''ERROR'' '''' (''Daemon scan error: '' @ err_text e) '''') s2 s'" by blast
    with same_jobsVia[OF s2 this] sc Inl show ?thesis
      by (auto simp: setOutcome_def outcomeOf_def s1_def)
  next
    case (Inr res)
    then have bs: "bs = rdata r" using scan_reads[of r s1 res bs s2] sc by simp
    define s3 where "s3 = s2\<lparr>w_step := Suc (w_step s2)\<rparr>"
    define sha where "sha = hexEncodeToString (sha256 (rdata r))"
    define ms where "ms = msSince (w_clock s (w_step s)) (w_clock s2 (w_step s2))"
    have s3: "sameJobs s s3" using s2 by (simp add: sameJobs_def s3_def)
    have sf3: "stmt_fault (w_db s3) = (\<lambda>_. None)" using sf same_stmt_fault[OF s3] by simp
    have run3: "run_state (if IsClean res then finishClean q job sha ms else finishInfected q job (VirusName res) r sha ms) s3 = (u, s')"
      using run sc Inr by (cases "IsClean res") (simp_all add: scanJob_def run_timeNow s1_def s3_def sha_def ms_def Let_def bs)
    have "\<exists>t. jobsVia (setOutcome t (j_ID job) (outcomeOf (Inr res) sha)) s3 s'"
    proof (cases "IsClean res")
      case True
      with run3 finishClean_via[OF sf3, of q job sha ms u s'] show ?thesis by (simp add: setOutcome_def outcomeOf_def)
    next
      case False
      with run3 finishInfected_via[OF sf3, of q job "VirusName res" r sha ms u s'] show ?thesis
        by (simp add: setOutcome_def outcomeOf_def)
    qed
    with same_jobsVia[OF s3] sc Inr show ?thesis by (auto simp: s1_def sha_def)
  qed
qed

lemma openFailed_via:
  assumes "stmt_fault (w_db s) = (\<lambda>_. None)" and "run_state (openFailed q job err) s = (u, s')"
  shows "\<exists>t. jobsVia (setJobStatus t (j_ID job) ''FAILED'' ''ERROR'' '''' (''Failed to open spool file: '' @ err_text err) '''') s s'"
proof -
  have "run_state (do { x \<leftarrow> ret (); setJob (j_ID job) ''FAILED'' ''ERROR'' '''' (''Failed to open spool file: '' @ err_text err) '''';
     dispatchWebhook q job
       \<lparr> wh_Event = ''scan.failed'', wh_JobID = j_ID job, wh_Status = ''FAILED'', wh_Verdict = ''ERROR'', wh_Threat = None,
         wh_Data = \<lparr> wd_FileName = j_FileName job, wd_FileSize = j_FileSize job, wd_FileSHA256 = '''',
           wd_ScanDurationMs = 0, wd_CompletedAt = '''' \<rparr> \<rparr> }) s = (u, s')"
    using assms(2) by (simp add: openFailed_def)
  then show ?thesis by (rule via_between[OF sj.rel_ret sameJobs_steps(1) assms(1)])
qed

text \<open>What a whole \<open>processJob\<close> does, by whether its spool file opens.\<close>

lemma processJob_via:
  assumes sf: "stmt_fault (w_db s) = (\<lambda>_. None)" and run: "run_state (processJob scan q job) s = (u, s')"
  obtains t t2 out where
    "jobsVia (\<lambda>j. setOutcome t2 (j_ID job) out (setJobStatus t (j_ID job) ''PROCESSING'' '''' '''' '''' '''' j)) s s'"
    "settledStatus (o_Status out)"
    "w_fault s = (\<lambda>_. None) \<Longrightarrow> fileAt s' (spoolPath q (j_ID job)) = None"
    "\<And>f. w_fault s (Suc (w_step s)) = None \<Longrightarrow> w_short s (Suc (w_step s)) = None \<Longrightarrow>
       fileAt s (spoolPath q (j_ID job)) = Some f \<Longrightarrow>
       \<exists>s1. w_step s1 = w_step s + 3 \<and> sv_clamd s1 = sv_clamd s \<and>
         out = outcomeOf (fst (fst (run_state (scan (bytesReader (fdata f))) s1))) (hexEncodeToString (sha256 (fdata f)))"
proof -
  let ?i = "j_ID job" and ?p = "spoolPath q (j_ID job)"
  obtain t s1 where s1: "run_state (setJob ?i ''PROCESSING'' '''' '''' '''' '''') s = ((), s1)"
    "jobsVia (setJobStatus t ?i ''PROCESSING'' '''' '''' '''' '''') s s1"
    "w_files s1 = w_files s" "w_step s1 = Suc (w_step s)" "sv_clamd s1 = sv_clamd s"
    using run_setJob[of ?i "''PROCESSING''" "''''" "''''" "''''" "''''" s] sf by auto
  obtain f s2 where op: "run_state (OpenRead ?p) s1 = (f, s2)" by fastforce
  then have s2: "s2 = s1\<lparr>w_step := Suc (w_step s1)\<rparr>" by (simp add: run_OpenRead)
  have v2: "jobsVia (setJobStatus t ?i ''PROCESSING'' '''' '''' '''' '''') s s2"
    using jobsVia_same[OF s1(2) sj.run_relE[OF sameJobs_quiet[OF quiet_env(7)] op]] .
  then have sf2: "stmt_fault (w_db s2) = (\<lambda>_. None)" using sf by (simp add: jobsVia_def)
  define body where "body = (case f of Inl err \<Rightarrow> openFailed q job err | Inr r \<Rightarrow> scanJob scan q job r)"
  obtain s3 where b: "run_state body s2 = ((), s3)" by (cases "run_state body s2") auto
  obtain e s4 where rm: "run_state (Remove ?p) s3 = (e, s4)" by fastforce
  have s4: "s' = s4"
    using run s1(1) op b rm by (cases f) (simp_all add: processJob_def body_def)
  have "\<exists>t2 out. jobsVia (setOutcome t2 ?i out) s2 s3 \<and> settledStatus (o_Status out) \<and>
    (\<forall>r. f = Inr r \<longrightarrow> out = outcomeOf (fst (fst (run_state (scan r) (s2\<lparr>w_step := Suc (w_step s2)\<rparr>)))) (hexEncodeToString (sha256 (rdata r))))"
  proof (cases f)
    case (Inl err)
    then have "run_state (openFailed q job err) s2 = ((), s3)" using b by (simp add: body_def)
    from openFailed_via[OF sf2 this] obtain t2 where
      "jobsVia (setJobStatus t2 ?i ''FAILED'' ''ERROR'' '''' (''Failed to open spool file: '' @ err_text err) '''') s2 s3" by blast
    with Inl show ?thesis
      by (intro exI[of _ t2] exI[of _ "\<lparr> o_Status = ''FAILED'', o_Verdict = ''ERROR'', o_VirusName = '''',
         o_ErrorMsg = ''Failed to open spool file: '' @ err_text err, o_SHA256 = '''' \<rparr>"])
        (simp add: setOutcome_def settledStatus_def)
  next
    case (Inr r)
    then have "run_state (scanJob scan q job r) s2 = ((), s3)" using b by (simp add: body_def)
    from scanJob_via[OF sf2 this] Inr outcomeOf_settled show ?thesis by blast
  qed
  then obtain t2 out where out: "jobsVia (setOutcome t2 ?i out) s2 s3" "settledStatus (o_Status out)"
    "\<And>r. f = Inr r \<Longrightarrow> out = outcomeOf (fst (fst (run_state (scan r) (s2\<lparr>w_step := Suc (w_step s2)\<rparr>)))) (hexEncodeToString (sha256 (rdata r)))"
    by blast
  show ?thesis
  proof (rule that[of t2 out t])
    show "jobsVia (\<lambda>j. setOutcome t2 ?i out (setJobStatus t ?i ''PROCESSING'' '''' '''' '''' '''' j)) s s'"
      using jobsVia_same[OF jobsVia_trans[OF v2 out(1)] sj.run_relE[OF sameJobs_files(2) rm]] by (simp add: s4)
  next
    assume "w_fault s = (\<lambda>_. None)"
    then have "w_fault s3 = (\<lambda>_. None)" using v2 out(1) by (simp add: jobsVia_def)
    with rm show "fileAt s' ?p = None" unfolding s4 by (rule_tac Remove_run[of s3 ?p]) auto
  next
    fix fl assume "w_fault s (Suc (w_step s)) = None" "w_short s (Suc (w_step s)) = None" "fileAt s ?p = Some fl"
    then have "f = Inr (bytesReader (fdata fl))"
      using op s1 by (simp add: run_OpenRead fileAt_def jobsVia_def)
    from out(3)[OF this] show "\<exists>s1. w_step s1 = w_step s + 3 \<and> sv_clamd s1 = sv_clamd s \<and>
         out = outcomeOf (fst (fst (run_state (scan (bytesReader (fdata fl))) s1))) (hexEncodeToString (sha256 (fdata fl)))"
      by (intro exI[of _ "s2\<lparr>w_step := Suc (w_step s2)\<rparr>"]) (simp add: s2 s1)
  qed (rule out(2))
qed

end

text \<open>What processing makes of the row of a job whose spool file can be read.\<close>

lemma process_outcome:
  fixes s :: "'a service_scheme"
  assumes "stmt_fault (w_db s) = (\<lambda>_. None)" and "w_fault s = (\<lambda>_. None)" and "w_short s = (\<lambda>_. None)"
    and "jobRow (j_ID job) s = Some row" and "fileAt s (spoolPath q (j_ID job)) = Some f"
    and "run_state (processJob clamdScanTee q job) s = (u, s')"
  shows "map_option rowOutcome (jobRow (j_ID job) s') =
       Some (outcomeOf (scanOutcome (fst (ScanStream (sv_clamd s (w_step s + 3)) (bytesReader (fdata f)))))
         (hexEncodeToString (sha256 (fdata f)))) \<and>
    (\<forall>i. i \<noteq> j_ID job \<longrightarrow> jobRow i s' = jobRow i s) \<and>
    fileAt s' (spoolPath q (j_ID job)) = None"
proof -
  let ?i = "j_ID job"
  obtain t t2 out where
    via: "jobsVia (\<lambda>j. setOutcome t2 ?i out (setJobStatus t ?i ''PROCESSING'' '''' '''' '''' '''' j)) s s'"
    and gone: "w_fault s = (\<lambda>_. None) \<Longrightarrow> fileAt s' (spoolPath q ?i) = None"
    and out: "\<And>f. w_fault s (Suc (w_step s)) = None \<Longrightarrow> w_short s (Suc (w_step s)) = None \<Longrightarrow>
       fileAt s (spoolPath q ?i) = Some f \<Longrightarrow>
       \<exists>s1 :: 'a service_scheme. w_step s1 = w_step s + 3 \<and> sv_clamd s1 = sv_clamd s \<and>
         out = outcomeOf (fst (fst (run_state (clamdScanTee (bytesReader (fdata f))) s1))) (hexEncodeToString (sha256 (fdata f)))"
    by (rule clamd.processJob_via[OF assms(1,6)]) blast
  define g where "g j = setOutcome t2 ?i out (setJobStatus t ?i ''PROCESSING'' '''' '''' '''' '''' j)" for j
  have g: "j_ID (g j) = j_ID j" "j_ID j \<noteq> ?i \<Longrightarrow> g j = j" for j
    by (simp_all add: g_def setOutcome_def setJobStatus_def)
  have "scan_jobs (w_db s') = map g (scan_jobs (w_db s))" using via by (simp add: jobsVia_def g_def)
  then have rows: "jobRow i s' = map_option g (jobRow i s)" for i
    by (simp add: jobRow_def find_map_ID g(1))
  have id: "j_ID r = i" if "jobRow i s = Some r" for i r using that by (auto simp: jobRow_def find_Some_iff)
  obtain s1 :: "'a service_scheme" where s1: "w_step s1 = w_step s + 3" "sv_clamd s1 = sv_clamd s"
    "out = outcomeOf (fst (fst (run_state (clamdScanTee (bytesReader (fdata f))) s1))) (hexEncodeToString (sha256 (fdata f)))"
    using out[of f] assms(2,3,5) by auto
  have "fst (fst (run_state (clamdScanTee (bytesReader (fdata f))) s1)) =
      scanOutcome (fst (ScanStream (sv_clamd s (w_step s + 3)) (bytesReader (fdata f))))"
    using s1 by (simp add: clamdScanTee_def clamdScan_def overClamd_def run_simps split: prod.split)
  with s1(3) have "out = outcomeOf (scanOutcome (fst (ScanStream (sv_clamd s (w_step s + 3)) (bytesReader (fdata f)))))
      (hexEncodeToString (sha256 (fdata f)))" by simp
  moreover have "jobRow ?i s' = Some (g row)" using rows assms(4) by simp
  moreover have "jobRow i s' = jobRow i s" if "i \<noteq> ?i" for i
    using rows[of i] id[of i] g(2) that by (cases "jobRow i s") auto
  moreover have "rowOutcome (g row) = out"
    using id[OF assms(4)] by (cases out) (simp add: rowOutcome_def g_def setOutcome_def setJobStatus_def)
  ultimately show ?thesis using gone[OF assms(2)] by simp
qed

text \<open>
  C3. The verdict of a job is the daemon's verdict on its payload. When the spool file of a
  recorded job can be read and the database works, processing leaves a row that depends only
  on what the daemon answered to the spooled bytes: COMPLETED and CLEAN, COMPLETED and
  INFECTED with the virus name, both with the SHA-256 of exactly these bytes, or FAILED with
  the error; every other row is as before, and the spool file is gone.
\<close>

theorem process_records_verdict:
  fixes s :: "'a service_scheme"
  assumes "stmt_fault (w_db s) = (\<lambda>_. None)" and "w_fault s = (\<lambda>_. None)" and "w_short s = (\<lambda>_. None)"
    and "jobRow (j_ID job) s = Some row" and "fileAt s (spoolPath q (j_ID job)) = Some f"
    and "run_state (processJob clamdScanTee q job) s = (u, s')"
  shows "map_option rowOutcome (jobRow (j_ID job) s') =
       Some (outcomeOf (scanOutcome (fst (ScanStream (sv_clamd s (w_step s + 3)) (bytesReader (fdata f)))))
         (hexEncodeToString (sha256 (fdata f)))) \<and>
    (\<forall>i. i \<noteq> j_ID job \<longrightarrow> jobRow i s' = jobRow i s) \<and>
    fileAt s' (spoolPath q (j_ID job)) = None"
  by (rule process_outcome[OF assms])

lemma sample_verdict:
  "outcomeOf (scanOutcome (fst (ScanStream (healthyConn (detection ''Eicar'')) (bytesReader d)))) sha =
     \<lparr> o_Status = ''COMPLETED'', o_Verdict = ''INFECTED'', o_VirusName = ''Eicar'', o_ErrorMsg = '''', o_SHA256 = sha \<rparr>"
proof -
  have g: "list_all graphic ''Eicar''" "list_all graphic (filter (\<lambda>c. c \<noteq> CHR '' '') (detection ''Eicar''))"
    by (simp_all add: graphic_def detection_def)
  have "\<not> Contains ''Eicar'' ''OK''" by code_simp
  moreover have "errorsIs (rerr (bytesReader d)) IoEOF" by simp
  ultimately show ?thesis
    using parse_detection[OF g(1)] ScanStream_healthy[OF g(2), of "bytesReader d"]
    by (simp add: scanOutcome_def outcomeOf_def IsClean_def del: Contains.simps)
qed

lemma sampleJob_ID [simp]: "j_ID (sampleJob i) = i"
  by (simp add: sampleJob_def newJob_def)

definition sampleSpooled :: "string \<Rightarrow> queueState" where
  "sampleSpooled answer = sampleQState [sampleJob ''job_x'']
     [(''/s/job_x.spool'', \<lparr> fdata = [1, 2], fmode = 384, fmtime = 0 \<rparr>)] answer"

lemma sampleSpooled_facts:
  "stmt_fault (w_db (sampleSpooled a)) = (\<lambda>_. None)" "w_fault (sampleSpooled a) = (\<lambda>_. None)"
  "w_short (sampleSpooled a) = (\<lambda>_. None)" "jobRow ''job_x'' (sampleSpooled a) = Some (sampleJob ''job_x'')"
  "fileAt (sampleSpooled a) (spoolPath sampleQueue ''job_x'') = Some \<lparr> fdata = [1, 2], fmode = 384, fmtime = 0 \<rparr>"
  "sv_clamd (sampleSpooled a) = (\<lambda>_. healthyConn a)"
  "q_chan (sampleSpooled a) = [sampleJob ''job_x'']"
proof -
  have "spoolPath sampleQueue ''job_x'' = ''/s/job_x.spool''" by code_simp
  then show "fileAt (sampleSpooled a) (spoolPath sampleQueue ''job_x'') = Some \<lparr> fdata = [1, 2], fmode = 384, fmtime = 0 \<rparr>"
    by (simp add: fileAt_def sampleSpooled_def sampleQState_def)
qed (simp_all add: sampleSpooled_def sampleQState_def emptyDB_def jobRow_def sampleJob_def newJob_def)

theorem process_records_verdict_witness:
  "map_option rowOutcome (jobRow ''job_x'' (snd (run_state (processJob clamdScanTee sampleQueue (sampleJob ''job_x''))
     (sampleSpooled (detection ''Eicar''))))) =
   Some \<lparr> o_Status = ''COMPLETED'', o_Verdict = ''INFECTED'', o_VirusName = ''Eicar'', o_ErrorMsg = '''',
     o_SHA256 = hexEncodeToString (sha256 [1, 2]) \<rparr>"
proof -
  let ?s = "sampleSpooled (detection ''Eicar'')"
  obtain u s' where run: "run_state (processJob clamdScanTee sampleQueue (sampleJob ''job_x'')) ?s = (u, s')" by (metis prod.exhaust)
  note f = sampleSpooled_facts[of "detection ''Eicar''"]
  have "jobRow (j_ID (sampleJob ''job_x'')) ?s = Some (sampleJob ''job_x'')"
    "fileAt ?s (spoolPath sampleQueue (j_ID (sampleJob ''job_x''))) = Some \<lparr> fdata = [1, 2], fmode = 384, fmtime = 0 \<rparr>"
    using f(4,5) by simp_all
  from process_records_verdict[OF f(1-3) this run] run f(6) sample_verdict[of "[1, 2]"] show ?thesis by simp
qed

subsection \<open>Draining the channel\<close>

text \<open>Every row of the ids is settled.\<close>

definition settledRows :: "string set \<Rightarrow> 'a world_scheme \<Rightarrow> bool" where
  "settledRows I w \<longleftrightarrow> (\<forall>j \<in> set (scan_jobs (w_db w)). j_ID j \<in> I \<longrightarrow> settledStatus (j_Status j))"

context queue_scanner
begin

lemma process_settles:
  assumes "stmt_fault (w_db s) = (\<lambda>_. None)" and "run_state (processJob scan q job) s = ((), s')"
    and "settledRows I s"
  shows "settledRows (insert (j_ID job) I) s' \<and> q_chan s' = q_chan s \<and> stmt_fault (w_db s') = (\<lambda>_. None)"
proof -
  let ?i = "j_ID job"
  obtain t t2 out where via: "jobsVia (\<lambda>j. setOutcome t2 ?i out (setJobStatus t ?i ''PROCESSING'' '''' '''' '''' '''' j)) s s'"
    and st: "settledStatus (o_Status out)"
    by (rule processJob_via[OF assms(1,2)]) blast
  define g where "g j = setOutcome t2 ?i out (setJobStatus t ?i ''PROCESSING'' '''' '''' '''' '''' j)" for j
  have g: "j_ID (g j) = j_ID j" "j_ID j \<noteq> ?i \<Longrightarrow> g j = j" "j_ID j = ?i \<Longrightarrow> j_Status (g j) = o_Status out" for j
    by (simp_all add: g_def setOutcome_def setJobStatus_def)
  have rows: "scan_jobs (w_db s') = map g (scan_jobs (w_db s))" and m: "service.more s' = service.more s"
    and sf: "stmt_fault (w_db s') = (\<lambda>_. None)"
    using via assms(1) by (simp_all add: jobsVia_def g_def)
  have "settledStatus (j_Status (g j))" if "j \<in> set (scan_jobs (w_db s))" "j_ID (g j) \<in> insert ?i I" for j
    using that assms(3) g[of j] st by (cases "j_ID j = ?i") (auto simp: settledRows_def)
  then have "settledRows (insert ?i I) s'" by (auto simp: settledRows_def rows)
  moreover have "q_chan s' = q_chan s" using m by (cases s; cases s') simp
  ultimately show ?thesis using sf by blast
qed

lemma worker_settles:
  assumes "stmt_fault (w_db s) = (\<lambda>_. None)" and "length (q_chan s) \<le> n" and "settledRows I s"
  shows "q_chan (snd (run_state (worker scan q n) s)) = [] \<and>
    settledRows (I \<union> j_ID ` set (q_chan s)) (snd (run_state (worker scan q n) s))"
  using assms
proof (induction n arbitrary: s I)
  case 0
  then show ?case by simp
next
  case (Suc n)
  show ?case
  proof (cases "q_chan s")
    case Nil
    with Suc.prems show ?thesis by (simp add: receive_def)
  next
    case (Cons job js)
    define s1 where "s1 = s\<lparr>q_chan := js\<rparr>"
    obtain s2 where p: "run_state (processJob scan q job) s1 = ((), s2)"
      by (cases "run_state (processJob scan q job) s1") auto
    have s1: "stmt_fault (w_db s1) = (\<lambda>_. None)" "settledRows I s1" "q_chan s1 = js"
      using Suc.prems by (simp_all add: s1_def settledRows_def)
    note st = process_settles[OF s1(1) p s1(2)]
    have "run_state (worker scan q (Suc n)) s = run_state (worker scan q n) s2"
      using Cons p by (simp add: receive_def s1_def)
    moreover have "length (q_chan s2) \<le> n" using st s1(3) Suc.prems(2) Cons by simp
    ultimately show ?thesis
      using Suc.IH[of s2 "insert (j_ID job) I"] st s1(3) Cons by (simp add: insert_commute)
  qed
qed

end

text \<open>
  C7. A closed queue is drained. When the database works, a worker with as many turns as there
  are jobs in the closed channel ends with the channel empty, and every job that was in it
  settled: its row is COMPLETED or FAILED, whatever the daemon, the disk and the receivers of
  the webhooks do.
\<close>

theorem worker_settles_all:
  fixes s :: "'a queueState_scheme"
  assumes "stmt_fault (w_db s) = (\<lambda>_. None)"
  shows "\<exists>s'. run_state (worker clamdScanTee q (length (q_chan s))) s = ((), s') \<and> q_chan s' = [] \<and>
    (\<forall>j \<in> set (scan_jobs (w_db s')). j_ID j \<in> j_ID ` set (q_chan s) \<longrightarrow> j_Status j = ''COMPLETED'' \<or> j_Status j = ''FAILED'')"
proof -
  obtain s' where run: "run_state (worker clamdScanTee q (length (q_chan s))) s = ((), s')"
    by (cases "run_state (worker clamdScanTee q (length (q_chan s))) s") auto
  have "settledRows {} s" by (simp add: settledRows_def)
  from cq.worker_settles[OF assms order_refl this, of q] run show ?thesis
    by (auto simp: settledRows_def settledStatus_def)
qed

theorem worker_settles_all_witness:
  "\<exists>s'. run_state (worker clamdScanTee sampleQueue (Suc 0)) (sampleSpooled ''stream: OK'') = ((), s') \<and> q_chan s' = []"
proof -
  have "length (q_chan (sampleSpooled ''stream: OK'')) = Suc 0" by (simp add: sampleSpooled_facts)
  with worker_settles_all[OF sampleSpooled_facts(1), of sampleQueue "''stream: OK''"] show ?thesis by metis
qed

subsection \<open>The webhook\<close>

lemma run_onNet: "run_state (onNet m) s = (case run_state m (sv_net s) of (r, n) \<Rightarrow> (r, s\<lparr>sv_net := n\<rparr>))"
  by (simp add: onNet_def run_zoom split: prod.split)

lemma webhookLoop_dials:
  assumes "0 < f_MaxRedirects (q_fetcher q)"
  shows "dialsAllowed (q_fetcher q) (sv_net s) (sv_net (snd (run_state (webhookLoop q url body n) s))) \<and>
    length (ns_dials (sv_net (snd (run_state (webhookLoop q url body n) s)))) \<le>
      length (ns_dials (sv_net s)) + n * nat (f_MaxRedirects (q_fetcher q))"
proof (induction n arbitrary: s)
  case 0
  then show ?case by (simp add: dials.R_refl)
next
  case (Suc n)
  show ?case
  proof (cases "urlParse (sv_env s) url")
    case (Inl e)
    then show ?thesis by (simp add: dials.R_refl)
  next
    case (Inr u)
    define req where "req = \<lparr> rq_method = ''POST'', rq_url = u, rq_body = body \<rparr>"
    define net where "net = snd (clientDo (q_fetcher q) (sv_env s) 0 req (sv_net s))"
    define s1 where "s1 = s\<lparr>sv_net := net\<rparr>"
    have one: "dialsAllowed (q_fetcher q) (sv_net s) net"
      "length (ns_dials net) \<le> length (ns_dials (sv_net s)) + nat (f_MaxRedirects (q_fetcher q))"
      using dials_clientDo[of "q_fetcher q" "sv_net s" "sv_env s" 0 req]
        clientDo_hops[of "q_fetcher q" "sv_env s" 0 req "sv_net s"] assms
      by (auto simp: net_def max_def split: if_splits)
    have "snd (run_state (webhookLoop q url body (Suc n)) s) \<in> {s1, snd (run_state (webhookLoop q url body n) s1)}"
      using Inr by (auto simp: run_onNet ClientDo_def req_def[symmetric] net_def s1_def split: prod.split sum.split)
    with Suc.IH[of s1] one show ?thesis
      by (auto simp: s1_def intro: dials.R_trans)
  qed
qed

text \<open>
  C23. Webhooks stay outside and give up. Posting to a callback URL opens at most three times
  \<open>MaxRedirects\<close> connections, each to an address that is not blocked, whatever the callback
  host resolves to by then and wherever its server redirects.
\<close>

theorem webhook_bounded_and_guarded:
  assumes "0 < f_MaxRedirects (q_fetcher q)"
  shows "\<exists>ds. ns_dials (sv_net (snd (run_state (dispatchWebhook q job p) s))) = ns_dials (sv_net s) @ ds \<and>
    length ds \<le> 3 * nat (f_MaxRedirects (q_fetcher q)) \<and>
    list_all (\<lambda>(ip, port). ip \<noteq> [] \<and>
      (\<not> IsBlockedIP ip \<or> (f_AllowLoopbackForTesting (q_fetcher q) \<and> IsLoopback ip))) ds"
proof (cases "j_CallbackURL job = ''''")
  case True
  then show ?thesis by (simp add: dispatchWebhook_def)
next
  case False
  define s' where "s' = snd (run_state (webhookLoop q (j_CallbackURL job) (bytesOf (jsonText (payloadJson p))) 3) s)"
  have run: "snd (run_state (dispatchWebhook q job p) s) = s'"
    using False by (simp add: dispatchWebhook_def s'_def split: prod.split)
  obtain ds where ds: "ns_dials (sv_net s') = ns_dials (sv_net s) @ ds"
    "list_all (\<lambda>(ip, port). ip \<noteq> [] \<and> \<not> isBlockedFor (q_fetcher q) ip) ds"
    "length (ns_dials (sv_net s')) \<le> length (ns_dials (sv_net s)) + 3 * nat (f_MaxRedirects (q_fetcher q))"
    using webhookLoop_dials[OF assms, of s "j_CallbackURL job" "bytesOf (jsonText (payloadJson p))" 3]
    by (auto simp: s'_def dialsAllowed_def)
  have "list_all (\<lambda>(ip, port). ip \<noteq> [] \<and>
      (\<not> IsBlockedIP ip \<or> (f_AllowLoopbackForTesting (q_fetcher q) \<and> IsLoopback ip))) ds"
    using ds(2) by (rule list.pred_mono_strong) (auto simp: isBlockedFor_def split: if_splits)
  with ds run show ?thesis by auto
qed

definition samplePayload :: WebhookPayload where
  "samplePayload = \<lparr> wh_Event = ''scan.completed'', wh_JobID = ''j'', wh_Status = ''COMPLETED'', wh_Verdict = ''CLEAN'',
     wh_Threat = None, wh_Data = \<lparr> wd_FileName = ''a'', wd_FileSize = 2, wd_FileSHA256 = '''', wd_ScanDurationMs = 0,
       wd_CompletedAt = '''' \<rparr> \<rparr>"

theorem webhook_bounded_and_guarded_witness:
  "\<exists>ds. ns_dials (sv_net (snd (run_state (dispatchWebhook sampleQueue (sampleJob ''j'') samplePayload) (sampleSpooled '''')))) = ds \<and>
     length ds \<le> 9"
proof -
  have m: "0 < f_MaxRedirects (q_fetcher sampleQueue)" "nat (f_MaxRedirects (q_fetcher sampleQueue)) = 3"
    by (simp_all add: sampleQueue_def NewQueue_def NewSafeFetcher_def)
  have "ns_dials (sv_net (sampleSpooled '''')) = []" by (simp add: sampleSpooled_def sampleQState_def)
  with webhook_bounded_and_guarded[OF m(1), where job = "sampleJob ''j''" and p = samplePayload and s = "sampleSpooled ''''"] m(2)
  show ?thesis by auto
qed

subsection \<open>Two submissions at one instant\<close>

text \<open>
  C35. Ids are instants. The id of a job, and so the name of its spool file, is the nanosecond
  of the clock at which it was submitted. When a second submission reads the same instant, it
  overwrites the first one's spool file, is refused by the database, and removes the file:
  the first job stays accepted, but its payload is gone.
\<close>

theorem same_instant_destroys_spool:
  fixes s :: "'a queueState_scheme"
  assumes "w_fault s = (\<lambda>_. None)" and "newJobID (w_clock s (w_step s)) \<in> j_ID ` set (scan_jobs (w_db s))"
    and "run_state (spoolJob q nm r sz cb cs) s = (res, s')"
  shows "isErr res \<and> fileAt s' (spoolPath q (newJobID (w_clock s (w_step s)))) = None \<and>
    scan_jobs (w_db s') = scan_jobs (w_db s)"
proof -
  define i where "i = newJobID (w_clock s (w_step s))"
  define s0 where "s0 = s\<lparr>w_step := Suc (w_step s)\<rparr>"
  define s1 where "s1 = snd (run_state (WriteFile (spoolPath q i) [] mode0600) s0)"
  have o: "run_state (WriteFile (spoolPath q i) [] mode0600) s0 = (None, s1)" and s1: "w_fault s1 = (\<lambda>_. None)" "w_db s1 = w_db s"
    using assms(1) by (simp_all add: s1_def s0_def run_WriteFile_ok)
  define s2 where "s2 = snd (run_state (WriteFile (spoolPath q i) (rdata r) mode0600) s1)"
  have c: "run_state (copyToSpool (spoolPath q i) r) s1 =
      (if errorsIs (rerr r) IoEOF then Inr (int (length (rdata r))) else Inl (rerr r), s2)"
    and s2: "w_fault s2 = (\<lambda>_. None)" "w_db s2 = w_db s"
    using s1 by (simp_all add: s2_def copyToSpool_def run_WriteFile_ok)
  define written where "written = int (length (rdata r))"
  have run: "run_state (spoolJob q nm r sz cb cs) s =
      (if errorsIs (rerr r) IoEOF then run_state (recordJob q i nm sz written cb cs) s2
       else (Inl (wrapErr ''failed writing to spool file: '' (rerr r)), snd (run_state (Remove (spoolPath q i)) s2)))"
    using o c by (simp add: spoolJob_def run_timeNow Let_def i_def[symmetric] s0_def[symmetric] written_def split: prod.split)
  define job where "job = newJob i nm sz written cb cs (w_clock s2 (w_step s2))"
  define d where "d = snd (run_state (InsertScanJob job) (w_db s2))"
  have taken: "i \<in> j_ID ` set (scan_jobs (w_db s2))" using assms(2) s2(2) by (simp add: i_def)
  have ji: "j_ID job = i" by (simp add: job_def newJob_def)
  obtain e where ins: "run_state (InsertScanJob job) (w_db s2) = (Inl e, d)"
  proof (cases "run_state (InsertScanJob job) (w_db s2)")
    case (Pair x d')
    then show ?thesis
      using that jobs.ins_ok[of job "w_db s2" d'] taken ji by (cases x) (auto simp: d_def)
  qed
  define s3 where "s3 = s2\<lparr>w_step := Suc (w_step s2), w_db := d\<rparr>"
  have s3: "w_fault s3 = (\<lambda>_. None)" "scan_jobs (w_db s3) = scan_jobs (w_db s)"
    using s2 jobs.ins_err[OF ins] by (simp_all add: s3_def)
  have rec: "run_state (recordJob q i nm sz written cb cs) s2 =
      (Inl (wrapErr ''failed to record scan job in database: '' e), snd (run_state (Remove (spoolPath q i)) s3))"
    using ins by (simp add: recordJob_def run_timeNow Let_def run_onDB job_def[symmetric] s3_def split: prod.split)
  have rm: "fileAt (snd (run_state (Remove p) w)) p = None \<and> w_db (snd (run_state (Remove p) w)) = w_db w"
    if "w_fault w = (\<lambda>_. None)" for p and w :: "'a queueState_scheme"
    by (rule Remove_run[OF that, of p]) simp
  from assms(3) run rec rm[OF s2(1)] rm[OF s3(1)] s2(2) s3(2) show ?thesis
    unfolding i_def[symmetric] by (cases "errorsIs (rerr r) IoEOF") auto
qed

theorem same_instant_destroys_spool_witness:
  "fileAt (snd (run_state (spoolJob sampleQueue ''b'' (bytesReader [9]) 1 ''http://h/'' ''app'')
     (sampleQState [sampleJob ''job_0''] [(''/s/job_0.spool'', \<lparr> fdata = [1, 2], fmode = 384, fmtime = 0 \<rparr>)] '''')))
     ''/s/job_0.spool'' = None"
proof -
  let ?s = "sampleQState [sampleJob ''job_0''] [(''/s/job_0.spool'', \<lparr> fdata = [1, 2], fmode = 384, fmtime = 0 \<rparr>)] ''''"
  obtain res s' where run: "run_state (spoolJob sampleQueue ''b'' (bytesReader [9]) 1 ''http://h/'' ''app'') ?s = (res, s')"
    by fastforce
  have i: "newJobID (w_clock ?s (w_step ?s)) = ''job_0''" by code_simp
  have p: "spoolPath sampleQueue ''job_0'' = ''/s/job_0.spool''" by code_simp
  have "w_fault ?s = (\<lambda>_. None)" "newJobID (w_clock ?s (w_step ?s)) \<in> j_ID ` set (scan_jobs (w_db ?s))"
    unfolding i by (simp_all add: sampleQState_def)
  from same_instant_destroys_spool[OF this run] run show ?thesis by (simp add: i p)
qed

subsection \<open>Failing without a word\<close>

lemma run_setJob_db:
  obtains d where "run_state (setJob i st vd vn em sha) s = ((), s\<lparr>w_step := Suc (w_step s), w_db := d\<rparr>)"
  by (cases "run_state (UpdateScanJobStatus (w_clock s (w_step s)) i st vd vn em sha) (w_db s)")
    (simp add: setJob_def run_timeNow run_onDB)

text \<open>
  C36. A daemon failure is not reported. When the tables work and the spool file opens but the
  daemon fails to scan it, the row of the job ends FAILED with verdict ERROR and the error of
  the daemon, and its payload is removed, but no webhook is posted: the network is not used
  at all, and the caller, who was promised the verdict at the callback URL, hears nothing.
\<close>

theorem scan_error_posts_nothing:
  fixes s :: "'a service_scheme"
  assumes "stmt_fault (w_db s) = (\<lambda>_. None)" and "w_fault s = (\<lambda>_. None)" and "w_short s = (\<lambda>_. None)"
    and "jobRow (j_ID job) s = Some row" and "fileAt s (spoolPath q (j_ID job)) = Some f"
    and "scanOutcome (fst (ScanStream (sv_clamd s (w_step s + 3)) (bytesReader (fdata f)))) = Inl e"
    and "run_state (processJob clamdScanTee q job) s = (u, s')"
  shows "(\<exists>row'. jobRow (j_ID job) s' = Some row' \<and> j_Status row' = ''FAILED'' \<and> j_Verdict row' = ''ERROR'' \<and>
      j_ErrorMsg row' = ''Daemon scan error: '' @ err_text e) \<and>
    sv_net s' = sv_net s \<and> sv_posts s' = sv_posts s \<and> fileAt s' (spoolPath q (j_ID job)) = None"
proof -
  let ?i = "j_ID job"
  obtain s1 where st: "run_state (setJob ?i ''PROCESSING'' '''' '''' '''' '''') s = ((), s1)"
    and s1: "w_step s1 = Suc (w_step s)" "sv_clamd s1 = sv_clamd s" "sv_net s1 = sv_net s" "sv_posts s1 = sv_posts s"
      "w_fault s1 = (\<lambda>_. None)" "w_short s1 = (\<lambda>_. None)" "fileAt s1 (spoolPath q ?i) = Some f"
    by (rule run_setJob_db[of ?i "''PROCESSING''" "''''" "''''" "''''" "''''" s]) (use assms(2,3,5) in simp)
  define s3 where "s3 = s1\<lparr>w_step := Suc (Suc (w_step s1))\<rparr>"
  define cn where "cn = sv_clamd s (w_step s + 3)"
  have e: "scanOutcome (fst (ScanStream cn (bytesReader (fdata f)))) = Inl e"
    using assms(6) by (simp add: cn_def)
  obtain s4 where sc: "run_state (clamdScanTee (bytesReader (fdata f))) s3 = ((Inl e, fdata f), s4)"
    and s4: "sv_net s4 = sv_net s" "sv_posts s4 = sv_posts s" "w_fault s4 = (\<lambda>_. None)"
    using e s1 by (cases "ScanStream cn (bytesReader (fdata f))")
      (simp add: clamdScanTee_def clamdScan_def overClamd_def run_simps s3_def cn_def numeral_3_eq_3)
  obtain s5 where st5: "run_state (setJob ?i ''FAILED'' ''ERROR'' '''' (''Daemon scan error: '' @ err_text e) '''') s4 = ((), s5)"
    and s5: "sv_net s5 = sv_net s" "sv_posts s5 = sv_posts s" "w_fault s5 = (\<lambda>_. None)"
    by (rule run_setJob_db[of ?i "''FAILED''" "''ERROR''" "''''" "''Daemon scan error: '' @ err_text e" "''''" s4])
      (use s4 in simp)
  have "s' = snd (run_state (Remove (spoolPath q ?i)) s5)"
    using assms(7) st sc st5 s1 by (simp add: processJob_def scanJob_def run_OpenRead run_timeNow s3_def split: prod.splits)
  moreover have "fileAt (snd (run_state (Remove (spoolPath q ?i)) s5)) (spoolPath q ?i) = None"
    by (rule Remove_run[OF s5(3), of "spoolPath q ?i"]) simp
  moreover have "sv_net (snd (run_state (Remove (spoolPath q ?i)) s5)) = sv_net s5"
    "sv_posts (snd (run_state (Remove (spoolPath q ?i)) s5)) = sv_posts s5"
    by (auto simp: Remove_def run_simps dropFile_def split: option.split)
  moreover have "map_option rowOutcome (jobRow ?i s') = Some (outcomeOf (Inl e) (hexEncodeToString (sha256 (fdata f))))"
    using process_outcome[OF assms(1-5,7)] assms(6) by simp
  then have "\<exists>row'. jobRow ?i s' = Some row' \<and> j_Status row' = ''FAILED'' \<and> j_Verdict row' = ''ERROR'' \<and>
      j_ErrorMsg row' = ''Daemon scan error: '' @ err_text e"
    by (auto simp: rowOutcome_def outcomeOf_def)
  ultimately show ?thesis using s5 by simp
qed

theorem scan_error_posts_nothing_witness:
  "\<exists>s' row'. run_state (processJob clamdScanTee sampleQueue (sampleJob ''job_x''))
     ((sampleSpooled '''')\<lparr>sv_clamd := \<lambda>_. (healthyConn '''')\<lparr>dialErr := Some (errorsNew ''refused'')\<rparr>\<rparr>) = ((), s') \<and>
     jobRow ''job_x'' s' = Some row' \<and> j_Status row' = ''FAILED'' \<and> sv_net s' = \<lparr> ns_tick = 0, ns_dials = [] \<rparr>"
proof -
  let ?s = "(sampleSpooled '''')\<lparr>sv_clamd := \<lambda>_. (healthyConn '''')\<lparr>dialErr := Some (errorsNew ''refused'')\<rparr>\<rparr>"
  obtain u s' where run: "run_state (processJob clamdScanTee sampleQueue (sampleJob ''job_x'')) ?s = (u, s')" by (metis prod.exhaust)
  have h: "stmt_fault (w_db ?s) = (\<lambda>_. None)" "w_fault ?s = (\<lambda>_. None)" "w_short ?s = (\<lambda>_. None)"
    "jobRow (j_ID (sampleJob ''job_x'')) ?s = Some (sampleJob ''job_x'')"
    "fileAt ?s (spoolPath sampleQueue (j_ID (sampleJob ''job_x''))) = Some \<lparr> fdata = [1, 2], fmode = 384, fmtime = 0 \<rparr>"
    using sampleSpooled_facts[of "''''"] by (simp_all add: fileAt_def jobRow_def)
  obtain e where "scanOutcome (fst (ScanStream (sv_clamd ?s (w_step ?s + 3)) (bytesReader (fdata \<lparr> fdata = [1, 2], fmode = 384, fmtime = 0 \<rparr>)))) = Inl e"
    by (simp add: ScanStream_def scanOutcome_def)
  from scan_error_posts_nothing[OF h this run] run show ?thesis by (auto simp: sampleSpooled_def sampleQState_def)
qed

subsection \<open>A submission to a closed queue\<close>

text \<open>
  A computation that neither reads nor writes what \<open>f\<close> changes runs the same before and after
  the change.
\<close>

definition oblivious :: "('s \<Rightarrow> 's) \<Rightarrow> ('s, 'x) state \<Rightarrow> bool" where
  "oblivious f m \<longleftrightarrow> (\<forall>s. run_state m (f s) = map_prod id f (run_state m s))"

lemma obliviousD: "oblivious f m \<Longrightarrow> run_state m s = (x, t) \<Longrightarrow> run_state m (f s) = (x, f t)"
  by (simp add: oblivious_def)

lemma oblivious_bind: "oblivious f m \<Longrightarrow> (\<And>x. oblivious f (k x)) \<Longrightarrow> oblivious f (m \<bind> k)"
  unfolding oblivious_def by (simp add: case_prod_beta)

lemma oblivious_ret: "oblivious f (ret x)"
  by (simp add: oblivious_def)

abbreviation reopen :: "'a queueState_scheme \<Rightarrow> 'a queueState_scheme" where
  "reopen s \<equiv> s\<lparr>q_closed := False\<rparr>"

lemma oblivious_env:
  "oblivious reopen (asks sv_env)" "oblivious reopen (onNet mn)" "oblivious reopen (MkdirAll d perm)"
  "oblivious reopen timeNow" "oblivious reopen (WriteFile p bs perm)" "oblivious reopen (Remove p)"
  by (simp_all add: oblivious_def run_simps onNet_def WriteFile_def Remove_def putFile_def dropFile_def fileAt_def Let_def
      split: prod.split option.split)

lemma oblivious_submit:
  "oblivious reopen (validateWebhookURL q u)" "oblivious reopen (copyToSpool p r)"
  unfolding validateWebhookURL_def copyToSpool_def by (intro oblivious_bind oblivious_env oblivious_ret)+

text \<open>
  What a closed queue does with a submission that the same queue, still open, would accept:
  the row is inserted, and then the send panics.
\<close>

definition lostJob :: "ScanJob \<Rightarrow> 'a queueState_scheme \<Rightarrow> 'a queueState_scheme \<Rightarrow> bool" where
  "lostJob job s s' \<longleftrightarrow> j_Status job = ''QUEUED'' \<and> j_ID job \<notin> j_ID ` set (scan_jobs (w_db s)) \<and>
     scan_jobs (w_db s') = scan_jobs (w_db s) @ [storedJob job] \<and> q_chan s' = q_chan s \<and> q_busy s' = q_busy s"

definition losing :: "('a queueState_scheme, ScanJob res) state \<Rightarrow> bool" where
  "losing m \<longleftrightarrow> (\<forall>s job t. q_closed s \<longrightarrow> run_state m (reopen s) = (Inr job, t) \<longrightarrow>
     (\<exists>s'. run_state m s = (Inl (Err ''send on closed channel'' [GoPanic]), s') \<and> lostJob job s s'))"

lemma losing_err: "losing (ret (Inl e))"
  by (simp add: losing_def)

lemma losing_bind:
  fixes m :: "('a queueState_scheme, 'x) state"
  assumes "oblivious reopen m" and "state_io_rel sameJobs m" and "\<And>x. losing (k x)"
  shows "losing (m \<bind> k)"
  unfolding losing_def
proof (intro allI impI)
  fix s :: "'a queueState_scheme" and job t
  assume s: "q_closed s" "run_state (m \<bind> k) (reopen s) = (Inr job, t)"
  obtain x s1 where m: "run_state m s = (x, s1)" by fastforce
  then have same: "sameJobs s s1" by (rule sj.run_relE[OF assms(2)])
  have "run_state (k x) (reopen s1) = (Inr job, t)" using s(2) obliviousD[OF assms(1) m] by simp
  moreover have "q_closed s1" using sameJobs_queue[OF same] s(1) by simp
  ultimately obtain s' where "run_state (k x) s1 = (Inl (Err ''send on closed channel'' [GoPanic]), s')" "lostJob job s1 s'"
    using assms(3) unfolding losing_def by blast
  with m sameJobs_queue[OF same]
  show "\<exists>s'. run_state (m \<bind> k) s = (Inl (Err ''send on closed channel'' [GoPanic]), s') \<and> lostJob job s s'"
    by (simp add: lostJob_def)
qed

lemma losing_record: "losing (recordJob q i nm sz written cb cs :: ('a queueState_scheme, ScanJob res) state)"
  unfolding losing_def
proof (intro allI impI)
  fix s :: "'a queueState_scheme" and job t
  assume s: "q_closed s" "run_state (recordJob q i nm sz written cb cs) (reopen s) = (Inr job, t)"
  define new where "new = newJob i nm sz written cb cs (w_clock s (w_step s))"
  obtain r d where ins: "run_state (InsertScanJob new) (w_db s) = (r, d)" by fastforce
  have "r = Inr ()" "job = new"
    using s(2) ins by (auto simp: recordJob_def run_timeNow Let_def run_onDB new_def[symmetric] enqueue_def
        split: sum.splits if_splits prod.splits)
  then have row: "j_ID new \<notin> j_ID ` set (scan_jobs (w_db s))" "scan_jobs d = scan_jobs (w_db s) @ [storedJob new]"
    using jobs.ins_ok[of new "w_db s" d] ins by simp_all
  have "run_state (recordJob q i nm sz written cb cs) s =
      (Inl (Err ''send on closed channel'' [GoPanic]), s\<lparr>w_step := Suc (w_step s), w_db := d\<rparr>)"
    using s(1) ins \<open>r = Inr ()\<close> by (simp add: recordJob_def run_timeNow Let_def run_onDB new_def[symmetric] enqueue_def)
  with row \<open>job = new\<close> show "\<exists>s'. run_state (recordJob q i nm sz written cb cs) s =
      (Inl (Err ''send on closed channel'' [GoPanic]), s') \<and> lostJob job s s'"
    by (simp add: lostJob_def new_def newJob_def)
qed

lemma losing_option: "losing m \<Longrightarrow> (\<And>x. losing (f x)) \<Longrightarrow> losing (case r of None \<Rightarrow> m | Some x \<Rightarrow> f x)"
  by (cases r) auto

lemma losing_sum: "(\<And>x. losing (f x)) \<Longrightarrow> (\<And>x. losing (g x)) \<Longrightarrow> losing (case r of Inl x \<Rightarrow> f x | Inr x \<Rightarrow> g x)"
  by (cases r) auto

lemma losing_if: "losing m \<Longrightarrow> losing n \<Longrightarrow> losing (if b then m else n)"
  by simp

lemma losing_SubmitJob: "losing (SubmitJob q nm r sz cb cs)"
  unfolding SubmitJob_def spoolJob_def Let_def
  by (intro losing_if losing_err losing_bind losing_option losing_sum losing_record oblivious_env oblivious_submit
      validate_same copyToSpool_same sameJobs_intros)

text \<open>Its row is then in no channel and with no worker.\<close>

lemma lostJob_stranded:
  assumes "lostJob job s s'" and "jobsOk s"
  shows "stranded (j_ID job) s'"
proof -
  have "find (\<lambda>k. j_ID k = j_ID job) (scan_jobs (w_db s)) = None"
    using assms(1) unfolding find_None_iff lostJob_def by (metis imageI)
  then have "jobRow (j_ID job) s' = Some (storedJob job)" using assms(1) by (simp add: lostJob_def jobRow_def find_append)
  moreover have "j_ID job \<notin> pending s'" using assms by (auto simp: lostJob_def jobsOk_def pending_def)
  ultimately show ?thesis using assms(1) by (simp add: stranded_def lostJob_def)
qed

end
