(* ===== verification/Http.thy ===== *)
theory Http
  imports AsyncScan RateLimit
begin

text \<open>
  HTTP requests and responses as the handlers see them, and what the handlers use of
  \<open>net/http\<close>, \<open>encoding/json\<close> and \<open>mime/multipart\<close>: headers and query values, basic
  credentials, decoding a JSON body into named fields, multipart forms under a size limit,
  and the routing of method and path. A body is given by what parsing it yields.
\<close>

text \<open>
  \<open>h_Path\<close> is the path of the URL, which the model takes to have no escaped characters, so that
  the router and the middlewares see the same text; \<open>h_BodyLength\<close> is how many bytes of the body
  parsing its form reads, which is what the limit on the body counts.
\<close>

record formFile =
  ff_Filename :: string
  ff_Size :: int
  ff_Data :: reader

record multipart =
  mp_Files :: "(string \<times> formFile) list"
  mp_Values :: "(string \<times> string) list"

record httpRequest =
  h_Method :: string
  h_Path :: string
  h_Query :: "(string \<times> string) list"
  h_Header :: "(string \<times> string) list"
  h_RemoteAddr :: string
  h_Json :: "json res"
  h_BodyLength :: int
  h_Form :: "multipart res"

datatype respBody = NoBody | JsonBody json | TextBody string | BytesBody bytes

record httpResponse =
  r_Status :: int
  r_Headers :: "(string \<times> string) list"
  r_Body :: respBody

definition firstOf :: "string \<Rightarrow> (string \<times> string) list \<Rightarrow> string" where
  "firstOf k kvs = (case map_of kvs k of None \<Rightarrow> '''' | Some v \<Rightarrow> v)"

definition headerGet :: "httpRequest \<Rightarrow> string \<Rightarrow> string" where
  "headerGet rq k = firstOf k (h_Header rq)"

definition queryGet :: "httpRequest \<Rightarrow> string \<Rightarrow> string" where
  "queryGet rq k = firstOf k (h_Query rq)"

text \<open>A panic in a handler: the connection is closed without a response.\<close>

definition aborted :: httpResponse where
  "aborted = \<lparr> r_Status = 0, r_Headers = [], r_Body = NoBody \<rparr>"

definition addHeaders :: "(string \<times> string) list \<Rightarrow> httpResponse \<Rightarrow> httpResponse" where
  "addHeaders hs r = (if r_Status r = 0 then r else r\<lparr>r_Headers := hs @ r_Headers r\<rparr>)"

subsection \<open>Basic credentials\<close>

text \<open>\<open>Request.BasicAuth\<close>.\<close>

definition BasicAuth :: "httpRequest \<Rightarrow> (string \<times> string) option" where
  "BasicAuth rq =
     (let auth = headerGet rq ''Authorization'' in
      if length auth < 6 \<or> \<not> EqualFold (take 6 auth) ''Basic '' then None
      else (case base64DecodeString (drop 6 auth) of
          Inl _ \<Rightarrow> None
        | Inr c \<Rightarrow>
            let cs = SplitN2 (stringOf c) (CHR '':'') in
            if length cs < 2 then None else Some (cs ! 0, cs ! 1)))"

subsection \<open>JSON bodies\<close>

text \<open>
  \<open>json.NewDecoder(r.Body).Decode(&v)\<close> for a struct of strings and booleans: a key names the
  field it equals up to case (where the long s and the Kelvin sign, which \<open>plainKey\<close> replaces,
  are letters as well), the last one counts, \<open>null\<close> leaves the field alone, and a value
  of another type is an error, found after the other fields have been filled in.
\<close>

fun plainKey :: "string \<Rightarrow> string" where
  "plainKey [] = []"
| "plainKey (c # cs) =
     (if c = CHR 0xC5 \<and> take 1 cs = [CHR 0xBF] then CHR ''s'' # plainKey (drop 1 cs)
      else if c = CHR 0xE2 \<and> take 2 cs = [CHR 0x84, CHR 0xAA] then CHR ''k'' # plainKey (drop 2 cs)
      else c # plainKey cs)"

definition keyed :: "string \<Rightarrow> (string \<times> json) list \<Rightarrow> json list" where
  "keyed k fs = map snd (filter (\<lambda>(k', _). EqualFold (plainKey k') k) fs)"

fun lastString :: "string \<Rightarrow> json list \<Rightarrow> string" where
  "lastString d [] = d"
| "lastString d (JStr s # js) = lastString s js"
| "lastString d (_ # js) = lastString d js"

fun lastBool :: "bool \<Rightarrow> json list \<Rightarrow> bool" where
  "lastBool d [] = d"
| "lastBool d (JBool b # js) = lastBool b js"
| "lastBool d (_ # js) = lastBool d js"

definition objectFields :: "json res \<Rightarrow> (string \<times> json) list" where
  "objectFields b = (case b of Inr (JObj fs) \<Rightarrow> fs | _ \<Rightarrow> [])"

definition bodyString :: "httpRequest \<Rightarrow> string \<Rightarrow> string" where
  "bodyString rq k = lastString '''' (keyed k (objectFields (h_Json rq)))"

definition bodyBool :: "httpRequest \<Rightarrow> string \<Rightarrow> bool" where
  "bodyBool rq k = lastBool False (keyed k (objectFields (h_Json rq)))"

definition stringLike :: "json \<Rightarrow> bool" where
  "stringLike j \<longleftrightarrow> (case j of JStr _ \<Rightarrow> True | JNull \<Rightarrow> True | _ \<Rightarrow> False)"

definition boolLike :: "json \<Rightarrow> bool" where
  "boolLike j \<longleftrightarrow> (case j of JBool _ \<Rightarrow> True | JNull \<Rightarrow> True | _ \<Rightarrow> False)"

definition decodeOk :: "httpRequest \<Rightarrow> string list \<Rightarrow> string list \<Rightarrow> bool" where
  "decodeOk rq strs bools \<longleftrightarrow>
     (case h_Json rq of
        Inl _ \<Rightarrow> False
      | Inr JNull \<Rightarrow> True
      | Inr (JObj fs) \<Rightarrow> list_all (\<lambda>k. list_all stringLike (keyed k fs)) strs \<and>
          list_all (\<lambda>k. list_all boolLike (keyed k fs)) bools
      | Inr _ \<Rightarrow> False)"

subsection \<open>Forms\<close>

text \<open>
  \<open>ParseMultipartForm\<close> of a body behind \<open>http.MaxBytesReader\<close>: a body of more bytes than the
  limit is an error.
\<close>

definition ParseMultipartForm :: "int \<Rightarrow> httpRequest \<Rightarrow> multipart res" where
  "ParseMultipartForm limit rq =
     (if max 0 limit < h_BodyLength rq then Inl (errorsNew ''http: request body too large'') else h_Form rq)"

definition FormFile :: "multipart \<Rightarrow> string \<Rightarrow> formFile option" where
  "FormFile form k = map_of (mp_Files form) k"

text \<open>For a multipart request the values of the URL come before those of the body.\<close>

definition FormValue :: "httpRequest \<Rightarrow> multipart \<Rightarrow> string \<Rightarrow> string" where
  "FormValue rq form k = firstOf k (h_Query rq @ mp_Values form)"

subsection \<open>Routing\<close>

text \<open>A pattern of \<open>http.ServeMux\<close>: a method (none for any) and a path with wildcards.\<close>

datatype segment = Literal string | Wildcard

datatype pattern =
    Exact "string option" "segment list"
  | Under "string option" string

definition segments :: "string \<Rightarrow> string list" where
  "segments p = Split (drop 1 p) (CHR ''/'')"

fun matchSegments :: "segment list \<Rightarrow> string list \<Rightarrow> string list option" where
  "matchSegments [] [] = Some []"
| "matchSegments (Literal l # ps) (s # ss) = (if l = s then matchSegments ps ss else None)"
| "matchSegments (Wildcard # ps) (s # ss) =
     (if s = '''' then None else map_option ((#) s) (matchSegments ps ss))"
| "matchSegments _ _ = None"

fun matchPath :: "pattern \<Rightarrow> string \<Rightarrow> string list option" where
  "matchPath (Exact _ ps) p = matchSegments ps (segments p)"
| "matchPath (Under _ pre) p = (if HasPrefix p pre then Some [] else None)"

text \<open>\<open>GET\<close> patterns also serve \<open>HEAD\<close>.\<close>

fun matchMethod :: "pattern \<Rightarrow> string \<Rightarrow> bool" where
  "matchMethod (Exact (Some m) _) rm = (rm = m \<or> m = ''GET'' \<and> rm = ''HEAD'')"
| "matchMethod (Under (Some m) _) rm = (rm = m \<or> m = ''GET'' \<and> rm = ''HEAD'')"
| "matchMethod _ rm = True"

definition cleanURLPath :: "string \<Rightarrow> string" where
  "cleanURLPath p =
     (if p = '''' then ''/''
      else
        let q = (if hd p = CHR ''/'' then p else CHR ''/'' # p); np = filepathClean q in
        if last q = CHR ''/'' \<and> np \<noteq> ''/'' then np @ ''/'' else np)"

datatype 'h routed = MovedTo string | NoMethod | NoRoute | Handled 'h "string list"

text \<open>
  A path that is not clean is redirected, then a path that only lacks the slash of a subtree;
  the patterns of the server do not overlap, so the first that matches is the one.
\<close>

definition routeIn :: "(pattern \<times> 'h) list \<Rightarrow> string \<Rightarrow> string \<Rightarrow> 'h routed" where
  "routeIn table meth p =
     (let found = filter (\<lambda>(pat, h). matchPath pat p \<noteq> None) table;
          able = filter (\<lambda>(pat, h). matchMethod pat meth) found in
      if meth \<noteq> ''CONNECT'' \<and> p \<noteq> cleanURLPath p then MovedTo (cleanURLPath p)
      else (case able of
          (pat, h) # _ \<Rightarrow> Handled h (case matchPath pat p of None \<Rightarrow> [] | Some ws \<Rightarrow> ws)
        | [] \<Rightarrow>
            if list_ex (\<lambda>(pat, h). matchPath pat (p @ ''/'') \<noteq> None \<and> (case pat of Under _ _ \<Rightarrow> True | _ \<Rightarrow> False)) table
               \<and> found = [] then MovedTo (p @ ''/'')
            else if found \<noteq> [] then NoMethod else NoRoute))"

subsection \<open>Times in JSON\<close>

text \<open>\<open>time.Time\<close> as \<open>encoding/json\<close> prints it: RFC 3339 with the fraction it has, no trailing zeros.\<close>

definition fracText :: "int \<Rightarrow> string" where
  "fracText t =
     (let ns = t mod secondNs in
      if ns = 0 then ''''
      else CHR ''.'' # rev (dropWhile (\<lambda>c. c = CHR ''0'') (rev (pad 9 (itoa ns)))))"

definition jsonTime :: "int \<Rightarrow> json" where
  "jsonTime t = JStr (butlast (formatRFC3339 t) @ fracText t @ ''Z'')"

lemma jsonTime_example: "jsonTime 1756821015000000010 = JStr ''2025-09-02T13:50:15.00000001Z''"
  by code_simp

end
