(* ===== verification/Api.thy ===== *)
theory Api
  imports Http
begin

text \<open>
  The HTTP API, \<open>internal/api/server.go\<close>: the middlewares (headers, rate limit,
  authentication), the routes, and every handler. A handler takes the request and the values
  of the path's wildcards to its response, in the state of the queue extended by the rate
  limiter. The files of the web UI are embedded at build time and are a parameter.
\<close>

record apiState = queueState +
  a_limiter :: Limiter

record ServerConfig =
  c_Vault :: Vault
  c_HasLimiter :: bool
  c_Fetcher :: "SafeFetcherConfig option"
  c_YARA :: "Manager option"
  c_Async :: "Queue option"
  c_HasDB :: bool
  c_RequireAPIKey :: bool
  c_MaxScanSizeMB :: int
  c_RateLimitRPM :: int
  c_RateLimitEnabled :: bool
  c_LogRetention :: int
  c_QuarRetention :: int
  c_AuthMode :: string
  c_BasicUser :: string
  c_BasicPass :: string
  c_BearerToken :: string
  c_UIPassword :: string
  c_Assets :: "string \<Rightarrow> httpResponse"

definition maxScanBytes :: "ServerConfig \<Rightarrow> int" where
  "maxScanBytes c = int64 (c_MaxScanSizeMB c * 1024 * 1024)"

definition NewServer :: "ServerConfig \<Rightarrow> ServerConfig" where
  "NewServer c0 =
     (let c1 = (if c_MaxScanSizeMB c0 \<le> 0 then c0\<lparr>c_MaxScanSizeMB := 100\<rparr> else c0);
          c2 = (if c_RateLimitRPM c1 \<le> 0 then c1\<lparr>c_RateLimitRPM := 100\<rparr> else c1);
          c3 = (if c_AuthMode c2 = '''' then c2\<lparr>c_AuthMode := ''none''\<rparr> else c2);
          c4 = (if c_BasicUser c3 = '''' then c3\<lparr>c_BasicUser := ''admin''\<rparr> else c3);
          c5 = (if c_UIPassword c4 = '''' then c4\<lparr>c_UIPassword := ''123456''\<rparr> else c4)
      in case c_Fetcher c5 of
           Some _ \<Rightarrow> c5
         | None \<Rightarrow> c5\<lparr>c_Fetcher := Some (NewSafeFetcher \<lparr> f_Timeout = 30 * secondNs, f_MaxRedirects = 0,
             f_MaxBytes = maxScanBytes c5, f_AllowLoopbackForTesting = False \<rparr>)\<rparr>)"

subsection \<open>Responses\<close>

definition jsonHeader :: "string \<times> string" where
  "jsonHeader = (''Content-Type'', ''application/json; charset=utf-8'')"

definition respondJSON :: "int \<Rightarrow> json \<Rightarrow> httpResponse" where
  "respondJSON status j = \<lparr> r_Status = status, r_Headers = [jsonHeader], r_Body = JsonBody j \<rparr>"

definition respondError :: "int \<Rightarrow> string \<Rightarrow> string \<Rightarrow> json \<Rightarrow> httpResponse" where
  "respondError status code message details =
     respondJSON status (JObj
       [(''success'', JBool False),
        (''error'', JObj [(''code'', JStr code), (''message'', JStr message), (''details'', details)])])"

definition badRequest :: "string \<Rightarrow> httpResponse" where
  "badRequest message = respondError 400 ''INVALID_REQUEST_PAYLOAD'' message JNull"

definition internalError :: "string \<Rightarrow> httpResponse" where
  "internalError message = respondError 500 ''INTERNAL_SERVER_ERROR'' message JNull"

definition quoted :: "string \<Rightarrow> string" where
  "quoted s = [CHR 0x27] @ s @ [CHR 0x27]"

subsection \<open>Who is asking\<close>

definition extractIP :: "httpRequest \<Rightarrow> string" where
  "extractIP rq =
     (let xff = headerGet rq ''X-Forwarded-For'' in
      if xff \<noteq> '''' then TrimSpace (hd (Split xff (CHR '','')))
      else hd (Split (h_RemoteAddr rq) (CHR '':'')))"

definition extractConsumer :: "httpRequest \<Rightarrow> string" where
  "extractConsumer rq =
     (let c = headerGet rq ''X-Consumer-Name'' in if c \<noteq> '''' then c else ''Anonymous-Client'')"

subsection \<open>Health and statistics\<close>

definition handleHealth :: "('a apiState_scheme, httpResponse) state" where
  "handleHealth = do {
     t \<leftarrow> timeNow;
     ret (respondJSON 200 (JObj
       [(''status'', JStr ''healthy''), (''service'', JStr ''clamav-service''),
        (''timestamp'', JStr (formatRFC3339 t))])) }"

definition metricsText :: string where
  "metricsText = ''# HELP clamav_service_up Status of clamav service'' @ lf @
     ''# TYPE clamav_service_up gauge'' @ lf @ ''clamav_service_up 1'' @ lf"

definition handleMetrics :: "('a apiState_scheme, httpResponse) state" where
  "handleMetrics = ret \<lparr> r_Status = 200, r_Headers = [(''Content-Type'', ''text/plain; version=0.0.4'')],
     r_Body = TextBody metricsText \<rparr>"

definition statsJson :: "SystemStats \<Rightarrow> json" where
  "statsJson s = JObj
     [(''total_scans'', JNum (int (TotalScans s))), (''clean_scans'', JNum (int (CleanScans s))),
      (''infected_scans'', JNum (int (InfectedScans s))), (''quarantined_files'', JNum (int (Quarantined s)))]"

definition handleStats :: "('a apiState_scheme, httpResponse) state" where
  "handleStats = do {
     r \<leftarrow> onDB GetSystemStats;
     ret (case r of
            Inl _ \<Rightarrow> internalError ''Failed to fetch stats''
          | Inr stats \<Rightarrow> respondJSON 200 (JObj [(''success'', JBool True), (''data'', statsJson stats)])) }"

subsection \<open>Scanning an upload\<close>

text \<open>The outcome of every scan by the handlers: the audit entry, and for an infected payload vault and alert.\<close>

record payloadInfo =
  p_Name :: string
  p_Size :: int
  p_Hash :: string
  p_Source :: string

definition auditScan ::
  "httpRequest \<Rightarrow> payloadInfo \<Rightarrow> string \<Rightarrow> string \<Rightarrow> int \<Rightarrow> string \<Rightarrow> ('a apiState_scheme, unit) state" where
  "auditScan rq p verdict virusName ms quarID = do {
     t1 \<leftarrow> timeNow;
     t2 \<leftarrow> timeNow;
     _ \<leftarrow> onDB (InsertScanAuditLog
       \<lparr> al_ID = ''audit_'' @ itoa t1, al_Timestamp = t2, al_ConsumerName = extractConsumer rq,
         al_ClientIP = extractIP rq, al_FileName = p_Name p, al_FileSizeBytes = p_Size p,
         al_FileSHA256 = p_Hash p, al_Verdict = verdict, al_VirusName = virusName,
         al_ScanDurationMs = ms, al_QuarantineID = quarID \<rparr>);
     ret () }"

definition quarantineInfected ::
  "ServerConfig \<Rightarrow> httpRequest \<Rightarrow> payloadInfo \<Rightarrow> string \<Rightarrow> bytes \<Rightarrow> ('a apiState_scheme, string) state" where
  "quarantineInfected c rq p virusName payload = do {
     qr \<leftarrow> QuarantineFile (c_Vault c) (p_Name p) (extractConsumer rq) virusName (bytesReader payload) (c_QuarRetention c);
     ret (case qr of Inl _ \<Rightarrow> '''' | Inr rec \<Rightarrow> q_ID rec) }"

definition alertInfected ::
  "httpRequest \<Rightarrow> payloadInfo \<Rightarrow> string \<Rightarrow> string \<Rightarrow> ('a apiState_scheme, unit) state" where
  "alertInfected rq p virusName quarID = do {
     nt \<leftarrow> asks sv_notifier;
     (if nt = None then ret () else do {
        t \<leftarrow> timeNow;
        dispatchThreat \<lparr> ta_VirusName = virusName, ta_FileName = p_Name p, ta_FileSizeBytes = p_Size p,
          ta_FileSHA256 = p_Hash p, ta_QuarantineID = quarID, ta_SourceConsumer = extractConsumer rq,
          ta_DetectedAt = t \<rparr> }) }"

definition threatField :: "string \<Rightarrow> string \<Rightarrow> string \<times> json" where
  "threatField virusName quarID =
     (''threat'', JObj [(''virus_name'', JStr virusName), (''severity'', JStr ''HIGH''),
        (''action_taken'', JStr ''QUARANTINED''), (''quarantine_id'', JStr quarID)])"

text \<open>The fields both scan handlers report; the URL handler names the source.\<close>

definition dataFields :: "payloadInfo \<Rightarrow> int \<Rightarrow> (string \<times> json) list" where
  "dataFields p ms =
     (if p_Source p = '''' then [] else [(''source_url'', JStr (p_Source p))]) @
     [(''file_name'', JStr (p_Name p)), (''file_size'', JNum (p_Size p)), (''file_sha256'', JStr (p_Hash p)),
      (''scan_duration_ms'', JNum ms)]"

definition verdictResponse :: "string \<Rightarrow> (string \<times> json) list \<Rightarrow> (string \<times> json) list \<Rightarrow> httpResponse" where
  "verdictResponse verdict extra dataJson =
     respondJSON 200 (JObj ([(''success'', JBool True), (''verdict'', JStr verdict)] @ extra @ [(''data'', JObj dataJson)]))"

definition scannedAt :: "int \<Rightarrow> string \<times> json" where
  "scannedAt t = (''scanned_at'', JStr (formatRFC3339 t))"

text \<open>A clean and an infected payload.\<close>

definition respondClean ::
  "httpRequest \<Rightarrow> payloadInfo \<Rightarrow> int \<Rightarrow> ('a apiState_scheme, httpResponse) state" where
  "respondClean rq p ms = do {
     auditScan rq p ''CLEAN'' '''' ms '''';
     t \<leftarrow> timeNow;
     ret (verdictResponse ''CLEAN'' [] (dataFields p ms @ [scannedAt t])) }"

definition respondInfected ::
  "ServerConfig \<Rightarrow> httpRequest \<Rightarrow> payloadInfo \<Rightarrow> int \<Rightarrow> string \<Rightarrow> bytes \<Rightarrow> ('a apiState_scheme, httpResponse) state" where
  "respondInfected c rq p ms virusName payload = do {
     quarID \<leftarrow> quarantineInfected c rq p virusName payload;
     auditScan rq p ''INFECTED'' virusName ms quarID;
     alertInfected rq p virusName quarID;
     ret (verdictResponse ''INFECTED'' [threatField virusName quarID] (dataFields p ms)) }"

text \<open>From the whitelist check on: \<open>wlTime\<close> says whether a whitelisted answer carries the time.\<close>

definition scanPayload ::
  "ServerConfig \<Rightarrow> httpRequest \<Rightarrow> int \<Rightarrow> payloadInfo \<Rightarrow> bool \<Rightarrow> bytes \<Rightarrow> ('a apiState_scheme, httpResponse) state" where
  "scanPayload c rq start p wlTime payload = do {
     wl \<leftarrow> onDB (IsWhitelisted (p_Hash p));
     if okOr False wl then do {
       now \<leftarrow> timeNow;
       (if wlTime then do {
          t \<leftarrow> timeNow;
          ret (verdictResponse ''CLEAN'' [(''whitelisted'', JBool True)] (dataFields p (msSince start now) @ [scannedAt t])) }
        else ret (verdictResponse ''CLEAN'' [(''whitelisted'', JBool True)] (dataFields p (msSince start now)))) }
     else do {
       x \<leftarrow> clamdScan (bytesReader payload);
       case x of
         Inl _ \<Rightarrow> ret (respondError 503 ''ENGINE_UNAVAILABLE'' ''Antivirus daemon unavailable or timed out'' JNull)
       | Inr res \<Rightarrow> do {
           now \<leftarrow> timeNow;
           let ms = msSince start now;
           if IsClean res then respondClean rq p ms
           else respondInfected c rq p ms (VirusName res) payload } } }"

definition payloadOf :: "string \<Rightarrow> string \<Rightarrow> bytes \<Rightarrow> payloadInfo" where
  "payloadOf source name payload =
     \<lparr> p_Name = name, p_Size = int (length payload), p_Hash = hexEncodeToString (sha256 payload), p_Source = source \<rparr>"

definition fileTooLarge :: httpResponse where
  "fileTooLarge = respondError 413 ''FILE_TOO_LARGE'' ''Uploaded file exceeds maximum limit'' JNull"

definition missingFile :: httpResponse where
  "missingFile = badRequest (''Missing '' @ quoted ''file'' @ '' multipart form field'')"

definition handleScanFile :: "ServerConfig \<Rightarrow> httpRequest \<Rightarrow> ('a apiState_scheme, httpResponse) state" where
  "handleScanFile c rq = do {
     start \<leftarrow> timeNow;
     case ParseMultipartForm (maxScanBytes c) rq of
       Inl _ \<Rightarrow> ret fileTooLarge
     | Inr form \<Rightarrow>
         (case FormFile form ''file'' of
            None \<Rightarrow> ret missingFile
          | Some ff \<Rightarrow>
              (case readAll (\<lambda>_. 511) 0 [] (ff_Data ff) of
                 Inl _ \<Rightarrow> ret (internalError ''Failed to read file payload'')
               | Inr payload \<Rightarrow> scanPayload c rq start (payloadOf '''' (ff_Filename ff) payload) False payload)) }"

definition handleScanStream :: "ServerConfig \<Rightarrow> httpRequest \<Rightarrow> ('a apiState_scheme, httpResponse) state" where
  "handleScanStream c rq = handleScanFile c rq"

subsection \<open>Scanning a remote file\<close>

text \<open>Why the download failed, as the handler reports it.\<close>

definition fetchError :: "string \<Rightarrow> goerr \<Rightarrow> httpResponse" where
  "fetchError target e =
     (if errorsIs e ErrSSRFBlocked then
        respondError 400 ''SSRF_ATTEMPT_BLOCKED''
          ''The provided target URL resolves to a prohibited private, loopback, or cloud-metadata IP address''
          (JObj [(''target_url'', JStr target), (''policy'', JStr ''RFC1918, Loopback, and Link-Local IPs are strictly forbidden'')])
      else if errorsIs e ErrInvalidScheme then badRequest (err_text e)
      else if errorsIs e ErrTooManyRedirects then respondError 400 ''TOO_MANY_REDIRECTS'' ''Redirect limit exceeded'' JNull
      else if errorsIs e DeadlineExceeded then
        respondError 504 ''DOWNLOAD_TIMEOUT'' ''Failed to stream remote file within the allowed window'' JNull
      else respondError 502 ''DOWNLOAD_FAILED'' (''Failed to download remote file: '' @ err_text e) JNull)"

definition bodyError :: "ServerConfig \<Rightarrow> goerr \<Rightarrow> httpResponse" where
  "bodyError c e =
     (if errorsIs e ErrPayloadTooLarge then
        respondError 413 ''FILE_TOO_LARGE''
          (''Remote file exceeds the configured maximum scanning size limit ('' @ itoa (c_MaxScanSizeMB c) @ '' MB)'') JNull
      else respondError 502 ''DOWNLOAD_FAILED'' (''Failed reading remote file stream: '' @ err_text e) JNull)"

definition checksumMismatch :: "string \<Rightarrow> string \<Rightarrow> httpResponse" where
  "checksumMismatch computed expected =
     respondError 400 ''CHECKSUM_MISMATCH''
       (''Downloaded file SHA256 ('' @ computed @ '') does not match expected checksum ('' @ expected @ '')'')
       (JObj [(''computed_sha256'', JStr computed), (''expected_sha256'', JStr expected)])"

definition remoteName :: "netEnv \<Rightarrow> string \<Rightarrow> string" where
  "remoteName env target =
     (case urlParse env target of
        Inl _ \<Rightarrow> ''remote_file''
      | Inr parsed \<Rightarrow>
          (let base = filepathBase (urlPath parsed) in
           if base \<noteq> '''' \<and> base \<noteq> ''.'' \<and> base \<noteq> ''/'' then base else ''remote_file''))"

text \<open>The remote file has been answered with a response: lines 409 to the end.\<close>

definition scanRemote ::
  "ServerConfig \<Rightarrow> httpRequest \<Rightarrow> int \<Rightarrow> string \<Rightarrow> string \<Rightarrow> FetchResult \<Rightarrow> ('a apiState_scheme, httpResponse) state" where
  "scanRemote c rq start target expected fr =
     (if fr_StatusCode fr < 200 \<or> 300 \<le> fr_StatusCode fr then
        ret (respondError 502 ''DOWNLOAD_FAILED'' (''Remote server responded with status code '' @ itoa (fr_StatusCode fr)) JNull)
      else (case readAllBounded (\<lambda>_. 511) 0 [] (fr_Body fr) of
          Inl e \<Rightarrow> ret (bodyError c e)
        | Inr payload \<Rightarrow> do {
            let fileHash = hexEncodeToString (sha256 payload);
            if expected \<noteq> '''' \<and> \<not> EqualFold expected fileHash then ret (checksumMismatch fileHash expected)
            else do {
              env \<leftarrow> asks sv_env;
              scanPayload c rq start (payloadOf target (remoteName env target) payload) True payload } }))"

definition handleScanURL :: "ServerConfig \<Rightarrow> httpRequest \<Rightarrow> ('a apiState_scheme, httpResponse) state" where
  "handleScanURL c rq = do {
     start \<leftarrow> timeNow;
     if \<not> decodeOk rq [''url'', ''expected_sha256''] [] then ret (badRequest ''Invalid JSON request body'')
     else do {
       let target = TrimSpace (bodyString rq ''url'');
       if target = '''' then ret (badRequest (''Field '' @ quoted ''url'' @ '' is required''))
       else if 2048 < length target then
         ret (badRequest (''Field '' @ quoted ''url'' @ '' exceeds maximum length of 2048 characters''))
       else do {
         env \<leftarrow> asks sv_env;
         case ValidateURL env target of
           Some e \<Rightarrow> ret (badRequest (err_text e))
         | None \<Rightarrow>
             (case c_Fetcher c of
                None \<Rightarrow> ret aborted
              | Some fc \<Rightarrow> do {
                  r \<leftarrow> onNet (Fetch fc env target);
                  case r of
                    Inl e \<Rightarrow> ret (fetchError target e)
                  | Inr fr \<Rightarrow> scanRemote c rq start target (bodyString rq ''expected_sha256'') fr }) } } }"

subsection \<open>Quarantine\<close>

text \<open>A positive limit and a non-negative offset of the query, or the defaults.\<close>

definition queryLimit :: "httpRequest \<Rightarrow> int" where
  "queryLimit rq = (case Atoi (queryGet rq ''limit'') of Some v \<Rightarrow> if 0 < v then v else 50 | None \<Rightarrow> 50)"

definition queryOffset :: "httpRequest \<Rightarrow> int" where
  "queryOffset rq = (case Atoi (queryGet rq ''offset'') of Some v \<Rightarrow> if 0 \<le> v then v else 0 | None \<Rightarrow> 0)"

definition quarantineItem :: "QuarantineRecord \<Rightarrow> json" where
  "quarantineItem q = JObj
     [(''id'', JStr (q_ID q)), (''file_name'', JStr (q_OriginalFilename q)), (''file_size'', JNum (q_FileSizeBytes q)),
      (''file_sha256'', JStr (q_FileSHA256 q)), (''virus_name'', JStr (q_VirusName q)),
      (''consumer_name'', JStr (q_SourceConsumer q)), (''status'', JStr (q_Status q)),
      (''quarantined_at'', JStr (formatRFC3339 (q_CreatedAt q))), (''expires_at'', JStr (formatRFC3339 (q_ExpiresAt q)))]"

text \<open>The answer of the list handlers.\<close>

definition listResponse :: "nat \<Rightarrow> json list \<Rightarrow> httpResponse" where
  "listResponse n items =
     respondJSON 200 (JObj [(''success'', JBool True), (''total'', JNum (int n)), (''items'', JArr items)])"

definition handleQuarantineList :: "httpRequest \<Rightarrow> ('a apiState_scheme, httpResponse) state" where
  "handleQuarantineList rq = do {
     r \<leftarrow> onDB (ListQuarantineRecords (queryLimit rq) (queryOffset rq) (queryGet rq ''status''));
     ret (case r of
            Inl _ \<Rightarrow> internalError ''Failed to retrieve quarantine records''
          | Inr (records, n) \<Rightarrow> listResponse n (map quarantineItem records)) }"

definition notFound :: "string \<Rightarrow> httpResponse" where
  "notFound message = respondError 404 ''NOT_FOUND'' message JNull"

definition restoredResponse :: "QuarantineRecord \<Rightarrow> bool \<Rightarrow> int \<Rightarrow> httpResponse" where
  "restoredResponse rec auto t =
     respondJSON 200 (JObj
       [(''success'', JBool True), (''status'', JStr ''RESTORED''),
        (''message'', JStr ''File restored successfully and hash whitelisted.''),
        (''data'', JObj
          [(''quarantine_id'', JStr (q_ID rec)), (''status'', JStr ''RESTORED''),
           (''file_sha256'', JStr (q_FileSHA256 rec)), (''whitelisted'', JBool auto),
           (''restored_at'', JStr (formatRFC3339 t))])])"

definition handleQuarantineRestore :: "httpRequest \<Rightarrow> ('a apiState_scheme, httpResponse) state" where
  "handleQuarantineRestore rq =
     (if \<not> decodeOk rq [''quarantine_id'', ''restored_by'', ''reason''] [''auto_whitelist'']
      then ret (badRequest ''Malformed JSON payload'')
      else if bodyString rq ''quarantine_id'' = '''' then ret (badRequest ''Missing quarantine_id parameter'')
      else do {
        let i = bodyString rq ''quarantine_id'';
        let by = (if bodyString rq ''restored_by'' = '''' then ''admin'' else bodyString rq ''restored_by'');
        let reason = (if bodyString rq ''reason'' = '''' then ''Restored via Web Admin UI'' else bodyString rq ''reason'');
        let auto = bodyBool rq ''auto_whitelist'';
        g \<leftarrow> onDB (GetQuarantineRecord i);
        case g of
          Inl _ \<Rightarrow> ret (notFound ''Quarantine record not found'')
        | Inr rec \<Rightarrow> do {
            now \<leftarrow> timeNow;
            now2 \<leftarrow> timeNow;
            r \<leftarrow> onDB (RestoreQuarantineRecord now now2 i by reason auto);
            case r of
              Inl e \<Rightarrow> ret (internalError (''Failed to restore quarantine record: '' @ err_text e))
            | Inr _ \<Rightarrow> do { t \<leftarrow> timeNow; ret (restoredResponse rec auto t) } } })"

definition handleQuarantineDelete :: "ServerConfig \<Rightarrow> httpRequest \<Rightarrow> ('a apiState_scheme, httpResponse) state" where
  "handleQuarantineDelete c rq =
     (let i = (if queryGet rq ''id'' \<noteq> '''' then queryGet rq ''id'' else bodyString rq ''quarantine_id'') in
      if i = '''' then ret (badRequest ''Missing quarantine_id parameter'')
      else do {
        r \<leftarrow> DeleteFile (c_Vault c) i;
        ret (case r of
               Inl e \<Rightarrow> notFound (''Quarantine item not found or deletion failed: '' @ err_text e)
             | Inr _ \<Rightarrow> respondJSON 200 (JObj
                 [(''success'', JBool True), (''status'', JStr ''DELETED''),
                  (''message'', JStr ''Quarantined malware payload permanently destroyed.''),
                  (''quarantine_id'', JStr i)])) })"

definition handleQuarantineDownload :: "ServerConfig \<Rightarrow> httpRequest \<Rightarrow> ('a apiState_scheme, httpResponse) state" where
  "handleQuarantineDownload c rq =
     (let i = queryGet rq ''id'' in
      if i = '''' then ret (badRequest ''Missing id parameter'')
      else do {
        r \<leftarrow> DownloadFile (c_Vault c) i;
        ret (case r of
               Inl e \<Rightarrow> notFound (''Quarantine item not found: '' @ err_text e)
             | Inr (plain, rec) \<Rightarrow>
                 \<lparr> r_Status = 200,
                   r_Headers =
                     [(''Content-Type'', ''application/octet-stream''),
                      (''Content-Disposition'', ''attachment; filename='' @ [CHR 0x22] @
                        (if q_OriginalFilename rec = '''' then q_ID rec @ ''.bin'' else q_OriginalFilename rec) @ [CHR 0x22]),
                      (''Content-Length'', itoa (q_FileSizeBytes rec))],
                   r_Body = BytesBody plain \<rparr>) })"

end
