(* ===== verification/ApiRoutes.thy ===== *)
theory ApiRoutes
  imports Api
begin

text \<open>
  The rest of the HTTP API of \<open>internal/api/server.go\<close>: the audit export, the password of the
  web UI, YARA rules and asynchronous jobs, the routing table, and the middlewares that stand
  before every handler. \<open>Server.Router\<close> is \<open>applyMiddlewares\<close>.
\<close>

subsection \<open>Audit export\<close>

definition omitEmpty :: "string \<Rightarrow> string \<Rightarrow> (string \<times> json) list" where
  "omitEmpty k v = (if v = '''' then [] else [(k, JStr v)])"

definition auditJson :: "ScanAuditLog \<Rightarrow> json" where
  "auditJson l = JObj
     ([(''id'', JStr (al_ID l)), (''timestamp'', jsonTime (al_Timestamp l)),
       (''consumer_name'', JStr (al_ConsumerName l)), (''client_ip'', JStr (al_ClientIP l)),
       (''file_name'', JStr (al_FileName l)), (''file_size_bytes'', JNum (al_FileSizeBytes l)),
       (''file_sha256'', JStr (al_FileSHA256 l)), (''verdict'', JStr (al_Verdict l))] @
      omitEmpty ''virus_name'' (al_VirusName l) @
      [(''scan_duration_ms'', JNum (al_ScanDurationMs l))] @
      omitEmpty ''quarantine_id'' (al_QuarantineID l))"

definition csvLine :: "ScanAuditLog \<Rightarrow> string" where
  "csvLine l = al_ID l @ '','' @ formatRFC3339 (al_Timestamp l) @ '','' @ al_ConsumerName l @ '','' @ al_FileName l @
     '','' @ al_Verdict l @ '','' @ al_VirusName l @ '','' @ itoa (al_ScanDurationMs l) @ lf"

definition csvHeader :: string where
  "csvHeader = ''id,timestamp,consumer,file_name,verdict,virus_name,duration_ms'' @ lf"

text \<open>An empty listing is a nil slice, which JSON prints as \<open>null\<close>.\<close>

definition handleAuditExport :: "httpRequest \<Rightarrow> ('a apiState_scheme, httpResponse) state" where
  "handleAuditExport rq = do {
     r \<leftarrow> onDB (ListScanAuditLogs \<lparr> f_Verdict = '''', f_ConsumerName = '''', f_From = None, f_To = None,
       f_Limit = 100, f_Offset = 0 \<rparr>);
     ret (case r of
            Inl _ \<Rightarrow> internalError ''Failed to query audit logs''
          | Inr (logs, _) \<Rightarrow>
              if queryGet rq ''format'' = ''json'' \<or> Contains (headerGet rq ''Accept'') ''application/json'' then
                respondJSON 200 (JObj [(''success'', JBool True),
                  (''items'', if logs = [] then JNull else JArr (map auditJson logs))])
              else
                \<lparr> r_Status = 200,
                  r_Headers = [(''Content-Type'', ''text/csv''),
                    (''Content-Disposition'', ''attachment; filename='' @ [CHR 0x22] @ ''scan_audit_logs.csv'' @ [CHR 0x22])],
                  r_Body = TextBody (csvHeader @ concat (map csvLine logs)) \<rparr>) }"

subsection \<open>The password of the web UI\<close>

text \<open>
  Only these handlers and the job list ask whether there is a database; all others use it
  without asking, and \<open>cmd/server/main.go\<close> always provides one.
\<close>

definition handleUIStatus :: "('a apiState_scheme, httpResponse) state" where
  "handleUIStatus = ret (respondJSON 200 (JObj [(''success'', JBool True), (''protected'', JBool True)]))"

definition fallbackPassword :: "ServerConfig \<Rightarrow> string" where
  "fallbackPassword c = (if c_UIPassword c = '''' then ''123456'' else c_UIPassword c)"

definition verifyUIPassword :: "ServerConfig \<Rightarrow> string \<Rightarrow> ('a apiState_scheme, bool) state" where
  "verifyUIPassword c input =
     (if c_HasDB c then do {
        r \<leftarrow> onDB (GetSystemSetting ''ui_password_hash'');
        ret (case r of
               Inr storedHash \<Rightarrow>
                 if storedHash \<noteq> '''' then VerifyPassword input storedHash else input = fallbackPassword c
             | Inl _ \<Rightarrow> input = fallbackPassword c) }
      else ret (input = fallbackPassword c))"

definition malformedJSON :: httpResponse where
  "malformedJSON = badRequest ''Malformed JSON payload''"

definition handleUILogin :: "ServerConfig \<Rightarrow> httpRequest \<Rightarrow> ('a apiState_scheme, httpResponse) state" where
  "handleUILogin c rq =
     (if \<not> decodeOk rq [''password''] [] then ret malformedJSON
      else do {
        ok \<leftarrow> verifyUIPassword c (bodyString rq ''password'');
        if \<not> ok then ret (respondError 401 ''INVALID_PASSWORD'' ''Incorrect dashboard password'' JNull)
        else do {
          t \<leftarrow> timeNow;
          ret (respondJSON 200 (JObj
            [(''success'', JBool True), (''token'', JStr (''ui_sess_'' @ itoa t)),
             (''message'', JStr ''Authenticated successfully'')])) } })"

definition passwordUpdated :: httpResponse where
  "passwordUpdated = respondJSON 200 (JObj
     [(''success'', JBool True), (''message'', JStr ''Dashboard password updated successfully'')])"

text \<open>The salt stays all zero when the random source fails.\<close>

definition handleUIPassword :: "ServerConfig \<Rightarrow> httpRequest \<Rightarrow> ('a apiState_scheme, httpResponse) state" where
  "handleUIPassword c rq =
     (if \<not> decodeOk rq [''current_password'', ''new_password''] [] then ret malformedJSON
      else do {
        ok \<leftarrow> verifyUIPassword c (bodyString rq ''current_password'');
        let new = bodyString rq ''new_password'';
        if \<not> ok then ret (respondError 401 ''INVALID_PASSWORD'' ''Current password does not match'' JNull)
        else if length new < 4 then
          ret (respondError 400 ''PASSWORD_TOO_SHORT'' ''New password must be at least 4 characters long'' JNull)
        else do {
          salt \<leftarrow> randRead 16;
          (if c_HasDB c then do {
             now \<leftarrow> timeNow;
             r \<leftarrow> onDB (SetSystemSetting now ''ui_password_hash'' (HashPassword (okOr (replicate 16 0) salt) new));
             ret (case r of Inl _ \<Rightarrow> internalError ''Failed to persist new password'' | Inr _ \<Rightarrow> passwordUpdated) }
           else ret passwordUpdated) } })"

subsection \<open>YARA rules\<close>

definition yaraJson :: "YARARule \<Rightarrow> json" where
  "yaraJson y = JObj
     [(''id'', JStr (y_ID y)), (''rule_name'', JStr (y_RuleName y)), (''description'', JStr (y_Description y)),
      (''content'', JStr (y_Content y)), (''author'', JStr (y_Author y)), (''is_active'', JBool (y_IsActive y)),
      (''created_at'', jsonTime (y_CreatedAt y)), (''updated_at'', jsonTime (y_UpdatedAt y))]"

definition yaraUnavailable :: httpResponse where
  "yaraUnavailable = respondError 503 ''YARA_NOT_AVAILABLE'' ''YARA rule injection engine is not configured'' JNull"

definition addRuleError :: "string \<Rightarrow> httpResponse" where
  "addRuleError errStr =
     (if Contains errStr ''yara validation failed'' \<or> Contains errStr ''already exists'' then
        respondError 400 ''INVALID_YARA_RULE'' errStr JNull
      else if Contains errStr ''failed to reload clamd'' then
        respondError 500 ''RELOAD_FAILED'' (''Failed to reload ClamAV with new rule: '' @ errStr) JNull
      else internalError (''Failed to save YARA rule: '' @ errStr))"

definition handleYARAAdd :: "ServerConfig \<Rightarrow> httpRequest \<Rightarrow> ('a apiState_scheme, httpResponse) state" where
  "handleYARAAdd c rq =
     (case c_YARA c of
        None \<Rightarrow> ret yaraUnavailable
      | Some m \<Rightarrow>
          if \<not> decodeOk rq [''rule_name'', ''description'', ''content'', ''author''] [] then ret malformedJSON
          else do {
            let name = TrimSpace (bodyString rq ''rule_name'');
            let content = TrimSpace (bodyString rq ''content'');
            let author = (if bodyString rq ''author'' = '''' then extractConsumer rq else bodyString rq ''author'');
            if name = '''' then ret (badRequest (''Field '' @ quoted ''rule_name'' @ '' is required''))
            else if content = '''' then ret (badRequest (''Field '' @ quoted ''content'' @ '' is required''))
            else do {
              r \<leftarrow> AddRule m (Some clamdReload) name (bodyString rq ''description'') content author;
              ret (case r of
                     Inl e \<Rightarrow> addRuleError (err_text e)
                   | Inr rule \<Rightarrow> respondJSON 201 (JObj
                       [(''success'', JBool True),
                        (''message'', JStr ''YARA rule deployed and ClamAV reloaded successfully''),
                        (''data'', yaraJson rule)])) } })"

definition handleYARAList :: "ServerConfig \<Rightarrow> ('a apiState_scheme, httpResponse) state" where
  "handleYARAList c =
     (case c_YARA c of
        None \<Rightarrow> ret yaraUnavailable
      | Some m \<Rightarrow> do {
          r \<leftarrow> ListRules;
          ret (case r of
                 Inl e \<Rightarrow> internalError (''Failed to list YARA rules: '' @ err_text e)
               | Inr rules \<Rightarrow> listResponse (length rules) (map yaraJson rules)) })"

text \<open>The wildcard of the path (none for the pattern without one), then the query, then the body.\<close>

definition pathValue :: "string list \<Rightarrow> string" where
  "pathValue ws = (case ws of [] \<Rightarrow> '''' | w # _ \<Rightarrow> w)"

definition ruleId :: "httpRequest \<Rightarrow> string list \<Rightarrow> string" where
  "ruleId rq ws =
     (if pathValue ws \<noteq> '''' then pathValue ws
      else if queryGet rq ''id'' \<noteq> '''' then queryGet rq ''id'' else bodyString rq ''id'')"

definition handleYARADelete ::
  "ServerConfig \<Rightarrow> httpRequest \<Rightarrow> string list \<Rightarrow> ('a apiState_scheme, httpResponse) state" where
  "handleYARADelete c rq ws =
     (case c_YARA c of
        None \<Rightarrow> ret yaraUnavailable
      | Some m \<Rightarrow>
          if ruleId rq ws = '''' then ret (badRequest ''Missing rule id parameter'')
          else do {
            r \<leftarrow> DeleteRule m (Some clamdReload) (ruleId rq ws);
            ret (case r of
                   Inl e \<Rightarrow>
                     if Contains (err_text e) ''not found'' then
                       respondError 404 ''RULE_NOT_FOUND'' (''YARA rule with id '' @ quoted (ruleId rq ws) @ '' not found'') JNull
                     else internalError (''Failed to delete YARA rule: '' @ err_text e)
                 | Inr _ \<Rightarrow> respondJSON 200 (JObj
                     [(''success'', JBool True),
                      (''message'', JStr ''YARA rule removed and ClamAV reloaded successfully''),
                      (''rule_id'', JStr (ruleId rq ws))])) })"

subsection \<open>Asynchronous jobs\<close>

definition submitError :: "goerr \<Rightarrow> httpResponse" where
  "submitError e =
     (if Contains (err_text e) ''invalid callback_url'' \<or> Contains (err_text e) ''prohibited address'' \<or>
         Contains (err_text e) ''SSRF''
      then respondError 400 ''SSRF_ATTEMPT_BLOCKED'' (err_text e) JNull
      else badRequest (err_text e))"

definition acceptedResponse :: "ScanJob \<Rightarrow> httpResponse" where
  "acceptedResponse job =
     respondJSON 202 (JObj
       [(''success'', JBool True), (''status'', JStr ''ACCEPTED''), (''job_id'', JStr (j_ID job)),
        (''message'', JStr ''Scan job queued. Verdict will be posted to callback_url.''),
        (''data'', JObj
          [(''job_id'', JStr (j_ID job)), (''file_name'', JStr (j_FileName job)), (''file_size'', JNum (j_FileSize job)),
           (''callback_url'', JStr (j_CallbackURL job)), (''status'', JStr (j_Status job)),
           (''created_at'', JStr (formatRFC3339 (j_CreatedAt job)))])])"

definition handleScanAsync :: "ServerConfig \<Rightarrow> httpRequest \<Rightarrow> ('a apiState_scheme, httpResponse) state" where
  "handleScanAsync c rq =
     (case c_Async c of
        None \<Rightarrow> ret (respondError 503 ''ASYNC_SCAN_UNAVAILABLE'' ''Async scan queue engine is not configured'' JNull)
      | Some q \<Rightarrow>
          (case ParseMultipartForm (maxScanBytes c) rq of
             Inl _ \<Rightarrow> ret fileTooLarge
           | Inr form \<Rightarrow>
               (case FormFile form ''file'' of
                  None \<Rightarrow> ret missingFile
                | Some ff \<Rightarrow> do {
                    let callbackURL = TrimSpace (FormValue rq form ''callback_url'');
                    if callbackURL = '''' then ret (badRequest (''Missing '' @ quoted ''callback_url'' @ '' form field''))
                    else do {
                      r \<leftarrow> SubmitJob q (ff_Filename ff) (ff_Data ff) (ff_Size ff) callbackURL (extractConsumer rq);
                      ret (case r of
                             Inl e \<Rightarrow> if errorsIs e GoPanic then aborted else submitError e
                           | Inr job \<Rightarrow> acceptedResponse job) } })))"

definition statusJson :: "ScanJob \<Rightarrow> json" where
  "statusJson j = JObj
     [(''job_id'', JStr (j_ID j)), (''file_name'', JStr (j_FileName j)), (''file_size'', JNum (j_FileSize j)),
      (''file_sha256'', JStr (j_FileSHA256 j)), (''callback_url'', JStr (j_CallbackURL j)),
      (''consumer'', JStr (j_Consumer j)), (''status'', JStr (j_Status j)), (''verdict'', JStr (j_Verdict j)),
      (''virus_name'', JStr (j_VirusName j)), (''error_msg'', JStr (j_ErrorMsg j)),
      (''created_at'', JStr (formatRFC3339 (j_CreatedAt j))), (''updated_at'', JStr (formatRFC3339 (j_UpdatedAt j)))]"

definition handleScanJobStatus :: "httpRequest \<Rightarrow> string list \<Rightarrow> ('a apiState_scheme, httpResponse) state" where
  "handleScanJobStatus rq ws =
     (let i = (if pathValue ws \<noteq> '''' then pathValue ws else queryGet rq ''id'') in
      if i = '''' then ret (badRequest ''Missing job id parameter'')
      else do {
        r \<leftarrow> onDB (GetScanJob i);
        ret (case r of
               Inl _ \<Rightarrow> respondError 404 ''JOB_NOT_FOUND'' (''Scan job with id '' @ quoted i @ '' not found'') JNull
             | Inr job \<Rightarrow> respondJSON 200 (JObj [(''success'', JBool True), (''data'', statusJson job)])) })"

definition jobJson :: "ScanJob \<Rightarrow> json" where
  "jobJson j = JObj
     ([(''id'', JStr (j_ID j)), (''file_name'', JStr (j_FileName j)), (''file_size'', JNum (j_FileSize j)),
       (''file_sha256'', JStr (j_FileSHA256 j)), (''callback_url'', JStr (j_CallbackURL j)),
       (''consumer'', JStr (j_Consumer j)), (''status'', JStr (j_Status j)), (''verdict'', JStr (j_Verdict j))] @
      omitEmpty ''virus_name'' (j_VirusName j) @ omitEmpty ''error_msg'' (j_ErrorMsg j) @
      [(''created_at'', jsonTime (j_CreatedAt j)), (''updated_at'', jsonTime (j_UpdatedAt j))])"

definition handleScanJobList :: "ServerConfig \<Rightarrow> httpRequest \<Rightarrow> ('a apiState_scheme, httpResponse) state" where
  "handleScanJobList c rq =
     (if \<not> c_HasDB c then ret (respondError 503 ''STORAGE_UNAVAILABLE'' ''Database not configured'' JNull)
      else do {
        r \<leftarrow> onDB (ListScanJobs (queryLimit rq) (queryOffset rq));
        ret (case r of
               Inl e \<Rightarrow> internalError (''Failed to query scan jobs: '' @ err_text e)
             | Inr (jobs, n) \<Rightarrow> listResponse n (map jobJson jobs)) })"

subsection \<open>Routes\<close>

datatype route =
    Static | Root | Health | Metrics | Stats | UIStatus | UILogin | UIPasswordR
  | ScanFileR | ScanStreamR | ScanURL | ScanAsync | JobStatus | JobList
  | QuarList | QuarDownload | QuarRestore | QuarDelete | AuditExport
  | YARAAdd | YARAList | YARADelete

definition api :: "string \<Rightarrow> string list \<Rightarrow> pattern" where
  "api meth path = Exact (Some meth) (map Literal ([''api'', ''v1''] @ path))"

definition routes :: "(pattern \<times> route) list" where
  "routes =
     [(Under None ''/static/'', Static), (Exact (Some ''GET'') [Literal ''''], Root),
      (api ''GET'' [''health''], Health), (Exact (Some ''GET'') [Literal ''healthz''], Health),
      (api ''GET'' [''metrics''], Metrics), (api ''GET'' [''stats''], Stats),
      (api ''GET'' [''auth'', ''ui-status''], UIStatus), (api ''POST'' [''auth'', ''ui-login''], UILogin),
      (api ''POST'' [''auth'', ''ui-password''], UIPasswordR),
      (api ''POST'' [''scan'', ''file''], ScanFileR), (api ''POST'' [''scan'', ''stream''], ScanStreamR),
      (api ''POST'' [''scan'', ''url''], ScanURL), (api ''POST'' [''scan'', ''async''], ScanAsync),
      (Exact (Some ''GET'') (map Literal [''api'', ''v1'', ''scan'', ''jobs''] @ [Wildcard]), JobStatus),
      (api ''GET'' [''scan'', ''jobs''], JobList),
      (api ''GET'' [''quarantine''], QuarList), (api ''GET'' [''quarantine'', ''download''], QuarDownload),
      (api ''POST'' [''quarantine'', ''restore''], QuarRestore), (api ''POST'' [''quarantine'', ''delete''], QuarDelete),
      (api ''DELETE'' [''quarantine''], QuarDelete), (api ''GET'' [''audit'', ''export''], AuditExport),
      (api ''POST'' [''rules'', ''yara''], YARAAdd), (api ''GET'' [''rules'', ''yara''], YARAList),
      (Exact (Some ''DELETE'') (map Literal [''api'', ''v1'', ''rules'', ''yara''] @ [Wildcard]), YARADelete),
      (api ''DELETE'' [''rules'', ''yara''], YARADelete)]"

definition redirectTo :: "int \<Rightarrow> string \<Rightarrow> httpResponse" where
  "redirectTo status target = \<lparr> r_Status = status, r_Headers = [(''Location'', target)], r_Body = NoBody \<rparr>"

fun handle :: "ServerConfig \<Rightarrow> route \<Rightarrow> httpRequest \<Rightarrow> string list \<Rightarrow> ('a apiState_scheme, httpResponse) state" where
  "handle c Static rq ws = ret (c_Assets c (TrimPrefix (h_Path rq) ''/static/''))"
| "handle c Root rq ws = ret (redirectTo 302 ''/static/index.html'')"
| "handle c Health rq ws = handleHealth"
| "handle c Metrics rq ws = handleMetrics"
| "handle c Stats rq ws = handleStats"
| "handle c UIStatus rq ws = handleUIStatus"
| "handle c UILogin rq ws = handleUILogin c rq"
| "handle c UIPasswordR rq ws = handleUIPassword c rq"
| "handle c ScanFileR rq ws = handleScanFile c rq"
| "handle c ScanStreamR rq ws = handleScanStream c rq"
| "handle c ScanURL rq ws = handleScanURL c rq"
| "handle c ScanAsync rq ws = handleScanAsync c rq"
| "handle c JobStatus rq ws = handleScanJobStatus rq ws"
| "handle c JobList rq ws = handleScanJobList c rq"
| "handle c QuarList rq ws = handleQuarantineList rq"
| "handle c QuarDownload rq ws = handleQuarantineDownload c rq"
| "handle c QuarRestore rq ws = handleQuarantineRestore rq"
| "handle c QuarDelete rq ws = handleQuarantineDelete c rq"
| "handle c AuditExport rq ws = handleAuditExport rq"
| "handle c YARAAdd rq ws = handleYARAAdd c rq"
| "handle c YARAList rq ws = handleYARAList c"
| "handle c YARADelete rq ws = handleYARADelete c rq ws"

definition serveMux :: "ServerConfig \<Rightarrow> httpRequest \<Rightarrow> ('a apiState_scheme, httpResponse) state" where
  "serveMux c rq =
     (case routeIn routes (h_Method rq) (h_Path rq) of
        MovedTo p \<Rightarrow> ret (redirectTo 301 p)
      | NoMethod \<Rightarrow> ret \<lparr> r_Status = 405, r_Headers = [], r_Body = TextBody (''Method Not Allowed'' @ lf) \<rparr>
      | NoRoute \<Rightarrow> ret \<lparr> r_Status = 404, r_Headers = [], r_Body = TextBody (''404 page not found'' @ lf) \<rparr>
      | Handled h ws \<Rightarrow> handle c h rq ws)"

subsection \<open>Middlewares\<close>

definition standardHeaders :: "(string \<times> string) list" where
  "standardHeaders =
     [(''X-Content-Type-Options'', ''nosniff''), (''X-Frame-Options'', ''DENY''), (''Access-Control-Allow-Origin'', ''*''),
      (''Access-Control-Allow-Methods'', ''GET, POST, OPTIONS, DELETE''),
      (''Access-Control-Allow-Headers'', ''Authorization, Content-Type, X-API-Key, X-Consumer-Name'')]"

definition isPublic :: "string \<Rightarrow> bool" where
  "isPublic path \<longleftrightarrow>
     path \<in> set [''/healthz'', ''/api/v1/health'', ''/api/v1/metrics'', ''/api/v1/stats'', ''/api/v1/auth/ui-login'',
       ''/api/v1/auth/ui-status'', ''/''] \<or> HasPrefix path ''/static/''"

definition bearerToken :: "httpRequest \<Rightarrow> string" where
  "bearerToken rq =
     (let authHeader = headerGet rq ''Authorization''; apiKey = headerGet rq ''X-API-Key'' in
      if HasPrefix authHeader ''Bearer '' then TrimSpace (TrimPrefix authHeader ''Bearer '')
      else if apiKey \<noteq> '''' then TrimSpace apiKey else '''')"

definition unauthorized :: "string \<Rightarrow> httpResponse" where
  "unauthorized message = respondError 401 ''UNAUTHORIZED'' message JNull"

text \<open>The refusal of a request, or \<open>None\<close> when it may pass.\<close>

definition checkAuth :: "ServerConfig \<Rightarrow> httpRequest \<Rightarrow> httpResponse option" where
  "checkAuth c rq =
     (if isPublic (h_Path rq) \<or> c_AuthMode c = ''none'' then None
      else if c_AuthMode c = ''basic'' then
        (if BasicAuth rq = Some (c_BasicUser c, c_BasicPass c) then None
         else Some (addHeaders [(''WWW-Authenticate'', ''Basic realm='' @ [CHR 0x22] @ ''ClamAV Security'' @ [CHR 0x22])]
           (unauthorized ''Invalid or missing basic authentication credentials'')))
      else if c_AuthMode c = ''bearer'' then
        (if bearerToken rq = '''' \<or> bearerToken rq \<noteq> c_BearerToken c
         then Some (unauthorized ''Invalid or missing Bearer token / API key'') else None)
      else None)"

definition authenticated :: "ServerConfig \<Rightarrow> httpRequest \<Rightarrow> ('a apiState_scheme, httpResponse) state" where
  "authenticated c rq = (case checkAuth c rq of Some r \<Rightarrow> ret r | None \<Rightarrow> serveMux c rq)"

text \<open>The limiter is asked in the name of the client, whose clock reading is the limiter's own.\<close>

definition rateHeaders :: "int \<Rightarrow> int \<Rightarrow> int \<Rightarrow> (string \<times> string) list" where
  "rateHeaders rpm remaining resetTime =
     [(''X-RateLimit-Limit'', itoa rpm), (''X-RateLimit-Remaining'', itoa remaining), (''X-RateLimit-Reset'', itoa resetTime)]"

definition askLimiter :: "string \<Rightarrow> int \<Rightarrow> ('a apiState_scheme, bool \<times> int \<times> int) state" where
  "askLimiter client rpm = do {
     now \<leftarrow> timeNow;
     l \<leftarrow> asks a_limiter;
     modifies (\<lambda>s. s\<lparr>a_limiter := snd (Allow now client rpm l)\<rparr>);
     ret (fst (Allow now client rpm l)) }"

definition rateLimited :: "ServerConfig \<Rightarrow> httpRequest \<Rightarrow> ('a apiState_scheme, httpResponse) state" where
  "rateLimited c rq =
     (if c_RateLimitEnabled c \<and> c_HasLimiter c then do {
        (allowed, remaining, resetTime) \<leftarrow> askLimiter (extractIP rq) (c_RateLimitRPM c);
        (if \<not> allowed then do {
           now \<leftarrow> timeNow;
           ret (addHeaders (rateHeaders (c_RateLimitRPM c) remaining resetTime)
             (respondError 429 ''RATE_LIMIT_EXCEEDED'' ''Rate limit exceeded. Please retry later.''
               (JObj [(''retry_after_seconds'', JNum (resetTime - unixSec now))]))) }
         else do {
           r \<leftarrow> authenticated c rq;
           ret (addHeaders (rateHeaders (c_RateLimitRPM c) remaining resetTime) r) }) }
      else authenticated c rq)"

definition applyMiddlewares :: "ServerConfig \<Rightarrow> httpRequest \<Rightarrow> ('a apiState_scheme, httpResponse) state" where
  "applyMiddlewares c rq =
     (if h_Method rq = ''OPTIONS'' then ret \<lparr> r_Status = 200, r_Headers = standardHeaders, r_Body = NoBody \<rparr>
      else do {
        r \<leftarrow> rateLimited c rq;
        ret (addHeaders standardHeaders r) })"

end
