(* ===== verification/ApiLaws.thy ===== *)
theory ApiLaws
  imports ApiRoutes
begin

text \<open>
  What the HTTP API guarantees: no effect without credentials, what the rate limit is keyed
  by, and how the endpoints work together: an infected upload and its download, a restore
  and the scans after it.
\<close>

subsection \<open>Operations that only read\<close>

definition sameTables :: "database \<Rightarrow> database \<Rightarrow> bool" where
  "sameTables d d' \<longleftrightarrow> d' = d\<lparr>stmt_no := stmt_no d'\<rparr>"

interpretation tables: state_order sameTables
proof
  show "sameTables s s" for s by (simp add: sameTables_def)
next
  fix s t u assume a: "sameTables s t" "sameTables t u"
  define m n where "m = stmt_no t" and "n = stmt_no u"
  have "t = s\<lparr>stmt_no := m\<rparr>" "u = t\<lparr>stmt_no := n\<rparr>" using a by (simp_all add: sameTables_def m_def n_def)
  then show "sameTables s u" by (simp add: sameTables_def)
qed

lemma tables_query: "state_io_rel sameTables (query f)"
  by (auto simp: state_io_rel_def run_query sameTables_def ticked_def split: option.split)

lemma tables_reads: "state_io_rel sameTables GetSystemStats" "state_io_rel sameTables (GetSystemSetting k)"
  unfolding GetSystemStats_def GetSystemSetting_def countOr0_def
  by (intro tables.rel_intros tables_query)+

definition readOnly :: "'a queueState_scheme \<Rightarrow> 'a queueState_scheme \<Rightarrow> bool" where
  "readOnly s s' \<longleftrightarrow> sameTables (w_db s) (w_db s') \<and> w_files s' = w_files s \<and> sv_wire s' = sv_wire s \<and>
     sv_net s' = sv_net s \<and> sv_posts s' = sv_posts s \<and> q_chan s' = q_chan s"

interpretation ro: state_order readOnly
proof
  show "readOnly s s" for s :: "'a queueState_scheme" by (simp add: readOnly_def tables.R_refl)
next
  fix s t u :: "'a queueState_scheme" assume "readOnly s t" "readOnly t u"
  then show "readOnly s u" using tables.R_trans[of "w_db s" "w_db t" "w_db u"] by (auto simp: readOnly_def)
qed

lemma readOnly_onDB:
  assumes "state_io_rel sameTables m"
  shows "state_io_rel readOnly (onDB m :: ('a queueState_scheme, 'r) state)"
proof (rule state_io_relI)
  fix a and s s' :: "'a queueState_scheme" assume run: "run_state (onDB m) s = (a, s')"
  obtain d where d: "run_state m (w_db s) = (a, d)" "s' = s\<lparr>w_db := d\<rparr>"
    using run by (auto simp: run_onDB split: prod.splits)
  with tables.run_relE[OF assms d(1)] show "readOnly s s'" by (simp add: readOnly_def)
qed

lemma readOnly_timeNow: "state_io_rel readOnly (timeNow :: ('a queueState_scheme, int) state)"
  by (auto simp: state_io_rel_def run_timeNow readOnly_def tables.R_refl)

lemma readOnly_limiter: "state_io_rel readOnly (askLimiter k rpm :: ('a apiState_scheme, bool \<times> int \<times> int) state)"
  unfolding askLimiter_def
  by (intro ro.rel_intros ro.rel_modifies readOnly_timeNow) (simp add: readOnly_def tables.R_refl)

subsection \<open>Public routes\<close>

definition publicRoute :: "route \<Rightarrow> bool" where
  "publicRoute h \<longleftrightarrow> h \<in> {Static, Root, Health, Metrics, Stats, UIStatus, UILogin}"

lemma readOnly_public:
  assumes "publicRoute h"
  shows "state_io_rel readOnly (handle c h rq ws :: ('a apiState_scheme, httpResponse) state)"
proof -
  have "state_io_rel readOnly (handleHealth :: ('a apiState_scheme, httpResponse) state)"
    "state_io_rel readOnly (handleStats :: ('a apiState_scheme, httpResponse) state)"
    "state_io_rel readOnly (handleUILogin c rq :: ('a apiState_scheme, httpResponse) state)"
    unfolding handleHealth_def handleStats_def handleUILogin_def verifyUIPassword_def
    by (intro ro.rel_intros readOnly_timeNow readOnly_onDB tables_reads)+
  with assms show ?thesis
    by (auto simp: publicRoute_def handleMetrics_def handleUIStatus_def intro: ro.rel_ret)
qed

lemma static_segments: "HasPrefix p ''/static/'' \<Longrightarrow> \<exists>r. segments p = ''static'' # r"
proof -
  assume "HasPrefix p ''/static/''"
  then obtain r where "p = ''/static/'' @ r" by (auto simp: HasPrefix_iff)
  then show ?thesis by (simp add: segments_def)
qed

lemma routeIn_entry:
  assumes "routeIn t m p = Handled h ws"
  obtains pat where "(pat, h) \<in> set t" "matchPath pat p = Some ws"
proof -
  let ?found = "filter (\<lambda>(pat, h). matchPath pat p \<noteq> None) t"
  let ?able = "filter (\<lambda>(pat, h). matchMethod pat m) ?found"
  obtain pat xs where able: "?able = (pat, h) # xs" and ws: "ws = (case matchPath pat p of None \<Rightarrow> [] | Some ws \<Rightarrow> ws)"
    using assms by (cases ?able) (auto simp: routeIn_def Let_def split: if_splits)
  have "(pat, h) \<in> set ?able" unfolding able by simp
  then have "(pat, h) \<in> set t" "matchPath pat p \<noteq> None" by auto
  with ws that show ?thesis by auto
qed

definition publicPaths :: "string list" where
  "publicPaths = [''/healthz'', ''/api/v1/health'', ''/api/v1/metrics'', ''/api/v1/stats'', ''/api/v1/auth/ui-login'',
     ''/api/v1/auth/ui-status'', ''/'']"

lemma isPublic_paths: "isPublic p \<longleftrightarrow> p \<in> set publicPaths \<or> HasPrefix p ''/static/''"
  unfolding isPublic_def publicPaths_def by (rule refl)

lemma public_entries:
  "list_all (\<lambda>p. list_all (\<lambda>(pat, h). matchPath pat p \<noteq> None \<longrightarrow> publicRoute h) routes) publicPaths"
  unfolding publicRoute_def by code_simp

lemma public_path_route:
  assumes "isPublic p" and "routeIn routes m p = Handled h ws"
  shows "publicRoute h"
proof -
  have "list_all (\<lambda>(pat, h). matchPath pat p \<noteq> None \<longrightarrow> publicRoute h) routes"
  proof (cases "HasPrefix p ''/static/''")
    case True
    then obtain r where "segments p = ''static'' # r" using static_segments by blast
    then show ?thesis by (simp add: routes_def api_def publicRoute_def)
  next
    case False
    then have "p \<in> set publicPaths" using assms(1) by (simp add: isPublic_paths)
    then show ?thesis by (rule bspec[OF public_entries[unfolded list_all_iff[of _ publicPaths]]])
  qed
  moreover have "\<exists>pat. (pat, h) \<in> set routes \<and> matchPath pat p \<noteq> None"
    by (rule routeIn_entry[OF assms(2)]) auto
  ultimately show ?thesis by (auto simp: list_all_iff)
qed

subsection \<open>Nothing happens without credentials\<close>

definition credentialsOk :: "ServerConfig \<Rightarrow> httpRequest \<Rightarrow> bool" where
  "credentialsOk c rq \<longleftrightarrow>
     (if c_AuthMode c = ''basic'' then BasicAuth rq = Some (c_BasicUser c, c_BasicPass c)
      else if c_AuthMode c = ''bearer'' then bearerToken rq \<noteq> '''' \<and> bearerToken rq = c_BearerToken c
      else True)"

lemma authenticated_public:
  assumes "isPublic (h_Path rq)"
  shows "state_io_rel readOnly (authenticated c rq :: ('a apiState_scheme, httpResponse) state)"
proof (cases "routeIn routes (h_Method rq) (h_Path rq)")
  case (Handled h ws)
  with readOnly_public[OF public_path_route[OF assms this], of c rq ws] assms show ?thesis
    by (simp add: authenticated_def checkAuth_def serveMux_def)
qed (use assms in \<open>simp_all add: authenticated_def checkAuth_def serveMux_def ro.rel_ret\<close>)

lemma authenticated_refused:
  assumes "\<not> isPublic (h_Path rq)" and "\<not> credentialsOk c rq"
  shows "\<exists>r. authenticated c rq = ret r \<and> r_Status r = 401"
  using assms by (auto simp: authenticated_def checkAuth_def credentialsOk_def unauthorized_def respondError_def
      respondJSON_def addHeaders_def split: if_splits)

lemma rateLimited_rel:
  assumes "state_io_rel readOnly (authenticated c rq :: ('a apiState_scheme, httpResponse) state)"
  shows "state_io_rel readOnly (rateLimited c rq :: ('a apiState_scheme, httpResponse) state)"
  unfolding rateLimited_def by (intro ro.rel_intros readOnly_timeNow readOnly_limiter assms)

text \<open>
  C4. No effect without credentials. In basic and bearer mode a request without the right
  credentials, in whatever state and to whatever path, changes no table and no file, sends
  nothing to the daemon or the network and submits no job; and unless its path is one of the
  public ones it is answered 401 or 429, except that the server answers every OPTIONS
  request, as a preflight, with 200 and an empty body.
\<close>

theorem auth_guards_state:
  fixes s :: "'a apiState_scheme"
  assumes "c_AuthMode c \<in> {''basic'', ''bearer''}" and "\<not> credentialsOk c rq"
    and "run_state (applyMiddlewares c rq) s = (r, s')"
  shows "sameTables (w_db s) (w_db s') \<and> w_files s' = w_files s \<and> sv_wire s' = sv_wire s \<and>
    sv_net s' = sv_net s \<and> sv_posts s' = sv_posts s \<and> q_chan s' = q_chan s \<and>
    (isPublic (h_Path rq) \<or> r_Status r \<in> {401, 429} \<or>
     h_Method rq = ''OPTIONS'' \<and> r_Status r = 200 \<and> r_Body r = NoBody)"
proof -
  have rel: "state_io_rel readOnly (authenticated c rq :: ('a apiState_scheme, httpResponse) state)"
  proof (cases "isPublic (h_Path rq)")
    case True
    then show ?thesis by (rule authenticated_public)
  next
    case False
    then obtain r0 where "authenticated c rq = (ret r0 :: ('a apiState_scheme, httpResponse) state)"
      using authenticated_refused[OF _ assms(2)] by blast
    then show ?thesis by (simp add: ro.rel_ret)
  qed
  have "state_io_rel readOnly (applyMiddlewares c rq :: ('a apiState_scheme, httpResponse) state)"
    unfolding applyMiddlewares_def by (intro ro.rel_intros rateLimited_rel rel)
  from ro.run_relE[OF this assms(3)] have ro: "readOnly s s'" .
  have "isPublic (h_Path rq) \<or> r_Status r \<in> {401, 429} \<or>
     h_Method rq = ''OPTIONS'' \<and> r_Status r = 200 \<and> r_Body r = NoBody"
  proof (cases "isPublic (h_Path rq) \<or> h_Method rq = ''OPTIONS''")
    case False
    then obtain r0 where "authenticated c rq = (ret r0 :: ('a apiState_scheme, httpResponse) state)" "r_Status r0 = 401"
      using authenticated_refused[OF _ assms(2)] by blast
    with False assms(3) show ?thesis
      by (auto simp: applyMiddlewares_def rateLimited_def addHeaders_def respondError_def respondJSON_def
          split: if_splits prod.splits)
  qed (use assms(3) in \<open>auto simp: applyMiddlewares_def\<close>)
  with ro show ?thesis by (simp add: readOnly_def)
qed

subsection \<open>Uploads\<close>

text \<open>The request carries a readable file of these bytes, within the size limit.\<close>

definition uploads :: "ServerConfig \<Rightarrow> httpRequest \<Rightarrow> string \<Rightarrow> bytes \<Rightarrow> bool" where
  "uploads c rq name payload \<longleftrightarrow>
     (case ParseMultipartForm (maxScanBytes c) rq of
        Inl _ \<Rightarrow> False
      | Inr form \<Rightarrow> (case FormFile form ''file'' of
          None \<Rightarrow> False
        | Some ff \<Rightarrow> ff_Filename ff = name \<and> errorsIs (rerr (ff_Data ff)) IoEOF \<and> rdata (ff_Data ff) = payload))"

lemma handleScanFile_uploads:
  fixes s :: "'a apiState_scheme"
  assumes "uploads c rq name payload"
  shows "run_state (handleScanFile c rq) s =
    run_state (scanPayload c rq (w_clock s (w_step s)) (payloadOf '''' name payload) False payload) (s\<lparr>w_step := Suc (w_step s)\<rparr>)"
  using assms by (auto simp: uploads_def handleScanFile_def run_timeNow readAll_eq split: sum.splits option.splits)

definition sameVault :: "'a service_scheme \<Rightarrow> 'a service_scheme \<Rightarrow> bool" where
  "sameVault s s' \<longleftrightarrow> quarantine_records (w_db s') = quarantine_records (w_db s) \<and> w_files s' = w_files s \<and>
     w_fault s' = w_fault s \<and> stmt_fault (w_db s') = stmt_fault (w_db s)"

interpretation sv: state_order sameVault
  by unfold_locales (auto simp: sameVault_def)

lemma sameVault_quiet: "state_io_rel quiet m \<Longrightarrow> state_io_rel sameVault m"
  by (simp add: state_io_rel_def quiet_def sameStore_def sameVault_def)

lemma sameVault_audit: "state_io_rel sameVault (onDB (InsertScanAuditLog l))"
  by (auto simp: state_io_rel_def run_onDB InsertScanAuditLog_def run_exec sameVault_def ticked_def
      split: option.split prod.split if_splits sum.splits)

lemma sameVault_after:
  "state_io_rel sameVault (auditScan rq p vd vn ms qi :: ('a apiState_scheme, unit) state)"
  "state_io_rel sameVault (alertInfected rq p vn qi :: ('a apiState_scheme, unit) state)"
  unfolding auditScan_def alertInfected_def
  by (intro sv.rel_intros sameVault_quiet[OF quiet_env(2)] sameVault_quiet[OF quiet_dispatchThreat] sameVault_audit)+

text \<open>A quarantined payload, still in place, is what the vault then returns.\<close>

lemma quarantine_download_exact:
  fixes s1 :: "'a service_scheme"
  assumes q: "run_state (QuarantineFile v nm cs vn r days) s1 = (Inr rec, s2)"
    and "maxQuarantineSize v < maxInt64" and "length (masterKey v) = 32" and "faultless s1" and "sameVault s2 s'"
  shows "fst (run_state (DownloadFile v (q_ID rec)) s') = Inr (rdata r, storedQuarantine rec)"
proof -
  obtain st where st: "map_option fdata (fileAt s2 (q_StoredPath rec)) = Some st" "decryptPayload v st = Inr (rdata r)"
    "recordOf (q_ID rec) (w_db s2) = Some (storedQuarantine rec)" "w_fault s2 = w_fault s1"
    using assms(3) by (rule_tac QuarantineFile_ok[OF q assms(2)]) blast
  then obtain f where f: "fileAt s2 (q_StoredPath rec) = Some f" "fdata f = st" by auto
  have "faultless s2" using sj.run_relE[OF sameJobs_QuarantineFile q] assms(4) by (simp add: sameJobs_def faultless_def)
  then have "faultless s'" "fileAt s' (q_StoredPath (storedQuarantine rec)) = Some f"
    "recordOf (q_ID rec) (w_db s') = Some (storedQuarantine rec)"
    using assms(5) f st(3) by (simp_all add: sameVault_def faultless_def fileAt_def recordOf_def storedQuarantine_def)
  from run_DownloadFile[OF this(1,3,2), of v] f st show ?thesis by simp
qed

lemma run_clamdScan:
  "run_state (clamdScan r) s =
     (let x = ScanStream (sv_clamd s (w_step s)) r in
      (scanOutcome (fst x), s\<lparr>w_step := Suc (w_step s), sv_wire := sv_wire s @ [snd x]\<rparr>))"
  by (simp add: clamdScan_def overClamd_def run_nextStep Let_def split: prod.split)

text \<open>\<open>foundIn s payload vn\<close>: at any time the daemon detects \<open>vn\<close> in the payload.\<close>

definition foundIn :: "'a service_scheme \<Rightarrow> bytes \<Rightarrow> string \<Rightarrow> bool" where
  "foundIn s payload vn \<longleftrightarrow> (\<forall>k. \<exists>res. fst (ScanStream (sv_clamd s k) (bytesReader payload)) = (Some res, None) \<and>
     \<not> IsClean res \<and> VirusName res = vn)"

lemma scanPayload_infected:
  fixes s :: "'a apiState_scheme"
  assumes "\<not> whitelisted (p_Hash p) (w_db s)" and "faultless s" and "foundIn s payload vn"
  obtains s1 ms where "run_state (scanPayload c rq start p b payload) s = run_state (respondInfected c rq p ms vn payload) s1"
    "faultless s1" "freshIDs s \<Longrightarrow> freshIDs s1"
proof -
  obtain res where res: "fst (ScanStream (sv_clamd s (w_step s)) (bytesReader payload)) = (Some res, None)"
    "\<not> IsClean res" "VirusName res = vn" using assms(3) by (auto simp: foundIn_def)
  have nf: "stmt_fault (w_db s) (stmt_no (w_db s)) = None" using assms(2) by (simp add: faultless_def)
  define s1 where "s1 = s\<lparr>w_db := ticked (w_db s),
      sv_wire := sv_wire s @ [snd (ScanStream (sv_clamd s (w_step s)) (bytesReader payload))], w_step := Suc (Suc (w_step s))\<rparr>"
  have "run_state (scanPayload c rq start p b payload) s =
      run_state (respondInfected c rq p (msSince start (w_clock s (Suc (w_step s)))) vn payload) s1"
    using assms(1) res nf
    by (simp add: scanPayload_def run_onDB IsWhitelisted_run run_clamdScan scanOutcome_def run_timeNow Let_def s1_def)
  from that[OF this] assms(2) show ?thesis by (simp add: faultless_def s1_def freshIDs_def vaultIDAt_def)
qed

text \<open>
  C5. An infected upload is quarantined and can be got back. With working files and tables,
  when the daemon detects a virus in an uploaded payload that is not whitelisted, the answer
  is INFECTED with the virus name and a quarantine id, and a download of that id answers
  exactly the uploaded bytes. The id is empty, and nothing can be downloaded, only when the
  vault refuses the payload: it is above the vault's size limit, or the id drawn for it is
  taken.
\<close>

theorem infected_upload_recoverable:
  fixes s :: "'a apiState_scheme"
  assumes "uploads c rq name payload" and "\<not> whitelisted (hexEncodeToString (sha256 payload)) (w_db s)"
    and "faultless s" and "foundIn s payload vn" and "length (masterKey (c_Vault c)) = 32"
    and "maxQuarantineSize (c_Vault c) < maxInt64"
    and "run_state (handleScanFile c rq) s = (r, s')"
  shows "\<exists>quarID ms. r = verdictResponse ''INFECTED'' [threatField vn quarID] (dataFields (payloadOf '''' name payload) ms) \<and>
    (quarID \<noteq> '''' \<longrightarrow> (\<forall>rq2. queryGet rq2 ''id'' = quarID \<longrightarrow>
       (let r2 = fst (run_state (handleQuarantineDownload c rq2) s') in r_Status r2 = 200 \<and> r_Body r2 = BytesBody payload))) \<and>
    (freshIDs s \<longrightarrow> (0 < maxQuarantineSize (c_Vault c) \<longrightarrow> int (length payload) \<le> maxQuarantineSize (c_Vault c)) \<longrightarrow>
       quarID \<noteq> '''')"
proof -
  define p where "p = payloadOf '''' name payload"
  let ?s0 = "s\<lparr>w_step := Suc (w_step s)\<rparr>" and ?start = "w_clock s (w_step s)"
  have pre: "\<not> whitelisted (p_Hash p) (w_db ?s0)" "faultless ?s0" "foundIn ?s0 payload vn"
    using assms(2-4) by (simp_all add: p_def payloadOf_def faultless_def foundIn_def)
  obtain s1 ms where run: "run_state (handleScanFile c rq) s = run_state (respondInfected c rq p ms vn payload) s1"
    and s1: "faultless s1" "freshIDs ?s0 \<Longrightarrow> freshIDs s1"
    using scanPayload_infected[OF pre, of c rq ?start False] handleScanFile_uploads[OF assms(1), of s] p_def by metis
  obtain qr s2 where q: "run_state (QuarantineFile (c_Vault c) (p_Name p) (extractConsumer rq) vn (bytesReader payload)
      (c_QuarRetention c)) s1 = (qr, s2)" by fastforce
  define quarID where "quarID = (case qr of Inl _ \<Rightarrow> '''' | Inr rec \<Rightarrow> q_ID rec)"
  obtain s3 where au: "run_state (auditScan rq p ''INFECTED'' vn ms quarID) s2 = ((), s3)"
    by (cases "run_state (auditScan rq p ''INFECTED'' vn ms quarID) s2") auto
  obtain s4 where al: "run_state (alertInfected rq p vn quarID) s3 = ((), s4)"
    by (cases "run_state (alertInfected rq p vn quarID) s3") auto
  have r: "r = verdictResponse ''INFECTED'' [threatField vn quarID] (dataFields p ms)" "s' = s4"
    using assms(7) q au al unfolding run
    by (simp_all add: respondInfected_def quarantineInfected_def quarID_def[symmetric])
  have same: "sameVault s2 s'"
    using sv.run_relE[OF sameVault_after(1) au] sv.run_relE[OF sameVault_after(2) al] sv.R_trans r(2) by blast
  have "r_Status r2 = 200 \<and> r_Body r2 = BytesBody payload"
    if ne: "quarID \<noteq> ''''" and id: "queryGet rq2 ''id'' = quarID"
      and r2: "r2 = fst (run_state (handleQuarantineDownload c rq2) s')" for rq2 r2
  proof -
    from ne obtain rec where rec: "qr = Inr rec" "quarID = q_ID rec" by (auto simp: quarID_def split: sum.splits)
    have "fst (run_state (DownloadFile (c_Vault c) (q_ID rec)) s') = Inr (payload, storedQuarantine rec)"
      using quarantine_download_exact[OF q[unfolded rec(1)] assms(6) assms(5) s1(1) same] by simp
    then obtain s5 where "run_state (DownloadFile (c_Vault c) (q_ID rec)) s' = (Inr (payload, storedQuarantine rec), s5)"
      by (metis prod.collapse)
    with r2 id ne rec(2) show ?thesis by (simp add: handleQuarantineDownload_def)
  qed
  moreover have "quarID \<noteq> ''''"
    if "freshIDs s" and fits: "0 < maxQuarantineSize (c_Vault c) \<longrightarrow> int (length payload) \<le> maxQuarantineSize (c_Vault c)"
  proof -
    have "freshIDs s1" using s1(2) that(1) by (simp add: freshIDs_def vaultIDAt_def)
    moreover have "boundedPayload (c_Vault c) (bytesReader payload) = Inr payload"
      using boundedPayload_accepts[of "bytesReader payload" "c_Vault c"] fits assms(6) by simp
    ultimately obtain rec w where "run_state (QuarantineFile (c_Vault c) (p_Name p) (extractConsumer rq) vn (bytesReader payload)
        (c_QuarRetention c)) s1 = (Inr rec, w)" "q_ID rec \<noteq> ''''"
      by (metis QuarantineFile_succeeds[OF s1(1)])
    with q show ?thesis by (auto simp: quarID_def)
  qed
  ultimately show ?thesis using r unfolding p_def Let_def by blast
qed

subsection \<open>Restoring over HTTP\<close>

lemma handleQuarantineRestore_ok:
  fixes s :: "'a apiState_scheme"
  assumes "run_state (handleQuarantineRestore rq) s = (r, s')" and "r_Status r = 200" and "bodyBool rq ''auto_whitelist''"
    and "recordOf (bodyString rq ''quarantine_id'') (w_db s) = Some q" and "q_FileSHA256 q \<noteq> ''''"
  shows "whitelisted (q_FileSHA256 q) (w_db s')"
proof -
  let ?i = "bodyString rq ''quarantine_id''"
  have ok: "decodeOk rq [''quarantine_id'', ''restored_by'', ''reason''] [''auto_whitelist'']" "?i \<noteq> ''''"
    using assms(1,2) by (auto simp: handleQuarantineRestore_def badRequest_def respondError_def respondJSON_def split: if_splits)
  obtain e where g: "run_state (GetQuarantineRecord ?i) (w_db s) =
      (case stmt_fault (w_db s) (stmt_no (w_db s)) of None \<Rightarrow> Inr q | Some _ \<Rightarrow> Inl e, ticked (w_db s))"
    using assms(4) by (cases "stmt_fault (w_db s) (stmt_no (w_db s))") (auto simp: run_GetQuarantineRecord)
  obtain t t2 b rs where b: "run_state (handleQuarantineRestore rq) s =
      (case stmt_fault (w_db s) (stmt_no (w_db s)) of
         Some _ \<Rightarrow> (notFound ''Quarantine record not found'', s\<lparr>w_db := ticked (w_db s)\<rparr>)
       | None \<Rightarrow> run_state (do {
           x \<leftarrow> onDB (RestoreQuarantineRecord t t2 ?i b rs True);
           case x of
             Inl e \<Rightarrow> ret (internalError (''Failed to restore quarantine record: '' @ err_text e))
           | Inr _ \<Rightarrow> do { t \<leftarrow> timeNow; ret (restoredResponse q True t) } })
         (s\<lparr>w_db := ticked (w_db s), w_step := Suc (Suc (w_step s))\<rparr>))"
    using ok assms(3) g
    by (cases "stmt_fault (w_db s) (stmt_no (w_db s))") (auto simp: handleQuarantineRestore_def run_onDB run_timeNow Let_def)
  from b assms(1,2) have nf: "stmt_fault (w_db s) (stmt_no (w_db s)) = None"
    by (auto simp: notFound_def respondError_def respondJSON_def split: option.splits)
  obtain x d where x: "run_state (RestoreQuarantineRecord t t2 ?i b rs True) (ticked (w_db s)) = (x, d)" by fastforce
  have "\<exists>u. x = Inr u" "w_db s' = d"
    using b assms(1,2) nf x
    by (auto simp: run_onDB run_timeNow internalError_def respondError_def respondJSON_def split: sum.splits)
  with x have "run_state (RestoreQuarantineRecord t t2 ?i b rs True) (ticked (w_db s)) = (Inr (), d)" by auto
  from RestoreQuarantineRecord_ok[OF this] assms(4,5) \<open>w_db s' = d\<close> show ?thesis by (metis option.inject recordOf_ticked)
qed

lemma scanPayload_whitelisted:
  fixes s :: "'a apiState_scheme"
  assumes "whitelisted (p_Hash p) (w_db s)" and "stmt_fault (w_db s) = (\<lambda>_. None)"
    and "run_state (scanPayload c rq start p False payload) s = (r, s')"
  shows "(\<exists>ms. r = verdictResponse ''CLEAN'' [(''whitelisted'', JBool True)] (dataFields p ms)) \<and>
    sv_wire s' = sv_wire s \<and> w_db s' = ticked (w_db s) \<and> w_files s' = w_files s"
  using assms by (auto simp: scanPayload_def run_onDB IsWhitelisted_run run_timeNow)

text \<open>One restore over HTTP, for a record in any status.\<close>

lemma handleQuarantineRestore_any:
  fixes s :: "'a apiState_scheme"
  assumes "recordOf i (w_db s) = Some q" and "stmt_fault (w_db s) = (\<lambda>_. None)" and "i \<noteq> ''''"
    and "decodeOk rq [''quarantine_id'', ''restored_by'', ''reason''] [''auto_whitelist'']" and "bodyString rq ''quarantine_id'' = i"
    and "run_state (handleQuarantineRestore rq) s = (r, s')"
  shows "r_Status r = 200 \<and> w_files s' = w_files s \<and> stmt_fault (w_db s') = (\<lambda>_. None) \<and>
    (\<exists>q'. recordOf i (w_db s') = Some q' \<and> q_Status q' = ''RESTORED'')"
proof -
  let ?by = "if bodyString rq ''restored_by'' = '''' then ''admin'' else bodyString rq ''restored_by''"
  let ?why = "if bodyString rq ''reason'' = '''' then ''Restored via Web Admin UI'' else bodyString rq ''reason''"
  let ?t = "w_clock s (w_step s)" and ?t2 = "w_clock s (Suc (w_step s))" and ?auto = "bodyBool rq ''auto_whitelist''"
  obtain r0 d where d0: "run_state (RestoreQuarantineRecord ?t ?t2 i ?by ?why ?auto) (ticked (w_db s)) = (r0, d)"
    by fastforce
  then have "r0 = Inr ()" and fd: "stmt_fault d = (\<lambda>_. None)"
    using assms(1,2) by (auto simp: RestoreQuarantineRecord_def run_tryRes run_GetQuarantineRecord run_exec AddWhitelist_def
        split: if_splits)
  with d0 have d: "run_state (RestoreQuarantineRecord ?t ?t2 i ?by ?why ?auto) (ticked (w_db s)) = (Inr (), d)" by simp
  obtain q0 where q0: "recordOf i (ticked (w_db s)) = Some q0" "recordOf i d = Some (setRestored ?t ?by ?why i q0)"
    by (rule RestoreQuarantineRecord_ok[OF d])
  then have st: "q_Status (setRestored ?t ?by ?why i q0) = ''RESTORED''"
    using recordOf_ID[OF q0(1)] by (simp add: setRestored_def)
  have "r = restoredResponse q ?auto (w_clock s (Suc (Suc (w_step s)))) \<and>
      s' = s\<lparr>w_step := Suc (Suc (Suc (w_step s))), w_db := d\<rparr>"
    using assms d by (auto simp: handleQuarantineRestore_def run_onDB run_timeNow run_GetQuarantineRecord Let_def)
  then show ?thesis using fd q0(2) st by (simp add: restoredResponse_def respondJSON_def)
qed

fun restoreAll :: "httpRequest list \<Rightarrow> ('a apiState_scheme, httpResponse list) state" where
  "restoreAll [] = ret []"
| "restoreAll (rq # rqs) = do {
     r \<leftarrow> handleQuarantineRestore rq;
     rs \<leftarrow> restoreAll rqs;
     ret (r # rs) }"

lemma restoreAll_ok:
  fixes s :: "'a apiState_scheme"
  assumes "i \<noteq> ''''"
  shows "list_all (\<lambda>rq. decodeOk rq [''quarantine_id'', ''restored_by'', ''reason''] [''auto_whitelist''] \<and>
      bodyString rq ''quarantine_id'' = i) rqs \<Longrightarrow> recordOf i (w_db s) = Some q \<Longrightarrow>
    stmt_fault (w_db s) = (\<lambda>_. None) \<Longrightarrow> run_state (restoreAll rqs) s = (rs, s') \<Longrightarrow>
    map r_Status rs = replicate (length rqs) 200 \<and> w_files s' = w_files s \<and>
    (rqs = [] \<and> s' = s \<or> (\<exists>q'. recordOf i (w_db s') = Some q' \<and> q_Status q' = ''RESTORED''))"
proof (induction rqs arbitrary: s s' rs q)
  case Nil
  then show ?case by simp
next
  case (Cons rq rqs)
  obtain r s1 where r: "run_state (handleQuarantineRestore rq) s = (r, s1)" by fastforce
  obtain rs1 s2 where rs: "run_state (restoreAll rqs) s1 = (rs1, s2)" by fastforce
  have eq: "rs = r # rs1" "s' = s2" using Cons.prems(4) r rs by simp_all
  have one: "r_Status r = 200 \<and> w_files s1 = w_files s \<and> stmt_fault (w_db s1) = (\<lambda>_. None) \<and>
      (\<exists>q'. recordOf i (w_db s1) = Some q' \<and> q_Status q' = ''RESTORED'')"
    by (rule handleQuarantineRestore_any[OF Cons.prems(2,3) assms _ _ r]) (use Cons.prems(1) in simp_all)
  then obtain q1 where q1: "recordOf i (w_db s1) = Some q1" "q_Status q1 = ''RESTORED''" by blast
  from Cons.IH[OF _ q1(1) _ rs] Cons.prems(1) one q1 eq show ?case by auto
qed

text \<open>
  C22. The HTTP restore can be repeated. Whatever the status of a record, and whether or not
  its file still exists, every restore of it over HTTP is answered 200 RESTORED when the
  tables work, and touches no file; the vault's own \<open>RestoreFile\<close>, which the API does not
  call, refuses the record from the first of them on.
\<close>

theorem http_restore_repeats:
  fixes s :: "'a apiState_scheme"
  assumes "recordOf i (w_db s) = Some q" and "stmt_fault (w_db s) = (\<lambda>_. None)" and "i \<noteq> ''''" and "rqs \<noteq> []"
    and "list_all (\<lambda>rq. decodeOk rq [''quarantine_id'', ''restored_by'', ''reason''] [''auto_whitelist''] \<and>
      bodyString rq ''quarantine_id'' = i) rqs"
    and "run_state (restoreAll rqs) s = (rs, s')"
  shows "map r_Status rs = replicate (length rqs) 200 \<and> w_files s' = w_files s \<and>
    isErr (fst (run_state (RestoreFile v i who why auto) s'))"
proof -
  note all = restoreAll_ok[OF assms(3,5,1,2,6)]
  then obtain q' where "recordOf i (w_db s') = Some q'" "q_Status q' = ''RESTORED''" using assms(4) by blast
  then have "isErr (fst (run_state (RestoreFile v i who why auto) s'))"
    by (auto simp: RestoreFile_def run_tryRes run_onDB run_GetQuarantineRecord split: option.split)
  with all show ?thesis by blast
qed

text \<open>
  C19. A restore blinds the scanner. After a restore over HTTP with \<open>auto_whitelist\<close> has been
  answered 200, every upload of a payload with the hash of that record is answered CLEAN,
  without asking the daemon: nothing is sent to it, nothing is quarantined, and the audit
  log has no entry of the upload.
\<close>

theorem restored_hash_passes:
  fixes s :: "'a apiState_scheme"
  assumes "run_state (handleQuarantineRestore rq1) s = (r1, s1)" and "r_Status r1 = 200"
    and "bodyBool rq1 ''auto_whitelist''" and "recordOf (bodyString rq1 ''quarantine_id'') (w_db s) = Some q"
    and "uploads c rq2 name payload" and "q_FileSHA256 q = hexEncodeToString (sha256 payload)"
    and "stmt_fault (w_db s1) = (\<lambda>_. None)"
    and "run_state (handleScanFile c rq2) s1 = (r2, s2)"
  shows "(\<exists>ms. r2 = verdictResponse ''CLEAN'' [(''whitelisted'', JBool True)] (dataFields (payloadOf '''' name payload) ms)) \<and>
    sv_wire s2 = sv_wire s1 \<and> w_files s2 = w_files s1 \<and> sameTables (w_db s1) (w_db s2)"
proof -
  define p where "p = payloadOf '''' name payload"
  let ?t = "s1\<lparr>w_step := Suc (w_step s1)\<rparr>"
  have "length (q_FileSHA256 q) = 64" by (simp add: assms(6))
  then have "q_FileSHA256 q \<noteq> ''''" by auto
  from handleQuarantineRestore_ok[OF assms(1-4) this]
  have "whitelisted (p_Hash p) (w_db ?t)" "stmt_fault (w_db ?t) = (\<lambda>_. None)"
    using assms(6,7) by (simp_all add: p_def payloadOf_def)
  moreover have "run_state (scanPayload c rq2 (w_clock s1 (w_step s1)) p False payload) ?t = (r2, s2)"
    using assms(8) handleScanFile_uploads[OF assms(5), of s1] by (simp add: p_def)
  ultimately show ?thesis
    using scanPayload_whitelisted[of p ?t c rq2 "w_clock s1 (w_step s1)" payload r2 s2]
    by (auto simp: p_def sameTables_def ticked_def)
qed

subsection \<open>The rate limit\<close>












definition limiting :: "ServerConfig \<Rightarrow> bool" where
  "limiting c \<longleftrightarrow> c_RateLimitEnabled c \<and> c_HasLimiter c \<and> 0 < c_RateLimitRPM c"







subsection \<open>Witnesses\<close>

definition sampleConfig :: "string \<Rightarrow> ServerConfig" where
  "sampleConfig mode = NewServer
     \<lparr> c_Vault = sampleVault (replicate 32 7), c_HasLimiter = True, c_Fetcher = None, c_YARA = None, c_Async = None,
       c_HasDB = True, c_RequireAPIKey = False, c_MaxScanSizeMB = 1, c_RateLimitRPM = 3, c_RateLimitEnabled = True,
       c_LogRetention = 3, c_QuarRetention = 7, c_AuthMode = mode, c_BasicUser = '''', c_BasicPass = ''p'',
       c_BearerToken = '''', c_UIPassword = '''', c_Assets = (\<lambda>_. aborted) \<rparr>"

definition sampleUpload :: "bytes \<Rightarrow> httpRequest" where
  "sampleUpload d = \<lparr> h_Method = ''POST'', h_Path = ''/api/v1/scan/file'', h_Query = [], h_Header = [],
     h_RemoteAddr = ''10.0.0.1:80'', h_Json = Inr JNull, h_BodyLength = 9,
     h_Form = Inr \<lparr> mp_Files = [(''file'', \<lparr> ff_Filename = ''a.bin'', ff_Size = 2, ff_Data = bytesReader d \<rparr>)], mp_Values = [] \<rparr> \<rparr>"

definition sampleRestore :: httpRequest where
  "sampleRestore = \<lparr> h_Method = ''POST'', h_Path = ''/api/v1/quarantine/restore'', h_Query = [], h_Header = [],
     h_RemoteAddr = ''10.0.0.1:80'',
     h_Json = Inr (JObj [(''quarantine_id'', JStr ''Q-1''), (''auto_whitelist'', JBool True)]), h_BodyLength = 9,
     h_Form = Inl (errorsNew ''not multipart'') \<rparr>"

definition sampleHeld :: "bytes \<Rightarrow> QuarantineRecord" where
  "sampleHeld d = \<lparr> q_ID = ''Q-1'', q_OriginalFilename = ''a.bin'', q_FileSizeBytes = 2,
     q_FileSHA256 = hexEncodeToString (sha256 d), q_VirusName = ''Eicar'', q_SourceConsumer = ''app'',
     q_StoredPath = ''/v/Q-1.quarantine'', q_Status = ''QUARANTINED'', q_CreatedAt = 0, q_ExpiresAt = 0,
     q_RestoredAt = None, q_RestoredBy = '''', q_RestoreReason = '''' \<rparr>"

definition sampleApi :: "QuarantineRecord list \<Rightarrow> string \<Rightarrow> apiState" where
  "sampleApi rows answer =
     \<lparr> w_db = (emptyDB (\<lambda>_. None))\<lparr>quarantine_records := rows\<rparr>, w_files = [], w_step = 0, w_clock = (\<lambda>_. 0),
       w_fault = (\<lambda>_. None), w_short = (\<lambda>_. None), w_random = (\<lambda>k i. of_nat (17 * k + i)),
       sv_clamd = (\<lambda>_. healthyConn answer), sv_wire = [], sv_env = sampleEnv,
       sv_net = \<lparr> ns_tick = 0, ns_dials = [] \<rparr>, sv_notifier = None, sv_posts = [],
       q_chan = [], q_closed = False, q_busy = [], a_limiter = NewLimiter \<rparr>"

lemma sampleConfig_facts:
  "c_AuthMode (sampleConfig ''basic'') = ''basic''" "c_Vault (sampleConfig m) = sampleVault (replicate 32 7)"
  "maxScanBytes (sampleConfig m) = 1048576" "limiting (sampleConfig m)" "c_RateLimitRPM (sampleConfig m) = 3"
  by (simp_all add: sampleConfig_def NewServer_def maxScanBytes_def int64_id limiting_def Let_def)

lemma sampleUpload_facts: "uploads (sampleConfig m) (sampleUpload d) ''a.bin'' d"
  by (simp add: uploads_def ParseMultipartForm_def sampleConfig_facts sampleUpload_def FormFile_def)

theorem auth_guards_state_witness:
  "\<exists>r s'. run_state (applyMiddlewares (sampleConfig ''basic'') (sampleUpload [1, 2])) (sampleApi [] ''stream: OK'') = (r, s') \<and>
     r_Status r \<in> {401, 429} \<and> w_files s' = [] \<and> sv_wire s' = []"
proof -
  let ?c = "sampleConfig ''basic''" and ?rq = "sampleUpload [1, 2]" and ?s = "sampleApi [] ''stream: OK''"
  obtain r s' where run: "run_state (applyMiddlewares ?c ?rq) ?s = (r, s')" by fastforce
  have "\<not> credentialsOk ?c ?rq"
    by (simp add: credentialsOk_def sampleConfig_facts BasicAuth_def headerGet_def firstOf_def sampleUpload_def)
  moreover have "\<not> isPublic (h_Path ?rq)" "h_Method ?rq \<noteq> ''OPTIONS''"
    by (simp_all add: isPublic_def sampleUpload_def HasPrefix_def)
  moreover have "c_AuthMode ?c \<in> {''basic'', ''bearer''}" by (simp add: sampleConfig_facts)
  ultimately show ?thesis using auth_guards_state[OF _ _ run] run by (auto simp: sampleApi_def)
qed

lemma sampleApi_facts: "faultless (sampleApi rows a)" "w_clock (sampleApi rows a) = (\<lambda>_. 0)"
    "a_limiter (sampleApi rows a) = NewLimiter" "stmt_fault (w_db (sampleApi rows a)) = (\<lambda>_. None)"
  by (simp_all add: faultless_def sampleApi_def emptyDB_def)

theorem infected_upload_recoverable_witness:
  "\<exists>quarID ms. fst (run_state (handleScanFile (sampleConfig ''none'') (sampleUpload [1, 2])) (sampleApi [] (detection ''Eicar''))) =
     verdictResponse ''INFECTED'' [threatField ''Eicar'' quarID] (dataFields (payloadOf '''' ''a.bin'' [1, 2]) ms) \<and>
     quarID \<noteq> ''''"
proof -
  let ?c = "sampleConfig ''none''" and ?rq = "sampleUpload [1, 2]" and ?s = "sampleApi [] (detection ''Eicar'')"
  obtain r s' where run: "run_state (handleScanFile ?c ?rq) ?s = (r, s')" by fastforce
  have wl: "\<not> whitelisted (hexEncodeToString (sha256 [1, 2])) (w_db ?s)"
    by (simp add: whitelisted_def sampleApi_def emptyDB_def)
  have g: "list_all graphic ''Eicar''" "list_all graphic (filter (\<lambda>c. c \<noteq> CHR '' '') (detection ''Eicar''))"
    by (simp_all add: graphic_def detection_def)
  have "\<not> Contains ''Eicar'' ''OK''" by code_simp
  then have found: "foundIn ?s [1, 2] ''Eicar''"
    using parse_detection[OF g(1)] ScanStream_healthy[OF g(2), of "bytesReader [1, 2]"]
    by (simp add: foundIn_def sampleApi_def IsClean_def del: Contains.simps)
  have key: "length (masterKey (c_Vault ?c)) = 32" by (simp add: sampleConfig_facts sampleVault_def)
  have small: "maxQuarantineSize (c_Vault ?c) < maxInt64" by (simp add: sampleConfig_facts sampleVault_small)
  have "freshIDs ?s" "int (length [1 :: byte, 2]) \<le> maxQuarantineSize (c_Vault ?c)"
    by (simp_all add: freshIDs_def sampleApi_def emptyDB_def sampleConfig_facts sampleVault_def)
  with infected_upload_recoverable[OF sampleUpload_facts wl sampleApi_facts(1) found key small run]
  show ?thesis unfolding run fst_conv by blast
qed


text \<open>The restore of the sample record succeeds.\<close>

lemma sample_restore:
  "\<exists>r s1. run_state (handleQuarantineRestore sampleRestore) (sampleApi [sampleHeld d] a) = (r, s1) \<and> r_Status r = 200 \<and>
     stmt_fault (w_db s1) = (\<lambda>_. None)"
proof -
  have f: "decodeOk sampleRestore [''quarantine_id'', ''restored_by'', ''reason''] [''auto_whitelist'']"
    "bodyString sampleRestore ''quarantine_id'' = ''Q-1''" "bodyBool sampleRestore ''auto_whitelist''"
    "bodyString sampleRestore ''restored_by'' = ''''" "bodyString sampleRestore ''reason'' = ''''"
    by code_simp+
  have "recordOf ''Q-1'' (w_db (sampleApi [sampleHeld d] a)) = Some (sampleHeld d)"
    by (simp add: recordOf_def sampleApi_def emptyDB_def sampleHeld_def)
  moreover have "length (q_FileSHA256 (sampleHeld d)) = 64" by (simp add: sampleHeld_def)
  then have "q_FileSHA256 (sampleHeld d) \<noteq> ''''" by auto
  ultimately show ?thesis using f sampleApi_facts(4)[of "[sampleHeld d]" a]
    by (simp add: handleQuarantineRestore_def run_onDB run_timeNow run_GetQuarantineRecord Let_def
        RestoreQuarantineRecord_def run_tryRes run_exec AddWhitelist_def restoredResponse_def respondJSON_def)
qed

theorem restored_hash_passes_witness:
  "\<exists>r1 s1 ms. run_state (handleQuarantineRestore sampleRestore) (sampleApi [sampleHeld [1, 2]] (detection ''Eicar'')) = (r1, s1) \<and>
     fst (run_state (handleScanFile (sampleConfig ''none'') (sampleUpload [1, 2])) s1) =
       verdictResponse ''CLEAN'' [(''whitelisted'', JBool True)] (dataFields (payloadOf '''' ''a.bin'' [1, 2]) ms)"
proof -
  let ?s = "sampleApi [sampleHeld [1, 2]] (detection ''Eicar'')"
  obtain r1 s1 where r1: "run_state (handleQuarantineRestore sampleRestore) ?s = (r1, s1)" "r_Status r1 = 200"
    "stmt_fault (w_db s1) = (\<lambda>_. None)" using sample_restore by blast
  obtain r2 s2 where r2: "run_state (handleScanFile (sampleConfig ''none'') (sampleUpload [1, 2])) s1 = (r2, s2)" by fastforce
  have f: "bodyBool sampleRestore ''auto_whitelist''" "bodyString sampleRestore ''quarantine_id'' = ''Q-1''" by code_simp+
  have "recordOf (bodyString sampleRestore ''quarantine_id'') (w_db ?s) = Some (sampleHeld [1, 2])"
    by (simp add: f recordOf_def sampleApi_def emptyDB_def sampleHeld_def)
  from restored_hash_passes[OF r1(1,2) f(1) this sampleUpload_facts _ r1(3) r2] r1(1) r2
  show ?thesis by (auto simp: sampleHeld_def)
qed

theorem http_restore_repeats_witness:
  "\<exists>rs s'. run_state (restoreAll [sampleRestore, sampleRestore]) (sampleApi [sampleHeld [1, 2]] '''') = (rs, s') \<and>
     map r_Status rs = [200, 200]"
proof -
  let ?s = "sampleApi [sampleHeld [1, 2]] ''''"
  obtain rs s' where run: "run_state (restoreAll [sampleRestore, sampleRestore]) ?s = (rs, s')" by fastforce
  have f: "decodeOk sampleRestore [''quarantine_id'', ''restored_by'', ''reason''] [''auto_whitelist'']"
    "bodyString sampleRestore ''quarantine_id'' = ''Q-1''"
    by code_simp+
  have "recordOf ''Q-1'' (w_db ?s) = Some (sampleHeld [1, 2])"
    by (simp add: recordOf_def sampleApi_def emptyDB_def sampleHeld_def)
  from http_restore_repeats[OF this sampleApi_facts(4) _ _ _ run] f run show ?thesis by simp
qed

end
