(* ===== verification/Grpc.thy ===== *)
theory Grpc
  imports Service
begin

text \<open>
  The gRPC server, \<open>internal/grpcserver/server.go\<close>: the interceptors that authenticate every
  call, and the two calls of \<open>proto/clamav/v1\<close>. A stream is the list of messages the client
  sends, each with its size on the wire, and how it then ends; a failed call is a status code
  with its message. The metadata of a call maps lower-case keys to their values.
\<close>

datatype code = Unauthenticated | Internal | ResourceExhausted | InvalidArgument | Unavailable

type_synonym 'r reply = "code \<times> string + 'r"

type_synonym metadata = "string \<Rightarrow> string list"

record FileMetadata =
  md_FileName :: string
  md_ConsumerName :: string
  md_ExpectedSha256 :: string

datatype ScanChunkRequest = Metadata FileMetadata | ChunkData bytes | NoPayload

text \<open>
  \<open>NewServer\<close> passes no size option to \<open>grpc.NewServer\<close>, so \<open>Recv\<close> delivers no message of more
  than the documented default of 4 MiB; instead it fails. \<open>st_Oversize\<close> is its error for a
  message of that many bytes, \<open>st_Broken\<close> how the stream ends if not properly.
\<close>

definition maxReceiveMessageSize :: nat where
  "maxReceiveMessageSize = 4 * 1024 * 1024"

type_synonym wireMessage = "nat \<times> ScanChunkRequest"

definition deliverable :: "wireMessage \<Rightarrow> bool" where
  "deliverable m \<longleftrightarrow> fst m \<le> maxReceiveMessageSize"

record stream =
  st_Messages :: "wireMessage list"
  st_Oversize :: "nat \<Rightarrow> goerr"
  st_Broken :: "goerr option"

datatype VerdictStatus = VCLEAN | VINFECTED

record GThreatInfo =
  gt_VirusName :: string
  gt_Severity :: string
  gt_ActionTaken :: string
  gt_QuarantineId :: string

record ScanData =
  sd_FileName :: string
  sd_FileSize :: int
  sd_FileSha256 :: string
  sd_ScanDurationMs :: int
  sd_ScannedAt :: string
  sd_Whitelisted :: bool

record ScanVerdictResponse =
  vr_Success :: bool
  vr_Verdict :: VerdictStatus
  vr_Threat :: "GThreatInfo option"
  vr_Data :: ScanData

record HealthCheckResponse =
  hc_Serving :: bool
  hc_Version :: string
  hc_Engine :: string

record GrpcConfig =
  g_Vault :: Vault
  g_AuthMode :: string
  g_BearerToken :: string
  g_MaxScanSizeMB :: int
  g_QuarRetention :: int

definition NewGrpcServer :: "GrpcConfig \<Rightarrow> GrpcConfig" where
  "NewGrpcServer c0 =
     (let c1 = (if g_MaxScanSizeMB c0 \<le> 0 then c0\<lparr>g_MaxScanSizeMB := 100\<rparr> else c0)
      in if g_QuarRetention c1 \<le> 0 then c1\<lparr>g_QuarRetention := 7\<rparr> else c1)"

subsection \<open>Authentication\<close>

text \<open>\<open>token[7:]\<close> cuts a prefix that is \<open>bearer\<close> and a space up to case.\<close>

definition headerToken :: "string \<Rightarrow> string" where
  "headerToken h = (if HasPrefix (ToLower h) ''bearer '' then TrimSpace (drop 7 h) else h)"

definition authenticate :: "GrpcConfig \<Rightarrow> metadata option \<Rightarrow> (code \<times> string) option" where
  "authenticate c md =
     (if g_AuthMode c = '''' \<or> g_AuthMode c = ''none'' then None
      else (case md of
          None \<Rightarrow> Some (Unauthenticated, ''missing metadata'')
        | Some m \<Rightarrow>
            (case m ''authorization'' of
               [] \<Rightarrow> Some (Unauthenticated, ''missing authorization header'')
             | h # _ \<Rightarrow>
                 if g_AuthMode c = ''bearer'' \<and> g_BearerToken c \<noteq> '''' \<and> headerToken h \<noteq> g_BearerToken c
                 then Some (Unauthenticated, ''invalid bearer token'') else None)))"

text \<open>Both interceptors: the handler runs only when the call is authenticated.\<close>

definition intercepted ::
  "GrpcConfig \<Rightarrow> metadata option \<Rightarrow> ('s, 'r reply) state \<Rightarrow> ('s, 'r reply) state" where
  "intercepted c md handler = (case authenticate c md of Some e \<Rightarrow> ret (Inl e) | None \<Rightarrow> handler)"

definition HealthCheck :: "('s, HealthCheckResponse reply) state" where
  "HealthCheck = ret (Inr \<lparr> hc_Serving = True, hc_Version = ''1.2.0'', hc_Engine = ''ClamAV'' \<rparr>)"

subsection \<open>Receiving the payload\<close>

definition grpcMaxBytes :: "GrpcConfig \<Rightarrow> int" where
  "grpcMaxBytes c = int64 (g_MaxScanSizeMB c * 1024 * 1024)"

text \<open>The metadata of the last such message, and all chunk data, as long as it stays within the limit.\<close>

record received =
  rc_Meta :: "FileMetadata option"
  rc_Buffer :: bytes
  rc_TotalBytes :: int

definition tooLarge :: "GrpcConfig \<Rightarrow> code \<times> string" where
  "tooLarge c = (ResourceExhausted, ''payload exceeds configured limit of '' @ itoa (g_MaxScanSizeMB c) @ '' MB'')"

definition recvFailed :: "goerr \<Rightarrow> code \<times> string" where
  "recvFailed e = (Internal, ''failed receiving chunk: '' @ err_text e)"

fun recvLoop ::
  "GrpcConfig \<Rightarrow> wireMessage list \<Rightarrow> (nat \<Rightarrow> goerr) \<Rightarrow> goerr option \<Rightarrow> received \<Rightarrow> received reply" where
  "recvLoop c [] big None acc = Inr acc"
| "recvLoop c [] big (Some e) acc = Inl (recvFailed e)"
| "recvLoop c (m # ms) big b acc =
     (if \<not> deliverable m then Inl (recvFailed (big (fst m)))
      else (case snd m of
          Metadata md \<Rightarrow> recvLoop c ms big b (acc\<lparr>rc_Meta := Some md\<rparr>)
        | NoPayload \<Rightarrow> recvLoop c ms big b acc
        | ChunkData d \<Rightarrow>
            if d = [] then recvLoop c ms big b acc
            else
              let n = int64 (rc_TotalBytes acc + int (length d)) in
              if grpcMaxBytes c < n then Inl (tooLarge c)
              else recvLoop c ms big b (acc\<lparr>rc_Buffer := rc_Buffer acc @ d, rc_TotalBytes := n\<rparr>)))"

definition nothingReceived :: received where
  "nothingReceived = \<lparr> rc_Meta = None, rc_Buffer = [], rc_TotalBytes = 0 \<rparr>"

subsection \<open>The verdict\<close>

text \<open>What is known of the payload before the daemon is asked; the duration is measured here already.\<close>

record grpcInfo =
  gi_Name :: string
  gi_Consumer :: string
  gi_Size :: int
  gi_Hash :: string
  gi_Ms :: int

definition orElse :: "string \<Rightarrow> string \<Rightarrow> string" where
  "orElse s d = (if s = '''' then d else s)"

definition grpcInfoOf :: "received \<Rightarrow> int \<Rightarrow> grpcInfo" where
  "grpcInfoOf got ms =
     \<lparr> gi_Name = orElse (case rc_Meta got of None \<Rightarrow> '''' | Some m \<Rightarrow> md_FileName m) ''stream_file'',
       gi_Consumer = orElse (case rc_Meta got of None \<Rightarrow> '''' | Some m \<Rightarrow> md_ConsumerName m) ''grpc_client'',
       gi_Size = rc_TotalBytes got, gi_Hash = hexEncodeToString (sha256 (rc_Buffer got)), gi_Ms = ms \<rparr>"

definition expectedSHA256 :: "received \<Rightarrow> string" where
  "expectedSHA256 got = (case rc_Meta got of None \<Rightarrow> '''' | Some m \<Rightarrow> md_ExpectedSha256 m)"

definition checksumError :: "string \<Rightarrow> string \<Rightarrow> code \<times> string" where
  "checksumError computed expected =
     (InvalidArgument, ''file checksum mismatch: computed '' @ computed @ '', expected '' @ expected)"

definition grpcResponse ::
  "VerdictStatus \<Rightarrow> GThreatInfo option \<Rightarrow> grpcInfo \<Rightarrow> bool \<Rightarrow> ('a service_scheme, ScanVerdictResponse reply) state" where
  "grpcResponse verdict threat g wl = do {
     t \<leftarrow> timeNow;
     ret (Inr \<lparr> vr_Success = True, vr_Verdict = verdict, vr_Threat = threat,
       vr_Data = \<lparr> sd_FileName = gi_Name g, sd_FileSize = gi_Size g, sd_FileSha256 = gi_Hash g,
         sd_ScanDurationMs = gi_Ms g, sd_ScannedAt = formatRFC3339 t, sd_Whitelisted = wl \<rparr> \<rparr>) }"

definition grpcAudit :: "grpcInfo \<Rightarrow> string \<Rightarrow> string \<Rightarrow> string \<Rightarrow> ('a service_scheme, unit) state" where
  "grpcAudit g verdict virusName quarID = do {
     t1 \<leftarrow> timeNow;
     t2 \<leftarrow> timeNow;
     _ \<leftarrow> onDB (InsertScanAuditLog
       \<lparr> al_ID = ''audit_grpc_'' @ itoa t1, al_Timestamp = t2, al_ConsumerName = gi_Consumer g,
         al_ClientIP = ''grpc'', al_FileName = gi_Name g, al_FileSizeBytes = gi_Size g, al_FileSHA256 = gi_Hash g,
         al_Verdict = verdict, al_VirusName = virusName, al_ScanDurationMs = gi_Ms g, al_QuarantineID = quarID \<rparr>);
     ret () }"

definition grpcQuarantine :: "GrpcConfig \<Rightarrow> grpcInfo \<Rightarrow> string \<Rightarrow> bytes \<Rightarrow> ('a service_scheme, string) state" where
  "grpcQuarantine c g virusName payload = do {
     qr \<leftarrow> QuarantineFile (g_Vault c) (gi_Name g) (gi_Consumer g) virusName (bytesReader payload) (g_QuarRetention c);
     ret (case qr of Inl _ \<Rightarrow> '''' | Inr rec \<Rightarrow> q_ID rec) }"

definition grpcAlert :: "grpcInfo \<Rightarrow> string \<Rightarrow> string \<Rightarrow> ('a service_scheme, unit) state" where
  "grpcAlert g virusName quarID = do {
     nt \<leftarrow> asks sv_notifier;
     (if nt = None then ret () else do {
        t \<leftarrow> timeNow;
        dispatchThreat \<lparr> ta_VirusName = virusName, ta_FileName = gi_Name g, ta_FileSizeBytes = gi_Size g,
          ta_FileSHA256 = gi_Hash g, ta_QuarantineID = quarID, ta_SourceConsumer = gi_Consumer g,
          ta_DetectedAt = t \<rparr> }) }"

definition grpcInfected ::
  "GrpcConfig \<Rightarrow> grpcInfo \<Rightarrow> string \<Rightarrow> bytes \<Rightarrow> ('a service_scheme, ScanVerdictResponse reply) state" where
  "grpcInfected c g virusName payload = do {
     quarID \<leftarrow> grpcQuarantine c g virusName payload;
     grpcAudit g ''INFECTED'' virusName quarID;
     grpcAlert g virusName quarID;
     grpcResponse VINFECTED
       (Some \<lparr> gt_VirusName = virusName, gt_Severity = ''HIGH'', gt_ActionTaken = ''QUARANTINED'', gt_QuarantineId = quarID \<rparr>)
       g False }"

definition grpcScan ::
  "GrpcConfig \<Rightarrow> grpcInfo \<Rightarrow> bytes \<Rightarrow> ('a service_scheme, ScanVerdictResponse reply) state" where
  "grpcScan c g payload = do {
     wl \<leftarrow> onDB (IsWhitelisted (gi_Hash g));
     if okOr False wl then grpcResponse VCLEAN None g True
     else do {
       x \<leftarrow> clamdScan (bytesReader payload);
       case x of
         Inl err \<Rightarrow> ret (Inl (Unavailable, ''clamav daemon unavailable: '' @ err_text err))
       | Inr res \<Rightarrow>
           if IsClean res then do {
             grpcAudit g ''CLEAN'' '''' '''';
             grpcResponse VCLEAN None g False }
           else grpcInfected c g (VirusName res) payload } }"

definition grpcScanStream ::
  "GrpcConfig \<Rightarrow> stream \<Rightarrow> ('a service_scheme, ScanVerdictResponse reply) state" where
  "grpcScanStream c st = do {
     start \<leftarrow> timeNow;
     case recvLoop c (st_Messages st) (st_Oversize st) (st_Broken st) nothingReceived of
       Inl e \<Rightarrow> ret (Inl e)
     | Inr got \<Rightarrow> do {
         let expected = expectedSHA256 got;
         let fileHash = hexEncodeToString (sha256 (rc_Buffer got));
         if expected \<noteq> '''' \<and> \<not> EqualFold expected fileHash then ret (Inl (checksumError fileHash expected))
         else do {
           now \<leftarrow> timeNow;
           grpcScan c (grpcInfoOf got (msSince start now)) (rc_Buffer got) } } }"

end
