(* ===== verification/GrpcLaws.thy ===== *)
theory GrpcLaws
  imports Grpc ApiLaws
begin

text \<open>
  The gRPC server: how a payload is cut into messages does not matter, a payload above the
  limit has no effect, and whom the server lets in where the HTTP API does not.
\<close>

subsection \<open>Chunking\<close>

fun chunks :: "wireMessage list \<Rightarrow> bytes" where
  "chunks [] = []"
| "chunks ((_, m) # ms) = (case m of ChunkData d \<Rightarrow> d | _ \<Rightarrow> []) @ chunks ms"

fun lastMeta :: "FileMetadata option \<Rightarrow> wireMessage list \<Rightarrow> FileMetadata option" where
  "lastMeta md [] = md"
| "lastMeta md ((_, m) # ms) = lastMeta (case m of Metadata md' \<Rightarrow> Some md' | _ \<Rightarrow> md) ms"

lemma recvLoop_spec:
  assumes "rc_TotalBytes acc = int (length (rc_Buffer acc))" and "list_all deliverable ms"
    and "rc_TotalBytes acc + int (length (chunks ms)) < 2 ^ 63" and "rc_TotalBytes acc \<le> grpcMaxBytes c"
  shows "recvLoop c (ms @ ms') big b acc =
    (if rc_TotalBytes acc + int (length (chunks ms)) \<le> grpcMaxBytes c
     then recvLoop c ms' big b \<lparr> rc_Meta = lastMeta (rc_Meta acc) ms, rc_Buffer = rc_Buffer acc @ chunks ms,
       rc_TotalBytes = rc_TotalBytes acc + int (length (chunks ms)) \<rparr>
     else Inl (tooLarge c))"
  using assms
proof (induction ms arbitrary: acc)
  case Nil
  then show ?case by (cases acc) simp
next
  case (Cons m ms)
  obtain k p where m: "m = (k, p)" by fastforce
  show ?case
  proof (cases p)
    case (ChunkData d)
    then have n: "int64 (rc_TotalBytes acc + int (length d)) = rc_TotalBytes acc + int (length d)"
      using Cons.prems(1,3) m by (intro int64_id) auto
    show ?thesis
    proof (cases "d = [] \<or> grpcMaxBytes c < rc_TotalBytes acc + int (length d)")
      case True
      show ?thesis
      proof (cases "d = []")
        case True
        with Cons m ChunkData show ?thesis by simp
      next
        case False
        with True have over: "grpcMaxBytes c < rc_TotalBytes acc + int (length d)" by simp
        then have "grpcMaxBytes c < rc_TotalBytes acc + int (length (chunks (m # ms)))" by (simp add: m ChunkData)
        with over False n Cons.prems(2) m ChunkData show ?thesis by simp
      qed
    next
      case False
      with Cons.prems n m ChunkData
        Cons.IH[of "acc\<lparr>rc_Buffer := rc_Buffer acc @ d, rc_TotalBytes := rc_TotalBytes acc + int (length d)\<rparr>"]
      show ?thesis by (simp add: add.assoc)
    qed
  qed (use Cons m in simp_all)
qed

definition cleanEnd :: "wireMessage list \<Rightarrow> (nat \<Rightarrow> goerr) \<Rightarrow> stream" where
  "cleanEnd ms big = \<lparr> st_Messages = ms, st_Oversize = big, st_Broken = None \<rparr>"

lemma recvLoop_received:
  assumes "list_all deliverable ms" and "int (length (chunks ms)) < 2 ^ 63" and "0 \<le> grpcMaxBytes c"
  shows "recvLoop c (ms @ ms') big b nothingReceived =
    (if int (length (chunks ms)) \<le> grpcMaxBytes c
     then recvLoop c ms' big b \<lparr> rc_Meta = lastMeta None ms, rc_Buffer = chunks ms, rc_TotalBytes = int (length (chunks ms)) \<rparr>
     else Inl (tooLarge c))"
  using recvLoop_spec[of nothingReceived ms c] assms by (simp add: nothingReceived_def)

text \<open>
  C14. Chunks do not matter. Two scan streams that end properly, with the same payload and the
  same last metadata, are answered and act on tables, files, daemon and alerts exactly alike,
  however the payload is cut into messages, as long as each message is within the 4 MiB that
  the transport delivers. When the payload is larger than the limit, the answer is
  RESOURCE_EXHAUSTED, and when a message above 4 MiB follows, it is INTERNAL; in both cases
  nothing has been done.
\<close>

theorem grpc_chunking_irrelevant:
  fixes s :: "'a service_scheme"
  assumes "list_all deliverable ms" and "list_all deliverable ms'"
    and "chunks ms' = chunks ms" and "lastMeta None ms' = lastMeta None ms"
    and "int (length (chunks ms)) < 2 ^ 63" and "0 \<le> grpcMaxBytes c"
  shows "run_state (grpcScanStream c (cleanEnd ms big)) s = run_state (grpcScanStream c (cleanEnd ms' big)) s \<and>
    (grpcMaxBytes c < int (length (chunks ms)) \<longrightarrow>
      run_state (grpcScanStream c (cleanEnd ms big)) s = (Inl (tooLarge c), s\<lparr>w_step := Suc (w_step s)\<rparr>)) \<and>
    (int (length (chunks ms)) \<le> grpcMaxBytes c \<and> \<not> deliverable m \<longrightarrow>
      run_state (grpcScanStream c (cleanEnd (ms @ m # rest) big)) s =
        (Inl (recvFailed (big (fst m))), s\<lparr>w_step := Suc (w_step s)\<rparr>))"
proof -
  note got = recvLoop_received[OF assms(1,5,6)] and got' = recvLoop_received[OF assms(2) _ assms(6)]
  have "recvLoop c ms big None nothingReceived = recvLoop c ms' big None nothingReceived"
    using got[of "[]" big None] got'[of "[]" big None] assms(3-5) by simp
  then show ?thesis
    using got[of "[]" big None] got[of "m # rest" big None] by (simp add: grpcScanStream_def cleanEnd_def run_timeNow)
qed

theorem grpc_chunking_irrelevant_witness:
  "run_state (grpcScanStream (NewGrpcServer \<lparr> g_Vault = sampleVault [], g_AuthMode = '''', g_BearerToken = '''',
       g_MaxScanSizeMB = 0, g_QuarRetention = 0 \<rparr>)
     (cleanEnd [(3, ChunkData [1]), (5, Metadata \<lparr> md_FileName = ''a'', md_ConsumerName = '''', md_ExpectedSha256 = '''' \<rparr>),
       (0, NoPayload), (4, ChunkData [2, 3])] (\<lambda>_. errorsNew ''too large''))) (sampleService ''stream: OK'') =
   run_state (grpcScanStream (NewGrpcServer \<lparr> g_Vault = sampleVault [], g_AuthMode = '''', g_BearerToken = '''',
       g_MaxScanSizeMB = 0, g_QuarRetention = 0 \<rparr>)
     (cleanEnd [(5, Metadata \<lparr> md_FileName = ''a'', md_ConsumerName = '''', md_ExpectedSha256 = '''' \<rparr>),
       (5, ChunkData [1, 2, 3])] (\<lambda>_. errorsNew ''too large''))) (sampleService ''stream: OK'')"
  (is "run_state (grpcScanStream ?c (cleanEnd ?ms ?big)) ?s = run_state (grpcScanStream _ (cleanEnd ?ms' _)) _")
proof -
  have m: "grpcMaxBytes ?c = 104857600" by (simp add: grpcMaxBytes_def NewGrpcServer_def int64_id)
  have h: "list_all deliverable ?ms" "list_all deliverable ?ms'" "chunks ?ms' = chunks ?ms" "lastMeta None ?ms' = lastMeta None ?ms"
    "int (length (chunks ?ms)) < 2 ^ 63" "0 \<le> grpcMaxBytes ?c"
    by (simp_all add: m deliverable_def maxReceiveMessageSize_def)
  from grpc_chunking_irrelevant[OF h, of ?big ?s] show ?thesis by blast
qed

subsection \<open>Who is let in\<close>

text \<open>
  C40. The two servers disagree on credentials. Started with the same AUTH_MODE and token,
  in basic mode and in bearer mode with an empty token, the gRPC server runs every call
  that carries any authorization header at all, while the HTTP API answers 401 to every
  request, outside its public paths, without the right credentials.
\<close>

theorem grpc_accepts_what_http_refuses:
  assumes "g_AuthMode gc = c_AuthMode hc" and "g_BearerToken gc = c_BearerToken hc"
    and "c_AuthMode hc = ''basic'' \<or> c_AuthMode hc = ''bearer'' \<and> c_BearerToken hc = ''''"
    and "md ''authorization'' \<noteq> []" and "\<not> isPublic (h_Path rq)" and "\<not> credentialsOk hc rq"
  shows "intercepted gc (Some md) (grpcScanStream gc st) = grpcScanStream gc st \<and>
    (\<exists>r. authenticated hc rq = ret r \<and> r_Status r = 401)"
proof -
  have "authenticate gc (Some md) = None"
    using assms(1-4) by (auto simp: authenticate_def neq_Nil_conv)
  with authenticated_refused[OF assms(5,6)] show ?thesis by (simp add: intercepted_def)
qed

theorem grpc_accepts_what_http_refuses_witness:
  "\<exists>gc md. md ''authorization'' = [''x''] \<and>
     intercepted gc (Some md) (grpcScanStream gc (cleanEnd [] (\<lambda>_. errorsNew ''''))) = grpcScanStream gc (cleanEnd [] (\<lambda>_. errorsNew '''')) \<and> g_AuthMode gc = ''basic''"
proof -
  define gc where "gc = \<lparr> g_Vault = sampleVault [], g_AuthMode = ''basic'', g_BearerToken = c_BearerToken (sampleConfig ''basic''),
    g_MaxScanSizeMB = 1, g_QuarRetention = 7 \<rparr>"
  define md :: metadata where "md = (\<lambda>_. [''x''])"
  have a: "g_AuthMode gc = c_AuthMode (sampleConfig ''basic'')" "g_BearerToken gc = c_BearerToken (sampleConfig ''basic'')"
    "c_AuthMode (sampleConfig ''basic'') = ''basic'' \<or>
     c_AuthMode (sampleConfig ''basic'') = ''bearer'' \<and> c_BearerToken (sampleConfig ''basic'') = ''''"
    "md ''authorization'' \<noteq> []" "\<not> isPublic (h_Path (sampleUpload [1]))"
    "\<not> credentialsOk (sampleConfig ''basic'') (sampleUpload [1])"
    by (simp_all add: gc_def md_def sampleConfig_facts isPublic_def HasPrefix_def credentialsOk_def BasicAuth_def headerGet_def
        firstOf_def sampleUpload_def)
  have "intercepted gc (Some md) (grpcScanStream gc (cleanEnd [] (\<lambda>_. errorsNew ''''))) = grpcScanStream gc (cleanEnd [] (\<lambda>_. errorsNew ''''))"
    by (rule conjunct1[OF grpc_accepts_what_http_refuses[where md = md, OF a]])
  moreover have "md ''authorization'' = [''x'']" "g_AuthMode gc = ''basic''" by (simp_all add: md_def gc_def)
  ultimately show ?thesis by blast
qed

end
