(* ===== verification/Supervisor.thy ===== *)
theory Supervisor
  imports World
begin

text \<open>
  The process supervisor, \<open>internal/supervisor/process.go\<close>. \<open>Start\<close> runs a first download of
  signatures when there are none and launches two loops, one for clamd and one for freshclam,
  which start their program again whenever it ends. The loops, their programs and \<open>Stop\<close> run
  concurrently, so the system is a step relation: each loop advances one statement at a
  time, a program may end at any moment, and \<open>Stop\<close> closes the channel and signals the programs
  it knows of. Waiting (\<open>time.Sleep\<close>) takes no model time, and the removal of a stale socket
  file before each start of clamd has no effect on this state. A second \<open>Stop\<close> would panic on
  the closed channel; \<open>main\<close> calls it once.
\<close>

subsection \<open>Starting\<close>

definition isSignature :: "string \<Rightarrow> bool" where
  "isSignature f \<longleftrightarrow> filepathExt f = ''.cvd'' \<or> filepathExt f = ''.cld''"

definition hasSignatures :: "string \<Rightarrow> ('a world_scheme, bool) state" where
  "hasSignatures dir = do {
     r \<leftarrow> ReadDir dir;
     ret (case r of Inl _ \<Rightarrow> False | Inr files \<Rightarrow> list_ex isSignature files) }"

definition filepathDir :: "string \<Rightarrow> string" where
  "filepathDir p = filepathClean (rev (dropWhile (\<lambda>ch. ch \<noteq> CHR ''/'') (rev p)))"

lemma filepathDir_example: "filepathDir ''/var/run/clamav/clamd.ctl'' = ''/var/run/clamav''"
  by code_simp

text \<open>The commands the supervisor runs: what \<open>exec.Command\<close> is given.\<close>

definition initialDownload :: "string \<Rightarrow> string list" where
  "initialDownload freshclamConf = [''freshclam'', ''--config-file='' @ freshclamConf]"

definition clamdCommand :: "string \<Rightarrow> string list" where
  "clamdCommand confPath = [''clamd'', ''-c'', confPath]"

definition freshclamCommand :: "string \<Rightarrow> string list" where
  "freshclamCommand confPath = [''freshclam'', ''-d'', ''--config-file='' @ confPath]"

text \<open>
  \<open>Start\<close>, with the effect of running the download as an argument; it yields the commands of
  the two loops it launches. The result of the download is only logged, and there is no error.
\<close>

definition SupervisorStart ::
  "(string list \<Rightarrow> ('a world_scheme, goerr option) state) \<Rightarrow> string \<Rightarrow> string \<Rightarrow> string \<Rightarrow> string \<Rightarrow>
   ('a world_scheme, string list \<times> string list) state" where
  "SupervisorStart runCmd clamdConf freshclamConf dbDir socketPath = do {
     _ \<leftarrow> MkdirAll (filepathDir socketPath) 493;
     _ \<leftarrow> MkdirAll dbDir 493;
     have \<leftarrow> hasSignatures dbDir;
     (if have then ret () else do { _ \<leftarrow> runCmd (initialDownload freshclamConf); ret () });
     ret (clamdCommand clamdConf, freshclamCommand freshclamConf) }"

subsection \<open>The loops\<close>

text \<open>
  Where a loop is: before its first round (freshclam waits there), at the top, past the test
  of the channel, past the assignment of the new \<open>Cmd\<close>, in \<open>Wait\<close>, past it, in the pause
  before the next round, and returned.
\<close>

datatype pc = Boot | Top | Checked | Assigned | Waiting | Exited | Pausing | Returned

datatype cmdHandle = NoCmd | NotStarted | Started nat

record daemon =
  d_pc :: pc
  d_cmd :: cmdHandle
  d_live :: "nat list"
  d_next :: nat
  d_signals :: "nat list"

record supervisor =
  s_stopped :: bool
  s_clamd :: daemon
  s_freshclam :: daemon

definition newDaemon :: "pc \<Rightarrow> daemon" where
  "newDaemon p = \<lparr> d_pc = p, d_cmd = NoCmd, d_live = [], d_next = 0, d_signals = [] \<rparr>"

definition NewSupervisor :: supervisor where
  "NewSupervisor = \<lparr> s_stopped = False, s_clamd = newDaemon Top, s_freshclam = newDaemon Boot \<rparr>"

text \<open>One statement of a loop, for the value of the channel's state it sees.\<close>

inductive loopStep :: "bool \<Rightarrow> daemon \<Rightarrow> daemon \<Rightarrow> bool" for stopped where
  boot: "d_pc d = Boot \<Longrightarrow> loopStep stopped d (d\<lparr>d_pc := Top\<rparr>)"
| stop_seen: "d_pc d = Top \<Longrightarrow> stopped \<Longrightarrow> loopStep stopped d (d\<lparr>d_pc := Returned\<rparr>)"
| go_on: "d_pc d = Top \<Longrightarrow> \<not> stopped \<Longrightarrow> loopStep stopped d (d\<lparr>d_pc := Checked\<rparr>)"
| assign: "d_pc d = Checked \<Longrightarrow> loopStep stopped d (d\<lparr>d_pc := Assigned, d_cmd := NotStarted\<rparr>)"
| start: "d_pc d = Assigned \<Longrightarrow>
    loopStep stopped d (d\<lparr>d_pc := Waiting, d_cmd := Started (d_next d), d_live := d_next d # d_live d, d_next := Suc (d_next d)\<rparr>)"
| start_failed: "d_pc d = Assigned \<Longrightarrow> loopStep stopped d (d\<lparr>d_pc := Pausing\<rparr>)"
| waited: "d_pc d = Waiting \<Longrightarrow> d_cmd d = Started p \<Longrightarrow> p \<notin> set (d_live d) \<Longrightarrow> loopStep stopped d (d\<lparr>d_pc := Exited\<rparr>)"
| stop_seen2: "d_pc d = Exited \<Longrightarrow> stopped \<Longrightarrow> loopStep stopped d (d\<lparr>d_pc := Returned\<rparr>)"
| again: "d_pc d = Exited \<Longrightarrow> \<not> stopped \<Longrightarrow> loopStep stopped d (d\<lparr>d_pc := Pausing\<rparr>)"
| paused: "d_pc d = Pausing \<Longrightarrow> loopStep stopped d (d\<lparr>d_pc := Top\<rparr>)"
| exits: "p \<in> set (d_live d) \<Longrightarrow> loopStep stopped d (d\<lparr>d_live := remove1 p (d_live d)\<rparr>)"

text \<open>The signal reaches the program the handle names, when it was started.\<close>

definition signal :: "daemon \<Rightarrow> daemon" where
  "signal d = (case d_cmd d of Started p \<Rightarrow> d\<lparr>d_signals := p # d_signals d\<rparr> | _ \<Rightarrow> d)"

definition SupervisorStop :: "supervisor \<Rightarrow> supervisor" where
  "SupervisorStop s = s\<lparr>s_stopped := True, s_clamd := signal (s_clamd s), s_freshclam := signal (s_freshclam s)\<rparr>"

inductive supStep :: "supervisor \<Rightarrow> supervisor \<Rightarrow> bool" where
  clamd: "loopStep (s_stopped s) (s_clamd s) d \<Longrightarrow> supStep s (s\<lparr>s_clamd := d\<rparr>)"
| freshclam: "loopStep (s_stopped s) (s_freshclam s) d \<Longrightarrow> supStep s (s\<lparr>s_freshclam := d\<rparr>)"
| stop: "\<not> s_stopped s \<Longrightarrow> supStep s (SupervisorStop s)"

inductive_cases loopStepE: "loopStep stopped d d'"
inductive_cases supStepE: "supStep s s'"

definition supRun :: "supervisor \<Rightarrow> supervisor \<Rightarrow> bool" where
  "supRun = supStep\<^sup>*\<^sup>*"

subsection \<open>One program at a time\<close>

definition wfDaemon :: "daemon \<Rightarrow> bool" where
  "wfDaemon d \<longleftrightarrow> length (d_live d) \<le> 1 \<and>
     (\<forall>p \<in> set (d_live d). d_pc d = Waiting \<and> d_cmd d = Started p \<and> p < d_next d) \<and>
     (d_pc d = Waiting \<longrightarrow> (\<exists>p. d_cmd d = Started p))"

lemma wfDaemon_new: "p \<noteq> Waiting \<Longrightarrow> wfDaemon (newDaemon p)"
  by (simp add: wfDaemon_def newDaemon_def)

lemma wfDaemon_idle: "wfDaemon d \<Longrightarrow> d_pc d \<noteq> Waiting \<Longrightarrow> d_live d = []"
  by (cases "d_live d") (auto simp: wfDaemon_def)

lemma wfDaemon_step:
  assumes "loopStep b d d'" and "wfDaemon d"
  shows "wfDaemon d'"
  using assms(1)
proof (cases rule: loopStep.cases)
  case (exits p)
  then have "d_live d = [p]" using assms(2) by (cases "d_live d") (auto simp: wfDaemon_def)
  with assms(2) exits show ?thesis by (simp add: wfDaemon_def)
next
  case (waited p)
  then have "d_live d = []" using assms(2) by (cases "d_live d") (auto simp: wfDaemon_def)
  then show ?thesis using waited(1) by (simp add: wfDaemon_def)
qed (use wfDaemon_idle[OF assms(2)] in \<open>simp_all add: wfDaemon_def\<close>)

lemma wfDaemon_signal: "wfDaemon d \<Longrightarrow> wfDaemon (signal d)"
  by (cases "d_cmd d") (simp_all add: wfDaemon_def signal_def)

lemma supRun_wf:
  assumes "supRun s s'" and "wfDaemon (s_clamd s)" and "wfDaemon (s_freshclam s)"
  shows "wfDaemon (s_clamd s') \<and> wfDaemon (s_freshclam s')"
  using assms unfolding supRun_def
proof (induction rule: rtranclp_induct)
  case (step t u)
  then show ?case by (auto elim!: supStepE simp: SupervisorStop_def wfDaemon_signal intro: wfDaemon_step)
qed simp

text \<open>
  C16. One program at a time. In every reachable state of the supervisor, whenever its
  programs end, fail to start or are signalled, clamd runs at most once and freshclam runs at
  most once, and a running program is the one its handle names, for which its loop waits.
\<close>

theorem supervisor_one_program:
  assumes "supRun NewSupervisor s"
  shows "length (d_live (s_clamd s)) \<le> 1 \<and> length (d_live (s_freshclam s)) \<le> 1 \<and>
    (\<forall>p \<in> set (d_live (s_clamd s)). d_pc (s_clamd s) = Waiting \<and> d_cmd (s_clamd s) = Started p) \<and>
    (\<forall>p \<in> set (d_live (s_freshclam s)). d_pc (s_freshclam s) = Waiting \<and> d_cmd (s_freshclam s) = Started p)"
  using supRun_wf[OF assms] wfDaemon_new by (auto simp: NewSupervisor_def wfDaemon_def)

subsection \<open>After Stop\<close>

text \<open>Once the channel is closed: what a loop may still start, and how many steps it has left.\<close>

definition mayStart :: "daemon \<Rightarrow> nat" where
  "mayStart d = (if d_pc d \<in> {Checked, Assigned} then 1 else 0)"

fun stepsLeft :: "pc \<Rightarrow> nat" where
  "stepsLeft Returned = 0"
| "stepsLeft Top = 2"
| "stepsLeft Exited = 2"
| "stepsLeft Boot = 4"
| "stepsLeft Pausing = 4"
| "stepsLeft Waiting = 4"
| "stepsLeft Assigned = 6"
| "stepsLeft Checked = 8"

definition measureOf :: "daemon \<Rightarrow> nat" where
  "measureOf d = stepsLeft (d_pc d) + length (d_live d)"

lemma loopStep_stopped:
  assumes "loopStep True d d'"
  shows "measureOf d' < measureOf d \<and> d_next d' + mayStart d' \<le> d_next d + mayStart d \<and> d_signals d' = d_signals d"
  using assms
proof (cases rule: loopStep.cases)
  case (exits p)
  then have "length (remove1 p (d_live d)) < length (d_live d)"
    using length_pos_if_in_set[of p "d_live d"] by (simp add: length_remove1)
  with exits show ?thesis by (simp add: measureOf_def mayStart_def)
qed (auto simp: measureOf_def mayStart_def)

lemma stopped_steps:
  "(loopStep True ^^ n) d d' \<Longrightarrow> measureOf d' + n \<le> measureOf d \<and> d_next d' + mayStart d' \<le> d_next d + mayStart d"
proof (induction n arbitrary: d')
  case (Suc n)
  then obtain e where "(loopStep True ^^ n) d e" "loopStep True e d'" by auto
  with Suc.IH[of e] loopStep_stopped[of e d'] show ?case by auto
qed simp

lemma stuck_returned:
  assumes "wfDaemon d" and "\<nexists>d'. loopStep True d d'"
  shows "d_pc d = Returned \<and> d_live d = []"
proof -
  have none: "\<not> loopStep True d e" for e using assms(2) by blast
  have live: "d_live d = []"
  proof (rule ccontr)
    assume "d_live d \<noteq> []"
    then have "hd (d_live d) \<in> set (d_live d)" by simp
    from none loopStep.exits[OF this, where stopped = True] show False by simp
  qed
  have "d_pc d = Returned"
  proof (cases "d_pc d")
    case Boot
    from none loopStep.boot[OF this, where stopped = True] show ?thesis by simp
  next
    case Top
    from none loopStep.stop_seen[OF this, where stopped = True] show ?thesis by simp
  next
    case Checked
    from none loopStep.assign[OF this, where stopped = True] show ?thesis by simp
  next
    case Assigned
    from none loopStep.start[OF this, where stopped = True] show ?thesis by simp
  next
    case Waiting
    then obtain p where "d_cmd d = Started p" using assms(1) by (auto simp: wfDaemon_def)
    with none loopStep.waited[OF Waiting this, where stopped = True] live show ?thesis by simp
  next
    case Exited
    from none loopStep.stop_seen2[OF this, where stopped = True] show ?thesis by simp
  next
    case Pausing
    from none loopStep.paused[OF this, where stopped = True] show ?thesis by simp
  qed
  with live show ?thesis by simp
qed

lemma measureOf_bound:
  assumes "wfDaemon d"
  shows "measureOf d \<le> 8"
proof (cases "d_pc d = Waiting")
  case True
  with assms show ?thesis by (simp add: measureOf_def wfDaemon_def)
next
  case False
  with wfDaemon_idle[OF assms] show ?thesis by (cases "d_pc d") (simp_all add: measureOf_def)
qed

text \<open>
  C17. The loops end after Stop. In a reachable state with the channel closed, each loop and
  its program take at most eight more steps altogether, start at most one program more and
  none unless the loop was already past the test of the channel, and when neither can
  move the loop has returned and no program of it is running.
\<close>

theorem supervisor_stop_ends:
  assumes "supRun NewSupervisor s" and "d = s_clamd s \<or> d = s_freshclam s" and "(loopStep True ^^ n) d d'"
  shows "n \<le> 8 \<and> d_next d' \<le> d_next d + (if d_pc d \<in> {Checked, Assigned} then 1 else 0) \<and>
    ((\<nexists>e. loopStep True d' e) \<longrightarrow> d_pc d' = Returned \<and> d_live d' = [])"
proof -
  have wf: "wfDaemon d" using supRun_wf[OF assms(1)] wfDaemon_new assms(2) by (auto simp: NewSupervisor_def)
  have "wfDaemon d'"
    using assms(3) wf by (induction n arbitrary: d') (auto intro: wfDaemon_step)
  with stopped_steps[OF assms(3)] measureOf_bound[OF wf] stuck_returned[of d'] show ?thesis
    by (auto simp: mayStart_def)
qed

subsection \<open>A program that Stop does not reach\<close>

lemma supRun_signals:
  "supRun s s' \<Longrightarrow> s_stopped s \<Longrightarrow> s_stopped s' \<and> d_signals (s_clamd s') = d_signals (s_clamd s)"
  unfolding supRun_def
proof (induction rule: rtranclp_induct)
  case (step t u)
  from step(2) show ?case
  proof (cases rule: supStep.cases)
    case (clamd d)
    then have "d_signals d = d_signals (s_clamd t)" by (auto elim: loopStep.cases)
    with clamd step show ?thesis by simp
  qed (use step in auto)
qed simp

text \<open>The channel is closed between the assignment of the new command and its start.\<close>

definition missed :: supervisor where
  "missed = \<lparr> s_stopped = True,
     s_clamd = \<lparr> d_pc = Waiting, d_cmd = Started 0, d_live = [0], d_next = 1, d_signals = [] \<rparr>, s_freshclam = newDaemon Boot \<rparr>"

lemma missed_reached: "supRun NewSupervisor missed"
proof -
  let ?f = "newDaemon Boot" and ?d = "\<lambda>p h live n. \<lparr> d_pc = p, d_cmd = h, d_live = live, d_next = n, d_signals = [] \<rparr>"
  let ?s = "\<lambda>b d. \<lparr> s_stopped = b, s_clamd = d, s_freshclam = ?f \<rparr>"
  have move: "loopStep b d d' \<Longrightarrow> supStep (?s b d) (?s b d')" for b d d'
    using supStep.clamd[of "?s b d" d'] by simp
  have "supStep (?s False (?d Top NoCmd [] 0)) (?s False (?d Checked NoCmd [] 0))"
    using move loopStep.go_on[of "?d Top NoCmd [] 0" False] by simp
  moreover have "supStep (?s False (?d Checked NoCmd [] 0)) (?s False (?d Assigned NotStarted [] 0))"
    using move loopStep.assign[of "?d Checked NoCmd [] 0" False] by simp
  moreover have "supStep (?s False (?d Assigned NotStarted [] 0)) (?s True (?d Assigned NotStarted [] 0))"
    using supStep.stop[of "?s False (?d Assigned NotStarted [] 0)"] by (simp add: SupervisorStop_def signal_def newDaemon_def)
  moreover have "supStep (?s True (?d Assigned NotStarted [] 0)) (?s True (?d Waiting (Started 0) [0] 1))"
    using move loopStep.start[of "?d Assigned NotStarted [] 0" True] by simp
  moreover have "NewSupervisor = ?s False (?d Top NoCmd [] 0)" "missed = ?s True (?d Waiting (Started 0) [0] 1)"
    by (simp_all add: NewSupervisor_def missed_def newDaemon_def)
  ultimately show ?thesis unfolding supRun_def by (metis (no_types, lifting) rtranclp.simps)
qed

text \<open>
  C37. Stop can miss a program. There is a reachable state in which \<open>Stop\<close> has returned, clamd is
  running, and in no later state has it been sent a signal: the loop had passed its test of
  the channel before \<open>Stop\<close> closed it, and started clamd after \<open>Stop\<close> had looked for programs to
  signal.
\<close>

theorem stop_misses_program:
  "\<exists>s. supRun NewSupervisor s \<and> s_stopped s \<and> d_live (s_clamd s) = [0] \<and>
     {s'. supRun s s' \<and> d_signals (s_clamd s') \<noteq> []} = {}"
  using missed_reached supRun_signals[of missed] by (auto simp: missed_def)

theorem supervisor_one_program_witness:
  "supRun NewSupervisor missed \<and> d_live (s_clamd missed) = [0] \<and> length (d_live (s_clamd missed)) \<le> 1"
  using supervisor_one_program[OF missed_reached] missed_reached by (simp add: missed_def)

theorem supervisor_stop_ends_witness:
  "\<exists>d'. (loopStep True ^^ 3) (s_clamd missed) d' \<and> d_pc d' = Returned \<and> (3::nat) \<le> 8"
proof -
  let ?d = "\<lambda>p live. \<lparr> d_pc = p, d_cmd = Started 0, d_live = live, d_next = 1, d_signals = [] \<rparr>"
  have m: "s_clamd missed = ?d Waiting [0]" by (simp add: missed_def)
  have "loopStep True (?d Waiting [0]) (?d Waiting [])" using loopStep.exits[of 0 "?d Waiting [0]" True] by simp
  moreover have "loopStep True (?d Waiting []) (?d Exited [])" using loopStep.waited[of "?d Waiting []" 0 True] by simp
  moreover have "loopStep True (?d Exited []) (?d Returned [])" using loopStep.stop_seen2[of "?d Exited []" True] by simp
  ultimately have run: "(loopStep True ^^ 3) (s_clamd missed) (?d Returned [])"
    unfolding m by (auto simp: numeral_3_eq_3 relcompp_apply)
  from supervisor_stop_ends[OF missed_reached disjI1[OF refl] run] run show ?thesis by auto
qed

end
