(* ===== verification/Main_Service.thy ===== *)
theory Main_Service
  imports AsyncLaws ApiLaws GrpcLaws Supervisor
begin

text \<open>
  The entry point, \<open>cmd/server/main.go\<close>: the environment variables, the wiring of all
  components from them, the hourly cleaner, and the shutdown. The environment is a function
  (empty for an unset variable); what SQLite does when its file is opened, the first
  download of freshclam and listening on the gRPC port are arguments. \<open>log.Fatalf\<close> is an
  error result, and the servers themselves are the handlers of \<open>ApiRoutes\<close> and \<open>Grpc\<close>.
\<close>

type_synonym environment = "string \<Rightarrow> string"

subsection \<open>Environment variables\<close>

definition getEnv :: "environment \<Rightarrow> string \<Rightarrow> string \<Rightarrow> string" where
  "getEnv env key fallback = (if env key \<noteq> '''' then env key else fallback)"

text \<open>\<open>strconv.ParseBool\<close>.\<close>

definition ParseBool :: "string \<Rightarrow> bool option" where
  "ParseBool s =
     (if s \<in> set [''1'', ''t'', ''T'', ''TRUE'', ''true'', ''True''] then Some True
      else if s \<in> set [''0'', ''f'', ''F'', ''FALSE'', ''false'', ''False''] then Some False
      else None)"

definition getEnvBool :: "environment \<Rightarrow> string \<Rightarrow> bool \<Rightarrow> bool" where
  "getEnvBool env key fallback =
     (if env key = '''' then fallback
      else (case ParseBool (env key) of None \<Rightarrow> fallback | Some b \<Rightarrow> b))"

definition getEnvInt :: "environment \<Rightarrow> string \<Rightarrow> int \<Rightarrow> int" where
  "getEnvInt env key fallback =
     (if env key = '''' then fallback
      else (case Atoi (env key) of None \<Rightarrow> fallback | Some i \<Rightarrow> i))"

subsection \<open>Wiring\<close>

definition alertConfig :: "environment \<Rightarrow> AlertConfig" where
  "alertConfig env =
     \<lparr> TelegramEnabled = getEnvBool env ''ALERT_TELEGRAM_ENABLED'' False,
       TelegramBotToken = getEnv env ''ALERT_TELEGRAM_BOT_TOKEN'' '''',
       TelegramChatID = getEnv env ''ALERT_TELEGRAM_CHAT_ID'' '''',
       DiscordEnabled = getEnvBool env ''ALERT_DISCORD_ENABLED'' False,
       DiscordWebhookURL = getEnv env ''ALERT_DISCORD_WEBHOOK_URL'' '''',
       SMTPEnabled = getEnvBool env ''ALERT_SMTP_ENABLED'' False,
       SMTPHost = getEnv env ''ALERT_SMTP_HOST'' '''',
       SMTPPort = getEnvInt env ''ALERT_SMTP_PORT'' 587,
       SMTPUser = getEnv env ''ALERT_SMTP_USER'' '''',
       SMTPPassword = getEnv env ''ALERT_SMTP_PASSWORD'' '''',
       SMTPFrom = getEnv env ''ALERT_SMTP_FROM'' '''',
       SMTPRecipients = [] \<rparr>"

definition maxScanMB :: "environment \<Rightarrow> int" where
  "maxScanMB env = getEnvInt env ''MAX_SCAN_SIZE_MB'' 100"

definition scanBytes :: "environment \<Rightarrow> int" where
  "scanBytes env = int64 (maxScanMB env * 1024 * 1024)"

definition wiredVault :: "environment \<Rightarrow> Vault \<Rightarrow> Vault" where
  "wiredVault env vault0 = SetMaxQuarantineBytes (scanBytes env) vault0"

definition wiredFetcher :: "environment \<Rightarrow> SafeFetcherConfig" where
  "wiredFetcher env = NewSafeFetcher
     \<lparr> f_Timeout = 30 * secondNs, f_MaxRedirects = 0, f_MaxBytes = scanBytes env, f_AllowLoopbackForTesting = False \<rparr>"

definition wiredQueue :: "environment \<Rightarrow> Vault \<Rightarrow> Queue" where
  "wiredQueue env vault0 = NewQueue
     \<lparr> SpoolDir = getEnv env ''SPOOL_DIR'' ''/data/spool'', Workers = getEnvInt env ''ASYNC_WORKERS'' 2,
       QueueCapacity = 200, q_QuarRetention = getEnvInt env ''QUARANTINE_RETENTION_DAYS'' 7 \<rparr>
     (Some (wiredVault env vault0)) (Some (wiredFetcher env))"

definition wiredServer :: "environment \<Rightarrow> Vault \<Rightarrow> (nat \<Rightarrow> string) \<Rightarrow> (string \<Rightarrow> httpResponse) \<Rightarrow> ServerConfig" where
  "wiredServer env vault0 uuid assets = NewServer
     \<lparr> c_Vault = wiredVault env vault0, c_HasLimiter = True, c_Fetcher = Some (wiredFetcher env),
       c_YARA = Some (NewManager (getEnv env ''YARA_RULES_DIR'' ''/var/lib/clamav/rules'') uuid),
       c_Async = Some (wiredQueue env vault0), c_HasDB = True,
       c_RequireAPIKey = getEnvBool env ''REQUIRE_API_KEY'' False,
       c_MaxScanSizeMB = maxScanMB env,
       c_RateLimitRPM = getEnvInt env ''RATE_LIMIT_DEFAULT_RPM_PER_KEY'' 100,
       c_RateLimitEnabled = getEnvBool env ''RATE_LIMIT_ENABLED'' True,
       c_LogRetention = getEnvInt env ''LOG_RETENTION_DAYS'' 3,
       c_QuarRetention = getEnvInt env ''QUARANTINE_RETENTION_DAYS'' 7,
       c_AuthMode = getEnv env ''AUTH_MODE'' ''none'',
       c_BasicUser = getEnv env ''AUTH_BASIC_USER'' ''admin'',
       c_BasicPass = getEnv env ''AUTH_BASIC_PASS'' '''',
       c_BearerToken = getEnv env ''AUTH_BEARER_TOKEN'' '''',
       c_UIPassword = getEnv env ''UI_PASSWORD'' ''123456'',
       c_Assets = assets \<rparr>"

definition wiredGrpc :: "environment \<Rightarrow> Vault \<Rightarrow> GrpcConfig" where
  "wiredGrpc env vault0 = NewGrpcServer
     \<lparr> g_Vault = wiredVault env vault0, g_AuthMode = getEnv env ''AUTH_MODE'' ''none'',
       g_BearerToken = getEnv env ''AUTH_BEARER_TOKEN'' '''', g_MaxScanSizeMB = maxScanMB env,
       g_QuarRetention = getEnvInt env ''QUARANTINE_RETENTION_DAYS'' 7 \<rparr>"

record app =
  ap_Vault :: Vault
  ap_Queue :: Queue
  ap_Server :: ServerConfig
  ap_Grpc :: GrpcConfig
  ap_Workers :: nat
  ap_Commands :: "string list \<times> string list"
  ap_Ports :: "string \<times> string"

definition wired ::
  "environment \<Rightarrow> Vault \<Rightarrow> (nat \<Rightarrow> string) \<Rightarrow> (string \<Rightarrow> httpResponse) \<Rightarrow> nat \<Rightarrow> string list \<times> string list \<Rightarrow> app" where
  "wired env vault0 uuid assets workers cmds =
     \<lparr> ap_Vault = wiredVault env vault0, ap_Queue = wiredQueue env vault0,
       ap_Server = wiredServer env vault0 uuid assets, ap_Grpc = wiredGrpc env vault0, ap_Workers = workers,
       ap_Commands = cmds, ap_Ports = (getEnv env ''PORT'' ''8080'', getEnv env ''GRPC_PORT'' ''9090'') \<rparr>"

subsection \<open>Starting up\<close>

text \<open>What \<open>main\<close> creates in memory: the notifier, the limiter, and the queue's open, empty channel.\<close>

definition freshMemory :: "environment \<Rightarrow> ('a apiState_scheme, unit) state" where
  "freshMemory env = modifies (\<lambda>s. s\<lparr>sv_notifier := Some (NewNotifier (alertConfig env)), a_limiter := NewLimiter,
     q_chan := [], q_closed := False, q_busy := []\<rparr>)"

definition startSupervisor ::
  "environment \<Rightarrow> (string list \<Rightarrow> ('a apiState_scheme, goerr option) state) \<Rightarrow>
   ('a apiState_scheme, string list \<times> string list) state" where
  "startSupervisor env runCmd = SupervisorStart runCmd
     (getEnv env ''CLAMD_CONFIG'' ''/etc/clamav/clamd.conf'') (getEnv env ''FRESHCLAM_CONFIG'' ''/etc/clamav/freshclam.conf'')
     ''/var/lib/clamav'' (getEnv env ''CLAMD_SOCKET'' ''/var/run/clamav/clamd.ctl'')"

definition main ::
  "(string \<Rightarrow> ('a apiState_scheme, goerr option) state) \<Rightarrow>
   (string list \<Rightarrow> ('a apiState_scheme, goerr option) state) \<Rightarrow>
   (string \<Rightarrow> ('a apiState_scheme, goerr option) state) \<Rightarrow>
   (nat \<Rightarrow> string) \<Rightarrow> (string \<Rightarrow> httpResponse) \<Rightarrow> environment \<Rightarrow> ('a apiState_scheme, app res) state" where
  "main openDB runCmd listen uuid assets env =
     tryRes (EnsureMasterKey (getEnv env ''ENV_FILE'' ''.env''))
       (wrapErr ''[SECURITY FATAL] Failed to ensure master encryption key: '') (\<lambda>(keyStr, masterKey, created). do {
         let dbPath = getEnv env ''DB_PATH'' ''/data/clamav-service.db'';
         let grpcPort = getEnv env ''GRPC_PORT'' ''9090'';
         db \<leftarrow> openDB dbPath;
         case db of
           Some e \<Rightarrow> ret (Inl (wrapErr (''[STORAGE FATAL] Failed to initialize SQLite WAL database at '' @ dbPath @ '': '') e))
         | None \<Rightarrow> do {
             vault0 \<leftarrow> NewVault (getEnv env ''QUARANTINE_DIR'' ''/data/quarantine'') (Some masterKey);
             freshMemory env;
             cmds \<leftarrow> startSupervisor env runCmd;
             workers \<leftarrow> Start (wiredQueue env vault0);
             l \<leftarrow> listen grpcPort;
             ret (case l of
                    Some e \<Rightarrow> Inl (wrapErr (''[gRPC FATAL] Failed to listen on port '' @ grpcPort @ '': '') e)
                  | None \<Rightarrow> Inr (wired env vault0 uuid assets workers cmds)) } })"

subsection \<open>The cleaner and the shutdown\<close>

text \<open>One tick of the hourly cleaner; its errors are ignored and its results only logged.\<close>

definition cleanerTick :: "Vault \<Rightarrow> int \<Rightarrow> ('a world_scheme, unit) state" where
  "cleanerTick vault logRetentionDays = do {
     now \<leftarrow> timeNow;
     _ \<leftarrow> onDB (PurgeAuditLogs now logRetentionDays);
     _ \<leftarrow> PurgeExpired vault;
     ret () }"

text \<open>
  After the signal: the supervisor stops, the gRPC server stops gracefully, the queue stops,
  and only then the HTTP server is shut down. What is left to the HTTP handlers that still
  run in between is a queue whose channel is closed.
\<close>

definition beforeHttpShutdown :: "supervisor \<Rightarrow> ('a queueState_scheme, supervisor \<times> unit res) state" where
  "beforeHttpShutdown processes = do {
     r \<leftarrow> Stop;
     ret (SupervisorStop processes, r) }"

text \<open>The purge of the vault does not touch the tables.\<close>

definition sameDB :: "'a world_scheme \<Rightarrow> 'a world_scheme \<Rightarrow> bool" where
  "sameDB w w' \<longleftrightarrow> w_db w' = w_db w"

interpretation db: state_order sameDB
  by unfold_locales (auto simp: sameDB_def)

lemma sameDB_env:
  fixes p :: string
  shows "state_io_rel sameDB nextStep" "state_io_rel sameDB timeNow" "state_io_rel sameDB (Stat p)"
    "state_io_rel sameDB (ReadDir p)" "state_io_rel sameDB (Remove p)"
  by (auto simp: state_io_rel_def run_simps sameDB_def Remove_def ReadDir_def dropFile_def
      split: option.split)

lemma PurgeExpired_db: "run_state (PurgeExpired v) w = (x, w') \<Longrightarrow> w_db w' = w_db w"
proof -
  have entry: "state_io_rel sameDB (purgeEntry v e :: ('a world_scheme, nat) state)" for e
    unfolding purgeEntry_def by (intro db.rel_intros sameDB_env)
  have loop: "state_io_rel sameDB (purgeLoop v es n :: ('a world_scheme, nat) state)" for es n
    by (induction es arbitrary: n) (auto intro!: db.rel_intros entry)
  have "state_io_rel sameDB (PurgeExpired v :: ('a world_scheme, nat res) state)"
    unfolding PurgeExpired_def by (intro db.rel_intros sameDB_env loop)
  then show "run_state (PurgeExpired v) w = (x, w') \<Longrightarrow> w_db w' = w_db w" for w :: "'a world_scheme"
    using db.run_relE by (fastforce simp: sameDB_def)
qed

subsection \<open>What the wiring guarantees\<close>

text \<open>The defaults touch only the fields they are for.\<close>

lemma NewServer_keeps:
  assumes "c_Fetcher c = Some f"
  shows "c_Fetcher (NewServer c) = Some f" "c_Vault (NewServer c) = c_Vault c"
    "c_MaxScanSizeMB (NewServer c) = (if 0 < c_MaxScanSizeMB c then c_MaxScanSizeMB c else 100)"
proof -
  define c1 where "c1 = (if c_MaxScanSizeMB c \<le> 0 then c\<lparr>c_MaxScanSizeMB := 100\<rparr> else c)"
  define c2 where "c2 = (if c_RateLimitRPM c1 \<le> 0 then c1\<lparr>c_RateLimitRPM := 100\<rparr> else c1)"
  define c3 where "c3 = (if c_AuthMode c2 = '''' then c2\<lparr>c_AuthMode := ''none''\<rparr> else c2)"
  define c4 where "c4 = (if c_BasicUser c3 = '''' then c3\<lparr>c_BasicUser := ''admin''\<rparr> else c3)"
  define c5 where "c5 = (if c_UIPassword c4 = '''' then c4\<lparr>c_UIPassword := ''123456''\<rparr> else c4)"
  have k1: "c_Fetcher c1 = Some f" "c_Vault c1 = c_Vault c" "c_MaxScanSizeMB c1 = (if 0 < c_MaxScanSizeMB c then c_MaxScanSizeMB c else 100)"
    using assms by (simp_all add: c1_def)
  have k2: "c_Fetcher c2 = c_Fetcher c1" "c_Vault c2 = c_Vault c1" "c_MaxScanSizeMB c2 = c_MaxScanSizeMB c1"
    by (simp_all add: c2_def)
  have k3: "c_Fetcher c3 = c_Fetcher c2" "c_Vault c3 = c_Vault c2" "c_MaxScanSizeMB c3 = c_MaxScanSizeMB c2"
    by (simp_all add: c3_def)
  have k4: "c_Fetcher c4 = c_Fetcher c3" "c_Vault c4 = c_Vault c3" "c_MaxScanSizeMB c4 = c_MaxScanSizeMB c3"
    by (simp_all add: c4_def)
  have k5: "c_Fetcher c5 = c_Fetcher c4" "c_Vault c5 = c_Vault c4" "c_MaxScanSizeMB c5 = c_MaxScanSizeMB c4"
    by (simp_all add: c5_def)
  have "NewServer c = (case c_Fetcher c5 of Some _ \<Rightarrow> c5
       | None \<Rightarrow> c5\<lparr>c_Fetcher := Some (NewSafeFetcher \<lparr> f_Timeout = 30 * secondNs, f_MaxRedirects = 0,
           f_MaxBytes = maxScanBytes c5, f_AllowLoopbackForTesting = False \<rparr>)\<rparr>)"
    unfolding NewServer_def Let_def c5_def c4_def c3_def c2_def c1_def by (rule refl)
  then have "NewServer c = c5" using k1(1) k2(1) k3(1) k4(1) k5(1) by simp
  with k1 k2 k3 k4 k5 show "c_Fetcher (NewServer c) = Some f" "c_Vault (NewServer c) = c_Vault c"
    "c_MaxScanSizeMB (NewServer c) = (if 0 < c_MaxScanSizeMB c then c_MaxScanSizeMB c else 100)"
    by simp_all
qed

lemma main_wired:
  assumes "run_state (main openDB runCmd listen uuid assets env) s = (Inr ap, s')"
  shows "\<exists>vault0 workers cmds. ap = wired env vault0 uuid assets workers cmds"
  using assms by (auto simp: main_def run_tryRes Let_def split: sum.splits prod.splits option.splits)

lemma scanBytes_id: "- (2 ^ 43) < maxScanMB env \<Longrightarrow> maxScanMB env < 2 ^ 43 \<Longrightarrow> scanBytes env = maxScanMB env * 1048576"
  by (simp add: scanBytes_def int64_id)

text \<open>
  C15. One setting, one limit. After every successful start, for a positive MAX_SCAN_SIZE_MB
  the HTTP API, the gRPC server, the fetchers of the API and of the queue, and the vault
  they share all have that limit in bytes; for zero or a negative value all of them fall back
  to 100 MB, except the vault, which then takes payloads of any size.
\<close>

theorem startup_limits_agree:
  assumes "run_state (main openDB runCmd listen uuid assets env) s = (Inr ap, s')"
    and "- (2 ^ 43) < maxScanMB env" and "maxScanMB env < 2 ^ 43"
  shows "let n = (if 0 < maxScanMB env then maxScanMB env * 1048576 else 104857600) in
    maxScanBytes (ap_Server ap) = n \<and> grpcMaxBytes (ap_Grpc ap) = n \<and>
    map_option f_MaxBytes (c_Fetcher (ap_Server ap)) = Some n \<and> f_MaxBytes (q_fetcher (ap_Queue ap)) = n \<and>
    c_Vault (ap_Server ap) = ap_Vault ap \<and> g_Vault (ap_Grpc ap) = ap_Vault ap \<and> q_vault (ap_Queue ap) = Some (ap_Vault ap) \<and>
    maxQuarantineSize (ap_Vault ap) = maxScanMB env * 1048576"
proof -
  obtain vault0 workers cmds where ap: "ap = wired env vault0 uuid assets workers cmds"
    using main_wired[OF assms(1)] by blast
  note n = scanBytes_id[OF assms(2,3)]
  have fetch: "f_MaxBytes (wiredFetcher env) = (if 0 < maxScanMB env then maxScanMB env * 1048576 else 104857600)"
    by (simp add: wiredFetcher_def NewSafeFetcher_def secondNs_def Let_def n)
  have server: "c_Fetcher (wiredServer env vault0 uuid assets) = Some (wiredFetcher env)"
    "c_Vault (wiredServer env vault0 uuid assets) = wiredVault env vault0"
    "c_MaxScanSizeMB (wiredServer env vault0 uuid assets) = (if 0 < maxScanMB env then maxScanMB env else 100)"
    by (simp_all add: wiredServer_def NewServer_keeps)
  have grpc: "g_Vault (wiredGrpc env vault0) = wiredVault env vault0"
    "g_MaxScanSizeMB (wiredGrpc env vault0) = (if 0 < maxScanMB env then maxScanMB env else 100)"
    by (simp_all add: wiredGrpc_def NewGrpcServer_def Let_def)
  have queue: "q_fetcher (wiredQueue env vault0) = wiredFetcher env" "q_vault (wiredQueue env vault0) = Some (wiredVault env vault0)"
    by (simp_all add: wiredQueue_def NewQueue_def Let_def)
  show ?thesis
    using assms(2,3) fetch server grpc queue
    by (simp add: ap wired_def Let_def maxScanBytes_def grpcMaxBytes_def int64_id wiredVault_def SetMaxQuarantineBytes_def n)
qed

subsection \<open>The cleaner\<close>

text \<open>
  C38. What the cleaner forgets. When the statement works, a tick leaves of the audit log
  exactly the rows of the last \<open>LOG_RETENTION_DAYS\<close> days, in their order, and changes no other
  table; so with a retention of zero or less, which is not replaced by a default as other
  settings are, every tick empties the log of all rows written before that second.
\<close>

theorem cleaner_keeps_retained:
  assumes "stmt_fault (w_db w) (stmt_no (w_db w)) = None" and "run_state (cleanerTick v days) w = ((), w')"
  shows "scan_audit_logs (w_db w') =
      filter (\<lambda>l. truncSec (w_clock w (w_step w) - days * dayNs) \<le> al_Timestamp l) (scan_audit_logs (w_db w)) \<and>
    quarantine_records (w_db w') = quarantine_records (w_db w) \<and> scan_jobs (w_db w') = scan_jobs (w_db w) \<and>
    (days \<le> 0 \<longrightarrow> list_all (\<lambda>l. al_Timestamp l < truncSec (w_clock w (w_step w))) (scan_audit_logs (w_db w)) \<longrightarrow>
      scan_audit_logs (w_db w') = [])"
proof -
  let ?now = "w_clock w (w_step w)"
  obtain r d where p: "run_state (PurgeAuditLogs ?now days) (w_db w) = (r, d)" by fastforce
  then have d: "scan_audit_logs d = filter (\<lambda>l. truncSec (?now - days * dayNs) \<le> al_Timestamp l) (scan_audit_logs (w_db w))"
    "quarantine_records d = quarantine_records (w_db w)" "scan_jobs d = scan_jobs (w_db w)"
    using assms(1) by (auto simp: PurgeAuditLogs_def run_exec Let_def not_less)
  obtain x w2 where pe: "run_state (PurgeExpired v) (w\<lparr>w_step := Suc (w_step w), w_db := d\<rparr>) = (x, w2)" by fastforce
  then have "w_db w2 = d" using PurgeExpired_db[of v "w\<lparr>w_step := Suc (w_step w), w_db := d\<rparr>"] by simp
  moreover have "w' = w2" using assms(2) p pe by (simp add: cleanerTick_def run_timeNow run_onDB)
  moreover have "scan_audit_logs d = []"
    if "days \<le> 0" "list_all (\<lambda>l. al_Timestamp l < truncSec ?now) (scan_audit_logs (w_db w))"
  proof -
    have "truncSec ?now \<le> truncSec (?now - days * dayNs)"
      using that(1) by (intro truncSec_mono) (simp add: dayNs_def secondNs_def mult_le_0_iff)
    with that(2) show ?thesis unfolding d(1) by (auto simp: filter_empty_conv list_all_iff)
  qed
  ultimately show ?thesis using d by simp
qed

subsection \<open>The shutdown window\<close>

text \<open>A request to the asynchronous endpoint is refused for its form, or is a submission.\<close>

definition asyncAnswer :: "ScanJob res \<Rightarrow> httpResponse" where
  "asyncAnswer res = (case res of Inl e \<Rightarrow> if errorsIs e GoPanic then aborted else submitError e | Inr job \<Rightarrow> acceptedResponse job)"

lemma asyncAnswer_status: "r_Status (asyncAnswer res) = 202 \<longleftrightarrow> \<not> isErr res"
  by (auto simp: asyncAnswer_def aborted_def submitError_def badRequest_def respondError_def acceptedResponse_def
      respondJSON_def split: sum.split)

lemma handleScanAsync_cases:
  fixes rq :: httpRequest
  assumes "c_Async c = Some q"
  obtains r where "handleScanAsync c rq = (ret r :: ('a apiState_scheme, httpResponse) state)" "r_Status r \<in> {400, 413}"
  | nm d sz cb where "\<And>s :: 'a apiState_scheme. run_state (handleScanAsync c rq) s =
      map_prod asyncAnswer id (run_state (SubmitJob q nm d sz cb (extractConsumer rq)) s)"
proof (cases "ParseMultipartForm (maxScanBytes c) rq")
  case (Inl e)
  with assms that(1) show ?thesis
    by (auto simp: handleScanAsync_def fileTooLarge_def respondError_def respondJSON_def)
next
  case (Inr form)
  show ?thesis
  proof (cases "FormFile form ''file''")
    case None
    with Inr assms that(1) show ?thesis
      by (auto simp: handleScanAsync_def missingFile_def badRequest_def respondError_def respondJSON_def)
  next
    case (Some ff)
    show ?thesis
    proof (cases "TrimSpace (FormValue rq form ''callback_url'') = ''''")
      case True
      with Inr Some assms that(1) show ?thesis
        by (auto simp: handleScanAsync_def badRequest_def respondError_def respondJSON_def)
    next
      case False
      show ?thesis
        by (rule that(2)[of "ff_Filename ff" "ff_Data ff" "ff_Size ff" "TrimSpace (FormValue rq form ''callback_url'')"])
          (use assms Inr Some False in \<open>simp add: handleScanAsync_def asyncAnswer_def map_prod_def case_prod_beta\<close>)
    qed
  qed
qed

text \<open>
  C39. The shutdown loses submissions. The queue, whose rows are consistent as in every
  reachable state of it, is stopped before the HTTP server, so an asynchronous submission that
  arrives in between is never accepted. One that the same queue would have answered 202, had it not been closed, is nevertheless recorded: its job is
  inserted as QUEUED, the send on the closed channel panics, the connection is cut without an
  answer, and in every later state of the queue the row is still QUEUED, in no channel and
  with no worker.
\<close>

theorem shutdown_window_loses_jobs:
  fixes s s0 :: "'a apiState_scheme"
  assumes "c_Async c = Some q" and "jobsOk s0" and "run_state (beforeHttpShutdown p) s0 = (x, s)"
    and "run_state (handleScanAsync c rq) s = (r, s')"
  shows "r_Status r \<noteq> 202 \<and>
    (r_Status (fst (run_state (handleScanAsync c rq) (s\<lparr>q_closed := False\<rparr>))) = 202 \<longrightarrow>
      r = aborted \<and> (\<exists>row. scan_jobs (w_db s') = scan_jobs (w_db s) @ [row] \<and>
        (\<forall>s2. queueRun clamdScanTee q s' s2 \<longrightarrow> j_ID row \<notin> pending s2 \<and>
          (\<exists>row2. jobRow (j_ID row) s2 = Some row2 \<and> j_Status row2 = ''QUEUED''))))"
proof -
  obtain y where stop: "run_state Stop s0 = (y, s)"
    using assms(3) by (auto simp: beforeHttpShutdown_def split: prod.splits)
  have s: "q_closed s" "jobsOk s"
  proof -
    show "q_closed s" using stop by (auto simp: Stop_def split: if_splits)
    show "jobsOk s" using assms(2) Stop_elsewhere[OF stop] unfolding jobsOk_def pending_def by simp
  qed
  show ?thesis
  proof (cases rule: handleScanAsync_cases[OF assms(1), of rq, where 'a = 'a])
    case (1 r0)
    with assms(4) show ?thesis by auto
  next
    case (2 nm d sz cb)
    let ?m = "SubmitJob q nm d sz cb (extractConsumer rq)"
    obtain res t where sub: "run_state ?m s = (res, t)" by fastforce
    with 2[of s] assms(4) have r: "r = asyncAnswer res" "s' = t" by simp_all
    have "isErr res" using SubmitJob_submitted[OF sub] s(1) by (auto simp: submitted_def)
    then have "r_Status r \<noteq> 202" using r(1) asyncAnswer_status by blast
    moreover have "r = aborted \<and> (\<exists>row. scan_jobs (w_db s') = scan_jobs (w_db s) @ [row] \<and>
        (\<forall>s2. queueRun clamdScanTee q s' s2 \<longrightarrow> j_ID row \<notin> pending s2 \<and>
          (\<exists>row2. jobRow (j_ID row) s2 = Some row2 \<and> j_Status row2 = ''QUEUED'')))"
      if "r_Status (fst (run_state (handleScanAsync c rq) (reopen s))) = 202"
    proof -
      obtain res0 t0 where open_run: "run_state ?m (reopen s) = (res0, t0)" by fastforce
      with that 2[of "reopen s"] have "\<not> isErr res0" using asyncAnswer_status by simp
      then obtain job where "run_state ?m (reopen s) = (Inr job, t0)" using open_run by (auto simp: not_isErr_iff)
      then obtain t1 where t1: "run_state ?m s = (Inl (Err ''send on closed channel'' [GoPanic]), t1)" "lostJob job s t1"
        using losing_SubmitJob[of q nm d sz cb "extractConsumer rq"] s(1) unfolding losing_def by blast
      then have lost: "lostJob job s s'" "r = aborted" using sub r by (simp_all add: asyncAnswer_def errorsIs_def)
      have "\<forall>s2. queueRun clamdScanTee q s' s2 \<longrightarrow> stranded (j_ID job) s2"
        using cq.stranded_run[OF _ lostJob_stranded[OF lost(1) s(2)]] by blast
      with lost show ?thesis
        by (intro conjI exI[of _ "storedJob job"]) (auto simp: lostJob_def stranded_def)
    qed
    ultimately show ?thesis by blast
  qed
qed

subsection \<open>Witnesses\<close>

definition quietly :: "'x \<Rightarrow> (apiState, goerr option) state" where
  "quietly x = ret None"

lemma sample_main: "\<not> isErr (fst (run_state (main quietly quietly quietly (\<lambda>_. '''') (\<lambda>_. aborted) (\<lambda>_. '''')) (sampleApi [] '''')))"
  by code_simp

theorem startup_limits_agree_witness:
  "\<exists>ap s'. run_state (main quietly quietly quietly (\<lambda>_. '''') (\<lambda>_. aborted) (\<lambda>_. '''')) (sampleApi [] '''') = (Inr ap, s') \<and>
     maxScanBytes (ap_Server ap) = 104857600 \<and> maxQuarantineSize (ap_Vault ap) = 104857600"
proof -
  obtain ap s' where run: "run_state (main quietly quietly quietly (\<lambda>_. '''') (\<lambda>_. aborted) (\<lambda>_. '''')) (sampleApi [] '''') = (Inr ap, s')"
    using sample_main by (cases "run_state (main quietly quietly quietly (\<lambda>_. '''') (\<lambda>_. aborted) (\<lambda>_. '''')) (sampleApi [] '''')")
      (auto simp: not_isErr_iff)
  have m: "maxScanMB (\<lambda>_. '''') = 100" by (simp add: maxScanMB_def getEnvInt_def)
  from startup_limits_agree[OF run] run m show ?thesis by (simp add: Let_def)
qed

definition sampleLog :: ScanAuditLog where
  "sampleLog = \<lparr> al_ID = ''audit_1'', al_Timestamp = - 5000000000, al_ConsumerName = ''app'', al_ClientIP = '''',
     al_FileName = ''a.bin'', al_FileSizeBytes = 2, al_FileSHA256 = '''', al_Verdict = ''INFECTED'', al_VirusName = ''Eicar'',
     al_ScanDurationMs = 1, al_QuarantineID = '''' \<rparr>"

theorem cleaner_keeps_retained_witness:
  "scan_audit_logs (w_db (snd (run_state (cleanerTick (sampleVault []) 0)
     ((sampleApi [] '''')\<lparr>w_db := (emptyDB (\<lambda>_. None))\<lparr>scan_audit_logs := [sampleLog]\<rparr>\<rparr>)))) = []"
proof -
  let ?w = "(sampleApi [] '''')\<lparr>w_db := (emptyDB (\<lambda>_. None))\<lparr>scan_audit_logs := [sampleLog]\<rparr>\<rparr>"
  obtain w' where run: "run_state (cleanerTick (sampleVault []) 0) ?w = ((), w')"
    by (cases "run_state (cleanerTick (sampleVault []) 0) ?w") auto
  have "stmt_fault (w_db ?w) (stmt_no (w_db ?w)) = None" by (simp add: emptyDB_def)
  from cleaner_keeps_retained[OF this run] run show ?thesis
    by (simp add: sampleApi_facts emptyDB_def sampleLog_def truncSec_def secondNs_def)
qed

definition sampleAsync :: httpRequest where
  "sampleAsync = (sampleUpload [1, 2])\<lparr>h_Path := ''/api/v1/scan/async'',
     h_Form := Inr \<lparr> mp_Files = [(''file'', \<lparr> ff_Filename = ''a.bin'', ff_Size = 2, ff_Data = bytesReader [1, 2] \<rparr>)],
       mp_Values = [(''callback_url'', ''http://h/'')] \<rparr>\<rparr>"

definition sampleClosed :: apiState where
  "sampleClosed = snd (run_state (beforeHttpShutdown NewSupervisor) (sampleApi [] ''''))"

lemma sample_closed_submit:
  "r_Status (fst (run_state (handleScanAsync ((sampleConfig ''none'')\<lparr>c_Async := Some sampleQueue\<rparr>) sampleAsync)
     (reopen sampleClosed))) = 202"
proof -
  let ?m = "SubmitJob sampleQueue ''a.bin'' (bytesReader [1, 2]) 2 ''http://h/'' (extractConsumer sampleAsync)"
  have "\<not> isErr (fst (run_state ?m (reopen sampleClosed)))" by code_simp
  moreover have "maxScanBytes ((sampleConfig ''none'')\<lparr>c_Async := Some sampleQueue\<rparr>) = 1048576"
    by (simp add: sampleConfig_def NewServer_def maxScanBytes_def int64_id Let_def)
  moreover have "TrimSpace ''http://h/'' = ''http://h/''" by code_simp
  ultimately show ?thesis
    by (simp add: handleScanAsync_def asyncAnswer_def[symmetric] asyncAnswer_status ParseMultipartForm_def FormFile_def
        FormValue_def firstOf_def sampleAsync_def sampleUpload_def case_prod_beta Let_def)
qed

theorem shutdown_window_loses_jobs_witness:
  "\<exists>r s' row. run_state (handleScanAsync ((sampleConfig ''none'')\<lparr>c_Async := Some sampleQueue\<rparr>) sampleAsync) sampleClosed = (r, s') \<and>
     r = aborted \<and> scan_jobs (w_db s') = scan_jobs (w_db sampleClosed) @ [row]"
proof -
  let ?c = "(sampleConfig ''none'')\<lparr>c_Async := Some sampleQueue\<rparr>"
  obtain x s where x: "run_state (beforeHttpShutdown NewSupervisor) (sampleApi [] '''') = (x, s)" by (metis prod.exhaust)
  then have s: "s = sampleClosed" by (simp add: sampleClosed_def)
  obtain r s' where run: "run_state (handleScanAsync ?c sampleAsync) sampleClosed = (r, s')" by fastforce
  have "c_Async ?c = Some sampleQueue" "jobsOk (sampleApi [] '''')"
    by (simp_all add: jobsOk_def pending_def sampleApi_def emptyDB_def)
  from shutdown_window_loses_jobs[OF this x run[folded s]] sample_closed_submit run s show ?thesis by auto
qed

end
