(* ===== verification/Spec2Isabelle.thy ===== *)
theory Spec2Isabelle
  imports RateLimit Alert Archive YaraValidator StorageLaws Crypto Clamd Fetcher KeyFile Vault
    YaraManager Service AsyncScan AsyncLaws Http Api ApiRoutes ApiLaws
    Grpc GrpcLaws Supervisor Main_Service
begin

text \<open>
  The antivirus service (module \<open>vqf-clamav-service\<close>): an HTTP and gRPC front of the ClamAV
  daemon with a quarantine vault, an asynchronous scan queue, custom YARA rules, a guarded
  client for remote files, alerts, and an SQLite file for all records.

  \<^bold>\<open>The parts and their theories.\<close>

  \<^item> \<open>internal/ratelimit/limiter.go\<close>: \<open>RateLimit\<close>. The locale \<open>token_bucket\<close> is interpreted on
    the buckets per key and on the global bucket.
  \<^item> \<open>internal/alert/notifier.go\<close>: \<open>Alert\<close> (throttle window, both message formats, posts).
  \<^item> \<open>internal/scanner/archive.go\<close>: \<open>Archive\<close> (the checks on a zip directory, on 64-bit words).
  \<^item> \<open>internal/yara/validator.go\<close>: \<open>YaraValidator\<close>; \<open>internal/yara/manager.go\<close>: \<open>YaraManager\<close>,
    with the locale \<open>reloader\<close> for the interface of the daemon's reload.
  \<^item> \<open>internal/storage/sqlite.go\<close>: \<open>Storage\<close> (tables as lists of rows, one definition per
    statement) and \<open>StorageLaws\<close> (the locales \<open>record_store\<close> and \<open>deletable_store\<close> on the
    quarantine, rule and job tables).
  \<^item> \<open>internal/crypto/aes.go\<close>: \<open>Sha256\<close>, \<open>AesGcm\<close>, \<open>Codec\<close> (executable models of the standard
    library) and \<open>Crypto\<close>; \<open>internal/crypto/keygen.go\<close>: \<open>KeyFile\<close>.
  \<^item> \<open>internal/clamd/client.go\<close>: \<open>GoIO\<close> (readers) and \<open>Clamd\<close>.
  \<^item> \<open>internal/fetcher/client.go\<close>: \<open>IpFilter\<close> (the block list) and \<open>Fetcher\<close>.
  \<^item> \<open>internal/quarantine/vault.go\<close>: \<open>Vault\<close>.
  \<^item> \<open>internal/asyncscan/queue.go\<close>: \<open>AsyncScan\<close> (operations) and \<open>AsyncLaws\<close> (the transition
    system of submissions, workers and closing; what one job records and posts).
  \<^item> \<open>internal/api/server.go\<close>: \<open>Http\<close> (requests and responses), \<open>Api\<close> (scan, quarantine and
    statistics handlers), \<open>ApiRoutes\<close> (the other handlers, the routing table, the
    middlewares) and \<open>ApiLaws\<close>.
  \<^item> \<open>internal/grpcserver/server.go\<close>: \<open>Grpc\<close> and \<open>GrpcLaws\<close>.
  \<^item> \<open>internal/supervisor/process.go\<close>: \<open>Supervisor\<close> (a step relation).
  \<^item> \<open>cmd/server/main.go\<close>: \<open>Main_Service\<close> (environment, wiring, cleaner, shutdown order).
  \<^item> Shared: \<open>Prelude\<close> (errors, state monad, the calculus of relations kept by monadic code),
    \<open>GoStrings\<close>, \<open>GoTime\<close>, \<open>GoJson\<close>; \<open>World\<close> (tables, files, clock, randomness) and \<open>Service\<close>
    (World with the connections to the daemon and to the net, and the notifier).

  \<^bold>\<open>State.\<close> Every effectful function is a value of the state monad over one extensible
  record: \<open>world\<close>, extended to \<open>service\<close>, to \<open>queueState\<close> and to \<open>apiState\<close>, as the code passes
  the same \<open>*storage.DB\<close>, \<open>*Vault\<close> and \<open>*clamd.Client\<close> to its components; a component is written
  over the smallest of them and its lemmas hold in all extensions. Surroundings are
  oracles: what the clock shows, what an access to a file does, which statement fails, what
  a host name resolves to, what the daemon and a remote server answer are arbitrary
  functions in the state, numbered by steps, and no theorem assumes more of them than its
  premises say. An error is the left of a sum (\<open>'a res\<close>) with its text and the sentinels that
  \<open>errors.Is\<close> finds; a panic is such an error with the mark \<open>GoPanic\<close>.

  \<^bold>\<open>What the lemmas show.\<close> For each component: what every branch of its operations does
  (\<open>..._ok\<close>, \<open>..._run\<close>, \<open>..._cases\<close>), what it leaves alone (relations such as \<open>sameStore\<close>,
  \<open>sameJobs\<close>, \<open>sameVault\<close>, \<open>readOnly\<close>, each an interpretation of \<open>state_order\<close>), and its
  properties: bounds (rate limits, alerts, hops of a fetch, sizes), round trips (sealing,
  quarantine, the INSTREAM protocol), equivalences (brace counter, block list, chunks of a
  stream), refinements (rule files and rows implement one map), invariants (job rows,
  one program per daemon), safety (no connection to a blocked address, no
  effect without credentials), and termination (fetches, loops after Stop). Several theorems
  state where the code falls short of its intention: a full queue strands jobs, a read
  error replaces the master key, the purge leaves records without files, a detection whose
  name contains OK passes, the HTTP restore can be repeated and is not atomic, the size check
  of archives can be passed with a negative total, Stop can miss a program, and the queue
  closes before the HTTP server.

  \<^bold>\<open>Bounds and loops.\<close> Loops over data are structural. The hops of an HTTP client are counted
  by the redirects that \<open>CheckRedirect\<close> allows, so \<open>MaxRedirects\<close> connections are enough
  (\<open>Fetch_hops_bounded\<close>); a worker is run for one turn per job in the closed channel, after which
  the channel is empty (\<open>worker_settles_all\<close>). Go's \<open>int64\<close>
  arithmetic is kept where it can wrap (\<open>int64\<close>, and words in \<open>Archive\<close>, \<open>Clamd\<close> and the
  cryptography). After Stop a loop of the supervisor has at most eight steps left.

  \<^bold>\<open>Not modelled.\<close> The transport of \<open>net/http\<close> and of gRPC (listening, TLS, timeouts, header
  parsing): handlers take a parsed request, whose path is the decoded one (\<open>ServeMux\<close> cleans
  and matches the escaped path), and a multipart body is refused by its whole length. A gRPC
  stream is its list of messages with their sizes on the wire; \<open>Recv\<close> fails for one above
  4 MiB, the default that \<open>NewServer\<close> does not change. SQL
  parsing, pragmas and the opening of the SQLite file: each statement is its effect on the
  tables, and the times it compares are instants, whose texts are ordered alike up to the
  year 9999. Logging. Waiting takes no time of the model. Data races inside one handler: a
  handler runs as one step where the code serialises by a mutex or by the single database
  connection; the interleavings modelled are those of jobs in the queue, of requests, and of
  the supervisor's loops. The generated protobuf code is represented by its messages, and the
  embedded files of \<open>web/embed.go\<close> are a parameter.
\<close>

end
